(* ===== verification/Prelude.thy ===== *)
theory Prelude
  imports Main "HOL-Library.Sublist"
begin

text \<open>
  Shared ground of the development: the part of the JavaScript standard library that the
  admin console (\<^verbatim>\<open>src/ui/admin/src\<close>) uses on strings, arrays and numbers, written as
  executable functions, and the general lemmas the component theories rest on.

  A JavaScript string is a \<open>string\<close>, one \<open>char\<close> per code unit.  The punctuation outside
  ASCII that occurs in the source's literals (ellipsis, dashes, bullet, middle dot, quotes) is
  given the one-unit code it has in Windows-1252, so lengths and slices agree; the five arrow
  and key-cap symbols, which that page lacks, are given unused codes.  Case
  mapping is the ASCII one.  Integral numbers are \<open>int\<close>; \<open>undefined\<close> and \<open>null\<close> are
  \<open>None\<close>, and \<open>NaN\<close> where a number can be \<open>NaN\<close> is \<open>None\<close> too.
\<close>

named_theorems js \<open>defining equations of the JavaScript runtime functions\<close>

section \<open>Characters and strings\<close>

type_synonym jstring = string

abbreviation ellipsis :: string where "ellipsis \<equiv> [CHR 0x85]"
abbreviation en_dash :: string where "en_dash \<equiv> [CHR 0x96]"
abbreviation em_dash :: string where "em_dash \<equiv> [CHR 0x97]"
abbreviation bullet :: string where "bullet \<equiv> [CHR 0x95]"
abbreviation middle_dot :: string where "middle_dot \<equiv> [CHR 0xB7]"
abbreviation ldquo :: string where "ldquo \<equiv> [CHR 0x93]"
abbreviation rdquo :: string where "rdquo \<equiv> [CHR 0x94]"
abbreviation dquote :: string where "dquote \<equiv> [CHR 0x22]"
abbreviation key_cmd :: string where "key_cmd \<equiv> [CHR 0x81]"
abbreviation key_up :: string where "key_up \<equiv> [CHR 0x8D]"
abbreviation key_down :: string where "key_down \<equiv> [CHR 0x8F]"
abbreviation right_arrow :: string where "right_arrow \<equiv> [CHR 0x9D]"
abbreviation key_enter :: string where "key_enter \<equiv> [CHR 0x90]"

abbreviation code :: "char \<Rightarrow> nat" where "code c \<equiv> (of_char c :: nat)"

definition is_space :: "char \<Rightarrow> bool" where
  "is_space c = (code c \<in> {9, 10, 11, 12, 13, 32, 160})"

definition is_digit :: "char \<Rightarrow> bool" where
  "is_digit c = (48 \<le> code c \<and> code c \<le> 57)"

definition is_lower :: "char \<Rightarrow> bool" where
  "is_lower c = (97 \<le> code c \<and> code c \<le> 122)"

definition is_upper :: "char \<Rightarrow> bool" where
  "is_upper c = (65 \<le> code c \<and> code c \<le> 90)"

definition lower_char :: "char \<Rightarrow> char" where
  "lower_char c = (if is_upper c then char_of (code c + 32) else c)"

definition upper_char :: "char \<Rightarrow> char" where
  "upper_char c = (if is_lower c then char_of (code c - 32) else c)"

definition toLowerCase :: "string \<Rightarrow> string" where
  "toLowerCase s = map lower_char s"

definition toUpperCase :: "string \<Rightarrow> string" where
  "toUpperCase s = map upper_char s"

definition trimStart :: "string \<Rightarrow> string" where
  "trimStart s = dropWhile is_space s"

definition trim :: "string \<Rightarrow> string" where
  "trim s = rev (dropWhile is_space (rev (dropWhile is_space s)))"

text \<open>\<open>s.startsWith(p)\<close>, \<open>s.endsWith(p)\<close>, \<open>s.includes(q)\<close>.\<close>

definition startsWith :: "string \<Rightarrow> string \<Rightarrow> bool" where
  "startsWith s p = prefix p s"

definition endsWith :: "string \<Rightarrow> string \<Rightarrow> bool" where
  "endsWith s p = suffix p s"

fun includes_str :: "string \<Rightarrow> string \<Rightarrow> bool" where
  "includes_str [] q = (q = [])"
| "includes_str (c # cs) q = (prefix q (c # cs) \<or> includes_str cs q)"

text \<open>\<open>s.split(c)\<close> for a one-character separator.\<close>

fun split_on :: "char \<Rightarrow> string \<Rightarrow> string list" where
  "split_on sep [] = [[]]"
| "split_on sep (c # cs) =
     (if c = sep then [] # split_on sep cs
      else (case split_on sep cs of [] \<Rightarrow> [[c]] | w # ws \<Rightarrow> (c # w) # ws))"

text \<open>\<open>ws.join(sep)\<close>.\<close>

fun join :: "string \<Rightarrow> string list \<Rightarrow> string" where
  "join sep [] = []"
| "join sep [w] = w"
| "join sep (w # v # ws) = w @ sep @ join sep (v # ws)"

definition charAt0 :: "string \<Rightarrow> string" where
  "charAt0 s = (case s of [] \<Rightarrow> [] | c # _ \<Rightarrow> [c])"

definition repeat_str :: "string \<Rightarrow> nat \<Rightarrow> string" where
  "repeat_str s n = concat (replicate n s)"

section \<open>Arrays\<close>

text \<open>
  \<open>xs.slice(a, b)\<close> on arrays and strings: a negative bound counts from the end, and both
  bounds are clamped to the array.
\<close>

definition slice_index :: "int \<Rightarrow> int \<Rightarrow> int" where
  "slice_index n a = (if a < 0 then max (n + a) 0 else min a n)"

definition js_slice :: "'a list \<Rightarrow> int \<Rightarrow> int \<Rightarrow> 'a list" where
  "js_slice xs a b =
     (let n = int (length xs); i = nat (slice_index n a); j = nat (slice_index n b)
      in take (j - i) (drop i xs))"

definition js_slice_from :: "'a list \<Rightarrow> int \<Rightarrow> 'a list" where
  "js_slice_from xs a = js_slice xs a (int (length xs))"

section \<open>Numbers\<close>

text \<open>\<open>Math.ceil(a / b)\<close> and \<open>Math.round(a / b)\<close> for integers with \<open>0 < b\<close>.\<close>

definition ceil_div :: "int \<Rightarrow> int \<Rightarrow> int" where
  "ceil_div a b = - ((- a) div b)"

definition round_div :: "int \<Rightarrow> int \<Rightarrow> int" where
  "round_div a b = (2 * a + b) div (2 * b)"

fun nat_digits :: "nat \<Rightarrow> string" where
  "nat_digits n = (if n < 10 then [char_of (48 + n)]
                   else nat_digits (n div 10) @ [char_of (48 + n mod 10)])"

declare nat_digits.simps [simp del]

text \<open>\<open>String(n)\<close>, also the text a number has inside a template literal.\<close>

definition str_int :: "int \<Rightarrow> string" where
  "str_int n = (if n < 0 then ''-'' @ nat_digits (nat (- n)) else nat_digits (nat n))"

fun digits_value :: "nat \<Rightarrow> string \<Rightarrow> nat" where
  "digits_value acc [] = acc"
| "digits_value acc (c # cs) = digits_value (acc * 10 + (code c - 48)) cs"

text \<open>\<open>parseInt(s, 10)\<close>: leading space, an optional sign, the longest run of digits;
  \<open>None\<close> for \<open>NaN\<close>.\<close>

definition parse_digits :: "string \<Rightarrow> nat option" where
  "parse_digits s = (case takeWhile is_digit s of [] \<Rightarrow> None | ds \<Rightarrow> Some (digits_value 0 ds))"

definition parseInt :: "string \<Rightarrow> int option" where
  "parseInt s =
     (case trimStart s of
        [] \<Rightarrow> None
      | c # cs \<Rightarrow>
          if c = CHR ''-'' then map_option (\<lambda>n. - int n) (parse_digits cs)
          else if c = CHR ''+'' then map_option int (parse_digits cs)
          else map_option int (parse_digits (c # cs)))"

text \<open>\<open>parseInt(s, 10) || d\<close>: both \<open>NaN\<close> and \<open>0\<close> are falsy.\<close>

definition parseInt_or :: "string \<Rightarrow> int \<Rightarrow> int" where
  "parseInt_or s d = (case parseInt s of None \<Rightarrow> d | Some n \<Rightarrow> if n = 0 then d else n)"

section \<open>Optional values\<close>

text \<open>\<open>x ?? d\<close>, and \<open>s || undefined\<close> for a string.\<close>

definition nullish :: "'a option \<Rightarrow> 'a \<Rightarrow> 'a" where
  "nullish x d = (case x of None \<Rightarrow> d | Some v \<Rightarrow> v)"

definition or_undefined :: "string \<Rightarrow> string option" where
  "or_undefined s = (if s = [] then None else Some s)"

definition truthy_str :: "string option \<Rightarrow> bool" where
  "truthy_str x = (case x of None \<Rightarrow> False | Some s \<Rightarrow> s \<noteq> [])"

text \<open>A thrown value: \<open>err instanceof Error\<close> holds of \<open>JsError\<close> only.\<close>

datatype js_thrown = JsError string | JsOther

definition thrown_message :: "js_thrown \<Rightarrow> string" where
  "thrown_message e = (case e of JsError m \<Rightarrow> m | JsOther \<Rightarrow> ''Unknown error'')"

section \<open>General lemmas\<close>

subsection \<open>Trimming and searching\<close>

lemma trim_Nil [simp]: "trim [] = []"
  by (simp add: trim_def)

lemma set_trim: "set (trim s) \<subseteq> set s"
  by (auto simp: trim_def dest!: set_dropWhileD)

lemma dropWhile_rev_last:
  "dropWhile P (rev xs) \<noteq> [] \<Longrightarrow> \<not> P (last (rev (dropWhile P (rev xs))))"
  by (simp add: last_rev hd_dropWhile)

lemma trim_last: "trim s \<noteq> [] \<Longrightarrow> \<not> is_space (last (trim s))"
  unfolding trim_def by (rule dropWhile_rev_last) simp

lemma rev_dropWhile_rev_append:
  "\<exists>zs. xs = rev (dropWhile P (rev xs)) @ zs"
proof -
  have "rev xs = takeWhile P (rev xs) @ dropWhile P (rev xs)" by simp
  then have "xs = rev (dropWhile P (rev xs)) @ rev (takeWhile P (rev xs))"
    by (metis rev_append rev_rev_ident)
  then show ?thesis by blast
qed

lemma trim_hd: "trim s \<noteq> [] \<Longrightarrow> \<not> is_space (hd (trim s))"
proof -
  let ?xs = "dropWhile is_space s"
  assume ne: "trim s \<noteq> []"
  obtain zs where zs: "?xs = trim s @ zs"
    using rev_dropWhile_rev_append [of ?xs is_space] by (auto simp: trim_def)
  with ne have "hd ?xs = hd (trim s)" and "?xs \<noteq> []"
    by (metis hd_append2) (use zs ne in auto)
  with hd_dropWhile [of is_space s] show ?thesis by simp
qed

lemma trim_id:
  assumes "s \<noteq> [] \<Longrightarrow> \<not> is_space (hd s) \<and> \<not> is_space (last s)"
  shows "trim s = s"
proof (cases s)
  case (Cons c cs)
  with assms have "dropWhile is_space s = s" by simp
  moreover have "dropWhile is_space (rev s) = rev s"
  proof (cases "rev s")
    case (Cons d ds)
    then have "d = last s" by (metis hd_rev list.sel(1))
    with Cons assms \<open>s = c # cs\<close> show ?thesis by simp
  qed simp
  ultimately show ?thesis by (simp add: trim_def)
qed simp

lemma trim_trim [simp]: "trim (trim s) = trim s"
  by (rule trim_id) (auto dest: trim_hd trim_last)

lemma trim_eq_Nil: "trim s = [] \<longleftrightarrow> (\<forall>c \<in> set s. is_space c)"
proof -
  have "(\<forall>c \<in> set (dropWhile is_space s). is_space c) \<longleftrightarrow> (\<forall>c \<in> set s. is_space c)"
    by (metis dropWhile_eq_Nil_conv hd_dropWhile hd_in_set set_dropWhileD)
  then show ?thesis by (simp add: trim_def dropWhile_eq_Nil_conv)
qed

lemma includes_str_iff: "includes_str s q \<longleftrightarrow> sublist q s"
  by (induction s) (auto simp: sublist_Cons_right)

lemma includes_str_Nil [simp]: "includes_str s []"
  by (simp add: includes_str_iff)

lemma split_on_not_Nil [simp]: "split_on c s \<noteq> []"
  by (cases s) (auto split: list.splits)

lemma join_Cons: "ws \<noteq> [] \<Longrightarrow> join sep (w # ws) = w @ sep @ join sep ws"
  by (cases ws) auto

lemma join_split_on: "join [c] (split_on c s) = s"
proof (induction s)
  case (Cons a s)
  show ?case
  proof (cases "a = c")
    case True
    with Cons show ?thesis by (simp add: join_Cons)
  next
    case False
    obtain w ws where "split_on c s = w # ws" by (cases "split_on c s") auto
    with False Cons show ?thesis by (cases ws) auto
  qed
qed simp

lemma split_on_sep_free: "w \<in> set (split_on c s) \<Longrightarrow> c \<notin> set w"
  by (induction s arbitrary: w) (auto split: if_splits list.splits)

lemma split_on_no_sep: "c \<notin> set w \<Longrightarrow> split_on c w = [w]"
  by (induction w) auto

lemma split_on_append_sep: "c \<notin> set w \<Longrightarrow> split_on c (w @ c # s) = w # split_on c s"
  by (induction w) auto

lemma split_on_join:
  "ws \<noteq> [] \<Longrightarrow> \<forall>w \<in> set ws. c \<notin> set w \<Longrightarrow> split_on c (join [c] ws) = ws"
proof (induction ws)
  case (Cons w ws)
  then show ?case
    by (cases ws) (auto simp: split_on_no_sep split_on_append_sep)
qed simp

subsection \<open>Slices\<close>

lemma js_slice_nonneg:
  "0 \<le> a \<Longrightarrow> a \<le> b \<Longrightarrow> js_slice xs a b = take (nat b - nat a) (drop (nat a) xs)"
proof -
  assume ab: "0 \<le> a" "a \<le> b"
  let ?n = "length xs"
  have idx: "nat (slice_index (int ?n) c) = min (nat c) ?n" if "0 \<le> c" for c
    using that by (simp add: slice_index_def min_def nat_le_iff)
  from ab have "js_slice xs a b
      = take (min (nat b) ?n - min (nat a) ?n) (drop (min (nat a) ?n) xs)"
    by (simp add: js_slice_def Let_def idx)
  also have "\<dots> = take (nat b - nat a) (drop (nat a) xs)"
    by (cases "nat a \<le> ?n") (auto simp: min_def)
  finally show ?thesis .
qed

lemma js_slice_page:
  "1 \<le> p \<Longrightarrow> 0 < k \<Longrightarrow>
   js_slice xs ((p - 1) * k) (p * k) = take (nat k) (drop (nat (p - 1) * nat k) xs)"
proof -
  assume p: "1 \<le> p" and k: "(0::int) < k"
  have le: "0 \<le> (p - 1) * k" "(p - 1) * k \<le> p * k" using p k by (simp_all add: algebra_simps)
  have "nat (p * k) - nat ((p - 1) * k) = nat k" using p k le by (simp add: nat_diff_distrib' [symmetric] algebra_simps)
  moreover have "nat ((p - 1) * k) = nat (p - 1) * nat k" using p by (simp add: nat_mult_distrib)
  ultimately show ?thesis using js_slice_nonneg [OF le] by simp
qed

lemma set_js_slice: "set (js_slice xs a b) \<subseteq> set xs"
  by (auto simp: js_slice_def Let_def dest: in_set_takeD in_set_dropD)

lemma length_js_slice_prefix: "0 \<le> n \<Longrightarrow> length (js_slice xs 0 n) = min (nat n) (length xs)"
  by (simp add: js_slice_nonneg)

subsection \<open>Numbers\<close>

lemma ceil_div_le: "0 < b \<Longrightarrow> ceil_div a b \<le> n \<longleftrightarrow> a \<le> n * b"
proof -
  assume b: "0 < b"
  have "- n \<le> (- a) div b \<longleftrightarrow> - n * b \<le> - a"
  proof
    assume "- n \<le> (- a) div b"
    then have "- n * b \<le> (- a) div b * b" using b by (intro mult_right_mono) auto
    also have "\<dots> \<le> - a"
      using b div_mult_mod_eq [of "- a" b] pos_mod_sign [of b "- a"] by linarith
    finally show "- n * b \<le> - a" .
  next
    assume "- n * b \<le> - a"
    then have "(- n * b) div b \<le> (- a) div b" using b by (rule zdiv_mono1)
    moreover have "(- n * b) div b = - n" using b by (intro nonzero_mult_div_cancel_right) simp
    ultimately show "- n \<le> (- a) div b" by simp
  qed
  then show ?thesis by (auto simp: ceil_div_def)
qed

lemma ceil_div_pos: "0 < b \<Longrightarrow> 0 < a \<Longrightarrow> 1 \<le> ceil_div a b"
  using ceil_div_le [of b a 0] by simp

lemma ceil_div_nonneg: "0 < b \<Longrightarrow> 0 \<le> a \<Longrightarrow> 0 \<le> ceil_div a b"
  using ceil_div_le [of b a "-1"] by (cases "a = 0") (auto simp: ceil_div_def)

lemma ceil_div_ge: "0 < b \<Longrightarrow> n < ceil_div a b \<longleftrightarrow> n * b < a"
  using ceil_div_le [of b a n] by linarith

subsection \<open>Decimal text\<close>

lemma nat_digits_not_Nil [simp]: "nat_digits n \<noteq> []"
  by (subst nat_digits.simps) simp

lemma is_digit_char_of: "n < 10 \<Longrightarrow> is_digit (char_of (48 + n :: nat))"
  by (simp add: is_digit_def)

lemma nat_digits_is_digit: "c \<in> set (nat_digits n) \<Longrightarrow> is_digit c"
proof (induction n rule: nat_digits.induct)
  case (1 n)
  then show ?case
    by (subst (asm) (2) nat_digits.simps) (auto split: if_splits simp: is_digit_char_of)
qed

lemma digits_value_append: "digits_value a (xs @ ys) = digits_value (digits_value a xs) ys"
  by (induction xs arbitrary: a) auto

lemma digits_value_nat_digits: "digits_value 0 (nat_digits n) = n"
proof (induction n rule: nat_digits.induct)
  case (1 n)
  show ?case
  proof (cases "n < 10")
    case True
    then show ?thesis by (subst nat_digits.simps) simp
  next
    case False
    with "1.IH" have "digits_value 0 (nat_digits (n div 10)) = n div 10" by simp
    with False show ?thesis
      by (subst nat_digits.simps) (simp add: digits_value_append)
  qed
qed

lemma parse_digits_nat_digits: "parse_digits (nat_digits n) = Some n"
proof -
  have "takeWhile is_digit (nat_digits n) = nat_digits n"
    by (simp add: takeWhile_eq_all_conv nat_digits_is_digit)
  then show ?thesis
    using digits_value_nat_digits [of n] nat_digits_not_Nil [of n]
    by (cases "nat_digits n") (simp_all add: parse_digits_def)
qed

lemma is_digit_not_space: "is_digit c \<Longrightarrow> \<not> is_space c"
  by (auto simp: is_digit_def is_space_def)

lemma digit_chars [simp]:
  "char_of (48 :: nat) = CHR ''0''"
  "char_of (49 :: nat) = CHR ''1''"
  "char_of (50 :: nat) = CHR ''2''"
  "char_of (51 :: nat) = CHR ''3''"
  "char_of (52 :: nat) = CHR ''4''"
  "char_of (53 :: nat) = CHR ''5''"
  "char_of (54 :: nat) = CHR ''6''"
  "char_of (55 :: nat) = CHR ''7''"
  "char_of (56 :: nat) = CHR ''8''"
  "char_of (57 :: nat) = CHR ''9''"
  by code_simp+

lemma parseInt_str_int [simp]: "parseInt (str_int n) = Some n"
proof (cases "n < 0")
  case True
  then show ?thesis
    by (simp add: parseInt_def str_int_def trimStart_def is_space_def parse_digits_nat_digits)
next
  case False
  obtain c cs where d: "nat_digits (nat n) = c # cs" by (cases "nat_digits (nat n)") auto
  have dig: "is_digit c" using nat_digits_is_digit [of c "nat n"] d by simp
  then have "c \<noteq> CHR ''-''" "c \<noteq> CHR ''+''" by (auto simp: is_digit_def)
  with False d dig parse_digits_nat_digits [of "nat n"] show ?thesis
    by (simp add: parseInt_def str_int_def trimStart_def is_digit_not_space)
qed

lemma str_int_inject [simp]: "str_int m = str_int n \<longleftrightarrow> m = n"
  by (metis option.inject parseInt_str_int)

lemma str_int_not_Nil [simp]: "str_int n \<noteq> []"
  by (simp add: str_int_def)

lemma parseInt_or_nonzero: "d \<noteq> 0 \<Longrightarrow> parseInt_or s d \<noteq> 0"
  by (auto simp: parseInt_or_def split: option.splits)

subsection \<open>Optional values\<close>

lemma nullish_simps [simp]: "nullish None d = d" "nullish (Some v) d = v"
  by (simp_all add: nullish_def)

lemma or_undefined_Some: "or_undefined s = Some t \<longleftrightarrow> s = t \<and> t \<noteq> []"
  by (auto simp: or_undefined_def)

lemma truthy_str_simps [simp]: "truthy_str None = False" "truthy_str (Some s) = (s \<noteq> [])"
  by (simp_all add: truthy_str_def)

lemmas [js] = toLowerCase_def toUpperCase_def startsWith_def endsWith_def charAt0_def
  nullish_def or_undefined_def thrown_message_def

end
