(* ===== verification/Vdom.thy ===== *)
theory Vdom
  imports Prelude
begin

text \<open>
  React elements and user interaction.  A component's JSX is modelled as the list of nodes it
  returns (\<open>null\<close> is \<open>[]\<close>, a fragment is its children), with an event handler
  represented by the message it sends: \<open>onClick={() => setPage(3)}\<close> is \<open>OnClick (SetPage 3)\<close>,
  and a handler that reads the event's value is a function to messages.  A child that keeps
  state of its own stands in its parent's tree as \<open>Comp\<close>, with the callbacks it was
  given; its tree is the view of the child's own theory.

  \<open>className\<close>, \<open>style\<close>, \<open>key\<close> and \<open>ref\<close> are presentation or bookkeeping and are left out;
  where the source picks a class from data (badge variants, the active page), the attribute
  \<open>variant\<close> records the choice.

  The messages a user can send from a rendered tree (\<open>msgs\<close>: those of the handlers on
  elements that are not disabled) drive the component as a machine, and \<open>reach\<close> is
  reachability under them.
\<close>

section \<open>Elements\<close>

datatype 'm attr =
    Attr string string
  | Flag string bool
  | OnClick 'm
  | OnSubmit 'm
  | OnChange "string \<Rightarrow> 'm"
  | OnToggle "bool \<Rightarrow> 'm"
  | OnEvent string 'm

datatype 'm node =
    Text string
  | El string "'m attr list" "'m node list"
  | Comp string "'m attr list"

definition icon :: "string \<Rightarrow> 'm node" where
  "icon n = El ''svg'' [Attr ''icon'' n] []"

definition opt_attr :: "string \<Rightarrow> string option \<Rightarrow> 'm attr list" where
  "opt_attr k v = (case v of None \<Rightarrow> [] | Some s \<Rightarrow> [Attr k s])"

text \<open>\<open>{s && <Tag>...</Tag>}\<close> for a string \<open>s\<close>, \<open>null\<close> or \<open>undefined\<close>: an empty string renders
  nothing.\<close>

definition when_str :: "string option \<Rightarrow> (string \<Rightarrow> 'm node) \<Rightarrow> 'm node list" where
  "when_str v f = (case v of None \<Rightarrow> [] | Some s \<Rightarrow> if s = [] then [] else [f s])"

definition show_if :: "bool \<Rightarrow> 'm node list \<Rightarrow> 'm node list" where
  "show_if b ns = (if b then ns else [])"

section \<open>What a rendered tree shows and offers\<close>

definition is_disabled :: "'m attr list \<Rightarrow> bool" where
  "is_disabled as = list_ex (\<lambda>a. case a of Flag k b \<Rightarrow> k = ''disabled'' \<and> b | _ \<Rightarrow> False) as"

fun attr_msgs :: "'m attr \<Rightarrow> 'm set" where
  "attr_msgs (Attr k v) = {}"
| "attr_msgs (Flag k b) = {}"
| "attr_msgs (OnClick m) = {m}"
| "attr_msgs (OnSubmit m) = {m}"
| "attr_msgs (OnChange f) = range f"
| "attr_msgs (OnToggle f) = range f"
| "attr_msgs (OnEvent k m) = {m}"

fun msgs :: "'m node \<Rightarrow> 'm set" where
  "msgs (Text s) = {}"
| "msgs (El t as cs) =
     (if is_disabled as then {} else (\<Union>a \<in> set as. attr_msgs a)) \<union> (\<Union>c \<in> set cs. msgs c)"
| "msgs (Comp n as) = (\<Union>a \<in> set as. attr_msgs a)"

definition view_msgs :: "'m node list \<Rightarrow> 'm set" where
  "view_msgs ns = (\<Union>n \<in> set ns. msgs n)"

fun attr_clicks :: "'m attr \<Rightarrow> 'm list" where
  "attr_clicks (OnClick m) = [m]"
| "attr_clicks (OnSubmit m) = [m]"
| "attr_clicks (OnEvent k m) = [m]"
| "attr_clicks a = []"

text \<open>The messages without a value (clicks, submits), as a list that computes.\<close>

fun clicks :: "'m node \<Rightarrow> 'm list" where
  "clicks (Text s) = []"
| "clicks (El t as cs) =
     (if is_disabled as then [] else concat (map attr_clicks as)) @ concat (map clicks cs)"
| "clicks (Comp n as) = concat (map attr_clicks as)"

definition view_clicks :: "'m node list \<Rightarrow> 'm list" where
  "view_clicks ns = concat (map clicks ns)"

fun texts :: "'m node \<Rightarrow> string list" where
  "texts (Text s) = [s]"
| "texts (El t as cs) = concat (map texts cs)"
| "texts (Comp n as) = []"

definition view_texts :: "'m node list \<Rightarrow> string list" where
  "view_texts ns = concat (map texts ns)"

text \<open>All elements with a given tag, in document order.\<close>

fun elements :: "string \<Rightarrow> 'm node \<Rightarrow> 'm node list" where
  "elements t (Text s) = []"
| "elements t (El u as cs) =
     (if t = u then [El u as cs] else []) @ concat (map (elements t) cs)"
| "elements t (Comp n as) = (if t = n then [Comp n as] else [])"

definition view_elements :: "string \<Rightarrow> 'm node list \<Rightarrow> 'm node list" where
  "view_elements t ns = concat (map (elements t) ns)"

named_theorems view \<open>equations that compute a rendered tree and what it offers\<close>

lemma view_msgs_simps [simp]:
  "view_msgs [] = {}"
  "view_msgs (n # ns) = msgs n \<union> view_msgs ns"
  "view_msgs (ns @ ms) = view_msgs ns \<union> view_msgs ms"
  by (auto simp: view_msgs_def)

lemma view_texts_simps [simp]:
  "view_texts [] = []"
  "view_texts (n # ns) = texts n @ view_texts ns"
  "view_texts (ns @ ms) = view_texts ns @ view_texts ms"
  by (auto simp: view_texts_def)

lemma view_clicks_simps [simp]:
  "view_clicks [] = []"
  "view_clicks (n # ns) = clicks n @ view_clicks ns"
  "view_clicks (ns @ ms) = view_clicks ns @ view_clicks ms"
  by (auto simp: view_clicks_def)

lemma view_elements_simps [simp]:
  "view_elements t [] = []"
  "view_elements t (n # ns) = elements t n @ view_elements t ns"
  "view_elements t (ns @ ms) = view_elements t ns @ view_elements t ms"
  by (auto simp: view_elements_def)

lemma msgs_El: "msgs (El t as cs) =
    (if is_disabled as then {} else (\<Union>a \<in> set as. attr_msgs a)) \<union> view_msgs cs"
  by (simp add: view_msgs_def)

lemma view_msgs_map: "view_msgs (map f xs) = (\<Union>x \<in> set xs. msgs (f x))"
  by (auto simp: view_msgs_def)

lemma view_msgs_concat: "view_msgs (concat nss) = (\<Union>ns \<in> set nss. view_msgs ns)"
  by (auto simp: view_msgs_def)

lemma icon_simps [simp]:
  "msgs (icon n) = {}" "clicks (icon n) = []" "texts (icon n) = []"
  by (simp_all add: icon_def is_disabled_def)

lemma opt_attr_msgs [simp]: "a \<in> set (opt_attr k v) \<Longrightarrow> attr_msgs a = {}"
  by (auto simp: opt_attr_def split: option.splits)

text \<open>The list of clicks is sound for the set of messages.\<close>

lemma attr_clicks_msgs: "set (attr_clicks a) \<subseteq> attr_msgs a"
  by (cases a) auto

lemma clicks_subset_msgs: "set (clicks n) \<subseteq> msgs n"
proof (induction n rule: clicks.induct)
  case (2 t as cs)
  then show ?case using attr_clicks_msgs by (fastforce simp: msgs_El view_msgs_def)
qed (use attr_clicks_msgs in fastforce)+

section \<open>A component as a machine\<close>

text \<open>
  \<open>offers s\<close> are the messages possible in state \<open>s\<close> (what the rendered tree offers,
  and the settling of requests under way), \<open>upd\<close> the state updates the handlers make.
\<close>

inductive reach :: "('s \<Rightarrow> 'm set) \<Rightarrow> ('m \<Rightarrow> 's \<Rightarrow> 's) \<Rightarrow> 's \<Rightarrow> 's \<Rightarrow> bool"
  for offers upd s0 where
  start: "reach offers upd s0 s0"
| step: "reach offers upd s0 s \<Longrightarrow> m \<in> offers s \<Longrightarrow> reach offers upd s0 (upd m s)"

lemma reach_trans:
  assumes "reach offers upd s1 s2" and "reach offers upd s0 s1"
  shows "reach offers upd s0 s2"
  using assms by (induction rule: reach.induct) (auto intro: reach.step)

lemma reach_run:
  "reach offers upd s0 (upd m s0)" if "m \<in> offers s0"
  by (rule reach.step) (rule reach.start, rule that)

text \<open>The contract of an invariant, and what a client gets from it.\<close>

locale ui_machine =
  fixes offers :: "'s \<Rightarrow> 'm set"
    and upd :: "'m \<Rightarrow> 's \<Rightarrow> 's"
    and inv :: "'s \<Rightarrow> bool"
  assumes inv_step: "inv s \<Longrightarrow> m \<in> offers s \<Longrightarrow> inv (upd m s)"
begin

lemma reach_inv: "reach offers upd s0 s \<Longrightarrow> inv s0 \<Longrightarrow> inv s"
  by (induction rule: reach.induct) (auto intro: inv_step)

lemma fold_inv:
  assumes "inv s" and "\<And>s m. m \<in> set ms \<Longrightarrow> m \<in> offers s"
  shows "inv (fold upd ms s)"
  using assms by (induction ms arbitrary: s) (auto intro: inv_step)

end

end
