(* ===== verification/Ui_Kit.thy ===== *)
theory Ui_Kit
  imports Vdom
begin

text \<open>
  The building blocks under \<^verbatim>\<open>src/ui/admin/src/components/ui\<close>: badge, empty state and page header,
  skeletons and spinners, search bar and selects, modal and confirmation modal, data table,
  tabs, tooltip, breadcrumb and keyboard hint.  Each is the function from its props (and its
  state, for tabs and tooltip) to the nodes it renders.
\<close>

section \<open>Badge\<close>

datatype BadgeVariant =
  BvDefault | BvGold | BvOutline | BvDestructive | BvSuccess | BvWarning | BvInfo | BvGhost

fun badge_variant_name :: "BadgeVariant \<Rightarrow> string" where
  "badge_variant_name BvDefault = ''default''"
| "badge_variant_name BvGold = ''gold''"
| "badge_variant_name BvOutline = ''outline''"
| "badge_variant_name BvDestructive = ''destructive''"
| "badge_variant_name BvSuccess = ''success''"
| "badge_variant_name BvWarning = ''warning''"
| "badge_variant_name BvInfo = ''info''"
| "badge_variant_name BvGhost = ''ghost''"

definition badge_dot_class :: "BadgeVariant option \<Rightarrow> string option" where
  "badge_dot_class v =
     (case v of
        None \<Rightarrow> Some ''bg-white''
      | Some BvDefault \<Rightarrow> Some ''bg-white''
      | Some BvSuccess \<Rightarrow> Some ''bg-emerald-500''
      | Some BvDestructive \<Rightarrow> Some ''bg-red-500''
      | Some BvWarning \<Rightarrow> Some ''bg-amber-500''
      | Some BvInfo \<Rightarrow> Some ''bg-blue-500''
      | _ \<Rightarrow> None)"

definition Badge :: "BadgeVariant option \<Rightarrow> bool \<Rightarrow> 'm node list \<Rightarrow> 'm node" where
  "Badge variant dot children =
     El ''span'' [Attr ''variant'' (badge_variant_name (nullish variant BvDefault))]
       (show_if dot [El ''span'' (opt_attr ''variant'' (badge_dot_class variant)) []] @ children)"

text \<open>The status badge of the tables and of the detail panels.\<close>

definition status_badge :: "bool \<Rightarrow> string \<Rightarrow> string \<Rightarrow> 'm node" where
  "status_badge on yes no =
     Badge (Some (if on then BvSuccess else BvGhost)) True [Text (if on then yes else no)]"

section \<open>Empty state and page header\<close>

definition EmptyState ::
    "string option \<Rightarrow> string \<Rightarrow> string option \<Rightarrow> 'm node list option \<Rightarrow> 'm node" where
  "EmptyState ic title description action =
     El ''div'' []
       ((case ic of None \<Rightarrow> [] | Some i \<Rightarrow> [El ''div'' [] [icon i]])
        @ [El ''h3'' [] [Text title]]
        @ when_str description (\<lambda>d. El ''p'' [] [Text d])
        @ (case action of None \<Rightarrow> [] | Some a \<Rightarrow> [El ''div'' [] a]))"

definition PageHeader ::
    "string \<Rightarrow> string option \<Rightarrow> 'm node list option \<Rightarrow> 'm node list option \<Rightarrow> 'm node" where
  "PageHeader title subtitle action breadcrumb =
     El ''div'' []
       ((case breadcrumb of None \<Rightarrow> [] | Some b \<Rightarrow> [El ''div'' [] b])
        @ [El ''div'' []
            ([El ''div'' []
               ([El ''h1'' [] [Text title]] @ when_str subtitle (\<lambda>s. El ''p'' [] [Text s]))]
             @ (case action of None \<Rightarrow> [] | Some a \<Rightarrow> [El ''div'' [] a]))])"

section \<open>Skeletons and spinners\<close>

datatype SkeletonVariant = SkText | SkCircular | SkRectangular

fun skeleton_variant_name :: "SkeletonVariant \<Rightarrow> string" where
  "skeleton_variant_name SkText = ''text''"
| "skeleton_variant_name SkCircular = ''circular''"
| "skeleton_variant_name SkRectangular = ''rectangular''"

definition Skeleton :: "SkeletonVariant \<Rightarrow> 'm node" where
  "Skeleton variant =
     El ''div'' [Attr ''role'' ''status'', Attr ''aria-busy'' ''true'',
       Attr ''aria-label'' (''Loading'' @ ellipsis), Attr ''variant'' (skeleton_variant_name variant)] []"

definition SkeletonCard :: "'m node" where
  "SkeletonCard =
     El ''div'' []
       [El ''div'' [] [Skeleton SkCircular, El ''div'' [] [Skeleton SkText, Skeleton SkText]],
        Skeleton SkRectangular,
        El ''div'' [] [Skeleton SkRectangular, Skeleton SkRectangular]]"

definition SkeletonTableRow :: "nat \<Rightarrow> 'm node" where
  "SkeletonTableRow cols =
     El ''tr'' [] (map (\<lambda>i. El ''td'' [] [Skeleton SkText]) [0..<cols])"

definition SkeletonTable :: "nat \<Rightarrow> nat \<Rightarrow> 'm node" where
  "SkeletonTable rows cols =
     El ''table'' [] [El ''tbody'' [] (map (\<lambda>i. SkeletonTableRow cols) [0..<rows])]"

definition Spinner :: "'m node" where
  "Spinner = El ''span'' [Attr ''role'' ''status'', Attr ''aria-label'' ''Loading''] []"

definition LoadingOverlay :: "string option \<Rightarrow> 'm node" where
  "LoadingOverlay label =
     El ''div'' [] [El ''div'' [] [Spinner, El ''p'' [] [Text (nullish label (''Loading'' @ ellipsis))]]]"

definition PageLoader :: "'m node" where
  "PageLoader = El ''div'' [] [Spinner]"

section \<open>Search bar and selects\<close>

definition SearchBar :: "string \<Rightarrow> (string \<Rightarrow> 'm) \<Rightarrow> string option \<Rightarrow> 'm node" where
  "SearchBar value onChange placeholder =
     El ''div'' []
       ([icon ''Search'',
         El ''input'' [Attr ''type'' ''search'', Attr ''value'' value, OnChange onChange,
           Attr ''placeholder'' (nullish placeholder (''Search'' @ ellipsis))] []]
        @ show_if (value \<noteq> [])
            [El ''button'' [OnClick (onChange []), Attr ''aria-label'' ''Clear search''] [icon ''X'']])"

record FilterOption =
  fo_label :: string
  fo_value :: string

definition fopt :: "string \<Rightarrow> string \<Rightarrow> FilterOption" where
  "fopt l v = \<lparr>fo_label = l, fo_value = v\<rparr>"

definition FilterSelect ::
    "string \<Rightarrow> string \<Rightarrow> FilterOption list \<Rightarrow> (string \<Rightarrow> 'm) \<Rightarrow> 'm node" where
  "FilterSelect label value options onChange =
     El ''div'' []
       [El ''span'' [] [Text label],
        El ''select'' [Attr ''value'' value, OnChange onChange]
          (map (\<lambda>opt. El ''option'' [Attr ''value'' (fo_value opt)] [Text (fo_label opt)]) options)]"

record SelectOption =
  so_label :: string
  so_value :: string
  so_disabled :: bool

definition option_nodes :: "SelectOption list \<Rightarrow> 'm node list" where
  "option_nodes options =
     map (\<lambda>opt. El ''option'' [Attr ''value'' (so_value opt), Flag ''disabled'' (so_disabled opt)]
                  [Text (so_label opt)]) options"

definition Select ::
    "string option \<Rightarrow> string \<Rightarrow> (string \<Rightarrow> 'm) \<Rightarrow> SelectOption list \<Rightarrow> string option \<Rightarrow> string option
     \<Rightarrow> bool \<Rightarrow> 'm node" where
  "Select ident value onChange options placeholder label disabled =
     El ''div'' []
       (when_str label (\<lambda>l. El ''label'' (opt_attr ''htmlFor'' ident) [Text l])
        @ [El ''div'' []
            [El ''select'' (opt_attr ''id'' ident @ [Attr ''value'' value, OnChange onChange, Flag ''disabled'' disabled])
               (when_str placeholder (\<lambda>p. El ''option'' [Attr ''value'' [], Flag ''disabled'' True] [Text p])
                @ option_nodes options),
             icon ''ChevronDown'']])"

definition FilterSelectV2 ::
    "string option \<Rightarrow> string \<Rightarrow> (string \<Rightarrow> 'm) \<Rightarrow> SelectOption list \<Rightarrow> 'm node" where
  "FilterSelectV2 label value onChange options =
     El ''div'' []
       (when_str label (\<lambda>l. El ''span'' [] [Text l, Text '':''])
        @ [El ''div'' []
            [El ''select'' [Attr ''value'' value, OnChange onChange] (option_nodes options),
             icon ''ChevronDown'']])"

definition SelectGroup ::
    "string option \<Rightarrow> string \<Rightarrow> (string \<Rightarrow> 'm) \<Rightarrow> string option \<Rightarrow> 'm node list \<Rightarrow> 'm node" where
  "SelectGroup ident value onChange label children =
     El ''div'' []
       (when_str label (\<lambda>l. El ''label'' (opt_attr ''htmlFor'' ident) [Text l])
        @ [El ''div'' []
            [El ''select'' (opt_attr ''id'' ident @ [Attr ''value'' value, OnChange onChange]) children,
             icon ''ChevronDown'']])"

section \<open>Modal\<close>

text \<open>While open, the document listens for Escape and the body does not scroll.\<close>

definition modal_keydown :: "bool \<Rightarrow> 'm \<Rightarrow> string \<Rightarrow> 'm option" where
  "modal_keydown open onClose key = (if open \<and> key = ''Escape'' then Some onClose else None)"

definition body_overflow :: "bool \<Rightarrow> string" where
  "body_overflow open = (if open then ''hidden'' else [])"

definition Modal ::
    "bool \<Rightarrow> 'm \<Rightarrow> string option \<Rightarrow> string option \<Rightarrow> 'm node list \<Rightarrow> 'm node list" where
  "Modal open onClose title description children =
     (if \<not> open then []
      else [El ''div'' [Attr ''aria-modal'' ''true'', Attr ''role'' ''dialog'']
        [El ''div'' [OnClick onClose, Attr ''aria-hidden'' ''true''] [],
         El ''div'' []
           (show_if (truthy_str title \<or> truthy_str description)
              [El ''div'' []
                (when_str title (\<lambda>t. El ''h2'' [] [Text t])
                 @ when_str description (\<lambda>d. El ''p'' [] [Text d]))]
            @ [El ''button'' [OnClick onClose, Attr ''aria-label'' ''Close''] [icon ''X''],
               El ''div'' [] children])]])"

definition ConfirmModal ::
    "bool \<Rightarrow> 'm \<Rightarrow> 'm \<Rightarrow> string \<Rightarrow> string option \<Rightarrow> string option \<Rightarrow> string option \<Rightarrow> bool \<Rightarrow> bool
     \<Rightarrow> 'm node list" where
  "ConfirmModal open onClose onConfirm title description confirmLabel cancelLabel danger loading =
     Modal open onClose (Some title) description
       [El ''div'' []
         [El ''button'' [OnClick onClose, Flag ''disabled'' loading] [Text (nullish cancelLabel ''Cancel'')],
          El ''button''
            [Attr ''variant'' (if danger then ''btn-danger'' else ''btn-primary''), OnClick onConfirm,
             Flag ''disabled'' loading]
            [Text (if loading then ''Please wait'' @ ellipsis else nullish confirmLabel ''Confirm'')]]]"

section \<open>Data table\<close>

record ('t, 'm) Column =
  col_key :: string
  col_header :: string
  col_width :: "string option"
  col_align :: "string option"
  col_cell :: "'t \<Rightarrow> 'm node list"

definition column :: "string \<Rightarrow> string \<Rightarrow> string option \<Rightarrow> ('t \<Rightarrow> 'm node list) \<Rightarrow> ('t, 'm) Column" where
  "column key header width cell =
     \<lparr>col_key = key, col_header = header, col_width = width, col_align = None, col_cell = cell\<rparr>"

definition actions_column :: "string \<Rightarrow> ('t \<Rightarrow> 'm node list) \<Rightarrow> ('t, 'm) Column" where
  "actions_column width cell =
     \<lparr>col_key = ''actions'', col_header = [], col_width = Some width, col_align = Some ''right'',
      col_cell = cell\<rparr>"

record 'm TableOptions =
  tbl_loading :: bool
  tbl_emptyTitle :: "string option"
  tbl_emptyDescription :: "string option"
  tbl_emptyAction :: "'m node list option"
  tbl_skeletonRows :: "nat option"

definition table_header :: "('t, 'm) Column list \<Rightarrow> 'm node" where
  "table_header columns =
     El ''thead'' []
       [El ''tr'' []
         (map (\<lambda>col. El ''th'' (Attr ''key'' (col_key col) # opt_attr ''align'' (col_align col)
                                @ opt_attr ''width'' (col_width col)) [Text (col_header col)]) columns)]"

definition table_row :: "('t, 'm) Column list \<Rightarrow> ('t \<Rightarrow> string) \<Rightarrow> 't \<Rightarrow> 'm node" where
  "table_row columns keyFn row =
     El ''tr'' [Attr ''key'' (keyFn row)]
       (map (\<lambda>col. El ''td'' (Attr ''key'' (col_key col) # opt_attr ''align'' (col_align col))
                              (col_cell col row)) columns)"

definition table_body ::
    "('t, 'm) Column list \<Rightarrow> 't list \<Rightarrow> ('t \<Rightarrow> string) \<Rightarrow> 'm TableOptions \<Rightarrow> 'm node list" where
  "table_body columns data keyFn opts =
     (if tbl_loading opts
      then [El ''tr'' [] [El ''td'' [Attr ''colSpan'' (str_int (int (length columns)))]
             [SkeletonTable (nullish (tbl_skeletonRows opts) 5) (length columns)]]]
      else if data = []
      then [El ''tr'' [] [El ''td'' [Attr ''colSpan'' (str_int (int (length columns)))]
             [EmptyState (Some ''Inbox'') (nullish (tbl_emptyTitle opts) ''No records found'')
                (tbl_emptyDescription opts) (tbl_emptyAction opts)]]]
      else map (table_row columns keyFn) data)"

definition DataTable ::
    "('t, 'm) Column list \<Rightarrow> 't list \<Rightarrow> ('t \<Rightarrow> string) \<Rightarrow> 'm TableOptions \<Rightarrow> 'm node" where
  "DataTable columns data keyFn opts =
     El ''div'' [] [El ''div'' [] [El ''table'' []
       [table_header columns, El ''tbody'' [] (table_body columns data keyFn opts)]]]"

section \<open>Tabs\<close>

definition tabs_value :: "string option \<Rightarrow> string \<Rightarrow> string" where
  "tabs_value controlledValue internalValue = nullish controlledValue internalValue"

text \<open>\<open>onChange\<close>: the new internal value, and what the caller is told.\<close>

definition tabs_onChange :: "(string \<Rightarrow> 'm) option \<Rightarrow> string \<Rightarrow> string \<times> 'm option" where
  "tabs_onChange onValueChange v = (v, map_option (\<lambda>f. f v) onValueChange)"

definition TabsList :: "'m node list \<Rightarrow> 'm node" where
  "TabsList children = El ''div'' [Attr ''role'' ''tablist''] children"

definition TabsTrigger ::
    "string \<Rightarrow> (string \<Rightarrow> 'm) \<Rightarrow> string \<Rightarrow> 'm node list \<Rightarrow> bool \<Rightarrow> 'm node" where
  "TabsTrigger ctx_value ctx_onChange value children disabled =
     El ''button''
       ([Attr ''role'' ''tab'', Attr ''type'' ''button'', Flag ''aria-selected'' (ctx_value = value),
         Flag ''disabled'' disabled] @ (if disabled then [] else [OnClick (ctx_onChange value)]))
       children"

definition TabsContent :: "string \<Rightarrow> string \<Rightarrow> 'm node list \<Rightarrow> 'm node list" where
  "TabsContent ctx_value value children =
     (if ctx_value \<noteq> value then [] else [El ''div'' [Attr ''role'' ''tabpanel''] children])"

section \<open>Tooltip, breadcrumb, keyboard hint\<close>

datatype tooltip_msg = TooltipShow | TooltipHide

definition tooltip_update :: "tooltip_msg \<Rightarrow> bool \<Rightarrow> bool" where
  "tooltip_update m visible = (case m of TooltipShow \<Rightarrow> True | TooltipHide \<Rightarrow> False)"

definition Tooltip ::
    "(tooltip_msg \<Rightarrow> 'm) \<Rightarrow> string \<Rightarrow> 'm node list \<Rightarrow> bool \<Rightarrow> bool \<Rightarrow> 'm node list" where
  "Tooltip send content children disabled visible =
     (if disabled then children
      else [El ''span''
        [OnEvent ''onMouseEnter'' (send TooltipShow), OnEvent ''onMouseLeave'' (send TooltipHide),
         OnEvent ''onFocus'' (send TooltipShow), OnEvent ''onBlur'' (send TooltipHide)]
        (children @ show_if visible
           [El ''span'' [Attr ''role'' ''tooltip''] [Text content, El ''span'' [] []]])])"

definition BreadcrumbItem :: "string option \<Rightarrow> 'm node list \<Rightarrow> bool \<Rightarrow> 'm node" where
  "BreadcrumbItem href children isCurrent =
     El ''li'' (if isCurrent then [Attr ''aria-current'' ''page''] else [])
       [(if truthy_str href \<and> \<not> isCurrent
         then El ''Link'' (opt_attr ''to'' href) children else El ''span'' [] children)]"

definition Breadcrumb :: "'m node list \<Rightarrow> 'm node" where
  "Breadcrumb items =
     El ''nav'' [Attr ''aria-label'' ''Breadcrumb'']
       [El ''ol'' []
         (map (\<lambda>(idx, item). El ''li'' [] (show_if (0 < idx) [icon ''ChevronRight''] @ [item]))
              (enumerate 0 items))]"

definition KbdShortcut :: "string list \<Rightarrow> 'm node" where
  "KbdShortcut keys = El ''span'' [] (map (\<lambda>k. El ''kbd'' [] [Text k]) keys)"

section \<open>What the parts offer\<close>

text \<open>The messages that a part can send, in terms of its props.\<close>

declare msgs.simps(2) [simp del]

lemma show_if_msgs [view]: "view_msgs (show_if b ns) = (if b then view_msgs ns else {})"
  by (simp add: show_if_def)

lemma when_str_msgs [view]: "(\<And>s. msgs (f s) = {}) \<Longrightarrow> view_msgs (when_str v f) = {}"
  by (simp add: when_str_def split: option.split)

lemma El_plain_msgs [view]: "msgs (El t [] cs) = view_msgs cs"
  by (simp add: msgs_El)

lemma Text_msgs [view]: "msgs (Text s) = {}"
  by simp

lemma is_disabled_simps [view]:
  "is_disabled [] = False"
  "is_disabled (Attr k v # as) = is_disabled as"
  "is_disabled (OnClick m # as) = is_disabled as"
  "is_disabled (OnSubmit m # as) = is_disabled as"
  "is_disabled (OnChange f # as) = is_disabled as"
  "is_disabled (OnToggle g # as) = is_disabled as"
  "is_disabled (OnEvent k m # as) = is_disabled as"
  "is_disabled (Flag k b # as) = (k = ''disabled'' \<and> b \<or> is_disabled as)"
  "is_disabled (as @ bs) = (is_disabled as \<or> is_disabled bs)"
  by (simp_all add: is_disabled_def)

lemma is_disabled_opt_attr [view]: "is_disabled (opt_attr k v) = False"
  by (simp add: opt_attr_def is_disabled_def split: option.split)

lemma attrs_opt_attr [view]: "(\<Union>a \<in> set (opt_attr k v). attr_msgs a) = {}"
  by auto

lemma El_msgs [view]: "msgs (El t (a # as) cs) =
    (if is_disabled (a # as) then {} else (\<Union>b \<in> set (a # as). attr_msgs b)) \<union> view_msgs cs"
  by (simp only: msgs_El)

lemma Badge_msgs [view]: "msgs (Badge v dot cs) = view_msgs cs"
  by (simp add: Badge_def view opt_attr_def split: option.split)

lemma status_badge_msgs [view]: "msgs (status_badge b yes no) = {}"
  by (simp add: status_badge_def view)

lemma EmptyState_msgs [view]:
  "msgs (EmptyState ic title d action) = (case action of None \<Rightarrow> {} | Some a \<Rightarrow> view_msgs a)"
  by (simp add: EmptyState_def view split: option.split)

lemma PageHeader_msgs [view]:
  "msgs (PageHeader title d action crumbs) =
     (case action of None \<Rightarrow> {} | Some a \<Rightarrow> view_msgs a) \<union> (case crumbs of None \<Rightarrow> {} | Some b \<Rightarrow> view_msgs b)"
  by (auto simp add: PageHeader_def view split: option.split)

lemma Skeleton_msgs [view]: "msgs (Skeleton v) = {}"
  by (simp add: Skeleton_def view)

lemma SkeletonTable_msgs [view]: "msgs (SkeletonTable r c) = {}"
  by (simp add: SkeletonTable_def SkeletonTableRow_def view view_msgs_map)

lemma Spinner_msgs [view]: "msgs Spinner = {}"
  by (simp add: Spinner_def view)

lemma SearchBar_msgs [view]: "msgs (SearchBar v f p) = range f"
  by (auto simp add: SearchBar_def view)

lemma FilterSelect_msgs [view]: "msgs (FilterSelect l v opts f) = range f"
  by (auto simp add: FilterSelect_def view view_msgs_map)

lemma Modal_msgs [view]:
  "view_msgs (Modal open onClose title d cs) = (if open then insert onClose (view_msgs cs) else {})"
  by (simp add: Modal_def view)

lemma ConfirmModal_msgs [view]:
  "view_msgs (ConfirmModal open onClose onConfirm title d cl kl danger loading) =
     (if open then insert onClose (if loading then {} else {onConfirm}) else {})"
  by (auto simp add: ConfirmModal_def view)

lemma table_row_msgs [view]:
  "msgs (table_row columns keyFn row) = (\<Union>c \<in> set columns. view_msgs (col_cell c row))"
  by (simp add: table_row_def view view_msgs_map)

lemma table_header_msgs [view]: "msgs (table_header columns) = {}"
  by (simp add: table_header_def view view_msgs_map)

lemma DataTable_msgs [view]:
  "msgs (DataTable columns data keyFn opts) =
     (if tbl_loading opts then {}
      else if data = [] then (case tbl_emptyAction opts of None \<Rightarrow> {} | Some a \<Rightarrow> view_msgs a)
      else (\<Union>x \<in> set data. \<Union>c \<in> set columns. view_msgs (col_cell c x)))"
  by (simp add: DataTable_def table_body_def view view_msgs_map)

lemmas column_defs [view] = column_def actions_column_def

end
