(* ===== verification/Pagination.thy ===== *)
theory Pagination
  imports Ui_Kit
begin

text \<open>
  \<^verbatim>\<open>src/ui/admin/src/components/ui/pagination.tsx\<close>: the page numbers shown, the buttons and what
  they send; and the interface between a list page and its pagination (the slice of the
  filtered list that is shown), as the locale \<open>list_page\<close>.  The page size is positive (the
  pages use 10 and 20).
\<close>

section \<open>The component\<close>

definition totalPages :: "int \<Rightarrow> int \<Rightarrow> int" where
  "totalPages items pageSize = ceil_div items pageSize"

datatype page_entry = Page int | Gap

definition page_entries :: "int \<Rightarrow> int \<Rightarrow> page_entry list" where
  "page_entries page tp =
     (if tp \<le> 7 then map Page [1..tp]
      else [Page 1]
           @ (if 3 < page then [Gap] else [])
           @ map Page [max 2 (page - 1)..min (tp - 1) (page + 1)]
           @ (if page < tp - 2 then [Gap] else [])
           @ [Page tp])"

definition page_button :: "int \<Rightarrow> (int \<Rightarrow> 'm) \<Rightarrow> page_entry \<Rightarrow> 'm node" where
  "page_button page onPageChange e =
     (case e of
        Gap \<Rightarrow> El ''span'' [] [Text ellipsis]
      | Page p \<Rightarrow> El ''button'' [OnClick (onPageChange p),
          Attr ''variant'' (if p = page then ''current'' else ''other'')] [Text (str_int p)])"

definition Pagination :: "int \<Rightarrow> int \<Rightarrow> int \<Rightarrow> (int \<Rightarrow> 'm) \<Rightarrow> 'm node list" where
  "Pagination page pageSize items onPageChange =
     (let tp = totalPages items pageSize in
      if tp \<le> 1 then []
      else
        (let from = (page - 1) * pageSize + 1; to = min (page * pageSize) items in
         [El ''div'' []
           [El ''p'' [] [Text (str_int from), Text en_dash, Text (str_int to), Text '' of '',
                         Text (str_int items), Text '' items''],
            El ''div'' []
              ([El ''button'' [OnClick (onPageChange (page - 1)), Flag ''disabled'' (page = 1),
                  Attr ''aria-label'' ''Previous page''] [icon ''ChevronLeft'']]
               @ map (page_button page onPageChange) (page_entries page tp)
               @ [El ''button'' [OnClick (onPageChange (page + 1)), Flag ''disabled'' (page = tp),
                    Attr ''aria-label'' ''Next page''] [icon ''ChevronRight'']])]]))"

text \<open>The slice of the list that a page shows.\<close>

definition page_rows :: "int \<Rightarrow> int \<Rightarrow> 'a list \<Rightarrow> 'a list" where
  "page_rows page sz xs = js_slice xs ((page - 1) * sz) (page * sz)"

section \<open>The numbers shown\<close>

text \<open>Neighbouring numbers are consecutive, and a gap stands for at least one number.\<close>

fun well_spaced :: "page_entry list \<Rightarrow> bool" where
  "well_spaced [Page a] = True"
| "well_spaced (Page a # Page b # es) = (b = a + 1 \<and> well_spaced (Page b # es))"
| "well_spaced (Page a # Gap # Page b # es) = (a + 1 < b \<and> well_spaced (Page b # es))"
| "well_spaced es = False"

lemma well_spaced_upto: "a \<le> b \<Longrightarrow> well_spaced (map Page [a..b])"
proof (induction "nat (b - a)" arbitrary: a)
  case 0
  then show ?case by (simp add: upto.simps)
next
  case (Suc n)
  then have "[a..b] = a # (a + 1) # [a + 1 + 1..b]" by (simp add: upto.simps)
  moreover have "well_spaced (map Page [a + 1..b])" using Suc by (intro Suc.hyps) auto
  moreover have "[a + 1..b] = (a + 1) # [a + 1 + 1..b]" using Suc by (simp add: upto.simps)
  ultimately show ?case by simp
qed

lemma page_window:
  assumes "7 < tp" and "1 \<le> page" and "page \<le> tp"
  shows "[max 2 (page - 1)..min (tp - 1) (page + 1)] =
    (if page = 1 then [2] else if page = 2 then [2, 3] else if page = tp then [tp - 1]
     else if page = tp - 1 then [tp - 2, tp - 1] else [page - 1, page, page + 1])"
  using assms by (auto simp: upto.simps max_def min_def)

lemma page_entries_well_spaced:
  assumes "1 \<le> page" and "page \<le> tp"
  shows "well_spaced (page_entries page tp)"
proof (cases "tp \<le> 7")
  case True
  with assms show ?thesis by (simp add: page_entries_def well_spaced_upto)
next
  case False
  then show ?thesis
    using assms page_window [of tp page] by (auto simp: page_entries_def)
qed

lemma page_entries_ends:
  assumes "1 \<le> page" and "page \<le> tp"
  shows "hd (page_entries page tp) = Page 1 \<and> last (page_entries page tp) = Page tp"
  using assms by (auto simp: page_entries_def upto.simps [of 1] hd_map last_map upto_rec2)

lemma page_entries_current:
  assumes "1 \<le> page" and "page \<le> tp"
  shows "Page page \<in> set (page_entries page tp)"
  using assms by (auto simp: page_entries_def)

lemma page_entries_length:
  assumes "1 \<le> page" and "page \<le> tp"
  shows "length (page_entries page tp) \<le> 7"
proof (cases "tp \<le> 7")
  case False
  then show ?thesis
    using assms page_window [of tp page] by (auto simp: page_entries_def)
qed (simp add: page_entries_def)

lemma page_entries_range:
  assumes "1 \<le> page" and "page \<le> tp" and "Page p \<in> set (page_entries page tp)"
  shows "1 \<le> p \<and> p \<le> tp"
  using assms by (auto simp: page_entries_def split: if_splits)

section \<open>What the buttons send\<close>

lemma page_button_msgs:
  "msgs (page_button page f e) = (case e of Gap \<Rightarrow> {} | Page p \<Rightarrow> {f p})"
  by (simp add: page_button_def view split: page_entry.split)

lemma Pagination_msgs:
  "view_msgs (Pagination page k n f) =
     (if totalPages n k \<le> 1 then {}
      else (if page = 1 then {} else {f (page - 1)})
           \<union> {f p | p. Page p \<in> set (page_entries page (totalPages n k))}
           \<union> (if page = totalPages n k then {} else {f (page + 1)}))"
proof -
  have "view_msgs (map (page_button page f) es) = {f p | p. Page p \<in> set es}" for es
    by (auto simp: view_msgs_map page_button_msgs split: page_entry.splits)
  then show ?thesis
    by (auto simp: Pagination_def Let_def view)
qed

lemma Pagination_msgs_in_range:
  assumes "1 \<le> page" and "page \<le> totalPages n k"
  shows "view_msgs (Pagination page k n f) \<subseteq> f ` {1..totalPages n k}"
  using assms page_entries_range [of page "totalPages n k"]
  by (auto simp: Pagination_msgs split: if_splits)

text \<open>The machine of a page number driven by the buttons.\<close>

definition page_offers :: "int \<Rightarrow> int \<Rightarrow> int \<Rightarrow> int set" where
  "page_offers k n page = view_msgs (Pagination page k n (\<lambda>p. p))"

definition set_page :: "int \<Rightarrow> int \<Rightarrow> int" where
  "set_page p page = p"

interpretation page_machine: ui_machine "page_offers k n" set_page "\<lambda>p. 1 \<le> p \<and> p \<le> totalPages n k" for k n
proof unfold_locales
  fix s m assume "1 \<le> s \<and> s \<le> totalPages n k" and "m \<in> page_offers k n s"
  then show "1 \<le> set_page m s \<and> set_page m s \<le> totalPages n k"
    using Pagination_msgs_in_range [of s n k "\<lambda>p. p"] by (auto simp: page_offers_def set_page_def)
qed

lemma Pagination_msg_page:
  assumes "f p \<in> view_msgs (Pagination page k n f)" and "\<And>a b. f a = f b \<Longrightarrow> a = b"
  shows "p \<in> page_offers k n page"
  using assms by (auto simp: page_offers_def Pagination_msgs split: if_splits dest!: assms(2))

lemma next_page_offered: "1 \<le> p \<Longrightarrow> p < totalPages n k \<Longrightarrow> p + 1 \<in> page_offers k n p"
  by (simp add: page_offers_def Pagination_msgs)

lemma prev_page_offered: "1 < p \<Longrightarrow> p \<le> totalPages n k \<Longrightarrow> p - 1 \<in> page_offers k n p"
  by (simp add: page_offers_def Pagination_msgs)

lemma reach_up:
  "1 \<le> p \<Longrightarrow> p + int d \<le> totalPages n k \<Longrightarrow> reach (page_offers k n) set_page p (p + int d)"
proof (induction d)
  case (Suc d)
  then have "reach (page_offers k n) set_page p (p + int d)" by simp
  from reach.step [OF this next_page_offered] Suc.prems
  have "reach (page_offers k n) set_page p (set_page (p + int d + 1) (p + int d))" by simp
  moreover have "set_page (p + int d + 1) (p + int d) = p + int (Suc d)" by (simp add: set_page_def)
  ultimately show ?case by metis
qed (simp add: reach.start)

lemma reach_down:
  "1 \<le> p - int d \<Longrightarrow> p \<le> totalPages n k \<Longrightarrow> reach (page_offers k n) set_page p (p - int d)"
proof (induction d)
  case (Suc d)
  then have "reach (page_offers k n) set_page p (p - int d)" by simp
  from reach.step [OF this prev_page_offered] Suc.prems
  have "reach (page_offers k n) set_page p (set_page (p - int d - 1) (p - int d))" by simp
  moreover have "set_page (p - int d - 1) (p - int d) = p - int (Suc d)" by (simp add: set_page_def)
  ultimately show ?case by metis
qed (simp add: reach.start)

section \<open>The rows of a page\<close>

lemma page_rows_take_drop:
  "1 \<le> p \<Longrightarrow> 0 < k \<Longrightarrow> page_rows p k xs = take (nat k) (drop (nat (p - 1) * nat k) xs)"
  by (simp add: page_rows_def js_slice_page)

lemma concat_chunks:
  "concat (map (\<lambda>i. take k (drop (i * k) xs)) [0..<m]) = take (m * k) xs"
proof (induction m)
  case (Suc m)
  have "take (Suc m * k) xs = take (m * k + k) xs" by (simp add: add.commute)
  also have "\<dots> = take (m * k) xs @ take k (drop (m * k) xs)" by (rule take_add)
  finally show ?case using Suc by simp
qed simp

lemma upto_shift: "[1..int m] = map (\<lambda>i. int i + 1) [0..<m]"
  by (induction m) (simp_all add: upto_rec2)

lemma page_rows_concat:
  assumes "0 < k"
  shows "concat (map (\<lambda>p. page_rows p k xs) [1..int m]) = take (m * nat k) xs"
proof -
  have "map (\<lambda>p. page_rows p k xs) [1..int m] = map (\<lambda>i. take (nat k) (drop (i * nat k) xs)) [0..<m]"
    using assms by (simp add: upto_shift page_rows_take_drop)
  then show ?thesis by (simp only: concat_chunks)
qed

lemma totalPages_covers: "0 < k \<Longrightarrow> n \<le> totalPages n k * k"
  using ceil_div_le [of k n "totalPages n k"] by (simp add: totalPages_def)

lemma totalPages_nonneg: "0 < k \<Longrightarrow> 0 \<le> n \<Longrightarrow> 0 \<le> totalPages n k"
  by (simp add: totalPages_def ceil_div_nonneg)

lemma all_pages_concat:
  assumes "0 < k"
  shows "concat (map (\<lambda>p. page_rows p k xs) [1..totalPages (int (length xs)) k]) = xs"
proof -
  let ?tp = "totalPages (int (length xs)) k"
  have tp: "int (nat ?tp) = ?tp" using assms totalPages_nonneg by simp
  have "int (length xs) \<le> int (nat ?tp * nat k)"
    using totalPages_covers [OF assms, of "int (length xs)"] assms tp by simp
  then have "length xs \<le> nat ?tp * nat k" by linarith
  with page_rows_concat [OF assms, where m = "nat ?tp" and xs = xs] tp show ?thesis by simp
qed

lemma length_page_rows:
  assumes "1 \<le> p" and "0 < k" and "p \<le> totalPages (int (length xs)) k"
  shows "int (length (page_rows p k xs)) = min (p * k) (int (length xs)) - (p - 1) * k"
proof -
  define m where "m = nat (p - 1) * nat k"
  have m: "int m = (p - 1) * k" using assms by (simp add: m_def)
  have "(p - 1) * k < int (length xs)"
    using assms ceil_div_ge [of k "p - 1" "int (length xs)"] by (simp add: totalPages_def)
  with m have lt: "m < length xs" by linarith
  have pk: "p * k = int m + k" using m by (simp add: algebra_simps)
  have "length (page_rows p k xs) = min (length xs - m) (nat k)"
    using assms by (simp add: page_rows_take_drop m_def)
  then have "int (length (page_rows p k xs)) = min (int (length xs) - int m) k"
    using lt assms by (simp add: of_nat_diff)
  with pk m show ?thesis by (simp add: min_def)
qed

lemma page_rows_beyond:
  assumes "0 < k" and "totalPages (int (length xs)) k < p" and "1 \<le> p"
  shows "page_rows p k xs = []"
proof -
  have "int (length xs) \<le> (p - 1) * k"
    using assms ceil_div_le [of k "int (length xs)" "p - 1"] by (simp add: totalPages_def)
  also have "\<dots> = int (nat (p - 1) * nat k)" using assms by simp
  finally have "length xs \<le> nat (p - 1) * nat k" by linarith
  with assms show ?thesis by (simp add: page_rows_take_drop)
qed

section \<open>A page with a paginated list\<close>

text \<open>
  The contract between a list page and its pagination: \<open>filtered\<close> is the list the filters
  leave, \<open>paginated\<close> what the table shows, \<open>goto\<close> the state update of \<open>onPageChange\<close>.
\<close>

locale list_page =
  fixes page :: "'s \<Rightarrow> int"
    and filtered :: "'s \<Rightarrow> 'a list"
    and paginated :: "'s \<Rightarrow> 'a list"
    and goto :: "int \<Rightarrow> 's \<Rightarrow> 's"
    and k :: int
  assumes size_pos: "0 < k"
    and paginated_rows: "paginated s = page_rows (page s) k (filtered s)"
    and page_goto: "page (goto p s) = p"
    and filtered_goto: "filtered (goto p s) = filtered s"
begin

abbreviation pages :: "'s \<Rightarrow> int" where
  "pages s \<equiv> totalPages (int (length (filtered s))) k"

lemma paginated_subset: "set (paginated s) \<subseteq> set (filtered s)"
  using set_js_slice by (fastforce simp: paginated_rows page_rows_def)

lemma pages_partition: "concat (map (\<lambda>p. paginated (goto p s)) [1..pages s]) = filtered s"
  using all_pages_concat [OF size_pos] by (simp add: paginated_rows page_goto filtered_goto)

lemma every_item_on_a_page:
  assumes "x \<in> set (filtered s)"
  shows "\<exists>p. 1 \<le> p \<and> p \<le> pages s \<and> x \<in> set (paginated (goto p s))"
proof -
  from assms have "x \<in> set (concat (map (\<lambda>p. paginated (goto p s)) [1..pages s]))"
    by (simp only: pages_partition)
  then show ?thesis by auto
qed

lemma paginated_in_range:
  "1 \<le> page s \<Longrightarrow> page s \<le> pages s \<Longrightarrow>
   int (length (paginated s)) = min (page s * k) (int (length (filtered s))) - (page s - 1) * k"
  using length_page_rows [OF _ size_pos] by (simp add: paginated_rows)

lemma paginated_not_empty:
  assumes "1 \<le> page s" and "page s \<le> pages s"
  shows "paginated s \<noteq> []"
proof -
  have "(page s - 1) * k < int (length (filtered s))"
    using assms ceil_div_ge [OF size_pos, of "page s - 1" "int (length (filtered s))"]
    by (simp add: totalPages_def)
  moreover have "(page s - 1) * k < page s * k" using size_pos by (simp add: algebra_simps)
  ultimately have "0 < int (length (paginated s))" using paginated_in_range [OF assms] by simp
  then show ?thesis by auto
qed

lemma paginated_beyond: "1 \<le> page s \<Longrightarrow> pages s < page s \<Longrightarrow> paginated s = []"
  by (simp add: paginated_rows page_rows_beyond size_pos)

end

text \<open>
  What is asked of a page that starts in state \<open>s0\<close>: in every state that the user reaches the table has
  rows while an item matches the filters, and the rows of all table pages together are the matching items.
\<close>

definition shows_matches ::
    "('s \<Rightarrow> 'm set) \<Rightarrow> ('m \<Rightarrow> 's \<Rightarrow> 's) \<Rightarrow> ('s \<Rightarrow> 'a list) \<Rightarrow> ('s \<Rightarrow> 'a list) \<Rightarrow> (int \<Rightarrow> 's \<Rightarrow> 's) \<Rightarrow> int \<Rightarrow> 's \<Rightarrow> bool"
  where
  "shows_matches offers upd filtered paginated goto k s0 \<longleftrightarrow>
     (\<forall>s. reach offers upd s0 s \<longrightarrow>
        (filtered s \<noteq> [] \<longrightarrow> paginated s \<noteq> [])
        \<and> concat (map (\<lambda>p. paginated (goto p s)) [1..totalPages (int (length (filtered s))) k]) = filtered s)"

text \<open>
  The page as a machine: an action of the user resets the page number, or keeps the filtered
  list and either keeps the page number or sets it to one that the pagination offers.
\<close>

locale paged_machine = list_page page filtered paginated goto k
  for page :: "'s \<Rightarrow> int" and filtered :: "'s \<Rightarrow> 'a list" and paginated :: "'s \<Rightarrow> 'a list"
    and goto :: "int \<Rightarrow> 's \<Rightarrow> 's" and k :: int +
  fixes offers :: "'s \<Rightarrow> 'm set"
    and upd :: "'m \<Rightarrow> 's \<Rightarrow> 's"
  assumes step_cases: "m \<in> offers s \<Longrightarrow>
    page (upd m s) = 1
    \<or> filtered (upd m s) = filtered s
       \<and> (page (upd m s) = page s
          \<or> page (upd m s) \<in> page_offers k (int (length (filtered s))) (page s))"
begin

abbreviation page_ok :: "'s \<Rightarrow> bool" where
  "page_ok s \<equiv> page s = 1 \<or> 1 \<le> page s \<and> page s \<le> pages s"

lemma page_ok_step:
  assumes "page_ok s" and "m \<in> offers s"
  shows "page_ok (upd m s)"
proof (cases "page (upd m s) = 1 \<or> page (upd m s) = page s \<and> filtered (upd m s) = filtered s")
  case True
  with assms(1) show ?thesis by auto
next
  case False
  with step_cases [OF assms(2)] have f: "filtered (upd m s) = filtered s"
    and p: "page (upd m s) \<in> page_offers k (int (length (filtered s))) (page s)" by auto
  from p have "1 < pages s" by (auto simp: page_offers_def Pagination_msgs split: if_splits)
  with assms(1) have "1 \<le> page s" "page s \<le> pages s" by auto
  with p f show ?thesis
    using page_machine.inv_step [of "page s" "int (length (filtered s))" k "page (upd m s)"]
    by (simp add: set_page_def)
qed

sublocale paging: ui_machine offers upd page_ok
  by unfold_locales (rule page_ok_step)

lemma table_filled:
  assumes "reach offers upd s0 s" and "page s0 = 1" and "filtered s \<noteq> []"
  shows "paginated s \<noteq> []"
proof -
  have ok: "page_ok s" using paging.reach_inv [OF assms(1)] assms(2) by simp
  have "0 < pages s" using assms(3) size_pos ceil_div_pos [of k "int (length (filtered s))"]
    by (simp add: totalPages_def)
  with ok have "1 \<le> page s" "page s \<le> pages s" by auto
  then show ?thesis by (rule paginated_not_empty)
qed

lemma page_shows_matches: "page s0 = 1 \<Longrightarrow> shows_matches offers upd filtered paginated goto k s0"
  unfolding shows_matches_def using table_filled pages_partition by blast

end

section \<open>Properties\<close>

text \<open>C18: On every valid page the strip of page numbers starts with 1, ends with the last page,
  contains the current page, has at most seven entries, and reads in order: neighbours are
  consecutive, and an ellipsis stands for at least one page left out.\<close>

theorem page_entries_sound:
  assumes "1 \<le> page" and "page \<le> tp"
  shows "well_spaced (page_entries page tp)
    \<and> hd (page_entries page tp) = Page 1 \<and> last (page_entries page tp) = Page tp
    \<and> Page page \<in> set (page_entries page tp)
    \<and> length (page_entries page tp) \<le> 7"
  using assms page_entries_well_spaced page_entries_ends page_entries_current page_entries_length
  by blast

theorem page_entries_sound_witness:
  "well_spaced (page_entries 6 12) \<and> length (page_entries 6 12) \<le> 7
   \<and> page_entries 6 12 = [Page 1, Gap, Page 5, Page 6, Page 7, Gap, Page 12]"
  using page_entries_sound [of 6 12] by (simp add: page_entries_def upto.simps)

text \<open>C14: Clicking the buttons of \<open>Pagination\<close>, in any order and any number of times, from a valid
  page leads to the valid pages and to all of them: the page number never leaves
  \<open>1 .. totalPages\<close>, and every page can be reached.\<close>

theorem pagination_reaches_exactly:
  assumes "1 \<le> p" and "p \<le> totalPages n k"
  shows "reach (page_offers k n) set_page p q \<longleftrightarrow> 1 \<le> q \<and> q \<le> totalPages n k"
proof
  assume "reach (page_offers k n) set_page p q"
  with assms show "1 \<le> q \<and> q \<le> totalPages n k" using page_machine.reach_inv by blast
next
  assume q: "1 \<le> q \<and> q \<le> totalPages n k"
  show "reach (page_offers k n) set_page p q"
    using assms q reach_up [of p "nat (q - p)" n k] reach_down [of p "nat (p - q)" n k]
    by (cases "p \<le> q") auto
qed

theorem pagination_reaches_exactly_witness:
  "reach (page_offers 10 95) set_page 1 10 \<and> \<not> reach (page_offers 10 95) set_page 1 11"
  using pagination_reaches_exactly [of 1 95 10 10] pagination_reaches_exactly [of 1 95 10 11]
  by (simp add: totalPages_def ceil_div_def)



end
