(* ===== verification/Json.thy ===== *)
theory Json
  imports Prelude
begin

text \<open>
  JSON values and \<open>JSON.stringify\<close>, as the API client uses them for request bodies and query
  keys, with the fact that the text determines the value: no two different bodies are sent
  as the same text.
\<close>

section \<open>JSON\<close>

datatype json =
    JNull
  | JBool bool
  | JNum int
  | JStr string
  | JArr "json list"
  | JObj "(string \<times> json) list"

abbreviation backslash :: char where "backslash \<equiv> CHR 0x5C"

definition hex_digit :: "nat \<Rightarrow> char" where
  "hex_digit n = (if n < 10 then char_of (48 + n) else char_of (87 + n))"

text \<open>The escapes of \<open>JSON.stringify\<close> for code units below 256.\<close>

definition json_escape_char :: "char \<Rightarrow> string" where
  "json_escape_char c =
     (if c = CHR 0x22 then [backslash, CHR 0x22]
      else if c = backslash then [backslash, backslash]
      else if c = CHR 0x08 then [backslash, CHR ''b'']
      else if c = CHR 0x0C then [backslash, CHR ''f'']
      else if c = CHR 0x0A then [backslash, CHR ''n'']
      else if c = CHR 0x0D then [backslash, CHR ''r'']
      else if c = CHR 0x09 then [backslash, CHR ''t'']
      else if code c < 32
        then [backslash, CHR ''u'', CHR ''0'', CHR ''0'', hex_digit (code c div 16), hex_digit (code c mod 16)]
      else [c])"

definition json_quote :: "string \<Rightarrow> string" where
  "json_quote s = dquote @ concat (map json_escape_char s) @ dquote"

fun stringify :: "json \<Rightarrow> string" where
  "stringify JNull = ''null''"
| "stringify (JBool b) = (if b then ''true'' else ''false'')"
| "stringify (JNum n) = str_int n"
| "stringify (JStr s) = json_quote s"
| "stringify (JArr js) = ''['' @ join '','' (map stringify js) @ '']''"
| "stringify (JObj kvs) =
     ''{'' @ join '','' (map (\<lambda>(k, v). json_quote k @ '':'' @ stringify v) kvs) @ ''}''"

text \<open>A property whose value is \<open>undefined\<close> is left out; a \<open>NaN\<close> becomes \<open>null\<close>.\<close>

definition opt_field :: "string \<Rightarrow> ('a \<Rightarrow> json) \<Rightarrow> 'a option \<Rightarrow> (string \<times> json) list" where
  "opt_field k f x = (case x of None \<Rightarrow> [] | Some v \<Rightarrow> [(k, f v)])"

definition json_num :: "int option \<Rightarrow> json" where
  "json_num x = (case x of None \<Rightarrow> JNull | Some n \<Rightarrow> JNum n)"

section \<open>The text determines the value\<close>

text \<open>
  The escape of one character is a prefix code, and so is a quoted string; a number is
  ended by the delimiter that follows it.
\<close>

definition delimited :: "string \<Rightarrow> bool" where
  "delimited xs = (case xs of [] \<Rightarrow> True | c # _ \<Rightarrow> c \<in> set '',]}'')"

lemma hex_digit_inj: "a < 16 \<Longrightarrow> b < 16 \<Longrightarrow> hex_digit a = hex_digit b \<Longrightarrow> a = b"
  by (auto simp: hex_digit_def split: if_splits dest!: arg_cong [where f = "of_char :: char \<Rightarrow> nat"])

lemma json_escape_char_not_Nil [simp]: "json_escape_char c \<noteq> []"
  by (simp add: json_escape_char_def)

lemma json_escape_char_hd: "hd (json_escape_char c @ xs) \<noteq> CHR 0x22"
  by (auto simp: json_escape_char_def)

lemma code_inject: "code c = code d \<longleftrightarrow> c = d"
  by (simp add: of_char_eq_iff)

lemma json_escape_control:
  assumes "code c < 32" and "code d < 32"
    and "hex_digit (code c div 16) = hex_digit (code d div 16)"
    and "hex_digit (code c mod 16) = hex_digit (code d mod 16)"
  shows "c = d"
proof -
  have "code c div 16 = code d div 16" "code c mod 16 = code d mod 16"
    using assms by (auto intro!: hex_digit_inj)
  then have "code c = code d" by (metis div_mult_mod_eq)
  then show ?thesis by (simp add: code_inject)
qed

definition unescape :: "char \<Rightarrow> char" where
  "unescape l = (if l = CHR ''b'' then CHR 0x08 else if l = CHR ''f'' then CHR 0x0C
     else if l = CHR ''n'' then CHR 0x0A else if l = CHR ''r'' then CHR 0x0D
     else if l = CHR ''t'' then CHR 0x09 else l)"

lemma json_escape_cases:
  obtains (plain) "json_escape_char c = [c]" "c \<noteq> backslash"
  | (short) l where "json_escape_char c = [backslash, l]" "l \<noteq> CHR ''u''" "unescape l = c"
  | (hex) "json_escape_char c = [backslash, CHR ''u'', CHR ''0'', CHR ''0'',
        hex_digit (code c div 16), hex_digit (code c mod 16)]" "code c < 32"
proof -
  consider "c = CHR 0x22" | "c = backslash" | "c = CHR 0x08" | "c = CHR 0x0C" | "c = CHR 0x0A"
    | "c = CHR 0x0D" | "c = CHR 0x09"
    | "c \<notin> {CHR 0x22, backslash, CHR 0x08, CHR 0x0C, CHR 0x0A, CHR 0x0D, CHR 0x09}"
    by blast
  then show thesis
  proof cases
    case 8
    then show thesis
      using plain hex by (cases "code c < 32") (simp_all add: json_escape_char_def)
  qed (rule short, simp add: json_escape_char_def, simp, simp add: unescape_def)+
qed

lemma json_escape_char_prefix:
  assumes "json_escape_char c @ xs = json_escape_char d @ ys"
  shows "c = d \<and> xs = ys"
proof (cases c rule: json_escape_cases)
  case plain
  with assms show ?thesis by (cases d rule: json_escape_cases) simp_all
next
  case (short l)
  with assms show ?thesis by (cases d rule: json_escape_cases) auto
next
  case hex
  with assms show ?thesis
    by (cases d rule: json_escape_cases) (auto intro: json_escape_control)
qed

lemma json_string_prefix:
  "concat (map json_escape_char s) @ CHR 0x22 # xs = concat (map json_escape_char t) @ CHR 0x22 # ys
   \<Longrightarrow> s = t \<and> xs = ys"
proof (induction s arbitrary: t)
  case Nil
  then show ?case
  proof (cases t)
    case (Cons d ds)
    with Nil have "CHR 0x22 # xs
        = json_escape_char d @ concat (map json_escape_char ds) @ CHR 0x22 # ys"
      by simp
    then have "hd (json_escape_char d @ concat (map json_escape_char ds) @ CHR 0x22 # ys)
        = CHR 0x22"
      by (metis list.sel(1))
    then show ?thesis by (simp only: json_escape_char_hd)
  qed simp
next
  case (Cons c cs)
  show ?case
  proof (cases t)
    case Nil
    with Cons.prems have "hd (json_escape_char c @ concat (map json_escape_char cs) @ CHR 0x22 # xs)
        = CHR 0x22"
      by simp
    then show ?thesis by (simp only: json_escape_char_hd)
  next
    case (Cons d ds)
    with Cons.prems have "json_escape_char c @ (concat (map json_escape_char cs) @ CHR 0x22 # xs)
        = json_escape_char d @ (concat (map json_escape_char ds) @ CHR 0x22 # ys)"
      by simp
    from json_escape_char_prefix [OF this] Cons.IH [of ds] Cons show ?thesis by simp
  qed
qed

lemma json_quote_prefix: "json_quote s @ xs = json_quote t @ ys \<Longrightarrow> s = t \<and> xs = ys"
  using json_string_prefix [of s xs t ys] by (simp add: json_quote_def)

lemma delimited_not_digit: "delimited (c # xs) \<Longrightarrow> \<not> is_digit c"
  by (auto simp: delimited_def is_digit_def)

lemma digits_delimited_prefix:
  assumes "\<forall>c \<in> set s. is_digit c" and "\<forall>c \<in> set t. is_digit c"
    and "delimited xs" and "delimited ys" and "s @ xs = t @ ys"
  shows "s = t \<and> xs = ys"
proof -
  have "takeWhile is_digit (s @ xs) = s" "takeWhile is_digit (t @ ys) = t"
    using assms(1-4) by (cases xs; cases ys; simp add: delimited_not_digit)+
  with assms(5) show ?thesis by (metis same_append_eq)
qed

lemma hd_nat_digits: "is_digit (hd (nat_digits k))"
  by (rule nat_digits_is_digit [of _ k]) simp

lemma str_int_prefix:
  assumes "delimited xs" and "delimited ys" and eq: "str_int m @ xs = str_int n @ ys"
  shows "m = n \<and> xs = ys"
proof -
  have dig: "\<forall>c \<in> set (nat_digits k). is_digit c" for k by (simp add: nat_digits_is_digit)
  have first: "hd (nat_digits k) \<noteq> CHR ''-''" for k
  proof -
    have "\<not> is_digit (CHR ''-'')" by (simp add: is_digit_def)
    with hd_nat_digits [of k] show ?thesis by metis
  qed
  have sign: "hd (str_int k @ zs) = CHR ''-'' \<longleftrightarrow> k < 0" for k zs
    using first [of "nat k"] by (simp add: str_int_def)
  have neg: "(m < 0) = (n < 0)"
    using sign [of m xs] sign [of n ys] by (simp only: eq)
  then have "nat_digits (nat \<bar>m\<bar>) @ xs = nat_digits (nat \<bar>n\<bar>) @ ys"
    using eq by (auto simp: str_int_def split: if_splits)
  with dig have "nat_digits (nat \<bar>m\<bar>) = nat_digits (nat \<bar>n\<bar>) \<and> xs = ys"
    using assms(1,2) by (intro digits_delimited_prefix) auto
  then have "nat \<bar>m\<bar> = nat \<bar>n\<bar> \<and> xs = ys" by (metis digits_value_nat_digits)
  with neg show ?thesis by auto
qed

text \<open>Lists of texts that each determine their value, separated by commas.\<close>

lemma join_Cons_comma:
  "join '','' (w # ws) @ xs = w @ (if ws = [] then xs else '','' @ join '','' ws @ xs)"
  by (cases ws) simp_all

lemma delimited_comma [simp]:
  "delimited (CHR '','' # xs)" "delimited (CHR '']'' # xs)" "delimited (CHR ''}'' # xs)" "delimited []"
  by (simp_all add: delimited_def)

lemma digit_not_delimiter: "is_digit c \<Longrightarrow> c \<notin> set '',]}''"
  by (auto simp: is_digit_def)

lemma stringify_not_Nil [simp]: "stringify j \<noteq> []"
  by (cases j) (auto simp: json_quote_def)

lemma hd_stringify: "hd (stringify j) \<notin> set '',]}''"
proof (cases j)
  case (JNum n)
  then show ?thesis using digit_not_delimiter [OF hd_nat_digits] by (simp add: str_int_def)
qed (auto simp: json_quote_def)

text \<open>What the induction gives for one element: its text, followed by a delimiter, determines
  it and the rest.\<close>

definition determined :: "('a \<Rightarrow> string) \<Rightarrow> 'a \<Rightarrow> bool" where
  "determined f x = (\<forall>y r r'. delimited r \<longrightarrow> delimited r' \<longrightarrow> f x @ r = f y @ r' \<longrightarrow> x = y \<and> r = r')"

lemma join_determined:
  assumes "\<forall>x \<in> set xs. determined f x"
    and head: "\<And>x. f x \<noteq> [] \<and> hd (f x) \<noteq> e" and e: "e \<in> {CHR '']'', CHR ''}''}"
    and eq: "join '','' (map f xs) @ e # r = join '','' (map f ys) @ e # r'"
  shows "xs = ys \<and> r = r'"
  using assms(1) eq
proof (induction xs arbitrary: ys)
  case Nil
  show ?case
  proof (cases ys)
    case (Cons y ys')
    with Nil have "e # r = f y @ (if ys' = [] then e # r' else '','' @ join '','' (map f ys') @ e # r')"
      by (simp only: list.map join_Cons_comma) simp
    with head [of y] show ?thesis by (metis hd_append2 list.sel(1))
  qed (use Nil in simp)
next
  case (Cons x xs)
  let ?r = "if xs = [] then e # r else '','' @ join '','' (map f xs) @ e # r"
  have lhs: "join '','' (map f (x # xs)) @ e # r = f x @ ?r"
    by (simp only: list.map join_Cons_comma) simp
  show ?case
  proof (cases ys)
    case Nil
    with Cons.prems(2) lhs have "f x @ ?r = e # r'" by simp
    with head [of x] show ?thesis by (metis hd_append2 list.sel(1))
  next
    case (Cons y ys')
    let ?r' = "if ys' = [] then e # r' else '','' @ join '','' (map f ys') @ e # r'"
    have "join '','' (map f ys) @ e # r' = f y @ ?r'"
      unfolding Cons by (simp only: list.map join_Cons_comma) simp
    with Cons.prems(2) lhs have "f x @ ?r = f y @ ?r'" by simp
    moreover have "delimited ?r" "delimited ?r'" using e by auto
    moreover have det: "\<And>r r'. delimited r \<Longrightarrow> delimited r' \<Longrightarrow> f x @ r = f y @ r' \<Longrightarrow> x = y \<and> r = r'"
      using Cons.prems(1) by (simp add: determined_def)
    ultimately have xy: "x = y" "?r = ?r'"
      using det by blast+
    have "e \<noteq> CHR '',''" using e by auto
    with xy(2) have "join '','' (map f xs) @ e # r = join '','' (map f ys') @ e # r'"
      by (simp split: if_splits)
    with Cons.IH [of ys'] Cons.prems(1) xy Cons show ?thesis by simp
  qed
qed

text \<open>The first character tells the constructor.\<close>

definition char_kind :: "char \<Rightarrow> nat" where
  "char_kind c = (if c = CHR ''n'' then 0 else if c = CHR ''t'' \<or> c = CHR ''f'' then 1
     else if c = CHR 0x22 then 3 else if c = CHR ''['' then 4 else if c = CHR ''{'' then 5 else 2)"

fun json_kind :: "json \<Rightarrow> nat" where
  "json_kind JNull = 0"
| "json_kind (JBool b) = 1"
| "json_kind (JNum n) = 2"
| "json_kind (JStr s) = 3"
| "json_kind (JArr js) = 4"
| "json_kind (JObj kvs) = 5"

lemma char_kind_digit: "is_digit c \<Longrightarrow> char_kind c = 2"
  by (auto simp: char_kind_def is_digit_def)

lemma char_kind_stringify: "char_kind (hd (stringify j @ r)) = json_kind j"
proof (cases j)
  case (JNum n)
  then show ?thesis
    using char_kind_digit [OF hd_nat_digits] by (simp add: str_int_def) (simp add: char_kind_def)
qed (auto simp: json_quote_def char_kind_def)

lemma stringify_same_kind: "stringify j @ r = stringify k @ r' \<Longrightarrow> json_kind j = json_kind k"
  by (metis char_kind_stringify)

lemma determined_stringifyI:
  assumes "\<And>y r r'. delimited r \<Longrightarrow> delimited r' \<Longrightarrow> json_kind y = json_kind j \<Longrightarrow>
    stringify j @ r = stringify y @ r' \<Longrightarrow> j = y \<and> r = r'"
  shows "determined stringify j"
  unfolding determined_def
proof (intro allI impI)
  fix y r r' assume "delimited r" "delimited r'" and eq: "stringify j @ r = stringify y @ r'"
  with assms stringify_same_kind [OF eq] show "j = y \<and> r = r'" by metis
qed

lemma determined_member:
  assumes "determined stringify (snd p)"
  shows "determined (\<lambda>(k, v). json_quote k @ '':'' @ stringify v) p"
  using assms by (cases p) (auto simp: determined_def dest!: json_quote_prefix)

lemma determined_array:
  assumes "\<And>j. j \<in> set js \<Longrightarrow> determined stringify j"
  shows "determined stringify (JArr js)"
proof (rule determined_stringifyI)
  fix y r r' assume "json_kind y = json_kind (JArr js)" and eq: "stringify (JArr js) @ r = stringify y @ r'"
  then obtain ks where y: "y = JArr ks" by (cases y) simp_all
  have "js = ks \<and> r = r'"
    by (rule join_determined [where f = stringify and e = "CHR '']''"]) (use assms eq y hd_stringify in auto)
  with y show "JArr js = y \<and> r = r'" by simp
qed

lemma determined_object:
  assumes "\<And>p. p \<in> set kvs \<Longrightarrow> determined stringify (snd p)"
  shows "determined stringify (JObj kvs)"
proof (rule determined_stringifyI)
  fix y r r' assume "json_kind y = json_kind (JObj kvs)" and eq: "stringify (JObj kvs) @ r = stringify y @ r'"
  then obtain ks where y: "y = JObj ks" by (cases y) simp_all
  have "kvs = ks \<and> r = r'"
    by (rule join_determined [where f = "\<lambda>(k, v). json_quote k @ '':'' @ stringify v" and e = "CHR ''}''"])
       (use assms determined_member eq y in \<open>auto simp: json_quote_def\<close>)
  with y show "JObj kvs = y \<and> r = r'" by simp
qed

lemma determined_stringify: "determined stringify j"
proof (induction j)
  case JNull
  show ?case
  proof (rule determined_stringifyI)
    fix y r r' assume "json_kind y = json_kind JNull" "stringify JNull @ r = stringify y @ r'"
    then show "JNull = y \<and> r = r'" by (cases y) simp_all
  qed
next
  case (JBool b)
  show ?case
  proof (rule determined_stringifyI)
    fix y r r' assume "json_kind y = json_kind (JBool b)" "stringify (JBool b) @ r = stringify y @ r'"
    then show "JBool b = y \<and> r = r'" by (cases y) (simp_all split: if_splits)
  qed
next
  case (JNum n)
  show ?case
  proof (rule determined_stringifyI)
    fix y r r' assume "delimited r" "delimited r'" "json_kind y = json_kind (JNum n)" "stringify (JNum n) @ r = stringify y @ r'"
    then show "JNum n = y \<and> r = r'" by (cases y) (auto dest: str_int_prefix)
  qed
next
  case (JStr s)
  show ?case
  proof (rule determined_stringifyI)
    fix y r r' assume "json_kind y = json_kind (JStr s)" "stringify (JStr s) @ r = stringify y @ r'"
    then show "JStr s = y \<and> r = r'" by (cases y) (auto dest: json_quote_prefix)
  qed
next
  case (JArr js)
  then show ?case by (rule determined_array)
next
  case (JObj kvs)
  then show ?case by (intro determined_object) auto
qed

theorem stringify_inject: "stringify j = stringify k \<Longrightarrow> j = k"
  using determined_stringify [of j] unfolding determined_def by (metis append_Nil2 delimited_comma(4))

end
