(* ===== verification/Api_Client.thy ===== *)
theory Api_Client
  imports Json
begin

text \<open>
  \<^verbatim>\<open>src/ui/admin/src/api/client.ts\<close>: the typed client of the control API: the \<open>request\<close> wrapper around \<open>fetch\<close> with all its branches, the
  interfaces, and one definition per resource operation.  An operation is the call it makes
  of \<open>request\<close> (path and options); \<open>run_call\<close> performs it.  The network is the parameter
  \<open>fetch\<close>.
\<close>

section \<open>The request wrapper\<close>

definition BASE :: string where
  "BASE = ''/api/v1''"

type_synonym headers = "(string \<times> string) list"

record request_init =
  init_method :: "string option"
  init_headers :: "headers option"
  init_body :: "string option"

definition no_init :: request_init where
  "no_init = \<lparr>init_method = None, init_headers = None, init_body = None\<rparr>"

record fetch_args =
  fetch_url :: string
  fetch_method :: "string option"
  fetch_headers :: headers
  fetch_body :: "string option"

record response =
  res_status :: int
  res_statusText :: string
  res_text :: "string option"
  res_json :: "js_thrown + json"

definition res_ok :: "response \<Rightarrow> bool" where
  "res_ok r = (200 \<le> res_status r \<and> res_status r \<le> 299)"

type_synonym fetch = "fetch_args \<Rightarrow> js_thrown + response"

text \<open>Object spread: a later key replaces an earlier one.\<close>

fun put :: "headers \<Rightarrow> string \<times> string \<Rightarrow> headers" where
  "put [] (k, v) = [(k, v)]"
| "put ((k', v') # hs) (k, v) = (if k' = k then (k, v) # hs else (k', v') # put hs (k, v))"

definition spread :: "headers \<Rightarrow> headers \<Rightarrow> headers" where
  "spread hs hs' = foldl put hs hs'"

text \<open>
  The object handed to \<open>fetch\<close>: a \<open>headers\<close> property with the content type and the caller's
  headers, and then all properties of \<open>init\<close>, \<open>headers\<close> among them.
\<close>

definition fetch_options :: "string \<Rightarrow> request_init \<Rightarrow> fetch_args" where
  "fetch_options path init =
     \<lparr>fetch_url = BASE @ path,
      fetch_method = init_method init,
      fetch_headers =
        (let merged = spread [(''Content-Type'', ''application/json'')] (nullish (init_headers init) [])
         in case init_headers init of None \<Rightarrow> merged | Some hs \<Rightarrow> hs),
      fetch_body = init_body init\<rparr>"

definition request :: "fetch \<Rightarrow> string \<Rightarrow> request_init \<Rightarrow> js_thrown + json option" where
  "request fetch path init =
     (case fetch (fetch_options path init) of
        Inl e \<Rightarrow> Inl e
      | Inr res \<Rightarrow>
          if \<not> res_ok res
          then Inl (JsError (str_int (res_status res) @ '' '' @ nullish (res_text res) (res_statusText res)))
          else if res_status res = 204 then Inr None
          else (case res_json res of Inl e \<Rightarrow> Inl e | Inr j \<Rightarrow> Inr (Some j)))"

type_synonym api_call = "string \<times> request_init"

definition run_call :: "fetch \<Rightarrow> api_call \<Rightarrow> js_thrown + json option" where
  "run_call fetch c = request fetch (fst c) (snd c)"

definition get_call :: "string \<Rightarrow> api_call" where
  "get_call path = (path, no_init)"

definition send_call :: "string \<Rightarrow> string \<Rightarrow> json \<Rightarrow> api_call" where
  "send_call m path body =
     (path, no_init\<lparr>init_method := Some m, init_body := Some (stringify body)\<rparr>)"

definition bare_call :: "string \<Rightarrow> string \<Rightarrow> api_call" where
  "bare_call m path = (path, no_init\<lparr>init_method := Some m\<rparr>)"

section \<open>Interfaces\<close>

record Tenant =
  t_id :: string
  t_name :: string
  t_slug :: string
  t_enabled :: bool
  t_created_at :: string
  t_updated_at :: string

record CreateTenantBody =
  ct_name :: string
  ct_slug :: string
  ct_enabled :: "bool option"

record UpdateTenantBody =
  ut_name :: "string option"
  ut_slug :: "string option"
  ut_enabled :: "bool option"

record Upstream =
  u_id :: string
  u_tenant_id :: string
  u_name :: string
  u_base_url :: string
  u_timeout_ms :: int
  u_enabled :: bool
  u_created_at :: string
  u_updated_at :: string

record CreateUpstreamBody =
  cu_name :: string
  cu_base_url :: string
  cu_timeout_ms :: "int option"
  cu_enabled :: "bool option"

record UpdateUpstreamBody =
  uu_name :: "string option"
  uu_base_url :: "string option"
  uu_timeout_ms :: "int option"
  uu_enabled :: "bool option"

record Route =
  r_id :: string
  r_tenant_id :: string
  r_upstream_id :: string
  r_method :: string
  r_path_prefix :: string
  r_host :: string
  r_enabled :: bool
  r_created_at :: string
  r_updated_at :: string

record CreateRouteBody =
  cr_method :: "string option"
  cr_path_prefix :: string
  cr_host :: "string option"
  cr_upstream_id :: string
  cr_enabled :: "bool option"

record UpdateRouteBody =
  ur_method :: "string option"
  ur_path_prefix :: "string option"
  ur_host :: "string option"
  ur_upstream_id :: "string option"
  ur_enabled :: "bool option"

record ListQuery =
  q_limit :: "int option"
  q_offset :: "int option"

record AiProvider =
  p_id :: string
  p_tenant_id :: string
  p_name :: string
  p_slug :: string
  p_base_url :: "string option"
  p_enabled :: bool
  p_created_at :: string
  p_updated_at :: string

record CreateAiProviderBody =
  cap_name :: string
  cap_slug :: string
  cap_base_url :: "string option"
  cap_api_key_env :: "string option"
  cap_enabled :: "bool option"

datatype RateLimitScope = ScopeTenant | ScopeConsumer | ScopeRoute | ScopeIp
datatype RateLimitAlgorithm = TokenBucket | SlidingWindow | FixedWindow

record RateLimitPolicy =
  rl_id :: string
  rl_tenant_id :: string
  rl_name :: string
  rl_scope :: RateLimitScope
  rl_algorithm :: RateLimitAlgorithm
  rl_rate_limit :: int
  rl_window_secs :: int
  rl_burst_limit :: "int option"
  rl_enabled :: bool
  rl_created_at :: string

text \<open>A number computed with \<open>parseInt\<close> may be \<open>NaN\<close> (\<open>Some None\<close>).\<close>

record CreateRateLimitPolicyBody =
  crl_name :: string
  crl_scope :: RateLimitScope
  crl_algorithm :: RateLimitAlgorithm
  crl_rate_limit :: int
  crl_window_secs :: int
  crl_burst_limit :: "int option option"
  crl_enabled :: "bool option"

datatype PluginTrigger = OnRequest | OnResponse | Both

record WasmPlugin =
  w_id :: string
  w_tenant_id :: string
  w_name :: string
  w_version :: string
  w_trigger :: PluginTrigger
  w_sha256 :: string
  w_enabled :: bool
  w_created_at :: string

record CreateWasmPluginBody =
  cw_name :: string
  cw_version :: string
  cw_trigger :: PluginTrigger
  cw_storage_url :: "string option"
  cw_enabled :: "bool option"

record Consumer =
  c_id :: string
  c_tenant_id :: string
  c_name :: string
  c_api_key_prefix :: "string option"
  c_enabled :: bool
  c_created_at :: string

record CreateConsumerBody =
  cc_name :: string
  cc_enabled :: "bool option"

record Region =
  rg_id :: string
  rg_name :: string
  rg_kafka_brokers :: string
  rg_is_primary :: bool
  rg_created_at :: string

record CreateRegionBody =
  crg_name :: string
  crg_kafka_brokers :: string
  crg_is_primary :: "bool option"

record Checkpoint =
  cp_id :: string
  cp_sequence :: int
  cp_note :: "string option"
  cp_snapshot :: "(string \<times> json) list"
  cp_created_at :: string

record CreateCheckpointBody =
  ccp_note :: "string option"

section \<open>Bodies as JSON\<close>

definition CreateTenantBody_json :: "CreateTenantBody \<Rightarrow> json" where
  "CreateTenantBody_json b = JObj
     ([(''name'', JStr (ct_name b)), (''slug'', JStr (ct_slug b))]
      @ opt_field ''enabled'' JBool (ct_enabled b))"

definition UpdateTenantBody_json :: "UpdateTenantBody \<Rightarrow> json" where
  "UpdateTenantBody_json b = JObj
     (opt_field ''name'' JStr (ut_name b) @ opt_field ''slug'' JStr (ut_slug b)
      @ opt_field ''enabled'' JBool (ut_enabled b))"

definition CreateUpstreamBody_json :: "CreateUpstreamBody \<Rightarrow> json" where
  "CreateUpstreamBody_json b = JObj
     ([(''name'', JStr (cu_name b)), (''base_url'', JStr (cu_base_url b))]
      @ opt_field ''timeout_ms'' JNum (cu_timeout_ms b) @ opt_field ''enabled'' JBool (cu_enabled b))"

definition UpdateUpstreamBody_json :: "UpdateUpstreamBody \<Rightarrow> json" where
  "UpdateUpstreamBody_json b = JObj
     (opt_field ''name'' JStr (uu_name b) @ opt_field ''base_url'' JStr (uu_base_url b)
      @ opt_field ''timeout_ms'' JNum (uu_timeout_ms b) @ opt_field ''enabled'' JBool (uu_enabled b))"

definition CreateRouteBody_json :: "CreateRouteBody \<Rightarrow> json" where
  "CreateRouteBody_json b = JObj
     (opt_field ''method'' JStr (cr_method b) @ [(''path_prefix'', JStr (cr_path_prefix b))]
      @ opt_field ''host'' JStr (cr_host b) @ [(''upstream_id'', JStr (cr_upstream_id b))]
      @ opt_field ''enabled'' JBool (cr_enabled b))"

definition UpdateRouteBody_json :: "UpdateRouteBody \<Rightarrow> json" where
  "UpdateRouteBody_json b = JObj
     (opt_field ''method'' JStr (ur_method b) @ opt_field ''path_prefix'' JStr (ur_path_prefix b)
      @ opt_field ''host'' JStr (ur_host b) @ opt_field ''upstream_id'' JStr (ur_upstream_id b)
      @ opt_field ''enabled'' JBool (ur_enabled b))"

definition CreateAiProviderBody_json :: "CreateAiProviderBody \<Rightarrow> json" where
  "CreateAiProviderBody_json b = JObj
     ([(''name'', JStr (cap_name b)), (''slug'', JStr (cap_slug b))]
      @ opt_field ''base_url'' JStr (cap_base_url b)
      @ opt_field ''api_key_env'' JStr (cap_api_key_env b)
      @ opt_field ''enabled'' JBool (cap_enabled b))"

fun scope_name :: "RateLimitScope \<Rightarrow> string" where
  "scope_name ScopeTenant = ''tenant''"
| "scope_name ScopeConsumer = ''consumer''"
| "scope_name ScopeRoute = ''route''"
| "scope_name ScopeIp = ''ip''"

fun algorithm_name :: "RateLimitAlgorithm \<Rightarrow> string" where
  "algorithm_name TokenBucket = ''token_bucket''"
| "algorithm_name SlidingWindow = ''sliding_window''"
| "algorithm_name FixedWindow = ''fixed_window''"

fun trigger_name :: "PluginTrigger \<Rightarrow> string" where
  "trigger_name OnRequest = ''on_request''"
| "trigger_name OnResponse = ''on_response''"
| "trigger_name Both = ''both''"

definition CreateRateLimitPolicyBody_json :: "CreateRateLimitPolicyBody \<Rightarrow> json" where
  "CreateRateLimitPolicyBody_json b = JObj
     ([(''name'', JStr (crl_name b)), (''scope'', JStr (scope_name (crl_scope b))),
       (''algorithm'', JStr (algorithm_name (crl_algorithm b))),
       (''rate_limit'', JNum (crl_rate_limit b)), (''window_secs'', JNum (crl_window_secs b))]
      @ opt_field ''burst_limit'' json_num (crl_burst_limit b)
      @ opt_field ''enabled'' JBool (crl_enabled b))"

definition CreateWasmPluginBody_json :: "CreateWasmPluginBody \<Rightarrow> json" where
  "CreateWasmPluginBody_json b = JObj
     ([(''name'', JStr (cw_name b)), (''version'', JStr (cw_version b)),
       (''trigger'', JStr (trigger_name (cw_trigger b)))]
      @ opt_field ''storage_url'' JStr (cw_storage_url b) @ opt_field ''enabled'' JBool (cw_enabled b))"

definition CreateConsumerBody_json :: "CreateConsumerBody \<Rightarrow> json" where
  "CreateConsumerBody_json b = JObj
     ([(''name'', JStr (cc_name b))] @ opt_field ''enabled'' JBool (cc_enabled b))"

definition CreateRegionBody_json :: "CreateRegionBody \<Rightarrow> json" where
  "CreateRegionBody_json b = JObj
     ([(''name'', JStr (crg_name b)), (''kafka_brokers'', JStr (crg_kafka_brokers b))]
      @ opt_field ''is_primary'' JBool (crg_is_primary b))"

definition CreateCheckpointBody_json :: "CreateCheckpointBody \<Rightarrow> json" where
  "CreateCheckpointBody_json b = JObj (opt_field ''note'' JStr (ccp_note b))"

section \<open>Operations\<close>

text \<open>The query string of the three paged lists; an absent query means \<open>{}\<close>.\<close>

definition page_params :: "ListQuery option \<Rightarrow> string" where
  "page_params q =
     ''?limit='' @ str_int (nullish (Option.bind q q_limit) 50)
     @ ''&offset='' @ str_int (nullish (Option.bind q q_offset) 0)"

definition tenant_path :: "string \<Rightarrow> string \<Rightarrow> string" where
  "tenant_path tid rest = ''/tenants/'' @ tid @ rest"

definition tenants_list :: "ListQuery option \<Rightarrow> api_call" where
  "tenants_list q = get_call (''/tenants'' @ page_params q)"

definition tenants_get :: "string \<Rightarrow> api_call" where
  "tenants_get tid = get_call (''/tenants/'' @ tid)"

definition tenants_create :: "CreateTenantBody \<Rightarrow> api_call" where
  "tenants_create body = send_call ''POST'' ''/tenants'' (CreateTenantBody_json body)"

definition tenants_update :: "string \<Rightarrow> UpdateTenantBody \<Rightarrow> api_call" where
  "tenants_update tid body = send_call ''PATCH'' (''/tenants/'' @ tid) (UpdateTenantBody_json body)"

definition tenants_delete :: "string \<Rightarrow> api_call" where
  "tenants_delete tid = bare_call ''DELETE'' (''/tenants/'' @ tid)"

definition upstreams_list :: "string \<Rightarrow> ListQuery option \<Rightarrow> api_call" where
  "upstreams_list tid q = get_call (tenant_path tid (''/upstreams'' @ page_params q))"

definition upstreams_get :: "string \<Rightarrow> string \<Rightarrow> api_call" where
  "upstreams_get tid uid = get_call (tenant_path tid (''/upstreams/'' @ uid))"

definition upstreams_create :: "string \<Rightarrow> CreateUpstreamBody \<Rightarrow> api_call" where
  "upstreams_create tid body =
     send_call ''POST'' (tenant_path tid ''/upstreams'') (CreateUpstreamBody_json body)"

definition upstreams_update :: "string \<Rightarrow> string \<Rightarrow> UpdateUpstreamBody \<Rightarrow> api_call" where
  "upstreams_update tid uid body =
     send_call ''PATCH'' (tenant_path tid (''/upstreams/'' @ uid)) (UpdateUpstreamBody_json body)"

definition upstreams_delete :: "string \<Rightarrow> string \<Rightarrow> api_call" where
  "upstreams_delete tid uid = bare_call ''DELETE'' (tenant_path tid (''/upstreams/'' @ uid))"

definition routes_list :: "string \<Rightarrow> ListQuery option \<Rightarrow> api_call" where
  "routes_list tid q = get_call (tenant_path tid (''/routes'' @ page_params q))"

definition routes_get :: "string \<Rightarrow> string \<Rightarrow> api_call" where
  "routes_get tid rid = get_call (tenant_path tid (''/routes/'' @ rid))"

definition routes_create :: "string \<Rightarrow> CreateRouteBody \<Rightarrow> api_call" where
  "routes_create tid body =
     send_call ''POST'' (tenant_path tid ''/routes'') (CreateRouteBody_json body)"

definition routes_update :: "string \<Rightarrow> string \<Rightarrow> UpdateRouteBody \<Rightarrow> api_call" where
  "routes_update tid rid body =
     send_call ''PATCH'' (tenant_path tid (''/routes/'' @ rid)) (UpdateRouteBody_json body)"

definition routes_delete :: "string \<Rightarrow> string \<Rightarrow> api_call" where
  "routes_delete tid rid = bare_call ''DELETE'' (tenant_path tid (''/routes/'' @ rid))"

definition aiProviders_list :: "string \<Rightarrow> api_call" where
  "aiProviders_list tid = get_call (tenant_path tid ''/ai-providers'')"

definition aiProviders_create :: "string \<Rightarrow> CreateAiProviderBody \<Rightarrow> api_call" where
  "aiProviders_create tid body =
     send_call ''POST'' (tenant_path tid ''/ai-providers'') (CreateAiProviderBody_json body)"

definition aiProviders_delete :: "string \<Rightarrow> string \<Rightarrow> api_call" where
  "aiProviders_delete tid pid = bare_call ''DELETE'' (tenant_path tid (''/ai-providers/'' @ pid))"

definition rateLimitPolicies_list :: "string \<Rightarrow> api_call" where
  "rateLimitPolicies_list tid = get_call (tenant_path tid ''/rate-limit-policies'')"

definition rateLimitPolicies_create :: "string \<Rightarrow> CreateRateLimitPolicyBody \<Rightarrow> api_call" where
  "rateLimitPolicies_create tid body =
     send_call ''POST'' (tenant_path tid ''/rate-limit-policies'') (CreateRateLimitPolicyBody_json body)"

definition rateLimitPolicies_delete :: "string \<Rightarrow> string \<Rightarrow> api_call" where
  "rateLimitPolicies_delete tid pid =
     bare_call ''DELETE'' (tenant_path tid (''/rate-limit-policies/'' @ pid))"

definition wasmPlugins_list :: "string \<Rightarrow> api_call" where
  "wasmPlugins_list tid = get_call (tenant_path tid ''/wasm-plugins'')"

definition wasmPlugins_create :: "string \<Rightarrow> CreateWasmPluginBody \<Rightarrow> api_call" where
  "wasmPlugins_create tid body =
     send_call ''POST'' (tenant_path tid ''/wasm-plugins'') (CreateWasmPluginBody_json body)"

definition wasmPlugins_delete :: "string \<Rightarrow> string \<Rightarrow> api_call" where
  "wasmPlugins_delete tid pid = bare_call ''DELETE'' (tenant_path tid (''/wasm-plugins/'' @ pid))"

definition consumers_list :: "string \<Rightarrow> api_call" where
  "consumers_list tid = get_call (tenant_path tid ''/consumers'')"

definition consumers_create :: "string \<Rightarrow> CreateConsumerBody \<Rightarrow> api_call" where
  "consumers_create tid body =
     send_call ''POST'' (tenant_path tid ''/consumers'') (CreateConsumerBody_json body)"

definition consumers_delete :: "string \<Rightarrow> string \<Rightarrow> api_call" where
  "consumers_delete tid cid = bare_call ''DELETE'' (tenant_path tid (''/consumers/'' @ cid))"

definition regions_list :: api_call where
  "regions_list = get_call ''/regions''"

definition regions_create :: "CreateRegionBody \<Rightarrow> api_call" where
  "regions_create body = send_call ''POST'' ''/regions'' (CreateRegionBody_json body)"

definition regions_delete :: "string \<Rightarrow> api_call" where
  "regions_delete rid = bare_call ''DELETE'' (''/regions/'' @ rid)"

definition checkpoints_list :: api_call where
  "checkpoints_list = get_call ''/checkpoints''"

definition checkpoints_create :: "CreateCheckpointBody \<Rightarrow> api_call" where
  "checkpoints_create body = send_call ''POST'' ''/checkpoints'' (CreateCheckpointBody_json body)"

definition checkpoints_rollback :: "string \<Rightarrow> api_call" where
  "checkpoints_rollback cid = bare_call ''POST'' (''/checkpoints/'' @ cid @ ''/rollback'')"

lemmas api_defs = tenants_list_def tenants_get_def tenants_create_def tenants_update_def
  tenants_delete_def upstreams_list_def upstreams_get_def upstreams_create_def
  upstreams_update_def upstreams_delete_def routes_list_def routes_get_def routes_create_def
  routes_update_def routes_delete_def aiProviders_list_def aiProviders_create_def
  aiProviders_delete_def rateLimitPolicies_list_def rateLimitPolicies_create_def
  rateLimitPolicies_delete_def wasmPlugins_list_def wasmPlugins_create_def
  wasmPlugins_delete_def consumers_list_def consumers_create_def consumers_delete_def
  regions_list_def regions_create_def regions_delete_def checkpoints_list_def
  checkpoints_create_def checkpoints_rollback_def

section \<open>Lemmas\<close>

lemmas call_simps = get_call_def send_call_def bare_call_def no_init_def

text \<open>All calls the client can make, and those on behalf of one tenant.\<close>

definition tenant_calls :: "string \<Rightarrow> api_call set" where
  "tenant_calls tid =
     range (upstreams_list tid) \<union> range (upstreams_get tid) \<union> range (upstreams_create tid)
     \<union> {upstreams_update tid i b | i b. True} \<union> range (upstreams_delete tid)
     \<union> range (routes_list tid) \<union> range (routes_get tid) \<union> range (routes_create tid)
     \<union> {routes_update tid i b | i b. True} \<union> range (routes_delete tid)
     \<union> {aiProviders_list tid} \<union> range (aiProviders_create tid) \<union> range (aiProviders_delete tid)
     \<union> {rateLimitPolicies_list tid} \<union> range (rateLimitPolicies_create tid)
     \<union> range (rateLimitPolicies_delete tid)
     \<union> {wasmPlugins_list tid} \<union> range (wasmPlugins_create tid) \<union> range (wasmPlugins_delete tid)
     \<union> {consumers_list tid} \<union> range (consumers_create tid) \<union> range (consumers_delete tid)"

definition global_calls :: "api_call set" where
  "global_calls =
     range tenants_list \<union> range tenants_get \<union> range tenants_create
     \<union> {tenants_update i b | i b. True} \<union> range tenants_delete
     \<union> {regions_list} \<union> range regions_create \<union> range regions_delete
     \<union> {checkpoints_list} \<union> range checkpoints_create \<union> range checkpoints_rollback"

definition client_calls :: "api_call set" where
  "client_calls = global_calls \<union> (\<Union>tid. tenant_calls tid)"

lemma tenant_calls_path:
  "c \<in> tenant_calls tid \<Longrightarrow> \<exists>rest. fst c = ''/tenants/'' @ tid @ ''/'' @ rest"
  unfolding tenant_calls_def by (auto simp: api_defs call_simps tenant_path_def)

lemma tenant_calls_init:
  "c \<in> tenant_calls tid \<Longrightarrow> init_headers (snd c) = None \<and>
     (init_body (snd c) \<noteq> None \<longrightarrow> init_method (snd c) \<in> {Some ''POST'', Some ''PATCH''})"
  unfolding tenant_calls_def by (auto simp: api_defs call_simps)

lemma global_calls_init:
  "c \<in> global_calls \<Longrightarrow> init_headers (snd c) = None \<and>
     (init_body (snd c) \<noteq> None \<longrightarrow> init_method (snd c) \<in> {Some ''POST'', Some ''PATCH''})"
  unfolding global_calls_def by (auto simp: api_defs call_simps)

lemma global_calls_path: "c \<in> global_calls \<Longrightarrow> \<exists>rest. fst c = CHR ''/'' # rest"
  unfolding global_calls_def by (auto simp: api_defs call_simps)

lemma client_calls_init:
  "c \<in> client_calls \<Longrightarrow> init_headers (snd c) = None \<and>
     (init_body (snd c) \<noteq> None \<longrightarrow> init_method (snd c) \<in> {Some ''POST'', Some ''PATCH''})"
  unfolding client_calls_def using global_calls_init tenant_calls_init by blast

lemma client_calls_path: "c \<in> client_calls \<Longrightarrow> \<exists>rest. fst c = CHR ''/'' # rest"
  unfolding client_calls_def using global_calls_path tenant_calls_path by fastforce

lemma json_inj [simp]: "inj JStr" "inj JNum" "inj JBool" "inj json_num"
  by (auto simp: inj_def json_num_def split: option.splits)

lemma scope_name_inject [simp]: "scope_name a = scope_name b \<longleftrightarrow> a = b"
  by (cases a; cases b) simp_all

lemma algorithm_name_inject [simp]: "algorithm_name a = algorithm_name b \<longleftrightarrow> a = b"
  by (cases a; cases b) simp_all

lemma trigger_name_inject [simp]: "trigger_name a = trigger_name b \<longleftrightarrow> a = b"
  by (cases a; cases b) simp_all



section \<open>Properties\<close>



text \<open>every call of the client goes to \<open>/api/v1/...\<close> with the JSON content type and no other
  header, and carries a body only as a POST or a PATCH.\<close>

theorem client_requests_json:
  assumes "c \<in> client_calls"
  shows "let a = fetch_options (fst c) (snd c) in
      fetch_headers a = [(''Content-Type'', ''application/json'')]
      \<and> prefix ''/api/v1/'' (fetch_url a)
      \<and> (fetch_body a \<noteq> None \<longrightarrow> fetch_method a \<in> {Some ''POST'', Some ''PATCH''})"
  using client_calls_init [OF assms] client_calls_path [OF assms]
  by (auto simp: fetch_options_def spread_def BASE_def)

theorem client_requests_json_witness:
  "fetch_headers (fetch_options (fst (tenants_delete ''a'')) (snd (tenants_delete ''a'')))
     = [(''Content-Type'', ''application/json'')]"
proof -
  have "tenants_delete ''a'' \<in> client_calls" by (auto simp: client_calls_def global_calls_def)
  from client_requests_json [OF this] show ?thesis by (simp add: Let_def)
qed

text \<open>a caller of \<open>request\<close> that passes headers of its own replaces the content type instead
  of adding to it: the spread of \<open>init\<close> after the merged \<open>headers\<close> property overwrites it.\<close>

theorem request_headers_replaced:
  "\<exists>init. init_headers init = Some [(''X-Trace'', ''1'')]
     \<and> fetch_headers (fetch_options path init) = [(''X-Trace'', ''1'')]
     \<and> map_of (fetch_headers (fetch_options path init)) ''Content-Type'' = None
     \<and> map_of (spread [(''Content-Type'', ''application/json'')] [(''X-Trace'', ''1'')]) ''Content-Type''
        = Some ''application/json''"
  by (rule exI [of _ "no_init\<lparr>init_headers := Some [(''X-Trace'', ''1'')]\<rparr>"])
     (simp add: fetch_options_def spread_def)

text \<open>C10: the calls made for one tenant stay under that tenant's path, and for tenant ids
  without a slash no call made for one tenant has the path of a call made for another.\<close>

theorem tenant_calls_isolated:
  assumes "c \<in> tenant_calls tid" and "c' \<in> tenant_calls tid'"
    and "CHR ''/'' \<notin> set tid" and "CHR ''/'' \<notin> set tid'"
  shows "prefix (''/tenants/'' @ tid @ ''/'') (fst c) \<and> (fst c = fst c' \<longrightarrow> tid = tid')"
proof -
  obtain r r' where p: "fst c = ''/tenants/'' @ tid @ CHR ''/'' # r"
      "fst c' = ''/tenants/'' @ tid' @ CHR ''/'' # r'"
    using tenant_calls_path [OF assms(1)] tenant_calls_path [OF assms(2)] by auto
  moreover have "tid = tid'" if "fst c = fst c'"
  proof -
    from that p have "split_on (CHR ''/'') (tid @ CHR ''/'' # r) = split_on (CHR ''/'') (tid' @ CHR ''/'' # r')"
      by simp
    with assms(3,4) show ?thesis by (simp add: split_on_append_sep)
  qed
  ultimately show ?thesis by simp
qed

theorem tenant_calls_isolated_witness:
  "prefix ''/tenants/t1/'' (fst (routes_delete ''t1'' ''r''))
   \<and> fst (routes_delete ''t1'' ''r'') \<noteq> fst (routes_delete ''t2'' ''r'')"
proof -
  have "routes_delete ''t1'' ''r'' \<in> tenant_calls ''t1''" "routes_delete ''t2'' ''r'' \<in> tenant_calls ''t2''"
    by (auto simp: tenant_calls_def)
  from tenant_calls_isolated [OF this] show ?thesis by auto
qed

end
