(* ===== verification/Queries.thy ===== *)
theory Queries
  imports Api_Client
begin

text \<open>
  The data hooks \<^verbatim>\<open>src/ui/admin/src/hooks/use-*.ts\<close>.  A hook is the options object it hands to
  TanStack Query: for a list hook the query key, the call and whether it is enabled; for a
  mutation hook the call it makes for its argument and, in order, what its \<open>onSuccess\<close> does
  (invalidate the list's key, then the caller's callback).  The query cache itself is the
  library's; what the console relies on is the locale \<open>query_client\<close>: invalidating a key
  marks exactly the queries whose key extends it as stale.
\<close>

type_synonym query_key = "json list"

record 'f query_options =
  queryKey :: query_key
  queryFn :: 'f
  queryEnabled :: bool

datatype 'e effect = Invalidate query_key | Emit 'e

record ('b, 'e) mutation_options =
  mutationFn :: "'b \<Rightarrow> api_call"
  onSuccess :: "'e effect list"

text \<open>\<open>onSuccess?.()\<close>\<close>

definition callback :: "'e option \<Rightarrow> 'e effect list" where
  "callback cb = (case cb of None \<Rightarrow> [] | Some e \<Rightarrow> [Emit e])"

definition limit_100 :: ListQuery where
  "limit_100 = \<lparr>q_limit = Some 100, q_offset = None\<rparr>"

section \<open>Tenants\<close>

definition tenants_KEY :: query_key where
  "tenants_KEY = [JStr ''tenants'']"

definition useTenants :: "api_call query_options" where
  "useTenants = \<lparr>queryKey = tenants_KEY, queryFn = tenants_list (Some limit_100), queryEnabled = True\<rparr>"

definition useCreateTenant :: "'e option \<Rightarrow> (CreateTenantBody, 'e) mutation_options" where
  "useCreateTenant cb =
     \<lparr>mutationFn = tenants_create, onSuccess = Invalidate tenants_KEY # callback cb\<rparr>"

definition useUpdateTenant :: "string \<Rightarrow> 'e option \<Rightarrow> (UpdateTenantBody, 'e) mutation_options" where
  "useUpdateTenant tid cb =
     \<lparr>mutationFn = tenants_update tid, onSuccess = Invalidate tenants_KEY # callback cb\<rparr>"

definition useDeleteTenant :: "'e option \<Rightarrow> (string, 'e) mutation_options" where
  "useDeleteTenant cb =
     \<lparr>mutationFn = tenants_delete, onSuccess = Invalidate tenants_KEY # callback cb\<rparr>"

section \<open>Upstreams\<close>

definition upstreams_key :: "string \<Rightarrow> query_key" where
  "upstreams_key tenantId = [JStr ''upstreams'', JStr tenantId]"

definition useUpstreams :: "string \<Rightarrow> api_call query_options" where
  "useUpstreams tenantId =
     \<lparr>queryKey = upstreams_key tenantId, queryFn = upstreams_list tenantId (Some limit_100),
      queryEnabled = (tenantId \<noteq> [])\<rparr>"

definition useCreateUpstream :: "string \<Rightarrow> 'e option \<Rightarrow> (CreateUpstreamBody, 'e) mutation_options" where
  "useCreateUpstream tenantId cb =
     \<lparr>mutationFn = upstreams_create tenantId,
      onSuccess = Invalidate (upstreams_key tenantId) # callback cb\<rparr>"

definition useUpdateUpstream ::
    "string \<Rightarrow> string \<Rightarrow> 'e option \<Rightarrow> (UpdateUpstreamBody, 'e) mutation_options" where
  "useUpdateUpstream tenantId uid cb =
     \<lparr>mutationFn = upstreams_update tenantId uid,
      onSuccess = Invalidate (upstreams_key tenantId) # callback cb\<rparr>"

definition useDeleteUpstream :: "string \<Rightarrow> 'e option \<Rightarrow> (string, 'e) mutation_options" where
  "useDeleteUpstream tenantId cb =
     \<lparr>mutationFn = upstreams_delete tenantId,
      onSuccess = Invalidate (upstreams_key tenantId) # callback cb\<rparr>"

section \<open>Routes\<close>

definition routes_key :: "string \<Rightarrow> query_key" where
  "routes_key tenantId = [JStr ''routes'', JStr tenantId]"

definition useRoutes :: "string \<Rightarrow> api_call query_options" where
  "useRoutes tenantId =
     \<lparr>queryKey = routes_key tenantId, queryFn = routes_list tenantId (Some limit_100),
      queryEnabled = (tenantId \<noteq> [])\<rparr>"

definition useCreateRoute :: "string \<Rightarrow> 'e option \<Rightarrow> (CreateRouteBody, 'e) mutation_options" where
  "useCreateRoute tenantId cb =
     \<lparr>mutationFn = routes_create tenantId,
      onSuccess = Invalidate (routes_key tenantId) # callback cb\<rparr>"

definition useUpdateRoute ::
    "string \<Rightarrow> string \<Rightarrow> 'e option \<Rightarrow> (UpdateRouteBody, 'e) mutation_options" where
  "useUpdateRoute tenantId rid cb =
     \<lparr>mutationFn = routes_update tenantId rid,
      onSuccess = Invalidate (routes_key tenantId) # callback cb\<rparr>"

definition useDeleteRoute :: "string \<Rightarrow> 'e option \<Rightarrow> (string, 'e) mutation_options" where
  "useDeleteRoute tenantId cb =
     \<lparr>mutationFn = routes_delete tenantId,
      onSuccess = Invalidate (routes_key tenantId) # callback cb\<rparr>"

section \<open>AI providers\<close>

definition aiProviders_key :: "string \<Rightarrow> query_key" where
  "aiProviders_key tenantId = [JStr ''ai-providers'', JStr tenantId]"

definition useAiProviders :: "string \<Rightarrow> api_call query_options" where
  "useAiProviders tenantId =
     \<lparr>queryKey = aiProviders_key tenantId, queryFn = aiProviders_list tenantId,
      queryEnabled = (tenantId \<noteq> [])\<rparr>"

definition useCreateAiProvider :: "string \<Rightarrow> 'e option \<Rightarrow> (CreateAiProviderBody, 'e) mutation_options" where
  "useCreateAiProvider tenantId cb =
     \<lparr>mutationFn = aiProviders_create tenantId,
      onSuccess = Invalidate (aiProviders_key tenantId) # callback cb\<rparr>"

definition useDeleteAiProvider :: "string \<Rightarrow> 'e option \<Rightarrow> (string, 'e) mutation_options" where
  "useDeleteAiProvider tenantId cb =
     \<lparr>mutationFn = aiProviders_delete tenantId,
      onSuccess = Invalidate (aiProviders_key tenantId) # callback cb\<rparr>"

section \<open>Rate limits\<close>

definition rateLimits_key :: "string \<Rightarrow> query_key" where
  "rateLimits_key tenantId = [JStr ''rate-limits'', JStr tenantId]"

definition useRateLimits :: "string \<Rightarrow> api_call query_options" where
  "useRateLimits tenantId =
     \<lparr>queryKey = rateLimits_key tenantId, queryFn = rateLimitPolicies_list tenantId,
      queryEnabled = (tenantId \<noteq> [])\<rparr>"

definition useCreateRateLimit ::
    "string \<Rightarrow> 'e option \<Rightarrow> (CreateRateLimitPolicyBody, 'e) mutation_options" where
  "useCreateRateLimit tenantId cb =
     \<lparr>mutationFn = rateLimitPolicies_create tenantId,
      onSuccess = Invalidate (rateLimits_key tenantId) # callback cb\<rparr>"

definition useDeleteRateLimit :: "string \<Rightarrow> 'e option \<Rightarrow> (string, 'e) mutation_options" where
  "useDeleteRateLimit tenantId cb =
     \<lparr>mutationFn = rateLimitPolicies_delete tenantId,
      onSuccess = Invalidate (rateLimits_key tenantId) # callback cb\<rparr>"

section \<open>WASM plugins\<close>

definition wasmPlugins_key :: "string \<Rightarrow> query_key" where
  "wasmPlugins_key tenantId = [JStr ''wasm-plugins'', JStr tenantId]"

definition useWasmPlugins :: "string \<Rightarrow> api_call query_options" where
  "useWasmPlugins tenantId =
     \<lparr>queryKey = wasmPlugins_key tenantId, queryFn = wasmPlugins_list tenantId,
      queryEnabled = (tenantId \<noteq> [])\<rparr>"

definition useCreateWasmPlugin :: "string \<Rightarrow> 'e option \<Rightarrow> (CreateWasmPluginBody, 'e) mutation_options" where
  "useCreateWasmPlugin tenantId cb =
     \<lparr>mutationFn = wasmPlugins_create tenantId,
      onSuccess = Invalidate (wasmPlugins_key tenantId) # callback cb\<rparr>"

definition useDeleteWasmPlugin :: "string \<Rightarrow> 'e option \<Rightarrow> (string, 'e) mutation_options" where
  "useDeleteWasmPlugin tenantId cb =
     \<lparr>mutationFn = wasmPlugins_delete tenantId,
      onSuccess = Invalidate (wasmPlugins_key tenantId) # callback cb\<rparr>"

section \<open>Consumers\<close>

definition consumers_key :: "string \<Rightarrow> query_key" where
  "consumers_key tenantId = [JStr ''consumers'', JStr tenantId]"

definition useConsumers :: "string \<Rightarrow> api_call query_options" where
  "useConsumers tenantId =
     \<lparr>queryKey = consumers_key tenantId, queryFn = consumers_list tenantId,
      queryEnabled = (tenantId \<noteq> [])\<rparr>"

definition useCreateConsumer :: "string \<Rightarrow> 'e option \<Rightarrow> (CreateConsumerBody, 'e) mutation_options" where
  "useCreateConsumer tenantId cb =
     \<lparr>mutationFn = consumers_create tenantId,
      onSuccess = Invalidate (consumers_key tenantId) # callback cb\<rparr>"

definition useDeleteConsumer :: "string \<Rightarrow> 'e option \<Rightarrow> (string, 'e) mutation_options" where
  "useDeleteConsumer tenantId cb =
     \<lparr>mutationFn = consumers_delete tenantId,
      onSuccess = Invalidate (consumers_key tenantId) # callback cb\<rparr>"

section \<open>Regions and checkpoints\<close>

definition regions_KEY :: query_key where
  "regions_KEY = [JStr ''regions'']"

definition useRegions :: "api_call query_options" where
  "useRegions = \<lparr>queryKey = regions_KEY, queryFn = regions_list, queryEnabled = True\<rparr>"

definition useCreateRegion :: "'e option \<Rightarrow> (CreateRegionBody, 'e) mutation_options" where
  "useCreateRegion cb =
     \<lparr>mutationFn = regions_create, onSuccess = Invalidate regions_KEY # callback cb\<rparr>"

definition useDeleteRegion :: "'e option \<Rightarrow> (string, 'e) mutation_options" where
  "useDeleteRegion cb =
     \<lparr>mutationFn = regions_delete, onSuccess = Invalidate regions_KEY # callback cb\<rparr>"

definition checkpoints_KEY :: query_key where
  "checkpoints_KEY = [JStr ''checkpoints'']"

definition useCheckpoints :: "api_call query_options" where
  "useCheckpoints = \<lparr>queryKey = checkpoints_KEY, queryFn = checkpoints_list, queryEnabled = True\<rparr>"

definition useCreateCheckpoint :: "'e option \<Rightarrow> (CreateCheckpointBody, 'e) mutation_options" where
  "useCreateCheckpoint cb =
     \<lparr>mutationFn = checkpoints_create, onSuccess = Invalidate checkpoints_KEY # callback cb\<rparr>"

definition useRollbackCheckpoint :: "'e option \<Rightarrow> (string, 'e) mutation_options" where
  "useRollbackCheckpoint cb =
     \<lparr>mutationFn = checkpoints_rollback, onSuccess = Invalidate checkpoints_KEY # callback cb\<rparr>"

lemmas key_defs = tenants_KEY_def upstreams_key_def routes_key_def aiProviders_key_def
  rateLimits_key_def wasmPlugins_key_def consumers_key_def regions_KEY_def checkpoints_KEY_def

lemmas list_hook_defs = useTenants_def useUpstreams_def useRoutes_def useAiProviders_def
  useRateLimits_def useWasmPlugins_def useConsumers_def useRegions_def useCheckpoints_def

lemmas mutation_hook_defs = useCreateTenant_def useUpdateTenant_def useDeleteTenant_def
  useCreateUpstream_def useUpdateUpstream_def useDeleteUpstream_def
  useCreateRoute_def useUpdateRoute_def useDeleteRoute_def
  useCreateAiProvider_def useDeleteAiProvider_def
  useCreateRateLimit_def useDeleteRateLimit_def
  useCreateWasmPlugin_def useDeleteWasmPlugin_def
  useCreateConsumer_def useDeleteConsumer_def
  useCreateRegion_def useDeleteRegion_def useCreateCheckpoint_def useRollbackCheckpoint_def

section \<open>The query cache\<close>

text \<open>The effects of a mutation's \<open>onSuccess\<close> on a cache, in order.\<close>

definition apply_effects ::
    "(query_key \<Rightarrow> 'c \<Rightarrow> 'c) \<Rightarrow> 'e effect list \<Rightarrow> 'c \<Rightarrow> 'c" where
  "apply_effects invalidate es c =
     fold (\<lambda>e c. case e of Invalidate k \<Rightarrow> invalidate k c | Emit _ \<Rightarrow> c) es c"

text \<open>What the console relies on of \<open>QueryClient.invalidateQueries\<close>: a filter of strings marks
  the queries whose key starts with it, and no other.\<close>

locale query_client =
  fixes stale :: "'c \<Rightarrow> query_key \<Rightarrow> bool"
    and invalidate :: "query_key \<Rightarrow> 'c \<Rightarrow> 'c"
  assumes stale_invalidate:
    "set p \<subseteq> range JStr \<Longrightarrow> stale (invalidate p c) k \<longleftrightarrow> prefix p k \<or> stale c k"
begin

lemma apply_effects_callback:
  "apply_effects invalidate (Invalidate k # callback cb) c = invalidate k c"
  by (simp add: apply_effects_def callback_def split: option.split)

lemma stale_after_mutation:
  assumes "set k \<subseteq> range JStr"
  shows "stale (apply_effects invalidate (Invalidate k # callback cb) c) k'
     \<longleftrightarrow> prefix k k' \<or> stale c k'"
  using assms by (simp add: apply_effects_callback stale_invalidate)

end

text \<open>The list of invalidated filters is a cache in this sense.\<close>

definition cache_stale :: "query_key list \<Rightarrow> query_key \<Rightarrow> bool" where
  "cache_stale c k = list_ex (\<lambda>p. prefix p k) c"

definition cache_invalidate :: "query_key \<Rightarrow> query_key list \<Rightarrow> query_key list" where
  "cache_invalidate p c = p # c"

interpretation qc: query_client cache_stale cache_invalidate
  by unfold_locales (simp add: cache_stale_def cache_invalidate_def)

section \<open>Which lists a mutation refreshes\<close>

text \<open>The keys under which the pages read their lists.\<close>

definition list_keys :: "query_key set" where
  "list_keys =
     {queryKey useTenants, queryKey useRegions, queryKey useCheckpoints}
     \<union> (\<Union>t. {queryKey (useUpstreams t), queryKey (useRoutes t), queryKey (useAiProviders t),
              queryKey (useRateLimits t), queryKey (useWasmPlugins t), queryKey (useConsumers t)})"

text \<open>
  The collection of a request, by the segments of its path: a \<open>POST\<close> adds to the collection at its
  path, a \<open>PATCH\<close> or \<open>DELETE\<close> addresses an item of the collection one segment up.
\<close>

definition url_segments :: "string \<Rightarrow> string list" where
  "url_segments path = split_on (CHR ''/'') (takeWhile (\<lambda>c. c \<noteq> CHR ''?'') path)"

definition changed_collection :: "api_call \<Rightarrow> string list" where
  "changed_collection call =
     (let segments = url_segments (fst call) in
      if init_method (snd call) = Some ''POST'' then segments else butlast segments)"

definition plain_id :: "string \<Rightarrow> bool" where
  "plain_id i \<longleftrightarrow> CHR ''/'' \<notin> set i \<and> CHR ''?'' \<notin> set i"

text \<open>The lists that the console reads: the request of each list hook with its query key.\<close>

definition list_requests :: "(api_call \<times> query_key) set" where
  "list_requests =
     (\<lambda>q. (queryFn q, queryKey q)) `
       ({useTenants, useRegions, useCheckpoints}
        \<union> (\<Union>t \<in> Collect plain_id.
             {useUpstreams t, useRoutes t, useAiProviders t, useRateLimits t, useWasmPlugins t, useConsumers t}))"

text \<open>The mutations that create, update or delete an item: the request for each argument, and \<open>onSuccess\<close>.\<close>

definition requests_of :: "'b set \<Rightarrow> ('b, 'e) mutation_options \<Rightarrow> (api_call \<times> 'e effect list) set" where
  "requests_of A mu = (\<lambda>x. (mutationFn mu x, onSuccess mu)) ` A"

definition item_mutations :: "'e option \<Rightarrow> (api_call \<times> 'e effect list) set" where
  "item_mutations cb =
     requests_of UNIV (useCreateTenant cb) \<union> requests_of (Collect plain_id) (useDeleteTenant cb)
     \<union> requests_of UNIV (useCreateRegion cb) \<union> requests_of (Collect plain_id) (useDeleteRegion cb)
     \<union> requests_of UNIV (useCreateCheckpoint cb)
     \<union> (\<Union>i \<in> Collect plain_id. requests_of UNIV (useUpdateTenant i cb))
     \<union> (\<Union>t \<in> Collect plain_id.
          requests_of UNIV (useCreateUpstream t cb) \<union> requests_of (Collect plain_id) (useDeleteUpstream t cb)
          \<union> requests_of UNIV (useCreateRoute t cb) \<union> requests_of (Collect plain_id) (useDeleteRoute t cb)
          \<union> requests_of UNIV (useCreateAiProvider t cb) \<union> requests_of (Collect plain_id) (useDeleteAiProvider t cb)
          \<union> requests_of UNIV (useCreateRateLimit t cb) \<union> requests_of (Collect plain_id) (useDeleteRateLimit t cb)
          \<union> requests_of UNIV (useCreateWasmPlugin t cb) \<union> requests_of (Collect plain_id) (useDeleteWasmPlugin t cb)
          \<union> requests_of UNIV (useCreateConsumer t cb) \<union> requests_of (Collect plain_id) (useDeleteConsumer t cb))
     \<union> (\<Union>t \<in> Collect plain_id. \<Union>i \<in> Collect plain_id.
          requests_of UNIV (useUpdateUpstream t i cb) \<union> requests_of UNIV (useUpdateRoute t i cb))"

definition global_names :: "string set" where
  "global_names = {''tenants'', ''regions'', ''checkpoints''}"

definition tenant_names :: "string set" where
  "tenant_names = {''upstreams'', ''routes'', ''ai-providers'', ''rate-limits'', ''wasm-plugins'', ''consumers''}"

lemma list_keys_iff:
  "k \<in> list_keys \<longleftrightarrow> (\<exists>n \<in> global_names. k = [JStr n]) \<or> (\<exists>n \<in> tenant_names. \<exists>t. k = [JStr n, JStr t])"
proof
  assume "k \<in> list_keys"
  then show "(\<exists>n \<in> global_names. k = [JStr n]) \<or> (\<exists>n \<in> tenant_names. \<exists>t. k = [JStr n, JStr t])"
    unfolding list_keys_def global_names_def tenant_names_def
    by (elim UnE UN_E insertE emptyE) (simp_all add: list_hook_defs key_defs)
next
  assume "(\<exists>n \<in> global_names. k = [JStr n]) \<or> (\<exists>n \<in> tenant_names. \<exists>t. k = [JStr n, JStr t])"
  then show "k \<in> list_keys"
    unfolding list_keys_def global_names_def tenant_names_def
    by (elim disjE bexE exE insertE emptyE) (simp_all add: list_hook_defs key_defs)
qed

lemma names_disjoint: "n \<in> global_names \<Longrightarrow> n \<notin> tenant_names"
  by (auto simp: global_names_def tenant_names_def)

lemma list_keys_prefix: "k \<in> list_keys \<Longrightarrow> k' \<in> list_keys \<Longrightarrow> prefix k k' \<longleftrightarrow> k = k'"
  using names_disjoint by (auto simp: list_keys_iff)

lemma list_keys_strings: "k \<in> list_keys \<Longrightarrow> set k \<subseteq> range JStr"
  by (auto simp: list_keys_iff)

text \<open>Segments of the paths in use.\<close>

lemma takeWhile_plain: "plain_id i \<Longrightarrow>
    takeWhile (\<lambda>c. c \<noteq> CHR ''?'') (i @ xs) = i @ takeWhile (\<lambda>c. c \<noteq> CHR ''?'') xs"
  by (rule takeWhile_append2) (auto simp: plain_id_def)

lemma takeWhile_plain_end: "plain_id i \<Longrightarrow> takeWhile (\<lambda>c. c \<noteq> CHR ''?'') i = i"
  using takeWhile_plain [of i "[]"] by simp

lemma split_on_plain: "plain_id i \<Longrightarrow> split_on (CHR ''/'') i = [i]"
  using split_on_no_sep [of "CHR ''/''" i] by (simp add: plain_id_def)

lemma split_on_plain_sep: "plain_id i \<Longrightarrow> split_on (CHR ''/'') (i @ CHR ''/'' # xs) = i # split_on (CHR ''/'') xs"
  by (simp add: plain_id_def split_on_append_sep)

text \<open>The resources: the segments of the collection's path, and the key of its list.\<close>

definition resource_path :: "string \<Rightarrow> string" where
  "resource_path n = (if n = ''rate-limits'' then ''rate-limit-policies'' else n)"

definition resources :: "(string list \<times> query_key) set" where
  "resources = {([[], n], [JStr n]) | n. n \<in> global_names}
     \<union> {([[], ''tenants'', t, resource_path n], [JStr n, JStr t]) | n t. n \<in> tenant_names}"

lemma resources_iff: "(s, k) \<in> resources \<longleftrightarrow> (\<exists>n \<in> global_names. s = [[], n] \<and> k = [JStr n])
    \<or> (\<exists>n \<in> tenant_names. \<exists>t. s = [[], ''tenants'', t, resource_path n] \<and> k = [JStr n, JStr t])"
  by (auto simp: resources_def)

lemma resource_path_inject:
  "n \<in> tenant_names \<Longrightarrow> n' \<in> tenant_names \<Longrightarrow> resource_path n = resource_path n' \<longleftrightarrow> n = n'"
  by (auto simp: tenant_names_def resource_path_def)

lemma resources_match:
  assumes "(s, k) \<in> resources" and "(s', k') \<in> resources"
  shows "prefix k k' \<longleftrightarrow> s = s'"
  using assms names_disjoint resource_path_inject by (auto simp: resources_iff)

lemma resources_strings: "(s, k) \<in> resources \<Longrightarrow> set k \<subseteq> range JStr"
  by (auto simp: resources_iff)

lemmas segment_simps = url_segments_def takeWhile_plain takeWhile_plain_end split_on_plain split_on_plain_sep tenant_path_def

lemma list_requests_resource: "(l, k) \<in> list_requests \<Longrightarrow> (url_segments (fst l), k) \<in> resources"
  unfolding list_requests_def
  by (elim imageE UnE UN_E insertE emptyE)
     (simp_all add: list_hook_defs key_defs api_defs call_simps segment_simps page_params_def resources_iff
        global_names_def tenant_names_def resource_path_def)

lemma item_mutations_resource:
  "(call, es) \<in> item_mutations cb \<Longrightarrow> \<exists>k. (changed_collection call, k) \<in> resources \<and> es = Invalidate k # callback cb"
  unfolding item_mutations_def requests_of_def
  by (elim UnE UN_E imageE)
     (simp_all add: mutation_hook_defs key_defs api_defs call_simps segment_simps changed_collection_def Let_def
        resources_iff global_names_def tenant_names_def resource_path_def)

text \<open>C3: After a successful create, update or delete exactly the right list is refreshed: for every list hook and
  every request of such a mutation (with identifiers free of slashes and question marks), the list becomes
  stale by the mutation's \<open>onSuccess\<close> if and only if the request adds to, or addresses an item of, the very
  collection that the list hook reads; every other list stays as it was.\<close>

theorem mutation_marks_exactly_its_list:
  assumes "query_client stale invalidate"
    and "(call, es) \<in> item_mutations cb" and "(l, k) \<in> list_requests"
  shows "stale (apply_effects invalidate es c) k \<longleftrightarrow> changed_collection call = url_segments (fst l) \<or> stale c k"
proof -
  obtain k0 where k0: "(changed_collection call, k0) \<in> resources" "es = Invalidate k0 # callback cb"
    using item_mutations_resource [OF assms(2)] by blast
  with query_client.stale_after_mutation [OF assms(1) resources_strings, of _ k0 cb c k]
  show ?thesis using resources_match [OF k0(1) list_requests_resource [OF assms(3)]] by metis
qed

theorem mutation_marks_exactly_its_list_witness:
  "cache_stale (apply_effects cache_invalidate (onSuccess (useDeleteRoute ''t1'' (Some ()))) []) (queryKey (useRoutes ''t1''))
   \<and> \<not> cache_stale (apply_effects cache_invalidate (onSuccess (useDeleteRoute ''t1'' (Some ()))) []) (queryKey (useRoutes ''t2''))"
proof -
  let ?mu = "useDeleteRoute ''t1'' (Some ())"
  have plain: "plain_id ''t1''" "plain_id ''t2''" "plain_id ''r''" by (simp_all add: plain_id_def)
  have m: "(mutationFn ?mu ''r'', onSuccess ?mu) \<in> item_mutations (Some ())"
    using plain by (simp add: item_mutations_def requests_of_def image_iff) metis
  have l: "(queryFn (useRoutes t), queryKey (useRoutes t)) \<in> list_requests" if "plain_id t" for t
    unfolding list_requests_def using that by (intro image_eqI [of _ _ "useRoutes t"]) auto
  have "changed_collection (mutationFn ?mu ''r'') = [[], ''tenants'', ''t1'', ''routes'']"
    "url_segments (fst (queryFn (useRoutes t))) = [[], ''tenants'', t, ''routes'']" if "plain_id t" for t
    using that plain by (simp_all add: mutation_hook_defs list_hook_defs api_defs call_simps segment_simps
      changed_collection_def page_params_def)
  with mutation_marks_exactly_its_list [OF qc.query_client_axioms m l [OF plain(1)], of "[]"]
    mutation_marks_exactly_its_list [OF qc.query_client_axioms m l [OF plain(2)], of "[]"] plain
  show ?thesis by (simp add: cache_stale_def)
qed

end
