(* ===== verification/Forms.thy ===== *)
theory Forms
  imports Ui_Kit Queries
begin

text \<open>
  What the create and edit forms share: the inputs and buttons they are made of, the life of a
  submission (guard, \<open>setLoading(true)\<close>, \<open>await onSubmit\<close>, then the \<open>catch\<close> and \<open>finally\<close>
  branches), and how a page runs a mutation and the effects of its success.

  The contract a form has to meet is the locale \<open>submit_form\<close>; each form's theory
  interprets it.  A browser does not submit a form whose submit button is disabled, neither by
  the button nor by the Enter key, so in a session the submit message is possible only while
  the rendered submit button is enabled.
\<close>

section \<open>Elements of the forms\<close>

definition form_label :: "string \<Rightarrow> string \<Rightarrow> 'm node" where
  "form_label for_id t = El ''label'' [Attr ''htmlFor'' for_id] [Text t]"

definition text_input :: "string \<Rightarrow> string \<Rightarrow> (string \<Rightarrow> 'm) \<Rightarrow> 'm attr list \<Rightarrow> 'm node" where
  "text_input ident value onChange extra =
     El ''input'' ([Attr ''id'' ident, Attr ''value'' value, OnChange onChange] @ extra) []"

definition checkbox :: "string \<Rightarrow> bool \<Rightarrow> (bool \<Rightarrow> 'm) \<Rightarrow> 'm node" where
  "checkbox ident checked onChange =
     El ''input'' [Attr ''id'' ident, Attr ''type'' ''checkbox'', Flag ''checked'' checked, OnToggle onChange] []"

definition error_text :: "string option \<Rightarrow> 'm node list" where
  "error_text e = when_str e (\<lambda>m. El ''p'' [] [Text m])"

text \<open>The last row of every form: Cancel, and the submit button with its spinner.\<close>

definition form_buttons :: "'m \<Rightarrow> bool \<Rightarrow> bool \<Rightarrow> string \<Rightarrow> string \<Rightarrow> 'm node" where
  "form_buttons onCancel loading invalid busyLabel submitLabel =
     El ''div'' []
       [El ''button'' [Attr ''type'' ''button'', OnClick onCancel, Flag ''disabled'' loading] [Text ''Cancel''],
        El ''button'' [Attr ''type'' ''submit'', Flag ''disabled'' (loading \<or> invalid)]
          (if loading then [Spinner, Text (busyLabel @ ellipsis)] else [Text submitLabel])]"

lemmas form_view_defs = form_label_def text_input_def checkbox_def error_text_def form_buttons_def
  when_str_def show_if_def Spinner_def

section \<open>The submit button of a rendered form\<close>

definition is_submit_button :: "'m node \<Rightarrow> bool" where
  "is_submit_button n =
     (case n of
        El t as cs \<Rightarrow>
          t = ''button''
          \<and> list_ex (\<lambda>a. case a of Attr k v \<Rightarrow> k = ''type'' \<and> v = ''submit'' | _ \<Rightarrow> False) as
          \<and> \<not> is_disabled as
      | _ \<Rightarrow> False)"

definition can_submit :: "'m node list \<Rightarrow> bool" where
  "can_submit ns = list_ex is_submit_button (view_elements ''button'' ns)"

section \<open>Submission\<close>

text \<open>
  \<open>catch (err) { setError(err instanceof Error ? err.message : 'Unknown error') }\<close>; a
  submission that ends well leaves the error as it was cleared before.
\<close>

definition settled_error :: "js_thrown option \<Rightarrow> string option \<Rightarrow> string option" where
  "settled_error r old = (case r of None \<Rightarrow> old | Some e \<Rightarrow> Some (thrown_message e))"

text \<open>A form on the screen: its state, how many submissions are under way, what was submitted.\<close>

record ('s, 'b) session =
  ses_form :: 's
  ses_in_flight :: nat
  ses_sent :: "'b list"

datatype 'm session_msg = User 'm | Settled "js_thrown option"

definition open_session :: "'s \<Rightarrow> ('s, 'b) session" where
  "open_session s = \<lparr>ses_form = s, ses_in_flight = 0, ses_sent = []\<rparr>"

definition form_offers :: "('s \<Rightarrow> 'm node list) \<Rightarrow> 'm \<Rightarrow> ('s, 'b) session \<Rightarrow> 'm session_msg set" where
  "form_offers view submit x =
     User ` {m \<in> view_msgs (view (ses_form x)). m = submit \<longrightarrow> can_submit (view (ses_form x))}
     \<union> (if 0 < ses_in_flight x then range Settled else {})"

fun form_step ::
    "('m \<Rightarrow> 's \<Rightarrow> 's \<times> 'b option) \<Rightarrow> (js_thrown option \<Rightarrow> 's \<Rightarrow> 's) \<Rightarrow> 'm session_msg
     \<Rightarrow> ('s, 'b) session \<Rightarrow> ('s, 'b) session" where
  "form_step upd settle (User m) x =
     (case upd m (ses_form x) of
        (s, None) \<Rightarrow> x\<lparr>ses_form := s\<rparr>
      | (s, Some b) \<Rightarrow> x\<lparr>ses_form := s, ses_in_flight := ses_in_flight x + 1, ses_sent := ses_sent x @ [b]\<rparr>)"
| "form_step upd settle (Settled r) x =
     x\<lparr>ses_form := settle r (ses_form x), ses_in_flight := ses_in_flight x - 1\<rparr>"

text \<open>
  What is asked of a form that is opened in state \<open>s\<close>: whatever the user does and however the
  submissions end, one submission is under way while the form is loading and none otherwise, and
  every submitted body is valid.
\<close>

definition submits_once ::
    "('s \<Rightarrow> 'm node list) \<Rightarrow> 'm \<Rightarrow> ('m \<Rightarrow> 's \<Rightarrow> 's \<times> 'b option) \<Rightarrow> (js_thrown option \<Rightarrow> 's \<Rightarrow> 's)
     \<Rightarrow> ('s \<Rightarrow> bool) \<Rightarrow> ('b \<Rightarrow> bool) \<Rightarrow> 's \<Rightarrow> bool" where
  "submits_once view submit upd settle loading valid s \<longleftrightarrow>
     (\<forall>x. reach (form_offers view submit) (form_step upd settle) (open_session s) x \<longrightarrow>
        ses_in_flight x = (if loading (ses_form x) then 1 else 0) \<and> list_all valid (ses_sent x))"

locale submit_form =
  fixes view :: "'s \<Rightarrow> 'm node list"
    and submit :: 'm
    and upd :: "'m \<Rightarrow> 's \<Rightarrow> 's \<times> 'b option"
    and settle :: "js_thrown option \<Rightarrow> 's \<Rightarrow> 's"
    and loading :: "'s \<Rightarrow> bool"
    and valid :: "'b \<Rightarrow> bool"
  assumes button_disabled: "loading s \<Longrightarrow> \<not> can_submit (view s)"
    and edit_keeps: "m \<noteq> submit \<Longrightarrow> snd (upd m s) = None \<and> loading (fst (upd m s)) = loading s"
    and submit_guard: "snd (upd submit s) = None \<Longrightarrow> loading (fst (upd submit s)) = loading s"
    and submit_call: "snd (upd submit s) = Some b \<Longrightarrow> loading (fst (upd submit s)) \<and> valid b"
    and settle_done: "\<not> loading (settle r s)"
begin

abbreviation session_inv :: "('s, 'b) session \<Rightarrow> bool" where
  "session_inv x \<equiv>
     ses_in_flight x = (if loading (ses_form x) then 1 else 0) \<and> list_all valid (ses_sent x)"

lemma session_step:
  assumes "session_inv x" and "m \<in> form_offers view submit x"
  shows "session_inv (form_step upd settle m x)"
proof (cases m)
  case (Settled r)
  with assms show ?thesis by (auto simp: form_offers_def settle_done split: if_splits)
next
  case (User u)
  obtain s c where sc: "upd u (ses_form x) = (s, c)" by force
  show ?thesis
  proof (cases "u = submit")
    case False
    then have "c = None" "loading s = loading (ses_form x)"
      using edit_keeps [of u "ses_form x"] sc by auto
    with assms(1) sc User show ?thesis by simp
  next
    case True
    with assms(2) User have "\<not> loading (ses_form x)"
      using button_disabled by (auto simp: form_offers_def split: if_splits)
    then show ?thesis
      using True User assms(1) sc submit_guard [of "ses_form x"] submit_call [of "ses_form x"]
      by (cases c) auto
  qed
qed

sublocale session: ui_machine "form_offers view submit" "form_step upd settle" session_inv
  by unfold_locales (rule session_step)

lemma one_submission_at_a_time:
  assumes "reach (form_offers view submit) (form_step upd settle) (open_session s) x"
    and "\<not> loading s"
  shows "ses_in_flight x = (if loading (ses_form x) then 1 else 0) \<and> list_all valid (ses_sent x)"
  using session.reach_inv [OF assms(1)] assms(2) by (simp add: open_session_def)

lemma form_submits_once: "\<not> loading s \<Longrightarrow> submits_once view submit upd settle loading valid s"
  unfolding submits_once_def using one_submission_at_a_time by blast

end

text \<open>
  A form with a checked field: \<open>verdict\<close> is what the check says of the field, \<open>err\<close> the message that the
  form shows for it, \<open>ready\<close> the condition on the other fields.  The check runs when the field
  changes and when the form is submitted.
\<close>

locale checked_form = submit_form view submit upd settle loading valid
  for view :: "'s \<Rightarrow> 'm node list" and submit :: 'm and upd :: "'m \<Rightarrow> 's \<Rightarrow> 's \<times> 'b option"
    and settle :: "js_thrown option \<Rightarrow> 's \<Rightarrow> 's" and loading :: "'s \<Rightarrow> bool" and valid :: "'b \<Rightarrow> bool" +
  fixes err :: "'s \<Rightarrow> string option"
    and verdict :: "'s \<Rightarrow> string option"
    and ready :: "'s \<Rightarrow> bool"
  assumes button: "can_submit (view s) \<longleftrightarrow> \<not> loading s \<and> ready s \<and> \<not> truthy_str (err s)"
    and call_iff: "snd (upd submit s) \<noteq> None \<longleftrightarrow> ready s \<and> verdict s = None"
    and refused: "verdict s \<noteq> None \<Longrightarrow> err (fst (upd submit s)) = verdict s"
    and message: "verdict s \<noteq> Some []"
    and err_step: "err s = None \<or> err s = verdict s \<Longrightarrow>
      err (fst (upd m s)) = None \<or> err (fst (upd m s)) = verdict (fst (upd m s))"
    and err_settle: "err (settle r s) = err s \<and> verdict (settle r s) = verdict s"
begin

abbreviation checked :: "('s, 'b) session \<Rightarrow> bool" where
  "checked x \<equiv> err (ses_form x) = None \<or> err (ses_form x) = verdict (ses_form x)"

lemma checked_step:
  assumes "checked x"
  shows "checked (form_step upd settle m x)"
proof (cases m)
  case (User u)
  obtain s c where "upd u (ses_form x) = (s, c)" by force
  with err_step [OF assms, of u] User show ?thesis by (cases c) auto
next
  case (Settled r)
  with assms err_settle show ?thesis by simp
qed

sublocale check: ui_machine "form_offers view submit" "form_step upd settle" checked
  by unfold_locales (rule checked_step)

lemma gate:
  assumes "reach (form_offers view submit) (form_step upd settle) (open_session s) x" and "err s = None"
  defines "f \<equiv> ses_form x"
  shows "(err f = None \<or> err f = verdict f)
    \<and> (\<not> loading f \<and> snd (upd submit f) \<noteq> None \<longrightarrow> can_submit (view f))
    \<and> (can_submit (view f) \<and> snd (upd submit f) = None \<longrightarrow>
         err f = None \<and> verdict f \<noteq> None \<and> err (fst (upd submit f)) = verdict f
         \<and> \<not> can_submit (view (fst (upd submit f))))"
proof -
  have c: "err f = None \<or> err f = verdict f"
    unfolding f_def by (rule check.reach_inv [OF assms(1)]) (simp add: open_session_def assms(2))
  moreover have "err f = None \<and> verdict f \<noteq> None \<and> err (fst (upd submit f)) = verdict f
      \<and> \<not> can_submit (view (fst (upd submit f)))" if "can_submit (view f)" "snd (upd submit f) = None"
    using that c button [of f] button [of "fst (upd submit f)"] call_iff [of f] refused [of f] message [of f]
    by (auto simp: truthy_str_def split: option.splits)
  moreover have "can_submit (view f)" if "\<not> loading f" "snd (upd submit f) \<noteq> None"
    using that c button [of f] call_iff [of f] by (auto simp: truthy_str_def)
  ultimately show ?thesis by blast
qed

end

section \<open>Running a mutation\<close>

datatype ToastVariant = ToastSuccess | ToastError | ToastWarning | ToastInfo

text \<open>What a caller of \<open>toast\<close> passes (\<open>Omit<Toast, 'id'>\<close>).\<close>

record toast_request =
  tr_title :: string
  tr_description :: "string option"
  tr_variant :: "ToastVariant option"
  tr_duration :: "int option"

definition success_toast :: "string \<Rightarrow> toast_request" where
  "success_toast title =
     \<lparr>tr_title = title, tr_description = None, tr_variant = Some ToastSuccess, tr_duration = None\<rparr>"

text \<open>The page's own state beside what it shares: the toasts asked for and the query cache.\<close>

record 's app =
  app_page :: 's
  app_toasts :: "toast_request list"
  app_stale :: "query_key list"

fun run_effect ::
    "('e \<Rightarrow> 's \<Rightarrow> 's \<times> toast_request) \<Rightarrow> 'e effect \<Rightarrow> 's app \<Rightarrow> 's app" where
  "run_effect ev (Invalidate k) a = a\<lparr>app_stale := cache_invalidate k (app_stale a)\<rparr>"
| "run_effect ev (Emit e) a =
     a\<lparr>app_page := fst (ev e (app_page a)), app_toasts := app_toasts a @ [snd (ev e (app_page a))]\<rparr>"

text \<open>
  \<open>await mut.mutateAsync(body)\<close>: the call; when it succeeds the \<open>onSuccess\<close> effects in
  order; when it fails the error is thrown to the caller and no effect runs.
\<close>

definition mutateAsync ::
    "fetch \<Rightarrow> ('b, 'e) mutation_options \<Rightarrow> ('e \<Rightarrow> 's \<Rightarrow> 's \<times> toast_request) \<Rightarrow> 'b \<Rightarrow> 's app
     \<Rightarrow> js_thrown option \<times> 's app" where
  "mutateAsync fetch mu ev body a =
     (case run_call fetch (mutationFn mu body) of
        Inl e \<Rightarrow> (Some e, a)
      | Inr _ \<Rightarrow> (None, fold (run_effect ev) (onSuccess mu) a))"

lemma mutateAsync_simps:
  "run_call fetch (mutationFn mu body) = Inl e \<Longrightarrow> mutateAsync fetch mu ev body a = (Some e, a)"
  "run_call fetch (mutationFn mu body) = Inr j \<Longrightarrow>
   mutateAsync fetch mu ev body a = (None, fold (run_effect ev) (onSuccess mu) a)"
  by (simp_all add: mutateAsync_def)

section \<open>Filtering by status and reading a query\<close>

record 'd query_result =
  qr_data :: "'d list option"
  qr_isLoading :: bool
  qr_isError :: bool

text \<open>\<open>const { data = [] } = useQuery(...)\<close>\<close>

definition query_data :: "'d query_result \<Rightarrow> 'd list" where
  "query_data q = nullish (qr_data q) []"

definition status_options :: "FilterOption list" where
  "status_options = [fopt ''All'' ''all'', fopt ''Active'' ''active'', fopt ''Inactive'' ''inactive'']"

definition status_ok :: "string \<Rightarrow> bool \<Rightarrow> bool" where
  "status_ok status enabled \<longleftrightarrow>
     (status = ''active'' \<longrightarrow> enabled) \<and> (status = ''inactive'' \<longrightarrow> \<not> enabled)"

text \<open>The two filters of a page's list, one after the other.\<close>

definition filter_status :: "string \<Rightarrow> ('d \<Rightarrow> bool) \<Rightarrow> 'd list \<Rightarrow> 'd list" where
  "filter_status status enabled list0 =
     (let list1 = (if status = ''active'' then filter enabled list0 else list0);
          list2 = (if status = ''inactive'' then filter (\<lambda>t. \<not> enabled t) list1 else list1)
      in list2)"

lemma filter_status_eq: "filter_status status enabled xs = filter (\<lambda>x. status_ok status (enabled x)) xs"
  by (auto simp: filter_status_def status_ok_def Let_def)

definition filter_search :: "string \<Rightarrow> ('d \<Rightarrow> bool) \<Rightarrow> 'd list \<Rightarrow> 'd list" where
  "filter_search search hit list0 = (if search \<noteq> [] then filter hit list0 else list0)"

text \<open>The search is case-insensitive: whether a text contains the query, up to case.\<close>

definition contains_ci :: "string \<Rightarrow> string \<Rightarrow> bool" where
  "contains_ci query s = includes_str (toLowerCase s) (toLowerCase query)"

lemma contains_ci_empty [simp]: "contains_ci [] s"
  by (simp add: contains_ci_def includes_str_iff toLowerCase_def)

end
