(* ===== verification/Widgets.thy ===== *)
theory Widgets
  imports Forms
begin

text \<open>
  Parts that the resource components repeat: the copy button and the labelled field of the
  detail panels, the bar of counts, and the row actions of the tables (edit, toggle, delete
  behind a confirmation).  The row actions are one state machine; each resource gives its view
  and its calls and interprets the locale \<open>row_actions\<close>.
\<close>

section \<open>Copy button\<close>

text \<open>
  Every click writes the clipboard, shows the check mark and starts a timer of 1500 ms that
  hides it; timers of earlier clicks stay.  \<open>cb_timers\<close> are the times at which they fire.
\<close>

record copy_state =
  cb_copied :: bool
  cb_timers :: "int list"

definition copy_init :: copy_state where
  "copy_init = \<lparr>cb_copied = False, cb_timers = []\<rparr>"

definition copy :: "string \<Rightarrow> int \<Rightarrow> copy_state \<Rightarrow> copy_state \<times> string" where
  "copy value now s = (s\<lparr>cb_copied := True, cb_timers := cb_timers s @ [now + 1500]\<rparr>, value)"

definition copy_timers_fire :: "int \<Rightarrow> copy_state \<Rightarrow> copy_state" where
  "copy_timers_fire now s =
     (if list_ex (\<lambda>d. d \<le> now) (cb_timers s)
      then \<lparr>cb_copied = False, cb_timers = filter (\<lambda>d. now < d) (cb_timers s)\<rparr> else s)"

definition CopyButton :: "'m \<Rightarrow> string \<Rightarrow> copy_state \<Rightarrow> 'm node" where
  "CopyButton onCopy title s =
     El ''button'' [OnClick onCopy, Attr ''title'' title]
       [icon (if cb_copied s then ''CheckCheck'' else ''Copy'')]"

definition copy_button :: "string \<Rightarrow> 'm node" where
  "copy_button value = Comp ''CopyButton'' [Attr ''value'' value]"

datatype copy_event = Click int | Timers int

fun event_time :: "copy_event \<Rightarrow> int" where
  "event_time (Click t) = t"
| "event_time (Timers t) = t"

definition run_copy_event :: "string \<Rightarrow> copy_event \<Rightarrow> copy_state \<Rightarrow> copy_state" where
  "run_copy_event value e s = (case e of Click t \<Rightarrow> fst (copy value t s) | Timers t \<Rightarrow> copy_timers_fire t s)"

lemma copy_timers_bound:
  assumes "\<forall>d \<in> set (cb_timers s). d \<le> T + 1500" and "cb_copied s \<longrightarrow> cb_timers s \<noteq> []"
    and "\<forall>e \<in> set es. event_time e \<le> T"
  shows "(\<forall>d \<in> set (cb_timers (fold (run_copy_event v) es s)). d \<le> T + 1500)
    \<and> (cb_copied (fold (run_copy_event v) es s) \<longrightarrow> cb_timers (fold (run_copy_event v) es s) \<noteq> [])"
  using assms
proof (induction es arbitrary: s)
  case (Cons e es)
  let ?s = "run_copy_event v e s"
  have "(\<forall>d \<in> set (cb_timers ?s). d \<le> T + 1500) \<and> (cb_copied ?s \<longrightarrow> cb_timers ?s \<noteq> [])"
    using Cons.prems
    by (cases e) (auto simp: run_copy_event_def copy_def copy_timers_fire_def)
  then show ?case using Cons.IH [of ?s] Cons.prems(3) by simp
qed simp

section \<open>Field of a detail panel\<close>

definition Field :: "string \<Rightarrow> string \<Rightarrow> bool \<Rightarrow> bool \<Rightarrow> 'm node" where
  "Field label value code_font copyable =
     El ''div'' []
       [El ''p'' [] [Text label],
        El ''p'' (if code_font then [Attr ''variant'' ''mono''] else [])
          ([Text value] @ show_if copyable [copy_button value])]"

text \<open>The frame of the panels: the backdrop and the sliding panel; \<open>shown\<close> is the item, if any.\<close>

definition panel_frame :: "'m \<Rightarrow> 'd option \<Rightarrow> ('d \<Rightarrow> 'm node list) \<Rightarrow> 'm node list" where
  "panel_frame onClose shown body =
     [El ''div'' [OnClick onClose, Attr ''variant'' (if shown = None then ''hidden'' else ''visible'')] [],
      El ''div'' [Attr ''variant'' (if shown = None then ''hidden'' else ''visible'')]
        (case shown of None \<Rightarrow> [] | Some x \<Rightarrow> body x)]"

definition close_button :: "'m \<Rightarrow> 'm node" where
  "close_button onClose = El ''button'' [OnClick onClose, Attr ''aria-label'' ''Close panel''] [icon ''X'']"

section \<open>Bar of counts\<close>

definition stat_cell :: "string \<times> nat \<times> string \<Rightarrow> 'm node" where
  "stat_cell c = (case c of (label, value, ic) \<Rightarrow>
     El ''div'' [] [icon ic, El ''span'' [] [Text (str_int (int value))], El ''span'' [] [Text label]])"

lemma stats_add_up: "length (filter p xs) + (length xs - length (filter p xs)) = length xs"
  by (simp add: length_filter_le)

section \<open>Parts of the pages of a tenant\<close>

definition tenant_select :: "string \<Rightarrow> Tenant list \<Rightarrow> string \<Rightarrow> (string \<Rightarrow> 'm) \<Rightarrow> 'm node" where
  "tenant_select ident tenantList selectedTenant onChange =
     El ''div'' []
       [form_label ident ''Tenant'',
        El ''select'' [Attr ''id'' ident, Attr ''value'' selectedTenant, OnChange onChange]
          ([El ''option'' [Attr ''value'' []] [Text (''Select a tenant'' @ ellipsis)]]
           @ map (\<lambda>t. El ''option'' [Attr ''value'' (t_id t)]
                    [Text (t_name t), Text '' ('', Text (t_slug t), Text '')'']) tenantList)]"

definition select_hint :: "string \<Rightarrow> string \<Rightarrow> 'm node" where
  "select_hint ic t = El ''div'' [] [icon ic, El ''p'' [] [Text t]]"

text \<open>The button of the page header, disabled while no tenant is selected.\<close>

definition new_button :: "'m \<Rightarrow> string \<Rightarrow> string \<Rightarrow> 'm node" where
  "new_button onClick selectedTenant label =
     El ''button'' ([OnClick onClick, Flag ''disabled'' (selectedTenant = [])]
         @ opt_attr ''title'' (if selectedTenant = [] then Some ''Select a tenant first'' else None))
       [icon ''Plus'', Text label]"

definition load_error :: "bool \<Rightarrow> string \<Rightarrow> 'm node list" where
  "load_error isError t = show_if isError [El ''div'' [] [El ''p'' [] [Text t]]]"

text \<open>The options of a select, as pairs of value and label.\<close>

definition select_options :: "(string \<times> string) list \<Rightarrow> 'm node list" where
  "select_options opts = map (\<lambda>(v, l). El ''option'' [Attr ''value'' v] [Text l]) opts"

section \<open>Row actions\<close>

record row_state =
  row_open :: bool
  row_deleting :: bool
  row_toggling :: bool

definition row_init :: row_state where
  "row_init = \<lparr>row_open = False, row_deleting = False, row_toggling = False\<rparr>"

datatype row_msg =
    RowEdit
  | RowToggle
  | RowAskDelete
  | RowClose
  | RowConfirm
  | RowDeleted "js_thrown option"
  | RowToggled "js_thrown option"

datatype row_out = OutEdit | OutToggle | OutDelete

text \<open>
  \<open>handleDelete\<close> awaits the mutation and then closes the dialog; when the mutation fails
  the \<open>await\<close> throws and the dialog stays open.  \<open>handleToggle\<close> starts its mutation and does not
  wait.  \<open>isPending\<close> of the two mutations are the two flags.
\<close>

fun row_update :: "row_msg \<Rightarrow> row_state \<Rightarrow> row_state \<times> row_out list" where
  "row_update RowEdit s = (s, [OutEdit])"
| "row_update RowToggle s = (s\<lparr>row_toggling := True\<rparr>, [OutToggle])"
| "row_update RowAskDelete s = (s\<lparr>row_open := True\<rparr>, [])"
| "row_update RowClose s = (s\<lparr>row_open := False\<rparr>, [])"
| "row_update RowConfirm s = (s\<lparr>row_deleting := True\<rparr>, [OutDelete])"
| "row_update (RowDeleted r) s =
     (s\<lparr>row_deleting := False, row_open := (if r = None then False else row_open s)\<rparr>, [])"
| "row_update (RowToggled r) s = (s\<lparr>row_toggling := False\<rparr>, [])"

definition row_button :: "string \<Rightarrow> 'm \<Rightarrow> string \<Rightarrow> 'm node" where
  "row_button title onClick ic = El ''button'' [Attr ''title'' title, OnClick onClick] [icon ic]"

definition toggle_button :: "string \<Rightarrow> bool \<Rightarrow> bool \<Rightarrow> row_msg node" where
  "toggle_button noun enabled pending =
     El ''button'' [Attr ''title'' ((if enabled then ''Disable '' else ''Enable '') @ noun),
         OnClick RowToggle, Flag ''disabled'' pending]
       [icon (if enabled then ''ToggleRight'' else ''ToggleLeft'')]"

definition delete_dialog :: "string \<Rightarrow> string \<Rightarrow> row_state \<Rightarrow> row_msg node list" where
  "delete_dialog title description s =
     ConfirmModal (row_open s) RowClose RowConfirm title (Some description) (Some ''Delete'') None True
       (row_deleting s)"

lemmas row_view_defs = row_button_def toggle_button_def delete_dialog_def ConfirmModal_def Modal_def
  show_if_def when_str_def is_disabled_def

text \<open>A row with what it has under way and what it has asked for, newest first: each delete
  with whether the dialog was open when it was sent.\<close>

record row_run =
  run_state :: row_state
  run_deletes :: nat
  run_toggles :: nat
  run_log :: "(row_out \<times> bool) list"

definition row_start :: row_run where
  "row_start = \<lparr>run_state = row_init, run_deletes = 0, run_toggles = 0, run_log = []\<rparr>"

definition row_offers :: "(row_state \<Rightarrow> row_msg node list) \<Rightarrow> row_run \<Rightarrow> row_msg set" where
  "row_offers view x =
     (view_msgs (view (run_state x)) - (range RowDeleted \<union> range RowToggled))
     \<union> (if 0 < run_deletes x then range RowDeleted else {})
     \<union> (if 0 < run_toggles x then range RowToggled else {})"

definition row_step :: "row_msg \<Rightarrow> row_run \<Rightarrow> row_run" where
  "row_step m x =
     (let (s, outs) = row_update m (run_state x) in
      \<lparr>run_state = s,
       run_deletes = run_deletes x + count_list outs OutDelete - (case m of RowDeleted r \<Rightarrow> 1 | _ \<Rightarrow> 0),
       run_toggles = run_toggles x + count_list outs OutToggle - (case m of RowToggled r \<Rightarrow> 1 | _ \<Rightarrow> 0),
       run_log = map (\<lambda>out. (out, row_open (run_state x))) outs @ run_log x\<rparr>)"

text \<open>
  What is asked of a row's actions: the delete request is the one for \<open>path\<close>, it is only sent while the
  confirmation dialog is open, and never are two deletes or two toggles under way.
\<close>

definition confirms_deletes ::
    "(row_state \<Rightarrow> row_msg node list) \<Rightarrow> (row_out \<Rightarrow> api_call option) \<Rightarrow> string \<Rightarrow> bool" where
  "confirms_deletes view call path \<longleftrightarrow>
     call OutDelete = Some (bare_call ''DELETE'' path)
     \<and> (\<forall>x. reach (row_offers view) row_step row_start x \<longrightarrow>
           run_deletes x \<le> 1 \<and> run_toggles x \<le> 1 \<and> (OutDelete, False) \<notin> set (run_log x))"

locale row_actions =
  fixes view :: "row_state \<Rightarrow> row_msg node list"
  assumes confirm_guard: "RowConfirm \<in> view_msgs (view s) \<Longrightarrow> row_open s \<and> \<not> row_deleting s"
    and toggle_guard: "RowToggle \<in> view_msgs (view s) \<Longrightarrow> \<not> row_toggling s"
begin

abbreviation row_inv :: "row_run \<Rightarrow> bool" where
  "row_inv x \<equiv>
     run_deletes x = (if row_deleting (run_state x) then 1 else 0)
     \<and> run_toggles x = (if row_toggling (run_state x) then 1 else 0)
     \<and> (OutDelete, False) \<notin> set (run_log x)"

lemma row_inv_step: "row_inv x \<Longrightarrow> m \<in> row_offers view x \<Longrightarrow> row_inv (row_step m x)"
  using confirm_guard [of "run_state x"] toggle_guard [of "run_state x"]
  by (cases m) (auto simp: row_step_def row_offers_def split: if_splits)

sublocale rows: ui_machine "row_offers view" row_step row_inv
  by unfold_locales (rule row_inv_step)

lemma delete_confirmed:
  assumes "reach (row_offers view) row_step row_start x"
  shows "run_deletes x \<le> 1 \<and> run_toggles x \<le> 1
    \<and> (OutDelete, False) \<notin> set (run_log x)"
proof -
  have "row_inv row_start" by (simp add: row_start_def row_init_def)
  from rows.reach_inv [OF assms this] show ?thesis by simp
qed

lemma row_confirms_deletes: "call OutDelete = Some (bare_call ''DELETE'' path) \<Longrightarrow> confirms_deletes view call path"
  unfolding confirms_deletes_def using delete_confirmed by blast

end

section \<open>What the parts offer\<close>

lemma form_label_msgs [view]: "msgs (form_label i t) = {}"
  by (simp add: form_label_def view)

lemma copy_button_msgs [view]: "msgs (copy_button v) = {}"
  by (simp add: copy_button_def)

lemma Field_msgs [view]: "msgs (Field l v c k) = {}"
  by (simp add: Field_def view)

lemma stat_cell_msgs [view]: "msgs (stat_cell c) = {}"
  by (simp add: stat_cell_def view split: prod.split)

lemma close_button_msgs [view]: "msgs (close_button m) = {m}"
  by (simp add: close_button_def view)

lemma panel_frame_msgs [view]:
  "view_msgs (panel_frame onClose shown body) =
     insert onClose (case shown of None \<Rightarrow> {} | Some x \<Rightarrow> view_msgs (body x))"
  by (simp add: panel_frame_def view split: option.split)

lemma tenant_select_msgs [view]: "msgs (tenant_select i ts v f) = range f"
  by (auto simp: tenant_select_def view view_msgs_map form_label_def)

lemma select_options_msgs [view]: "view_msgs (select_options opts) = {}"
  by (auto simp: select_options_def view_msgs_map msgs_El split: if_splits)

lemma select_hint_msgs [view]: "msgs (select_hint ic t) = {}"
  by (simp add: select_hint_def view)

lemma new_button_msgs [view]: "msgs (new_button m v l) = (if v = [] then {} else {m})"
  by (auto simp: new_button_def view)

lemma load_error_msgs [view]: "view_msgs (load_error b t) = {}"
  by (simp add: load_error_def view)

lemma row_button_msgs [view]: "msgs (row_button title m ic) = {m}"
  by (simp add: row_button_def view)

lemma toggle_button_msgs [view]: "msgs (toggle_button noun b pending) = (if pending then {} else {RowToggle})"
  by (simp add: toggle_button_def view)

lemma delete_dialog_msgs [view]:
  "view_msgs (delete_dialog title d s) =
     (if row_open s then insert RowClose (if row_deleting s then {} else {RowConfirm}) else {})"
  by (simp add: delete_dialog_def view)

section \<open>Properties\<close>

text \<open>The check mark of a copy button is never stuck: whatever clicks and timers happened up to
  some moment, once the timers due 1500 ms after that moment have fired the button shows the copy
  icon again, and no timer is left.\<close>

theorem copy_mark_disappears:
  assumes "\<forall>e \<in> set es. event_time e \<le> T" and "T + 1500 \<le> now"
  shows "copy_timers_fire now (fold (run_copy_event v) es copy_init) = copy_init"
proof -
  let ?s = "fold (run_copy_event v) es copy_init"
  have b: "\<forall>d \<in> set (cb_timers ?s). d \<le> T + 1500" "cb_copied ?s \<longrightarrow> cb_timers ?s \<noteq> []"
    using copy_timers_bound [of copy_init T es v] assms(1) by (simp_all add: copy_init_def)
  show ?thesis
  proof (cases "cb_timers ?s = []")
    case True
    with b show ?thesis by (cases ?s) (simp add: copy_timers_fire_def copy_init_def)
  next
    case False
    with b(1) assms(2) have "list_ex (\<lambda>d. d \<le> now) (cb_timers ?s)"
      and "filter (\<lambda>d. now < d) (cb_timers ?s) = []"
      by (auto simp: list_ex_iff neq_Nil_conv filter_empty_conv)
    then show ?thesis by (simp add: copy_timers_fire_def copy_init_def)
  qed
qed

theorem copy_mark_disappears_witness:
  "cb_copied (fold (run_copy_event ''key'') [Click 0, Click 1000] copy_init)
   \<and> copy_timers_fire 2500 (fold (run_copy_event ''key'') [Click 0, Click 1000] copy_init) = copy_init"
  using copy_mark_disappears [of "[Click 0, Click 1000]" 1000 2500 "''key''"]
  by (simp add: run_copy_event_def copy_def copy_init_def)

end
