(* ===== verification/Date_Utils.thy ===== *)
theory Date_Utils
  imports Prelude
begin

text \<open>
  \<^verbatim>\<open>src/ui/admin/src/lib/date-utils.ts\<close>.  The clock, the parser behind \<open>new Date(iso)\<close> (\<open>None\<close> is
  an invalid date, whose time is \<open>NaN\<close>) and the locale's formats are the environment's, a
  record that the views are given.
\<close>

record date_env =
  now_ms :: int
  parse_date :: "string \<Rightarrow> int option"
  locale_date :: "int option \<Rightarrow> string"
  locale_datetime :: "int option \<Rightarrow> string"

definition formatDistanceToNow :: "date_env \<Rightarrow> string \<Rightarrow> string" where
  "formatDistanceToNow env isoString =
     (case parse_date env isoString of
        None \<Rightarrow> ''NaNd ago''
      | Some t \<Rightarrow>
          let diff = now_ms env - t; seconds = diff div 1000 in
          if seconds < 60 then ''just now''
          else let minutes = seconds div 60 in
          if minutes < 60 then str_int minutes @ ''m ago''
          else let hours = minutes div 60 in
          if hours < 24 then str_int hours @ ''h ago''
          else let days = hours div 24 in
          str_int days @ ''d ago'')"

definition formatDate :: "date_env \<Rightarrow> string \<Rightarrow> string" where
  "formatDate env isoString = locale_date env (parse_date env isoString)"

definition formatDateTime :: "date_env \<Rightarrow> string \<Rightarrow> string" where
  "formatDateTime env isoString = locale_datetime env (parse_date env isoString)"

section \<open>The age as a unit and a count\<close>

datatype age = JustNow | Minutes int | Hours int | Days int

fun age_text :: "age \<Rightarrow> string" where
  "age_text JustNow = ''just now''"
| "age_text (Minutes m) = str_int m @ ''m ago''"
| "age_text (Hours h) = str_int h @ ''h ago''"
| "age_text (Days d) = str_int d @ ''d ago''"

text \<open>The specification: the largest unit that fits, counted in whole units of milliseconds.\<close>

definition age_of :: "int \<Rightarrow> age" where
  "age_of diff =
     (if diff < 60000 then JustNow
      else if diff < 3600000 then Minutes (diff div 60000)
      else if diff < 86400000 then Hours (diff div 3600000)
      else Days (diff div 86400000))"

lemma div_chain:
  fixes d :: int
  shows "d div 1000 div 60 = d div 60000" "d div 60000 div 60 = d div 3600000"
    "d div 3600000 div 24 = d div 86400000"
  using zdiv_zmult2_eq [of 60 d 1000] zdiv_zmult2_eq [of 60 d 60000] zdiv_zmult2_eq [of 24 d 3600000]
  by simp_all

lemma div_less_iff: "0 < b \<Longrightarrow> (d :: int) div b < n \<longleftrightarrow> d < n * b"
  using pos_imp_zdiv_neg_iff [of b "d + (- n) * b"] div_mult_self1 [of b d "- n"] by auto

lemma formatDistanceToNow_age:
  assumes "parse_date env d = Some t"
  shows "formatDistanceToNow env d = age_text (age_of (now_ms env - t))"
  using assms
  by (simp add: formatDistanceToNow_def age_of_def Let_def div_chain div_less_iff)

definition age_in_range :: "age \<Rightarrow> bool" where
  "age_in_range a =
     (case a of JustNow \<Rightarrow> True | Minutes m \<Rightarrow> 1 \<le> m \<and> m \<le> 59 | Hours h \<Rightarrow> 1 \<le> h \<and> h \<le> 23 | Days d \<Rightarrow> 1 \<le> d)"

lemma age_of_in_range: "age_in_range (age_of d)"
  by (auto simp: age_of_def age_in_range_def)

section \<open>Properties\<close>

text \<open>For a date that parses, \<open>formatDistanceToNow\<close> prints the age in the largest unit that
  fits, as the number of whole units in the difference in milliseconds: 1 to 59 minutes, 1 to 23
  hours, or days; anything under a minute, and every date in the future, is \<open>just now\<close>.\<close>

theorem formatDistanceToNow_largest_unit:
  assumes "parse_date env d = Some t"
  shows "formatDistanceToNow env d = age_text (age_of (now_ms env - t))
    \<and> age_in_range (age_of (now_ms env - t))"
  using formatDistanceToNow_age [OF assms] age_of_in_range by blast

theorem formatDistanceToNow_largest_unit_witness:
  "formatDistanceToNow \<lparr>now_ms = 7200000, parse_date = (\<lambda>s. Some 0), locale_date = (\<lambda>t. []),
     locale_datetime = (\<lambda>t. [])\<rparr> ''1970-01-01T00:00:00Z'' = ''2h ago''"
  using formatDistanceToNow_largest_unit
    [of "\<lparr>now_ms = 7200000, parse_date = (\<lambda>s. Some 0), locale_date = (\<lambda>t. []),
     locale_datetime = (\<lambda>t. [])\<rparr>" "''1970-01-01T00:00:00Z''" 0]
  by (simp add: age_of_def str_int_def nat_digits.simps)

end
