(* ===== verification/Slug.thy ===== *)
theory Slug
  imports Prelude
begin

text \<open>
  \<open>slugify\<close> of \<^verbatim>\<open>src/ui/admin/src/components/tenants/tenant-form.tsx\<close>, and that it is the hyphen-joined
  list of the words of its argument.
\<close>

section \<open>Slugs\<close>

definition slug_char :: "char \<Rightarrow> bool" where
  "slug_char c = (is_lower c \<or> is_digit c)"

text \<open>
  \<open>replace(/[^a-z0-9]+/g, '-')\<close>: every maximal run of other characters becomes one hyphen,
  written when the run begins (\<open>in_run\<close> is false).
\<close>

fun replace_runs :: "bool \<Rightarrow> string \<Rightarrow> string" where
  "replace_runs in_run [] = []"
| "replace_runs in_run (c # cs) =
     (if slug_char c then c # replace_runs False cs
      else (if in_run then [] else ''-'') @ replace_runs True cs)"

text \<open>\<open>replace(/(^-|-$)/g, '')\<close>: a hyphen at the start and one at the end are dropped.\<close>

definition strip_hyphens :: "string \<Rightarrow> string" where
  "strip_hyphens s =
     (let t = (if startsWith s ''-'' then tl s else s)
      in if endsWith t ''-'' then butlast t else t)"

definition slugify :: "string \<Rightarrow> string" where
  "slugify s = strip_hyphens (replace_runs False (toLowerCase s))"

section \<open>Reference: the words of a string\<close>

fun split_slug :: "string \<Rightarrow> string list" where
  "split_slug [] = [[]]"
| "split_slug (c # cs) =
     (if slug_char c then (case split_slug cs of [] \<Rightarrow> [[c]] | w # ws \<Rightarrow> (c # w) # ws)
      else [] # split_slug cs)"

definition slug_words :: "string \<Rightarrow> string list" where
  "slug_words s = filter (\<lambda>w. w \<noteq> []) (split_slug s)"

text \<open>The \<open>pattern\<close> of the slug input.\<close>

definition slug_pattern :: "string \<Rightarrow> bool" where
  "slug_pattern s \<longleftrightarrow> s \<noteq> [] \<and> slug_char (hd s) \<and> list_all (\<lambda>c. slug_char c \<or> c = CHR ''-'') s"

section \<open>Lemmas\<close>

lemma hyphen_no_slug_char [simp]: "\<not> slug_char (CHR ''-'')"
  by (simp add: slug_char_def is_lower_def is_digit_def)

lemma split_slug_not_Nil [simp]: "split_slug s \<noteq> []"
  by (induction s) (auto split: list.splits)

lemma split_slug_chars: "w \<in> set (split_slug s) \<Longrightarrow> list_all slug_char w"
  by (induction s arbitrary: w) (auto split: list.splits if_splits)

lemma slug_words_chars: "w \<in> set (slug_words s) \<Longrightarrow> w \<noteq> [] \<and> list_all slug_char w"
  using split_slug_chars by (auto simp: slug_words_def)

lemma slug_words_skip: "\<not> slug_char c \<Longrightarrow> slug_words (c # cs) = slug_words cs"
  by (simp add: slug_words_def)

lemma slug_words_start:
  assumes "slug_char c"
  shows "slug_words (c # cs) =
    (if cs \<noteq> [] \<and> slug_char (hd cs) then (c # hd (slug_words cs)) # tl (slug_words cs) else [c] # slug_words cs)"
  using assms by (cases cs) (auto simp: slug_words_def split: list.splits)

lemma slug_words_hd: "cs \<noteq> [] \<Longrightarrow> slug_char (hd cs) \<Longrightarrow> slug_words cs \<noteq> []"
  by (cases cs) (simp_all add: slug_words_start)

lemma slug_words_last: "cs \<noteq> [] \<Longrightarrow> slug_words cs = [] \<Longrightarrow> \<not> slug_char (last cs)"
proof (induction cs)
  case (Cons c cs)
  then show ?case by (cases "slug_char c") (auto simp: slug_words_skip slug_words_start split: if_splits)
qed simp

lemma join_words_Cons: "join sep (w # ws) = w @ (if ws = [] then [] else sep @ join sep ws)"
  by (cases ws) simp_all

lemma replace_runs_False:
  "replace_runs False s = (if s \<noteq> [] \<and> \<not> slug_char (hd s) then ''-'' else []) @ replace_runs True s"
  by (cases s) simp_all

lemma replace_runs_True:
  "replace_runs True s =
     join ''-'' (slug_words s) @ (if slug_words s \<noteq> [] \<and> \<not> slug_char (last s) then ''-'' else [])"
proof (induction s)
  case Nil
  then show ?case by (simp add: slug_words_def)
next
  case (Cons c cs)
  show ?case
  proof (cases "slug_char c")
    case False
    with Cons show ?thesis by (cases cs) (auto simp: slug_words_skip, simp add: slug_words_def)
  next
    case True
    consider "cs = []" | "cs \<noteq> []" "slug_char (hd cs)" | "cs \<noteq> []" "\<not> slug_char (hd cs)" by blast
    then show ?thesis
    proof cases
      case 1
      with True show ?thesis by (simp add: slug_words_def)
    next
      case 2
      with slug_words_hd obtain w ws where "slug_words cs = w # ws" by (cases "slug_words cs") auto
      with 2 True Cons show ?thesis
        by (simp add: replace_runs_False slug_words_start join_words_Cons)
    next
      case 3
      with True Cons slug_words_last [of cs] show ?thesis
        by (auto simp: replace_runs_False slug_words_start join_words_Cons)
    qed
  qed
qed

lemma join_words_ends:
  assumes "ws \<noteq> []" and "\<forall>w \<in> set ws. w \<noteq> [] \<and> list_all slug_char w"
  shows "join ''-'' ws \<noteq> [] \<and> slug_char (hd (join ''-'' ws)) \<and> slug_char (last (join ''-'' ws))"
  using assms
proof (induction ws)
  case (Cons w ws)
  then have "slug_char (hd w)" "slug_char (last w)" by (simp_all add: list_all_iff)
  with Cons show ?case by (cases "ws = []") (auto simp: join_words_Cons)
qed simp

lemma join_words_chars:
  "\<forall>w \<in> set ws. list_all slug_char w \<Longrightarrow> list_all (\<lambda>c. slug_char c \<or> c = CHR ''-'') (join ''-'' ws)"
  by (induction ws) (auto simp: join_words_Cons list_all_iff)

lemma startsWith_hyphen: "startsWith s ''-'' \<longleftrightarrow> s \<noteq> [] \<and> hd s = CHR ''-''"
  by (cases s) (auto simp: startsWith_def)

lemma endsWith_hyphen: "endsWith s ''-'' \<longleftrightarrow> s \<noteq> [] \<and> last s = CHR ''-''"
  by (cases s rule: rev_cases) (auto simp: endsWith_def)

lemma strip_hyphens_word:
  assumes "u \<noteq> []" and "slug_char (hd u)" and "slug_char (last u)"
  shows "strip_hyphens ((if p then ''-'' else []) @ u @ (if q then ''-'' else [])) = u"
  using assms by (auto simp: strip_hyphens_def Let_def startsWith_hyphen endsWith_hyphen)

lemma slugify_words: "slugify s = join ''-'' (slug_words (toLowerCase s))"
proof (cases "slug_words (toLowerCase s) = []")
  case True
  then show ?thesis
    by (simp add: slugify_def replace_runs_False replace_runs_True strip_hyphens_def startsWith_hyphen
        endsWith_hyphen)
next
  case False
  with join_words_ends [OF False] slug_words_chars show ?thesis
    unfolding slugify_def replace_runs_False replace_runs_True
    by (subst strip_hyphens_word) auto
qed

lemma split_slug_split_on:
  "list_all (\<lambda>c. slug_char c \<or> c = CHR ''-'') s \<Longrightarrow> split_slug s = split_on (CHR ''-'') s"
  by (induction s) auto

lemma slug_char_lower: "slug_char c \<Longrightarrow> lower_char c = c"
  by (auto simp: slug_char_def lower_char_def is_lower_def is_digit_def is_upper_def)

lemma toLowerCase_slug: "list_all (\<lambda>c. slug_char c \<or> c = CHR ''-'') s \<Longrightarrow> toLowerCase s = s"
  by (induction s) (auto simp: toLowerCase_def slug_char_lower, simp add: lower_char_def is_upper_def)

lemma slug_words_join:
  assumes "\<forall>w \<in> set ws. w \<noteq> [] \<and> list_all slug_char w"
  shows "slug_words (join ''-'' ws) = ws"
proof (cases "ws = []")
  case True
  then show ?thesis by (simp add: slug_words_def)
next
  case False
  have "\<forall>w \<in> set ws. CHR ''-'' \<notin> set w" using assms hyphen_no_slug_char by (metis list_all_iff)
  with False have "split_on (CHR ''-'') (join ''-'' ws) = ws" by (simp add: split_on_join)
  then show ?thesis
    using assms join_words_chars [of ws] by (simp add: slug_words_def split_slug_split_on)
qed

section \<open>Properties\<close>

text \<open>C21: \<open>slugify\<close> lower-cases its argument and joins its words (maximal runs of letters and digits)
  with single hyphens; the result is empty or accepted by the pattern of the slug input, does not
  begin or end with a hyphen, and is a fixed point of \<open>slugify\<close>.\<close>

theorem slugify_sound:
  "slugify s = join ''-'' (slug_words (toLowerCase s))
   \<and> (slugify s = [] \<or> slug_pattern (slugify s) \<and> slug_char (last (slugify s)))
   \<and> slugify (slugify s) = slugify s"
proof -
  let ?ws = "slug_words (toLowerCase s)"
  have w: "\<forall>w \<in> set ?ws. w \<noteq> [] \<and> list_all slug_char w" using slug_words_chars by blast
  then have c: "list_all (\<lambda>c. slug_char c \<or> c = CHR ''-'') (join ''-'' ?ws)" using join_words_chars by blast
  have "slugify (join ''-'' ?ws) = join ''-'' ?ws"
    using toLowerCase_slug [OF c] slug_words_join [OF w] by (simp add: slugify_words)
  moreover have "join ''-'' ?ws = [] \<or> slug_pattern (join ''-'' ?ws) \<and> slug_char (last (join ''-'' ?ws))"
    using join_words_ends [OF _ w] c by (cases "?ws = []") (auto simp: slug_pattern_def)
  ultimately show ?thesis by (simp add: slugify_words)
qed

end
