(* ===== verification/Tenants.thy ===== *)
theory Tenants
  imports Pagination Widgets Date_Utils Slug
begin

text \<open>
  The tenants page: \<^verbatim>\<open>src/ui/admin/src/components/tenants/*.tsx\<close> and
  \<^verbatim>\<open>src/ui/admin/src/pages/TenantsPage.tsx\<close>.  The form, the row actions, the
  detail panel and the counts, and the page with its filters, its pagination and its
  mutations.
\<close>

section \<open>Form\<close>

record tenant_initial =
  ti_name :: "string option"
  ti_slug :: "string option"
  ti_enabled :: "bool option"

definition no_tenant :: tenant_initial where
  "no_tenant = \<lparr>ti_name = None, ti_slug = None, ti_enabled = None\<rparr>"

definition initial_of_tenant :: "Tenant \<Rightarrow> tenant_initial" where
  "initial_of_tenant t = \<lparr>ti_name = Some (t_name t), ti_slug = Some (t_slug t), ti_enabled = Some (t_enabled t)\<rparr>"

record tenant_form =
  tf_name :: string
  tf_slug :: string
  tf_enabled :: bool
  tf_slugEdited :: bool
  tf_loading :: bool
  tf_error :: "string option"

definition TenantForm_init :: "tenant_initial \<Rightarrow> tenant_form" where
  "TenantForm_init initial =
     \<lparr>tf_name = nullish (ti_name initial) [], tf_slug = nullish (ti_slug initial) [],
      tf_enabled = nullish (ti_enabled initial) True, tf_slugEdited = truthy_str (ti_slug initial),
      tf_loading = False, tf_error = None\<rparr>"

datatype tenant_form_msg =
    TfName string
  | TfSlug string
  | TfEnabled bool
  | TfSubmit
  | TfCancel

definition handleName :: "string \<Rightarrow> tenant_form \<Rightarrow> tenant_form" where
  "handleName v s =
     (let s' = s\<lparr>tf_name := v\<rparr>
      in if tf_slugEdited s then s' else s'\<lparr>tf_slug := slugify v\<rparr>)"

text \<open>\<open>handleSubmit\<close> up to the call of \<open>onSubmit\<close>: the state, and the argument of the call.\<close>

definition TenantForm_handleSubmit :: "tenant_form \<Rightarrow> tenant_form \<times> CreateTenantBody option" where
  "TenantForm_handleSubmit s =
     (if trim (tf_name s) = [] \<or> trim (tf_slug s) = [] then (s, None)
      else (s\<lparr>tf_error := None, tf_loading := True\<rparr>,
            Some \<lparr>ct_name = trim (tf_name s), ct_slug = trim (tf_slug s), ct_enabled = Some (tf_enabled s)\<rparr>))"

fun TenantForm_update :: "tenant_form_msg \<Rightarrow> tenant_form \<Rightarrow> tenant_form \<times> CreateTenantBody option" where
  "TenantForm_update (TfName v) s = (handleName v s, None)"
| "TenantForm_update (TfSlug v) s = (s\<lparr>tf_slug := v, tf_slugEdited := True\<rparr>, None)"
| "TenantForm_update (TfEnabled b) s = (s\<lparr>tf_enabled := b\<rparr>, None)"
| "TenantForm_update TfSubmit s = TenantForm_handleSubmit s"
| "TenantForm_update TfCancel s = (s, None)"

text \<open>The rest of \<open>handleSubmit\<close>: \<open>catch\<close> and \<open>finally\<close>.\<close>

definition TenantForm_settle :: "js_thrown option \<Rightarrow> tenant_form \<Rightarrow> tenant_form" where
  "TenantForm_settle r s = s\<lparr>tf_error := settled_error r (tf_error s), tf_loading := False\<rparr>"

definition TenantForm :: "string \<Rightarrow> tenant_form \<Rightarrow> tenant_form_msg node list" where
  "TenantForm submitLabel s =
     [El ''form'' [OnSubmit TfSubmit]
       ([El ''div'' []
          [form_label ''tenant-name'' ''Name'',
           text_input ''tenant-name'' (tf_name s) TfName
             [Attr ''placeholder'' ''Acme Corp'', Flag ''required'' True, Flag ''autoFocus'' True]],
         El ''div'' []
          [form_label ''tenant-slug'' ''Slug'',
           text_input ''tenant-slug'' (tf_slug s) TfSlug
             [Attr ''placeholder'' ''acme-corp'', Flag ''required'' True,
              Attr ''pattern'' (''[a-z0-9][a-z0-9'' @ [CHR 0x5C] @ ''-]*''),
              Attr ''title'' ''Lowercase letters, numbers and hyphens only''],
           El ''p'' [] [Text (''Used in API paths '' @ middle_dot @ '' lowercase, hyphens only'')]],
         El ''div'' []
          [form_label ''tenant-enabled'' ''Enabled'',
           checkbox ''tenant-enabled'' (tf_enabled s) TfEnabled,
           El ''span'' [] [Text (if tf_enabled s then ''Tenant is active'' else ''Tenant is disabled'')]]]
        @ error_text (tf_error s)
        @ [form_buttons TfCancel (tf_loading s) (trim (tf_name s) = [] \<or> trim (tf_slug s) = [])
             ''Saving'' submitLabel])]"

text \<open>The form passes one object; as the argument of the update it is read as a partial body.\<close>

definition tenant_update_body :: "CreateTenantBody \<Rightarrow> UpdateTenantBody" where
  "tenant_update_body b =
     \<lparr>ut_name = Some (ct_name b), ut_slug = Some (ct_slug b), ut_enabled = ct_enabled b\<rparr>"

lemma tenant_update_body_same_json:
  "UpdateTenantBody_json (tenant_update_body b) = CreateTenantBody_json b"
  by (simp add: UpdateTenantBody_json_def CreateTenantBody_json_def tenant_update_body_def opt_field_def)

section \<open>Row actions, counts, detail panel\<close>

datatype tenant_row_event = TenantDeleted | TenantToggled

definition tenant_deleteMut :: "(string, tenant_row_event) mutation_options" where
  "tenant_deleteMut = useDeleteTenant (Some TenantDeleted)"

definition tenant_toggleMut :: "Tenant \<Rightarrow> (UpdateTenantBody, tenant_row_event) mutation_options" where
  "tenant_toggleMut t = useUpdateTenant (t_id t) (Some TenantToggled)"

definition tenant_row_toast :: "Tenant \<Rightarrow> tenant_row_event \<Rightarrow> toast_request" where
  "tenant_row_toast t e =
     (case e of
        TenantDeleted \<Rightarrow> success_toast ''Tenant deleted''
      | TenantToggled \<Rightarrow> success_toast (''Tenant '' @ (if t_enabled t then ''disabled'' else ''enabled'')))"

definition toggle_tenant_body :: "Tenant \<Rightarrow> UpdateTenantBody" where
  "toggle_tenant_body t = \<lparr>ut_name = None, ut_slug = None, ut_enabled = Some (\<not> t_enabled t)\<rparr>"

text \<open>The requests behind \<open>handleDelete\<close> and \<open>handleToggle\<close>.\<close>

definition tenant_row_call :: "Tenant \<Rightarrow> row_out \<Rightarrow> api_call option" where
  "tenant_row_call t out =
     (case out of
        OutEdit \<Rightarrow> None
      | OutToggle \<Rightarrow> Some (mutationFn (tenant_toggleMut t) (toggle_tenant_body t))
      | OutDelete \<Rightarrow> Some (mutationFn tenant_deleteMut (t_id t)))"

definition TenantRowActions :: "Tenant \<Rightarrow> row_state \<Rightarrow> row_msg node list" where
  "TenantRowActions t s =
     [El ''div'' []
       [row_button ''Edit tenant'' RowEdit ''Pencil'',
        toggle_button ''tenant'' (t_enabled t) (row_toggling s),
        row_button ''Delete tenant'' RowAskDelete ''Trash2'']]
     @ delete_dialog ''Delete tenant''
         (''This will permanently delete '' @ dquote @ t_name t @ dquote
          @ '' and all associated configuration. This cannot be undone.'') s"

definition tenant_stats :: "Tenant list \<Rightarrow> (string \<times> nat \<times> string) list" where
  "tenant_stats tenants =
     (let all = length tenants; enabled = length (filter t_enabled tenants); disabled = all - enabled
      in [(''Total'', all, ''Building2''), (''Active'', enabled, ''CheckCircle2''),
          (''Inactive'', disabled, ''XCircle'')])"

definition TenantStatsBar :: "Tenant list \<Rightarrow> 'm node" where
  "TenantStatsBar tenants = El ''div'' [] (map stat_cell (tenant_stats tenants))"

definition TenantDetailPanel :: "date_env \<Rightarrow> Tenant option \<Rightarrow> 'm \<Rightarrow> 'm node list" where
  "TenantDetailPanel env tenant onClose =
     panel_frame onClose tenant (\<lambda>t.
       [El ''div'' []
         [El ''div'' []
           [El ''div'' [] [El ''h3'' [] [Text (t_name t)], El ''p'' [] [Text (t_slug t)]],
            close_button onClose],
          El ''div'' []
           [El ''div'' [] [status_badge (t_enabled t) ''Enabled'' ''Disabled''],
            El ''div'' []
             [Field ''Tenant ID'' (t_id t) True True,
              Field ''Name'' (t_name t) False False,
              Field ''Slug'' (t_slug t) True True,
              Field ''Created'' (formatDateTime env (t_created_at t)) False False,
              Field ''Updated'' (formatDateTime env (t_updated_at t)) False False],
            El ''div'' []
             [El ''p'' [] [Text ''API Base Path''],
              El ''p'' [] [Text ''/api/v1/tenants/'', Text (t_id t), Text ''/'']]]]])"

section \<open>Page\<close>

definition tenants_PAGE_SIZE :: int where
  "tenants_PAGE_SIZE = 10"

record tenants_page =
  tp_search :: string
  tp_status :: string
  tp_page :: int
  tp_creating :: bool
  tp_editing :: "Tenant option"
  tp_selected :: "Tenant option"

definition TenantsPage_init :: tenants_page where
  "TenantsPage_init =
     \<lparr>tp_search = [], tp_status = ''all'', tp_page = 1, tp_creating = False, tp_editing = None,
      tp_selected = None\<rparr>"

datatype tenants_msg =
    TpSearch string
  | TpStatus string
  | TpPage int
  | TpCreating bool
  | TpEditing "Tenant option"
  | TpSelected "Tenant option"

fun TenantsPage_update :: "tenants_msg \<Rightarrow> tenants_page \<Rightarrow> tenants_page" where
  "TenantsPage_update (TpSearch v) s = s\<lparr>tp_search := v, tp_page := 1\<rparr>"
| "TenantsPage_update (TpStatus v) s = s\<lparr>tp_status := v, tp_page := 1\<rparr>"
| "TenantsPage_update (TpPage p) s = s\<lparr>tp_page := p\<rparr>"
| "TenantsPage_update (TpCreating b) s = s\<lparr>tp_creating := b\<rparr>"
| "TenantsPage_update (TpEditing t) s = s\<lparr>tp_editing := t\<rparr>"
| "TenantsPage_update (TpSelected t) s = s\<lparr>tp_selected := t\<rparr>"

text \<open>The two mutations and what their callbacks do.\<close>

datatype tenants_event = TenantCreated | TenantUpdated

definition tenants_createMut :: "(CreateTenantBody, tenants_event) mutation_options" where
  "tenants_createMut = useCreateTenant (Some TenantCreated)"

definition tenants_editMut :: "tenants_page \<Rightarrow> (UpdateTenantBody, tenants_event) mutation_options" where
  "tenants_editMut s = useUpdateTenant (nullish (map_option t_id (tp_editing s)) []) (Some TenantUpdated)"

fun tenants_on_event :: "tenants_event \<Rightarrow> tenants_page \<Rightarrow> tenants_page \<times> toast_request" where
  "tenants_on_event TenantCreated s = (s\<lparr>tp_creating := False\<rparr>, success_toast ''Tenant created'')"
| "tenants_on_event TenantUpdated s = (s\<lparr>tp_editing := None\<rparr>, success_toast ''Tenant updated'')"

definition tenant_matches :: "string \<Rightarrow> Tenant \<Rightarrow> bool" where
  "tenant_matches search t =
     (includes_str (toLowerCase (t_name t)) (toLowerCase search)
      \<or> includes_str (t_slug t) (toLowerCase search))"

definition tenants_filtered :: "Tenant list \<Rightarrow> tenants_page \<Rightarrow> Tenant list" where
  "tenants_filtered data s =
     filter_status (tp_status s) t_enabled
       (filter_search (tp_search s) (tenant_matches (tp_search s)) data)"

definition tenants_paginated :: "Tenant list \<Rightarrow> tenants_page \<Rightarrow> Tenant list" where
  "tenants_paginated data s =
     js_slice (tenants_filtered data s) ((tp_page s - 1) * tenants_PAGE_SIZE) (tp_page s * tenants_PAGE_SIZE)"

definition tenants_columns :: "date_env \<Rightarrow> (Tenant, tenants_msg) Column list" where
  "tenants_columns env =
     [column ''name'' ''Name'' None (\<lambda>t.
        [El ''button'' [OnClick (TpSelected (Some t))]
          [El ''div'' [] [icon ''Building2''],
           El ''div'' [] [El ''p'' [] [Text (t_name t)], El ''p'' [] [Text (t_slug t)]]]]),
      column ''status'' ''Status'' (Some ''100px'') (\<lambda>t. [status_badge (t_enabled t) ''Active'' ''Inactive'']),
      column ''created'' ''Created'' (Some ''120px'') (\<lambda>t. [El ''span'' [] [Text (formatDate env (t_created_at t))]]),
      actions_column ''100px'' (\<lambda>t.
        [Comp ''TenantRowActions'' [Attr ''tenant'' (t_id t), OnEvent ''onEdit'' (TpEditing (Some t))]])]"

definition tenants_table :: "tenants_page \<Rightarrow> bool \<Rightarrow> tenants_msg TableOptions" where
  "tenants_table s loading =
     (let unfiltered = (tp_search s = [] \<and> tp_status s = ''all'') in
      \<lparr>tbl_loading = loading,
       tbl_emptyTitle = Some (if \<not> unfiltered then ''No tenants match your filters'' else ''No tenants yet''),
       tbl_emptyDescription =
         (if unfiltered then Some ''Create your first tenant to get started.'' else None),
       tbl_emptyAction =
         (if unfiltered
          then Some [El ''button'' [OnClick (TpCreating True)] [icon ''Plus'', Text '' New Tenant'']] else None),
       tbl_skeletonRows = None\<rparr>)"

definition TenantsPage :: "date_env \<Rightarrow> Tenant query_result \<Rightarrow> tenants_page \<Rightarrow> tenants_msg node list" where
  "TenantsPage env q s =
     (let data = query_data q in
      [El ''div'' []
        ([PageHeader ''Tenants'' (Some ''Manage gateway tenants and their configuration.'')
            (Some [El ''button'' [OnClick (TpCreating True)] [icon ''Plus'', Text '' New Tenant'']]) None]
         @ show_if (data \<noteq> []) [El ''div'' [] [TenantStatsBar data]]
         @ [El ''div'' []
             [SearchBar (tp_search s) TpSearch (Some (''Search tenants'' @ ellipsis)),
              FilterSelect ''Status'' (tp_status s) status_options TpStatus]]
         @ show_if (qr_isError q)
             [El ''div'' [] [El ''p'' [] [Text ''Failed to load tenants. Is the control API running?'']]]
         @ [DataTable (tenants_columns env) (tenants_paginated data s) t_id (tenants_table s (qr_isLoading q))]
         @ Pagination (tp_page s) tenants_PAGE_SIZE (int (length (tenants_filtered data s))) TpPage
         @ Modal (tp_creating s) (TpCreating False) (Some ''New Tenant'') (Some ''Add a new tenant to the gateway.'')
             [Comp ''TenantForm'' [Attr ''submitLabel'' ''Create Tenant'', OnEvent ''onCancel'' (TpCreating False)]]
         @ Modal (tp_editing s \<noteq> None) (TpEditing None) (Some ''Edit Tenant'') None
             (case tp_editing s of None \<Rightarrow> []
              | Some t \<Rightarrow> [Comp ''TenantForm'' [Attr ''initial'' (t_id t), Attr ''submitLabel'' ''Save Changes'',
                  OnEvent ''onCancel'' (TpEditing None)]])
         @ TenantDetailPanel env (tp_selected s) (TpSelected None))])"

section \<open>The form meets the contract of a submission\<close>

definition tenant_body_ok :: "CreateTenantBody \<Rightarrow> bool" where
  "tenant_body_ok b \<longleftrightarrow>
     ct_name b \<noteq> [] \<and> trim (ct_name b) = ct_name b \<and> ct_slug b \<noteq> [] \<and> trim (ct_slug b) = ct_slug b"

lemma TenantForm_can_submit:
  "can_submit (TenantForm lbl s) \<longleftrightarrow> \<not> tf_loading s \<and> trim (tf_name s) \<noteq> [] \<and> trim (tf_slug s) \<noteq> []"
  by (auto simp: can_submit_def TenantForm_def form_view_defs is_submit_button_def is_disabled_def
      split: option.splits)

interpretation tenant_submit: submit_form "TenantForm lbl" TfSubmit TenantForm_update TenantForm_settle
    tf_loading tenant_body_ok for lbl
proof (unfold_locales, goal_cases)
  case (1 s)
  then show ?case by (simp add: TenantForm_can_submit)
next
  case (2 m s)
  then show ?case by (cases m) (auto simp: handleName_def Let_def)
next
  case (3 s)
  then show ?case by (auto simp: TenantForm_handleSubmit_def split: if_splits)
next
  case (4 s b)
  then show ?case by (auto simp: TenantForm_handleSubmit_def tenant_body_ok_def split: if_splits)
next
  case (5 r s)
  then show ?case by (simp add: TenantForm_settle_def)
qed

text \<open>The slug follows the name until the user edits it.\<close>

definition slug_follows :: "tenant_form \<Rightarrow> bool" where
  "slug_follows s \<longleftrightarrow> (\<not> tf_slugEdited s \<longrightarrow> tf_slug s = slugify (tf_name s))"

interpretation tenant_slug: ui_machine "form_offers (TenantForm lbl) TfSubmit"
    "form_step TenantForm_update TenantForm_settle" "\<lambda>x. slug_follows (ses_form x)" for lbl
proof unfold_locales
  fix x :: "(tenant_form, CreateTenantBody) session" and m
  assume i: "slug_follows (ses_form x)"
  show "slug_follows (ses_form (form_step TenantForm_update TenantForm_settle m x))"
  proof (cases m)
    case (User u)
    with i show ?thesis
      by (cases u) (auto simp: slug_follows_def handleName_def Let_def TenantForm_handleSubmit_def)
  next
    case (Settled r)
    with i show ?thesis by (simp add: slug_follows_def TenantForm_settle_def)
  qed
qed

section \<open>The row actions meet their contract\<close>

interpretation tenant_row: row_actions "TenantRowActions t" for t
  by unfold_locales (auto simp: TenantRowActions_def view split: if_splits)

section \<open>The page\<close>

lemma tenants_filtered_eq:
  "tenants_filtered data s =
     filter (\<lambda>t. (tp_search s \<noteq> [] \<longrightarrow> tenant_matches (tp_search s) t) \<and> status_ok (tp_status s) (t_enabled t)) data"
  by (auto simp: tenants_filtered_def filter_status_eq filter_search_def conj_commute intro: filter_cong)

definition tenants_offers :: "date_env \<Rightarrow> Tenant query_result \<Rightarrow> tenants_page \<Rightarrow> tenants_msg set" where
  "tenants_offers env q s = view_msgs (TenantsPage env q s)"

lemma tenants_parts_msgs:
  "TpPage p \<notin> msgs (DataTable (tenants_columns env) data t_id (tenants_table s loading))"
  "TpPage p \<notin> view_msgs (TenantDetailPanel env sel (TpSelected None))"
  "msgs (TenantStatsBar data) = {}"
  by (simp_all add: view tenants_columns_def tenants_table_def Let_def TenantDetailPanel_def
      TenantStatsBar_def view_msgs_map split: option.split)

lemma TenantsPage_page_msgs:
  assumes "TpPage p \<in> tenants_offers env q s"
  shows "p \<in> page_offers tenants_PAGE_SIZE (int (length (tenants_filtered (query_data q) s))) (tp_page s)"
proof -
  have "TpPage p \<in> view_msgs (Pagination (tp_page s) tenants_PAGE_SIZE
      (int (length (tenants_filtered (query_data q) s))) TpPage)"
    using assms
    by (cases "tp_editing s") (simp_all add: tenants_offers_def TenantsPage_def Let_def view tenants_parts_msgs
        image_iff split: if_splits del: DataTable_msgs)
  then show ?thesis by (rule Pagination_msg_page) simp
qed

interpretation tenants_list: paged_machine tp_page "tenants_filtered (query_data q)"
    "tenants_paginated (query_data q)" "\<lambda>p. TenantsPage_update (TpPage p)" tenants_PAGE_SIZE
    "tenants_offers env q" TenantsPage_update for env q
proof (unfold_locales, goal_cases)
  case (5 m s)
  then show ?case
  proof (cases m)
    case (TpPage p)
    with 5 TenantsPage_page_msgs show ?thesis by (auto simp: tenants_filtered_def)
  qed (simp_all add: tenants_filtered_def)
qed (simp_all add: tenants_PAGE_SIZE_def tenants_paginated_def page_rows_def tenants_filtered_def)

section \<open>Properties\<close>

text \<open>In every session of the tenant form, however the user types, submits and whatever comes back,
  at most one submission is under way (exactly when the form shows its spinner), and every body that was
  submitted has a nonempty trimmed name and slug.\<close>

theorem tenant_form_one_submission:
  assumes "reach (form_offers (TenantForm lbl) TfSubmit) (form_step TenantForm_update TenantForm_settle)
      (open_session (TenantForm_init initial)) x"
  shows "ses_in_flight x = (if tf_loading (ses_form x) then 1 else 0) \<and> list_all tenant_body_ok (ses_sent x)"
  using tenant_submit.one_submission_at_a_time [OF assms] by (simp add: TenantForm_init_def)

theorem tenant_form_one_submission_witness:
  "\<exists>x. reach (form_offers (TenantForm ''Save'') TfSubmit) (form_step TenantForm_update TenantForm_settle)
      (open_session (TenantForm_init (no_tenant\<lparr>ti_name := Some '' Acme '', ti_slug := Some ''acme''\<rparr>))) x
    \<and> ses_in_flight x = 1 \<and> list_all tenant_body_ok (ses_sent x) \<and> ses_sent x \<noteq> []"
proof -
  let ?s = "open_session (TenantForm_init (no_tenant\<lparr>ti_name := Some '' Acme '', ti_slug := Some ''acme''\<rparr>))
    :: (tenant_form, CreateTenantBody) session"
  let ?x = "form_step TenantForm_update TenantForm_settle (User TfSubmit) ?s"
  have offer: "User TfSubmit \<in> form_offers (TenantForm ''Save'') TfSubmit ?s"
    by (simp add: form_offers_def open_session_def TenantForm_can_submit TenantForm_init_def no_tenant_def
        nullish_def trim_def is_space_def, simp add: TenantForm_def view)
  have run: "reach (form_offers (TenantForm ''Save'') TfSubmit) (form_step TenantForm_update TenantForm_settle) ?s ?x"
    using offer by (rule reach_run)
  have "tf_loading (ses_form ?x)" "ses_sent ?x \<noteq> []"
    by (simp_all add: open_session_def TenantForm_init_def no_tenant_def nullish_def
        TenantForm_handleSubmit_def trim_def is_space_def)
  with tenant_form_one_submission [OF run] run show ?thesis by auto
qed

text \<open>C20: In a form opened without a slug the slug field always shows the slug generated from the
  current name, until the user edits the slug by hand; from then on typing a name leaves it alone.\<close>

theorem tenant_slug_tracks_name:
  assumes "reach (form_offers (TenantForm lbl) TfSubmit) (form_step TenantForm_update TenantForm_settle)
      (open_session (TenantForm_init no_tenant)) x"
  shows "(\<not> tf_slugEdited (ses_form x) \<longrightarrow> tf_slug (ses_form x) = slugify (tf_name (ses_form x)))
    \<and> (tf_slugEdited (ses_form x) \<longrightarrow> tf_slug (handleName v (ses_form x)) = tf_slug (ses_form x))"
proof -
  have "slug_follows (TenantForm_init no_tenant)"
    by (simp add: slug_follows_def TenantForm_init_def no_tenant_def nullish_def slugify_words
        slug_words_def toLowerCase_def)
  with tenant_slug.reach_inv [OF assms] have "slug_follows (ses_form x)" by (simp add: open_session_def)
  then show ?thesis by (simp add: slug_follows_def handleName_def Let_def)
qed

theorem tenant_slug_tracks_name_witness:
  "tf_slug (ses_form (form_step TenantForm_update TenantForm_settle (User (TfName ''Acme Corp''))
     (open_session (TenantForm_init no_tenant)))) = ''acme-corp''"
proof -
  let ?s = "open_session (TenantForm_init no_tenant) :: (tenant_form, CreateTenantBody) session"
  let ?x = "form_step TenantForm_update TenantForm_settle (User (TfName ''Acme Corp'')) ?s"
  have "User (TfName ''Acme Corp'') \<in> form_offers (TenantForm ''Save'') TfSubmit ?s"
    by (simp add: form_offers_def TenantForm_def view text_input_def image_iff)
  then have "reach (form_offers (TenantForm ''Save'') TfSubmit) (form_step TenantForm_update TenantForm_settle) ?s ?x"
    by (rule reach_run)
  from tenant_slug_tracks_name [OF this, of "[]"]
  have "tf_slug (ses_form ?x) = slugify ''Acme Corp''"
    by (simp add: open_session_def TenantForm_init_def no_tenant_def handleName_def nullish_def)
  moreover have "slugify ''Acme Corp'' = ''acme-corp''" by code_simp
  ultimately show ?thesis by simp
qed

text \<open>A row of the tenants table sends a delete request only while its confirmation dialog is
  open, and never has two deletes or two toggles under way; the requests are \<open>DELETE\<close> of that tenant's
  own path and a \<open>PATCH\<close> of it whose body flips \<open>enabled\<close> and has no other field.\<close>

theorem tenant_row_confirmed:
  assumes "reach (row_offers (TenantRowActions t)) row_step row_start x"
  shows "run_deletes x \<le> 1 \<and> run_toggles x \<le> 1 \<and> (OutDelete, False) \<notin> set (run_log x)
    \<and> tenant_row_call t OutDelete = Some (bare_call ''DELETE'' (''/tenants/'' @ t_id t))
    \<and> tenant_row_call t OutToggle =
        Some (send_call ''PATCH'' (''/tenants/'' @ t_id t) (JObj [(''enabled'', JBool (\<not> t_enabled t))]))"
  using tenant_row.delete_confirmed [OF assms]
  by (simp add: tenant_row_call_def tenant_deleteMut_def tenant_toggleMut_def useDeleteTenant_def
      useUpdateTenant_def tenants_delete_def tenants_update_def UpdateTenantBody_json_def
      toggle_tenant_body_def opt_field_def)

theorem tenant_row_confirmed_witness:
  "run_deletes (fold row_step [RowAskDelete, RowConfirm] row_start) \<le> 1
   \<and> run_log (fold row_step [RowAskDelete, RowConfirm] row_start) = [(OutDelete, True)]"
proof -
  define t where "t = \<lparr>t_id = ''7'', t_name = ''Acme'', t_slug = ''acme'', t_enabled = True,
    t_created_at = [], t_updated_at = []\<rparr>"
  have a: "RowAskDelete \<in> row_offers (TenantRowActions t) row_start"
    and b: "RowConfirm \<in> row_offers (TenantRowActions t) (row_step RowAskDelete row_start)"
    by (auto simp: row_offers_def TenantRowActions_def view row_start_def row_init_def row_step_def)
  have "reach (row_offers (TenantRowActions t)) row_step row_start (row_step RowConfirm (row_step RowAskDelete row_start))"
    by (rule reach.step, rule reach_run, rule a, rule b)
  from tenant_row_confirmed [OF this] show ?thesis
    by (simp add: row_start_def row_init_def row_step_def)
qed

text \<open>As long as the loaded list does not change, the tenants table is never empty while some tenant
  matches the filters: from the page's initial state, whatever the user does with search, status,
  pagination and dialogs, the page number stays one that has rows.\<close>

theorem tenants_table_filled:
  assumes "reach (tenants_offers env q) TenantsPage_update TenantsPage_init s"
    and "tenants_filtered (query_data q) s \<noteq> []"
  shows "tenants_paginated (query_data q) s \<noteq> []"
  using tenants_list.table_filled [OF assms(1) _ assms(2)] by (simp add: TenantsPage_init_def)

theorem tenants_table_filled_witness:
  "tenants_paginated [\<lparr>t_id = ''7'', t_name = ''Acme'', t_slug = ''acme'', t_enabled = True,
     t_created_at = [], t_updated_at = []\<rparr>] TenantsPage_init \<noteq> []"
  using tenants_table_filled [OF reach.start, of "\<lparr>qr_data = Some [\<lparr>t_id = ''7'', t_name = ''Acme'',
      t_slug = ''acme'', t_enabled = True, t_created_at = [], t_updated_at = []\<rparr>],
      qr_isLoading = False, qr_isError = False\<rparr>"]
  by (simp add: query_data_def nullish_def tenants_filtered_def filter_status_def filter_search_def
      TenantsPage_init_def)

text \<open>Going through the pages of the tenants table shows exactly the tenants whose name contains
  the search text up to case or whose slug contains it in lower case, and whose state agrees with the
  status filter; each once and in the order of the loaded list.\<close>

theorem tenants_pages_show_matches:
  "concat (map (\<lambda>p. tenants_paginated data (TenantsPage_update (TpPage p) s))
      [1..totalPages (int (length (tenants_filtered data s))) tenants_PAGE_SIZE])
   = filter (\<lambda>t. (tp_search s = [] \<or> contains_ci (tp_search s) (t_name t)
                   \<or> sublist (toLowerCase (tp_search s)) (t_slug t))
                 \<and> status_ok (tp_status s) (t_enabled t)) data"
proof -
  have "query_data \<lparr>qr_data = Some data, qr_isLoading = False, qr_isError = False\<rparr> = data"
    by (simp add: query_data_def nullish_def)
  with tenants_list.pages_partition [of "\<lparr>qr_data = Some data, qr_isLoading = False, qr_isError = False\<rparr>" s]
  have "concat (map (\<lambda>p. tenants_paginated data (TenantsPage_update (TpPage p) s))
      [1..totalPages (int (length (tenants_filtered data s))) tenants_PAGE_SIZE]) = tenants_filtered data s"
    by simp
  also have "\<dots> = filter (\<lambda>t. (tp_search s = [] \<or> contains_ci (tp_search s) (t_name t)
        \<or> sublist (toLowerCase (tp_search s)) (t_slug t)) \<and> status_ok (tp_status s) (t_enabled t)) data"
    unfolding tenants_filtered_eq
    by (rule filter_cong) (auto simp: tenant_matches_def contains_ci_def includes_str_iff)
  finally show ?thesis .
qed

text \<open>C19: When the list shrinks under the page (a delete of the only row of the last page), the page
  number is not corrected: with eleven tenants on page 2 and one of them gone, the table is empty though
  ten tenants match, the empty state claims that there are none yet, and no pagination is shown
  to go back.\<close>

theorem tenants_page_not_clamped:
  assumes "length data = 10"
  shows "let s = TenantsPage_update (TpPage 2) TenantsPage_init in
     tenants_filtered data s = data \<and> tenants_paginated data s = []
     \<and> tbl_emptyTitle (tenants_table s False) = Some ''No tenants yet''
     \<and> Pagination (tp_page s) tenants_PAGE_SIZE (int (length (tenants_filtered data s))) TpPage = []"
proof -
  let ?s = "TenantsPage_update (TpPage 2) TenantsPage_init"
  have f: "tenants_filtered data ?s = data"
    by (simp add: TenantsPage_init_def tenants_filtered_def filter_status_def filter_search_def)
  have p: "totalPages (int (length data)) tenants_PAGE_SIZE = 1"
    using assms by (simp add: totalPages_def ceil_div_def tenants_PAGE_SIZE_def)
  have "page_rows 2 tenants_PAGE_SIZE data = []"
    using p by (intro page_rows_beyond) (simp_all add: tenants_PAGE_SIZE_def)
  then have r: "tenants_paginated data ?s = []"
    using f by (simp add: tenants_paginated_def page_rows_def TenantsPage_init_def)
  have e: "tbl_emptyTitle (tenants_table ?s False) = Some ''No tenants yet''"
    by (simp add: tenants_table_def TenantsPage_init_def)
  show ?thesis unfolding Let_def f using p r e by (simp add: Pagination_def)
qed

theorem tenants_page_not_clamped_witness:
  "\<exists>data :: Tenant list. data \<noteq> [] \<and>
     tenants_paginated data (TenantsPage_update (TpPage 2) TenantsPage_init) = []"
proof -
  let ?t = "\<lparr>t_id = ''7'', t_name = ''Acme'', t_slug = ''acme'', t_enabled = True,
    t_created_at = [], t_updated_at = []\<rparr>"
  have "length (replicate 10 ?t) = 10" by simp
  from tenants_page_not_clamped [OF this] show ?thesis
    by (intro exI [of _ "replicate 10 ?t"]) (simp add: Let_def)
qed

end
