(* ===== verification/Upstreams.thy ===== *)
theory Upstreams
  imports Pagination Widgets Date_Utils
begin

text \<open>
  The upstreams page: \<^verbatim>\<open>src/ui/admin/src/components/upstreams/*.tsx\<close> and
  \<^verbatim>\<open>src/ui/admin/src/pages/UpstreamsPage.tsx\<close>.  The parser behind \<open>new URL\<close> is the browser's and is the
  parameter \<open>parse_url\<close> (\<open>None\<close> when the constructor throws).
\<close>

section \<open>Timeout badge\<close>

text \<open>
  \<open>(ms / 1000).toFixed(1)\<close> picks the nearest number of tenths to the double \<open>ms / 1000\<close>, the larger
  one of two equally near.  The double is the correctly rounded quotient, so a tie of the exact
  quotient is decided by the direction in which that quotient was rounded, which
  \<open>quotient_rounds_up\<close> computes (53 bits of mantissa, ties to even).
\<close>

fun log2_floor :: "nat \<Rightarrow> nat" where
  "log2_floor n = (if n < 2 then 0 else Suc (log2_floor (n div 2)))"

declare log2_floor.simps [simp del]

definition quotient_rounds_up :: "int \<Rightarrow> int \<Rightarrow> bool" where
  "quotient_rounds_up a b =
     (let num = a * 2 ^ (52 - log2_floor (nat (a div b))); q = num div b; r = num mod b
      in r = 0 \<or> b < 2 * r \<or> 2 * r = b \<and> odd q)"

definition tenths :: "int \<Rightarrow> int" where
  "tenths ms =
     (let q = ms div 100; r = ms mod 100
      in if r < 50 then q else if 50 < r then q + 1
         else if quotient_rounds_up ms 1000 then q + 1 else q)"

definition formatTimeout :: "int \<Rightarrow> string" where
  "formatTimeout ms =
     (if 1000 \<le> ms
      then (if ms mod 1000 = 0 then str_int (ms div 1000)
            else str_int (tenths ms div 10) @ ''.'' @ str_int (tenths ms mod 10)) @ ''s''
      else str_int ms @ ''ms'')"

definition timeout_variant :: "int \<Rightarrow> BadgeVariant" where
  "timeout_variant timeoutMs =
     (if timeoutMs < 1000 then BvSuccess else if timeoutMs < 5000 then BvWarning else BvDestructive)"

definition TimeoutBadge :: "int \<Rightarrow> 'm node" where
  "TimeoutBadge timeoutMs =
     Badge (Some (timeout_variant timeoutMs)) False [icon ''Clock'', Text (formatTimeout timeoutMs)]"

section \<open>Health badge and address\<close>

datatype HealthStatus = Healthy | Degraded | Unreachable | Unknown

fun healthConfig :: "HealthStatus \<Rightarrow> BadgeVariant \<times> string" where
  "healthConfig Healthy = (BvSuccess, ''Healthy'')"
| "healthConfig Degraded = (BvWarning, ''Degraded'')"
| "healthConfig Unreachable = (BvDestructive, ''Unreachable'')"
| "healthConfig Unknown = (BvGhost, ''Unknown'')"

definition effectiveStatus :: "Upstream \<Rightarrow> HealthStatus option \<Rightarrow> HealthStatus" where
  "effectiveStatus u status = (if \<not> u_enabled u then Unknown else nullish status Unknown)"

definition UpstreamHealthBadge :: "Upstream \<Rightarrow> HealthStatus option \<Rightarrow> 'm node" where
  "UpstreamHealthBadge u status =
     (case healthConfig (effectiveStatus u status) of
        (variant, label) \<Rightarrow> Badge (Some variant) True [Text (if u_enabled u then label else ''Disabled'')])"

definition truncated_url :: "string \<Rightarrow> int \<Rightarrow> string" where
  "truncated_url url maxLength =
     (if maxLength < int (length url) then js_slice url 0 maxLength @ ellipsis else url)"

definition UpstreamUrlDisplay :: "'m \<Rightarrow> string \<Rightarrow> int option \<Rightarrow> copy_state \<Rightarrow> 'm node" where
  "UpstreamUrlDisplay onCopy url maxLength s =
     El ''span'' []
       [El ''span'' [Attr ''title'' url] [Text (truncated_url url (nullish maxLength 40))],
        CopyButton onCopy ''Copy URL'' s,
        El ''a'' [Attr ''href'' url, Attr ''target'' ''_blank'', Attr ''rel'' ''noopener noreferrer'',
                  Attr ''title'' ''Open URL''] [icon ''ExternalLink'']]"

section \<open>Validation of the base URL\<close>

record parsed_url =
  url_protocol :: string
  url_hostname :: string
  url_host :: string

definition validateUpstreamUrl :: "(string \<Rightarrow> parsed_url option) \<Rightarrow> string \<Rightarrow> string option" where
  "validateUpstreamUrl parse_url url =
     (let trimmed = trim url in
      if trimmed = [] then Some ''Base URL is required''
      else if \<not> startsWith trimmed ''http://'' \<and> \<not> startsWith trimmed ''https://''
      then Some ''Base URL must start with http:// or https://''
      else (case parse_url trimmed of
              None \<Rightarrow> Some ''Base URL is not a valid URL''
            | Some parsed \<Rightarrow>
                if url_hostname parsed = [] then Some ''Base URL must include a valid hostname''
                else if endsWith trimmed ''/''
                  \<and> trimmed \<noteq> url_protocol parsed @ ''//'' @ url_host parsed @ ''/''
                then Some (''Base URL should not include a trailing path '' @ em_dash
                           @ '' use routes for path-based routing'')
                else None))"

section \<open>Form\<close>

record upstream_initial =
  ui_name :: "string option"
  ui_base_url :: "string option"
  ui_timeout_ms :: "int option"
  ui_enabled :: "bool option"

definition no_upstream :: upstream_initial where
  "no_upstream = \<lparr>ui_name = None, ui_base_url = None, ui_timeout_ms = None, ui_enabled = None\<rparr>"

definition initial_of_upstream :: "Upstream \<Rightarrow> upstream_initial" where
  "initial_of_upstream u =
     \<lparr>ui_name = Some (u_name u), ui_base_url = Some (u_base_url u), ui_timeout_ms = Some (u_timeout_ms u),
      ui_enabled = Some (u_enabled u)\<rparr>"

record upstream_form =
  uf_name :: string
  uf_baseUrl :: string
  uf_timeoutMs :: string
  uf_enabled :: bool
  uf_loading :: bool
  uf_error :: "string option"
  uf_urlError :: "string option"

definition UpstreamForm_init :: "upstream_initial \<Rightarrow> upstream_form" where
  "UpstreamForm_init initial =
     \<lparr>uf_name = nullish (ui_name initial) [], uf_baseUrl = nullish (ui_base_url initial) [],
      uf_timeoutMs = str_int (nullish (ui_timeout_ms initial) 5000),
      uf_enabled = nullish (ui_enabled initial) True, uf_loading = False, uf_error = None, uf_urlError = None\<rparr>"

datatype upstream_form_msg =
    UfName string
  | UfUrl string
  | UfTimeout string
  | UfEnabled bool
  | UfSubmit
  | UfCancel

definition handleUrlChange :: "(string \<Rightarrow> parsed_url option) \<Rightarrow> string \<Rightarrow> upstream_form \<Rightarrow> upstream_form" where
  "handleUrlChange parse_url v s = s\<lparr>uf_baseUrl := v, uf_urlError := validateUpstreamUrl parse_url v\<rparr>"

definition UpstreamForm_handleSubmit ::
    "(string \<Rightarrow> parsed_url option) \<Rightarrow> upstream_form \<Rightarrow> upstream_form \<times> CreateUpstreamBody option" where
  "UpstreamForm_handleSubmit parse_url s =
     (case validateUpstreamUrl parse_url (uf_baseUrl s) of
        Some urlErr \<Rightarrow> (s\<lparr>uf_urlError := Some urlErr\<rparr>, None)
      | None \<Rightarrow>
          if trim (uf_name s) = [] then (s, None)
          else (s\<lparr>uf_error := None, uf_loading := True\<rparr>,
                Some \<lparr>cu_name = trim (uf_name s), cu_base_url = trim (uf_baseUrl s),
                      cu_timeout_ms = Some (parseInt_or (uf_timeoutMs s) 5000),
                      cu_enabled = Some (uf_enabled s)\<rparr>))"

fun UpstreamForm_update ::
    "(string \<Rightarrow> parsed_url option) \<Rightarrow> upstream_form_msg \<Rightarrow> upstream_form
     \<Rightarrow> upstream_form \<times> CreateUpstreamBody option" where
  "UpstreamForm_update parse_url (UfName v) s = (s\<lparr>uf_name := v\<rparr>, None)"
| "UpstreamForm_update parse_url (UfUrl v) s = (handleUrlChange parse_url v s, None)"
| "UpstreamForm_update parse_url (UfTimeout v) s = (s\<lparr>uf_timeoutMs := v\<rparr>, None)"
| "UpstreamForm_update parse_url (UfEnabled b) s = (s\<lparr>uf_enabled := b\<rparr>, None)"
| "UpstreamForm_update parse_url UfSubmit s = UpstreamForm_handleSubmit parse_url s"
| "UpstreamForm_update parse_url UfCancel s = (s, None)"

definition UpstreamForm_settle :: "js_thrown option \<Rightarrow> upstream_form \<Rightarrow> upstream_form" where
  "UpstreamForm_settle r s = s\<lparr>uf_error := settled_error r (uf_error s), uf_loading := False\<rparr>"

definition UpstreamForm :: "string \<Rightarrow> upstream_form \<Rightarrow> upstream_form_msg node list" where
  "UpstreamForm submitLabel s =
     [El ''form'' [OnSubmit UfSubmit]
       ([El ''div'' []
          [form_label ''upstream-name'' ''Name'',
           text_input ''upstream-name'' (uf_name s) UfName
             [Attr ''placeholder'' ''my-backend'', Flag ''required'' True, Flag ''autoFocus'' True]],
         El ''div'' []
          ([form_label ''upstream-base-url'' ''Base URL'',
            text_input ''upstream-base-url'' (uf_baseUrl s) UfUrl
              [Attr ''placeholder'' ''https://api.example.com'', Flag ''required'' True]]
           @ error_text (uf_urlError s)),
         El ''div'' []
          [form_label ''upstream-timeout'' ''Timeout (ms)'',
           text_input ''upstream-timeout'' (uf_timeoutMs s) UfTimeout
             [Attr ''type'' ''number'', Attr ''min'' ''100'', Attr ''max'' ''300000'', Attr ''step'' ''100''],
           El ''p'' [] [Text ''Request timeout in milliseconds (default: 5000)'']],
         El ''div'' []
          [form_label ''upstream-enabled'' ''Enabled'',
           checkbox ''upstream-enabled'' (uf_enabled s) UfEnabled,
           El ''span'' [] [Text (if uf_enabled s then ''Upstream is active'' else ''Upstream is disabled'')]]]
        @ error_text (uf_error s)
        @ [form_buttons UfCancel (uf_loading s) (trim (uf_name s) = [] \<or> truthy_str (uf_urlError s))
             ''Saving'' submitLabel])]"

definition upstream_update_body :: "CreateUpstreamBody \<Rightarrow> UpdateUpstreamBody" where
  "upstream_update_body b =
     \<lparr>uu_name = Some (cu_name b), uu_base_url = Some (cu_base_url b), uu_timeout_ms = cu_timeout_ms b,
      uu_enabled = cu_enabled b\<rparr>"

lemma upstream_update_body_same_json:
  "UpdateUpstreamBody_json (upstream_update_body b) = CreateUpstreamBody_json b"
  by (simp add: UpdateUpstreamBody_json_def CreateUpstreamBody_json_def upstream_update_body_def opt_field_def)

section \<open>Row actions, counts, detail panel\<close>

datatype upstream_row_event = UpstreamDeleted | UpstreamToggled

definition upstream_deleteMut :: "Upstream \<Rightarrow> (string, upstream_row_event) mutation_options" where
  "upstream_deleteMut u = useDeleteUpstream (u_tenant_id u) (Some UpstreamDeleted)"

definition upstream_toggleMut :: "Upstream \<Rightarrow> (UpdateUpstreamBody, upstream_row_event) mutation_options" where
  "upstream_toggleMut u = useUpdateUpstream (u_tenant_id u) (u_id u) (Some UpstreamToggled)"

definition upstream_row_toast :: "Upstream \<Rightarrow> upstream_row_event \<Rightarrow> toast_request" where
  "upstream_row_toast u e =
     (case e of
        UpstreamDeleted \<Rightarrow> success_toast ''Upstream deleted''
      | UpstreamToggled \<Rightarrow> success_toast (''Upstream '' @ (if u_enabled u then ''disabled'' else ''enabled'')))"

definition toggle_upstream_body :: "Upstream \<Rightarrow> UpdateUpstreamBody" where
  "toggle_upstream_body u =
     \<lparr>uu_name = None, uu_base_url = None, uu_timeout_ms = None, uu_enabled = Some (\<not> u_enabled u)\<rparr>"

definition upstream_row_call :: "Upstream \<Rightarrow> row_out \<Rightarrow> api_call option" where
  "upstream_row_call u out =
     (case out of
        OutEdit \<Rightarrow> None
      | OutToggle \<Rightarrow> Some (mutationFn (upstream_toggleMut u) (toggle_upstream_body u))
      | OutDelete \<Rightarrow> Some (mutationFn (upstream_deleteMut u) (u_id u)))"

definition UpstreamRowActions :: "Upstream \<Rightarrow> row_state \<Rightarrow> row_msg node list" where
  "UpstreamRowActions u s =
     [El ''div'' []
       [row_button ''Edit upstream'' RowEdit ''Pencil'',
        toggle_button ''upstream'' (u_enabled u) (row_toggling s),
        row_button ''Delete upstream'' RowAskDelete ''Trash2'']]
     @ delete_dialog ''Delete upstream''
         (''This will permanently delete '' @ dquote @ u_name u @ dquote
          @ ''. Routes using this upstream will stop working.'') s"

definition upstream_stats :: "Upstream list \<Rightarrow> (string \<times> nat \<times> string) list" where
  "upstream_stats upstreams =
     (let all = length upstreams; enabled = length (filter u_enabled upstreams); disabled = all - enabled
      in [(''Total'', all, ''Server''), (''Active'', enabled, ''CheckCircle2''),
          (''Inactive'', disabled, ''XCircle'')])"

definition UpstreamStatsBar :: "Upstream list \<Rightarrow> 'm node" where
  "UpstreamStatsBar upstreams = El ''div'' [] (map stat_cell (upstream_stats upstreams))"

definition UpstreamDetailPanel :: "date_env \<Rightarrow> Upstream option \<Rightarrow> 'm \<Rightarrow> 'm node list" where
  "UpstreamDetailPanel env upstream onClose =
     panel_frame onClose upstream (\<lambda>u.
       [El ''div'' []
         [El ''div'' []
           [El ''div'' [] [El ''h3'' [] [Text (u_name u)], El ''p'' [] [Text (u_base_url u)]],
            close_button onClose],
          El ''div'' []
           [El ''div'' [] [UpstreamHealthBadge u None, TimeoutBadge (u_timeout_ms u)],
            El ''div'' []
             [Field ''Upstream ID'' (u_id u) True True,
              Field ''Name'' (u_name u) False False,
              Field ''Tenant ID'' (u_tenant_id u) True True,
              Field ''Created'' (formatDateTime env (u_created_at u)) False False,
              Field ''Updated'' (formatDateTime env (u_updated_at u)) False False],
            El ''div'' []
             [El ''p'' [] [Text ''Base URL''],
              El ''p'' [] [El ''span'' [] [Text (u_base_url u)], copy_button (u_base_url u)]],
            El ''div'' []
             [El ''p'' [] [Text ''Status''],
              status_badge (u_enabled u) ''Enabled'' ''Disabled'']]]])"

section \<open>Page\<close>

definition upstreams_PAGE_SIZE :: int where
  "upstreams_PAGE_SIZE = 10"

record upstreams_page =
  up_selectedTenant :: string
  up_search :: string
  up_status :: string
  up_page :: int
  up_creating :: bool
  up_editing :: "Upstream option"
  up_selected :: "Upstream option"

definition UpstreamsPage_init :: upstreams_page where
  "UpstreamsPage_init =
     \<lparr>up_selectedTenant = [], up_search = [], up_status = ''all'', up_page = 1, up_creating = False,
      up_editing = None, up_selected = None\<rparr>"

datatype upstreams_msg =
    UpTenant string
  | UpSearch string
  | UpStatus string
  | UpPage int
  | UpCreating bool
  | UpEditing "Upstream option"
  | UpSelected "Upstream option"

fun UpstreamsPage_update :: "upstreams_msg \<Rightarrow> upstreams_page \<Rightarrow> upstreams_page" where
  "UpstreamsPage_update (UpTenant v) s =
     s\<lparr>up_selectedTenant := v, up_page := 1, up_search := [], up_status := ''all''\<rparr>"
| "UpstreamsPage_update (UpSearch v) s = s\<lparr>up_search := v, up_page := 1\<rparr>"
| "UpstreamsPage_update (UpStatus v) s = s\<lparr>up_status := v, up_page := 1\<rparr>"
| "UpstreamsPage_update (UpPage p) s = s\<lparr>up_page := p\<rparr>"
| "UpstreamsPage_update (UpCreating b) s = s\<lparr>up_creating := b\<rparr>"
| "UpstreamsPage_update (UpEditing u) s = s\<lparr>up_editing := u\<rparr>"
| "UpstreamsPage_update (UpSelected u) s = s\<lparr>up_selected := u\<rparr>"

datatype upstreams_event = UpstreamCreated | UpstreamUpdated

definition upstreams_createMut :: "upstreams_page \<Rightarrow> (CreateUpstreamBody, upstreams_event) mutation_options" where
  "upstreams_createMut s = useCreateUpstream (up_selectedTenant s) (Some UpstreamCreated)"

definition upstreams_editMut :: "upstreams_page \<Rightarrow> (UpdateUpstreamBody, upstreams_event) mutation_options" where
  "upstreams_editMut s =
     useUpdateUpstream (up_selectedTenant s) (nullish (map_option u_id (up_editing s)) []) (Some UpstreamUpdated)"

fun upstreams_on_event :: "upstreams_event \<Rightarrow> upstreams_page \<Rightarrow> upstreams_page \<times> toast_request" where
  "upstreams_on_event UpstreamCreated s = (s\<lparr>up_creating := False\<rparr>, success_toast ''Upstream created'')"
| "upstreams_on_event UpstreamUpdated s = (s\<lparr>up_editing := None\<rparr>, success_toast ''Upstream updated'')"

definition upstream_matches :: "string \<Rightarrow> Upstream \<Rightarrow> bool" where
  "upstream_matches search u =
     (includes_str (toLowerCase (u_name u)) (toLowerCase search)
      \<or> includes_str (toLowerCase (u_base_url u)) (toLowerCase search))"

definition upstreams_filtered :: "Upstream list \<Rightarrow> upstreams_page \<Rightarrow> Upstream list" where
  "upstreams_filtered data s =
     filter_status (up_status s) u_enabled
       (filter_search (up_search s) (upstream_matches (up_search s)) data)"

definition upstreams_paginated :: "Upstream list \<Rightarrow> upstreams_page \<Rightarrow> Upstream list" where
  "upstreams_paginated data s =
     js_slice (upstreams_filtered data s) ((up_page s - 1) * upstreams_PAGE_SIZE) (up_page s * upstreams_PAGE_SIZE)"

definition upstreams_columns :: "date_env \<Rightarrow> (Upstream, upstreams_msg) Column list" where
  "upstreams_columns env =
     [column ''name'' ''Name'' None (\<lambda>u.
        [El ''button'' [OnClick (UpSelected (Some u))]
          [El ''div'' [] [icon ''Server''],
           El ''div'' [] [El ''p'' [] [Text (u_name u)], El ''p'' [] [Text (js_slice (u_id u) 0 8), Text ellipsis]]]]),
      column ''base_url'' ''Base URL'' None (\<lambda>u. [Comp ''UpstreamUrlDisplay'' [Attr ''url'' (u_base_url u)]]),
      column ''timeout'' ''Timeout'' (Some ''110px'') (\<lambda>u. [TimeoutBadge (u_timeout_ms u)]),
      column ''health'' ''Health'' (Some ''120px'') (\<lambda>u. [UpstreamHealthBadge u None]),
      column ''status'' ''Status'' (Some ''100px'') (\<lambda>u. [status_badge (u_enabled u) ''Active'' ''Inactive'']),
      column ''created'' ''Created'' (Some ''120px'') (\<lambda>u. [El ''span'' [] [Text (formatDate env (u_created_at u))]]),
      actions_column ''100px'' (\<lambda>u.
        [Comp ''UpstreamRowActions'' [Attr ''upstream'' (u_id u), OnEvent ''onEdit'' (UpEditing (Some u))]])]"

definition upstreams_table :: "upstreams_page \<Rightarrow> bool \<Rightarrow> upstreams_msg TableOptions" where
  "upstreams_table s loading =
     (let unfiltered = (up_search s = [] \<and> up_status s = ''all'') in
      \<lparr>tbl_loading = loading,
       tbl_emptyTitle = Some (if \<not> unfiltered then ''No upstreams match your filters'' else ''No upstreams yet''),
       tbl_emptyDescription =
         (if unfiltered then Some ''Add your first upstream to start routing traffic.'' else None),
       tbl_emptyAction =
         (if unfiltered
          then Some [El ''button'' [OnClick (UpCreating True)] [icon ''Plus'', Text '' New Upstream'']] else None),
       tbl_skeletonRows = None\<rparr>)"

text \<open>What is shown below the tenant selector once a tenant is chosen.\<close>

definition UpstreamsPage_body ::
    "date_env \<Rightarrow> Upstream query_result \<Rightarrow> upstreams_page \<Rightarrow> upstreams_msg node list" where
  "UpstreamsPage_body env q s =
     (let data = query_data q in
      show_if (data \<noteq> []) [El ''div'' [] [UpstreamStatsBar data]]
      @ [El ''div'' []
          [SearchBar (up_search s) UpSearch (Some (''Search upstreams'' @ ellipsis)),
           FilterSelect ''Status'' (up_status s) status_options UpStatus]]
      @ load_error (qr_isError q) ''Failed to load upstreams. Is the control API running?''
      @ [DataTable (upstreams_columns env) (upstreams_paginated data s) u_id (upstreams_table s (qr_isLoading q))]
      @ Pagination (up_page s) upstreams_PAGE_SIZE (int (length (upstreams_filtered data s))) UpPage)"

definition UpstreamsPage ::
    "date_env \<Rightarrow> Tenant query_result \<Rightarrow> Upstream query_result \<Rightarrow> upstreams_page \<Rightarrow> upstreams_msg node list" where
  "UpstreamsPage env tq q s =
     [El ''div'' []
       ([PageHeader ''Upstreams'' (Some ''Manage upstream services and backend targets per tenant.'')
           (Some [new_button (UpCreating True) (up_selectedTenant s) '' New Upstream'']) None,
         tenant_select ''tenant-select'' (query_data tq) (up_selectedTenant s) UpTenant]
        @ (if up_selectedTenant s = [] then [select_hint ''Server'' ''Select a tenant to view its upstreams.'']
           else UpstreamsPage_body env q s)
        @ Modal (up_creating s) (UpCreating False) (Some ''New Upstream'')
            (Some ''Add a new upstream service for this tenant.'')
            [Comp ''UpstreamForm'' [Attr ''submitLabel'' ''Create Upstream'', OnEvent ''onCancel'' (UpCreating False)]]
        @ Modal (up_editing s \<noteq> None) (UpEditing None) (Some ''Edit Upstream'') None
            (case up_editing s of None \<Rightarrow> []
             | Some u \<Rightarrow> [Comp ''UpstreamForm'' [Attr ''initial'' (u_id u), Attr ''submitLabel'' ''Save Changes'',
                 OnEvent ''onCancel'' (UpEditing None)]])
        @ UpstreamDetailPanel env (up_selected s) (UpSelected None))]"

section \<open>Rounding of the timeout\<close>

lemma round_near:
  fixes q r :: int
  assumes "0 \<le> r" and "r < 100"
  shows "\<bar>(if r < 50 then q else if 50 < r then q + 1 else if up then q + 1 else q) * 100 - (q * 100 + r)\<bar> \<le> 50"
  using assms by (auto simp: abs_le_iff)

lemma tenths_near: "\<bar>tenths ms * 100 - ms\<bar> \<le> 50"
  using round_near [of "ms mod 100" "ms div 100" "quotient_rounds_up ms 1000"]
  by (simp only: tenths_def Let_def div_mult_mod_eq)

lemma tenths_ge: "1000 \<le> ms \<Longrightarrow> 10 \<le> tenths ms"
  using tenths_near [of ms] by (auto simp: abs_if split: if_splits)

section \<open>Validation of the base URL\<close>

lemma validateUpstreamUrl_None:
  "validateUpstreamUrl parse_url url = None \<longleftrightarrow>
     (startsWith (trim url) ''http://'' \<or> startsWith (trim url) ''https://'')
     \<and> (\<exists>p. parse_url (trim url) = Some p \<and> url_hostname p \<noteq> []
         \<and> (endsWith (trim url) ''/'' \<longrightarrow> trim url = url_protocol p @ ''//'' @ url_host p @ ''/''))"
  by (auto simp: validateUpstreamUrl_def Let_def startsWith_def split: option.splits if_splits)

lemma validateUpstreamUrl_trim [simp]:
  "validateUpstreamUrl parse_url (trim url) = validateUpstreamUrl parse_url url"
  by (simp add: validateUpstreamUrl_def)

lemma validateUpstreamUrl_message: "validateUpstreamUrl parse_url url \<noteq> Some []"
  by (auto simp: validateUpstreamUrl_def Let_def split: option.splits if_splits)

section \<open>The form meets the contract of a submission\<close>

definition upstream_body_ok :: "(string \<Rightarrow> parsed_url option) \<Rightarrow> CreateUpstreamBody \<Rightarrow> bool" where
  "upstream_body_ok parse_url b \<longleftrightarrow>
     cu_name b \<noteq> [] \<and> trim (cu_name b) = cu_name b
     \<and> trim (cu_base_url b) = cu_base_url b \<and> validateUpstreamUrl parse_url (cu_base_url b) = None
     \<and> cu_timeout_ms b \<noteq> None \<and> cu_timeout_ms b \<noteq> Some 0"

lemma upstream_body_url:
  assumes "upstream_body_ok parse_url b"
  shows "trim (cu_base_url b) = cu_base_url b
    \<and> (take 7 (cu_base_url b) = ''http://'' \<or> take 8 (cu_base_url b) = ''https://'')
    \<and> (\<exists>p. parse_url (cu_base_url b) = Some p \<and> url_hostname p \<noteq> []
         \<and> (last (cu_base_url b) = CHR ''/'' \<longrightarrow> cu_base_url b = url_protocol p @ ''//'' @ url_host p @ ''/''))"
proof -
  define url where "url = cu_base_url b"
  have *: "trim url = url" "startsWith url ''http://'' \<or> startsWith url ''https://''"
    "\<exists>p. parse_url url = Some p \<and> url_hostname p \<noteq> []
       \<and> (endsWith url ''/'' \<longrightarrow> url = url_protocol p @ ''//'' @ url_host p @ ''/'')"
    using assms by (auto simp: upstream_body_ok_def validateUpstreamUrl_None url_def)
  then have "url \<noteq> []" by (auto simp: startsWith_def)
  then have "endsWith url ''/'' \<longleftrightarrow> last url = CHR ''/''"
    by (cases url rule: rev_cases) (auto simp: endsWith_def)
  moreover have "take 7 url = ''http://'' \<or> take 8 url = ''https://''"
    using *(2) by (auto simp: startsWith_def prefix_def)
  ultimately show ?thesis using * unfolding url_def [symmetric] by simp
qed

lemma UpstreamForm_can_submit:
  "can_submit (UpstreamForm lbl s) \<longleftrightarrow>
     \<not> uf_loading s \<and> trim (uf_name s) \<noteq> [] \<and> \<not> truthy_str (uf_urlError s)"
  by (auto simp: can_submit_def UpstreamForm_def form_view_defs is_submit_button_def is_disabled_def
      split: option.splits)

interpretation upstream_submit: submit_form "UpstreamForm lbl" UfSubmit "UpstreamForm_update parse_url"
    UpstreamForm_settle uf_loading "upstream_body_ok parse_url" for lbl parse_url
proof (unfold_locales, goal_cases)
  case (1 s)
  then show ?case by (simp add: UpstreamForm_can_submit)
next
  case (2 m s)
  then show ?case by (cases m) (auto simp: handleUrlChange_def)
next
  case (3 s)
  then show ?case by (auto simp: UpstreamForm_handleSubmit_def split: option.splits if_splits)
next
  case (4 s b)
  then show ?case
    by (auto simp: UpstreamForm_handleSubmit_def upstream_body_ok_def parseInt_or_def
        split: option.splits if_splits)
next
  case (5 r s)
  then show ?case by (simp add: UpstreamForm_settle_def)
qed

interpretation upstream_gate: checked_form "UpstreamForm lbl" UfSubmit "UpstreamForm_update parse_url" UpstreamForm_settle
    uf_loading "upstream_body_ok parse_url" uf_urlError "\<lambda>s. validateUpstreamUrl parse_url (uf_baseUrl s)"
    "\<lambda>s. trim (uf_name s) \<noteq> []" for lbl parse_url
proof (unfold_locales, goal_cases)
  case (5 s m)
  then show ?case by (cases m) (auto simp: handleUrlChange_def UpstreamForm_handleSubmit_def split: option.splits)
qed (auto simp: UpstreamForm_can_submit UpstreamForm_handleSubmit_def UpstreamForm_settle_def validateUpstreamUrl_message
      split: option.splits if_splits)

interpretation upstream_row: row_actions "UpstreamRowActions u" for u
  by unfold_locales (auto simp: UpstreamRowActions_def view split: if_splits)

section \<open>The page\<close>

lemma upstreams_filtered_eq:
  "upstreams_filtered data s =
     filter (\<lambda>u. (up_search s \<noteq> [] \<longrightarrow> upstream_matches (up_search s) u) \<and> status_ok (up_status s) (u_enabled u)) data"
  by (auto simp: upstreams_filtered_def filter_status_eq filter_search_def conj_commute intro: filter_cong)

definition upstreams_offers ::
    "date_env \<Rightarrow> Tenant query_result \<Rightarrow> (string \<Rightarrow> Upstream query_result) \<Rightarrow> upstreams_page \<Rightarrow> upstreams_msg set" where
  "upstreams_offers env tq q s = view_msgs (UpstreamsPage env tq (q (up_selectedTenant s)) s)"

text \<open>The page's data is that of the selected tenant.\<close>

definition upstreams_data :: "(string \<Rightarrow> Upstream query_result) \<Rightarrow> upstreams_page \<Rightarrow> Upstream list" where
  "upstreams_data q s = query_data (q (up_selectedTenant s))"

lemma upstreams_parts_msgs:
  "UpPage p \<notin> msgs (DataTable (upstreams_columns env) data u_id (upstreams_table s loading))"
  "UpPage p \<notin> view_msgs (UpstreamDetailPanel env sel (UpSelected None))"
  "msgs (UpstreamStatsBar data) = {}"
  by (simp_all add: view upstreams_columns_def upstreams_table_def Let_def UpstreamDetailPanel_def
      UpstreamStatsBar_def view_msgs_map UpstreamHealthBadge_def TimeoutBadge_def
      split: option.split prod.split)

lemma UpstreamsPage_page_msgs:
  assumes "UpPage p \<in> upstreams_offers env tq q s"
  shows "p \<in> page_offers upstreams_PAGE_SIZE (int (length (upstreams_filtered (upstreams_data q s) s))) (up_page s)"
proof -
  have "UpPage p \<in> view_msgs (Pagination (up_page s) upstreams_PAGE_SIZE
      (int (length (upstreams_filtered (upstreams_data q s) s))) UpPage)"
    using assms
    by (cases "up_editing s") (simp_all add: upstreams_offers_def upstreams_data_def UpstreamsPage_def
        UpstreamsPage_body_def Let_def view upstreams_parts_msgs image_iff split: if_splits del: DataTable_msgs)
  then show ?thesis by (rule Pagination_msg_page) simp
qed

interpretation upstreams_list: paged_machine up_page "\<lambda>s. upstreams_filtered (upstreams_data q s) s"
    "\<lambda>s. upstreams_paginated (upstreams_data q s) s" "\<lambda>p. UpstreamsPage_update (UpPage p)" upstreams_PAGE_SIZE
    "upstreams_offers env tq q" UpstreamsPage_update for env tq q
proof (unfold_locales, goal_cases)
  case (5 m s)
  then show ?case
  proof (cases m)
    case (UpPage p)
    with 5 UpstreamsPage_page_msgs show ?thesis by (auto simp: upstreams_filtered_def upstreams_data_def)
  qed (simp_all add: upstreams_filtered_def upstreams_data_def)
qed (simp_all add: upstreams_PAGE_SIZE_def upstreams_paginated_def page_rows_def upstreams_filtered_def upstreams_data_def)

section \<open>Properties\<close>

text \<open>C22: The submit button of the upstream form and the check of the base URL agree in every session: the message
  under the field is never an outdated one; input that would be sent is never blocked by the button; and
  when the button is enabled although the URL does not pass (which happens only before any message was
  shown), submitting sends nothing, shows the verdict under the field and disables the button.  Whatever was sent is a trimmed URL that begins with
  \<open>http://\<close> or \<open>https://\<close>, that the URL parser accepts with a host name, and that ends in a slash only
  when the slash directly follows the parsed protocol and host.\<close>

theorem upstream_url_gate:
  assumes "reach (form_offers (UpstreamForm lbl) UfSubmit) (form_step (UpstreamForm_update parse_url) UpstreamForm_settle)
      (open_session (UpstreamForm_init initial)) x"
  defines "f \<equiv> ses_form x" and "submitted \<equiv> UpstreamForm_update parse_url UfSubmit (ses_form x)"
  shows "list_all (\<lambda>b. trim (cu_base_url b) = cu_base_url b
        \<and> (take 7 (cu_base_url b) = ''http://'' \<or> take 8 (cu_base_url b) = ''https://'')
        \<and> (\<exists>p. parse_url (cu_base_url b) = Some p \<and> url_hostname p \<noteq> []
             \<and> (last (cu_base_url b) = CHR ''/'' \<longrightarrow> cu_base_url b = url_protocol p @ ''//'' @ url_host p @ ''/'')))
        (ses_sent x)
    \<and> uf_urlError f \<in> {None, validateUpstreamUrl parse_url (uf_baseUrl f)}
    \<and> (\<not> uf_loading f \<and> snd submitted \<noteq> None \<longrightarrow> can_submit (UpstreamForm lbl f))
    \<and> (can_submit (UpstreamForm lbl f) \<and> snd submitted = None \<longrightarrow>
         uf_urlError f = None \<and> validateUpstreamUrl parse_url (uf_baseUrl f) \<noteq> None
         \<and> uf_urlError (fst submitted) = validateUpstreamUrl parse_url (uf_baseUrl f)
         \<and> \<not> can_submit (UpstreamForm lbl (fst submitted)))"
proof -
  have "list_all (upstream_body_ok parse_url) (ses_sent x)"
    using upstream_submit.one_submission_at_a_time [OF assms(1)] by (simp add: UpstreamForm_init_def)
  note sent = list.pred_mono_strong [OF this upstream_body_url]
  show ?thesis
    using upstream_gate.gate [OF assms(1)] sent unfolding f_def submitted_def by (simp add: UpstreamForm_init_def)
qed

theorem upstream_url_gate_witness:
  "let f = UpstreamForm_init (no_upstream\<lparr>ui_name := Some ''api'', ui_base_url := Some ''ftp://a''\<rparr>);
       f' = fst (UpstreamForm_update (\<lambda>_. None) UfSubmit f) in
   can_submit (UpstreamForm ''Save'' f) \<and> uf_urlError f' = Some ''Base URL must start with http:// or https://''
   \<and> \<not> can_submit (UpstreamForm ''Save'' f')"
proof -
  define f where "f = UpstreamForm_init (no_upstream\<lparr>ui_name := Some ''api'', ui_base_url := Some ''ftp://a''\<rparr>)"
  have v: "validateUpstreamUrl (\<lambda>_. None) (uf_baseUrl f) = Some ''Base URL must start with http:// or https://''"
    by (simp add: f_def UpstreamForm_init_def nullish_def no_upstream_def validateUpstreamUrl_def trim_def is_space_def
        startsWith_def)
  then have "snd (UpstreamForm_update (\<lambda>_. None) UfSubmit f) = None" by (simp add: UpstreamForm_handleSubmit_def)
  moreover have "can_submit (UpstreamForm ''Save'' f)"
    by (simp add: UpstreamForm_can_submit f_def UpstreamForm_init_def nullish_def no_upstream_def trim_def is_space_def
        truthy_str_def)
  ultimately show ?thesis
    using upstream_url_gate [where lbl = "''Save''" and parse_url = "\<lambda>_. None", OF reach.start,
        of "no_upstream\<lparr>ui_name := Some ''api'', ui_base_url := Some ''ftp://a''\<rparr>"] v
    by (simp add: f_def [symmetric] open_session_def Let_def)
qed

text \<open>In every session of the upstream form at most one submission is under way, and every body that was
  submitted has a trimmed nonempty name, a trimmed base URL that passes the check, and a timeout that is a
  number other than zero.\<close>

theorem upstream_form_one_submission:
  assumes "reach (form_offers (UpstreamForm lbl) UfSubmit) (form_step (UpstreamForm_update parse_url) UpstreamForm_settle)
      (open_session (UpstreamForm_init initial)) x"
  shows "ses_in_flight x = (if uf_loading (ses_form x) then 1 else 0)
    \<and> list_all (upstream_body_ok parse_url) (ses_sent x)"
  using upstream_submit.one_submission_at_a_time [OF assms] by (simp add: UpstreamForm_init_def)

theorem upstream_form_one_submission_witness:
  "\<exists>x :: (upstream_form, CreateUpstreamBody) session. ses_in_flight x = 1 \<and> ses_sent x \<noteq> []
     \<and> list_all (upstream_body_ok (\<lambda>u. Some \<lparr>url_protocol = ''http:'', url_hostname = ''a'', url_host = ''a''\<rparr>)) (ses_sent x)"
proof -
  let ?p = "\<lambda>u. Some \<lparr>url_protocol = ''http:'', url_hostname = ''a'', url_host = ''a''\<rparr>"
  let ?i = "no_upstream\<lparr>ui_name := Some ''api'', ui_base_url := Some ''http://a''\<rparr>"
  let ?s = "open_session (UpstreamForm_init ?i) :: (upstream_form, CreateUpstreamBody) session"
  let ?x = "form_step (UpstreamForm_update ?p) UpstreamForm_settle (User UfSubmit) ?s"
  have "User UfSubmit \<in> form_offers (UpstreamForm ''Save'') UfSubmit ?s"
    by (simp add: form_offers_def open_session_def UpstreamForm_can_submit UpstreamForm_init_def no_upstream_def
        nullish_def trim_def is_space_def truthy_str_def, simp add: UpstreamForm_def view)
  then have "reach (form_offers (UpstreamForm ''Save'') UfSubmit)
      (form_step (UpstreamForm_update ?p) UpstreamForm_settle) ?s ?x"
    by (rule reach_run)
  note ok = upstream_form_one_submission [OF this]
  have v: "validateUpstreamUrl ?p ''http://a'' = None"
    by (simp add: validateUpstreamUrl_None trim_def is_space_def startsWith_def endsWith_def suffix_to_prefix)
  then have "uf_loading (ses_form ?x)" "ses_sent ?x \<noteq> []"
    by (simp_all add: open_session_def UpstreamForm_init_def no_upstream_def nullish_def
        UpstreamForm_handleSubmit_def trim_def is_space_def)
  with ok show ?thesis by (intro exI [of _ ?x]) (simp del: form_step.simps)
qed

text \<open>The timeout badge is right to half a unit: a timeout of at least one second is shown in seconds,
  exactly when it is a whole number of seconds and otherwise with one decimal that is at most 50 ms
  from the timeout; a shorter one is shown in milliseconds.\<close>

theorem formatTimeout_rounds:
  "(1000 \<le> ms \<longrightarrow> ms mod 1000 = 0 \<longrightarrow> formatTimeout ms = str_int (ms div 1000) @ ''s'')
   \<and> (1000 \<le> ms \<longrightarrow> ms mod 1000 \<noteq> 0 \<longrightarrow>
        (\<exists>n d. formatTimeout ms = str_int n @ ''.'' @ str_int d @ ''s'' \<and> 1 \<le> n \<and> 0 \<le> d \<and> d \<le> 9
               \<and> \<bar>n * 1000 + d * 100 - ms\<bar> \<le> 50))
   \<and> (ms < 1000 \<longrightarrow> formatTimeout ms = str_int ms @ ''ms'')"
proof -
  have "\<exists>n d. formatTimeout ms = str_int n @ ''.'' @ str_int d @ ''s'' \<and> 1 \<le> n \<and> 0 \<le> d \<and> d \<le> 9
      \<and> \<bar>n * 1000 + d * 100 - ms\<bar> \<le> 50" if "1000 \<le> ms" "ms mod 1000 \<noteq> 0"
  proof (intro exI conjI)
    show "formatTimeout ms = str_int (tenths ms div 10) @ ''.'' @ str_int (tenths ms mod 10) @ ''s''"
      using that by (simp add: formatTimeout_def)
    show "1 \<le> tenths ms div 10" using tenths_ge [OF that(1)] by linarith
    have "tenths ms div 10 * 1000 + tenths ms mod 10 * 100 = tenths ms * 100"
      using div_mult_mod_eq [of "tenths ms" 10] by linarith
    then show "\<bar>tenths ms div 10 * 1000 + tenths ms mod 10 * 100 - ms\<bar> \<le> 50"
      using tenths_near [of ms] by simp
  qed simp_all
  then show ?thesis by (auto simp: formatTimeout_def)
qed

theorem formatTimeout_rounds_witness:
  "formatTimeout 300000 = str_int 300 @ ''s''"
  using formatTimeout_rounds [of 300000] by simp

end
