(* ===== verification/Routes.thy ===== *)
theory Routes
  imports Pagination Widgets Date_Utils
begin

text \<open>
  The routes page: \<^verbatim>\<open>src/ui/admin/src/components/routes/*.tsx\<close> and
  \<^verbatim>\<open>src/ui/admin/src/pages/RoutesPage.tsx\<close>: the method badge, the check of a path prefix, the form,
  the row actions, the counts with the most frequent methods, the detail panel and the page
  with its three filters.
\<close>

section \<open>Methods and paths\<close>

text \<open>The styles are keyed by method; unknown methods have that of \<open>ANY\<close>.\<close>

definition METHOD_STYLES :: "string list" where
  "METHOD_STYLES = [''GET'', ''POST'', ''PUT'', ''DELETE'', ''PATCH'', ''ANY'', ''*'']"

definition badge_normalizeMethod :: "string \<Rightarrow> string" where
  "badge_normalizeMethod method =
     (let upper = toUpperCase method in if upper = ''*'' then ''ANY'' else upper)"

definition MethodBadge :: "string \<Rightarrow> 'm node" where
  "MethodBadge method =
     (let label = badge_normalizeMethod method;
          style = (if label \<in> set METHOD_STYLES then label else ''ANY'')
      in El ''span'' [Attr ''variant'' style] [Text label])"

definition path_segments :: "string \<Rightarrow> string list" where
  "path_segments pathPrefix = filter (\<lambda>seg. seg \<noteq> []) (split_on (CHR ''/'') pathPrefix)"

definition RoutePathDisplay :: "string \<Rightarrow> string option \<Rightarrow> 'm node" where
  "RoutePathDisplay pathPrefix host =
     El ''div'' []
       ([El ''span'' []
          ([El ''span'' [] [Text ''/'']]
           @ map (\<lambda>(i, seg). El ''span'' []
               (show_if (0 < i) [El ''span'' [] [Text ''/'']]
                @ [El ''span'' [Attr ''variant'' (if startsWith seg '':'' then ''param'' else ''plain'')] [Text seg]]))
              (enumerate 0 (path_segments pathPrefix))
           @ show_if (pathPrefix = ''/'') [El ''span'' [] [Text ''(root)'']])]
        @ when_str host (\<lambda>h. El ''span'' [] [Text h]))"

text \<open>The character class \<open>[a-zA-Z0-9/_\-.:*{}]\<close> of the check.\<close>

definition path_char :: "char \<Rightarrow> bool" where
  "path_char c = (is_lower c \<or> is_upper c \<or> is_digit c \<or> c \<in> set ''/_-.:*{}'')"

definition validatePathPrefix :: "string \<Rightarrow> string option" where
  "validatePathPrefix path =
     (let trimmed = trim path in
      if trimmed = [] then Some ''Path prefix is required''
      else if \<not> startsWith trimmed ''/'' then Some ''Path prefix must start with /''
      else if includes_str trimmed '' '' then Some ''Path prefix must not contain spaces''
      else if list_ex (\<lambda>c. \<not> path_char c) trimmed then Some ''Path prefix contains invalid characters''
      else None)"

section \<open>Form\<close>

definition HTTP_METHODS :: "string list" where
  "HTTP_METHODS = [''ANY'', ''GET'', ''POST'', ''PUT'', ''DELETE'', ''PATCH'']"

definition form_normalizeMethod :: "string \<Rightarrow> string" where
  "form_normalizeMethod m = (if m = ''*'' \<or> m = [] then ''ANY'' else toUpperCase m)"

record route_initial =
  ri_method :: "string option"
  ri_path_prefix :: "string option"
  ri_host :: "string option"
  ri_upstream_id :: "string option"
  ri_enabled :: "bool option"

definition no_route :: route_initial where
  "no_route = \<lparr>ri_method = None, ri_path_prefix = None, ri_host = None, ri_upstream_id = None, ri_enabled = None\<rparr>"

definition initial_of_route :: "Route \<Rightarrow> route_initial" where
  "initial_of_route r =
     \<lparr>ri_method = Some (r_method r), ri_path_prefix = Some (r_path_prefix r), ri_host = Some (r_host r),
      ri_upstream_id = Some (r_upstream_id r), ri_enabled = Some (r_enabled r)\<rparr>"

record route_form =
  rf_method :: string
  rf_pathPrefix :: string
  rf_host :: string
  rf_upstreamId :: string
  rf_enabled :: bool
  rf_loading :: bool
  rf_error :: "string option"
  rf_pathError :: "string option"

definition RouteForm_init :: "route_initial \<Rightarrow> route_form" where
  "RouteForm_init initial =
     \<lparr>rf_method = form_normalizeMethod (nullish (ri_method initial) ''ANY''),
      rf_pathPrefix = nullish (ri_path_prefix initial) ''/'', rf_host = nullish (ri_host initial) [],
      rf_upstreamId = nullish (ri_upstream_id initial) [], rf_enabled = nullish (ri_enabled initial) True,
      rf_loading = False, rf_error = None, rf_pathError = None\<rparr>"

datatype route_form_msg =
    RfMethod string
  | RfPath string
  | RfHost string
  | RfUpstream string
  | RfEnabled bool
  | RfSubmit
  | RfCancel

definition handlePathChange :: "string \<Rightarrow> route_form \<Rightarrow> route_form" where
  "handlePathChange v s = s\<lparr>rf_pathPrefix := v, rf_pathError := validatePathPrefix v\<rparr>"

definition apiMethod :: "string \<Rightarrow> string" where
  "apiMethod method = (if method = ''ANY'' then ''*'' else method)"

definition RouteForm_handleSubmit :: "route_form \<Rightarrow> route_form \<times> CreateRouteBody option" where
  "RouteForm_handleSubmit s =
     (case validatePathPrefix (rf_pathPrefix s) of
        Some pathErr \<Rightarrow> (s\<lparr>rf_pathError := Some pathErr\<rparr>, None)
      | None \<Rightarrow>
          if rf_upstreamId s = [] then (s, None)
          else (s\<lparr>rf_error := None, rf_loading := True\<rparr>,
                Some \<lparr>cr_method = Some (apiMethod (rf_method s)), cr_path_prefix = trim (rf_pathPrefix s),
                      cr_host = or_undefined (trim (rf_host s)), cr_upstream_id = rf_upstreamId s,
                      cr_enabled = Some (rf_enabled s)\<rparr>))"

fun RouteForm_update :: "route_form_msg \<Rightarrow> route_form \<Rightarrow> route_form \<times> CreateRouteBody option" where
  "RouteForm_update (RfMethod v) s = (s\<lparr>rf_method := v\<rparr>, None)"
| "RouteForm_update (RfPath v) s = (handlePathChange v s, None)"
| "RouteForm_update (RfHost v) s = (s\<lparr>rf_host := v\<rparr>, None)"
| "RouteForm_update (RfUpstream v) s = (s\<lparr>rf_upstreamId := v\<rparr>, None)"
| "RouteForm_update (RfEnabled b) s = (s\<lparr>rf_enabled := b\<rparr>, None)"
| "RouteForm_update RfSubmit s = RouteForm_handleSubmit s"
| "RouteForm_update RfCancel s = (s, None)"

definition RouteForm_settle :: "js_thrown option \<Rightarrow> route_form \<Rightarrow> route_form" where
  "RouteForm_settle r s = s\<lparr>rf_error := settled_error r (rf_error s), rf_loading := False\<rparr>"

text \<open>The options of the upstream select: the enabled upstreams, then the disabled ones, greyed.\<close>

definition upstream_options :: "Upstream list \<Rightarrow> 'm node list" where
  "upstream_options upstreamList =
     [El ''option'' [Attr ''value'' []] [Text (''Select upstream'' @ ellipsis)]]
     @ map (\<lambda>u. El ''option'' [Attr ''value'' (u_id u)] [Text (u_name u)]) (filter u_enabled upstreamList)
     @ show_if (filter (\<lambda>u. \<not> u_enabled u) upstreamList \<noteq> [])
         [El ''optgroup'' [Attr ''label'' ''Disabled'']
           (map (\<lambda>u. El ''option'' [Attr ''value'' (u_id u), Flag ''disabled'' True]
                       [Text (u_name u), Text '' (disabled)''])
              (filter (\<lambda>u. \<not> u_enabled u) upstreamList))]"

definition RouteForm :: "Upstream list \<Rightarrow> string \<Rightarrow> route_form \<Rightarrow> route_form_msg node list" where
  "RouteForm upstreamList submitLabel s =
     [El ''form'' [OnSubmit RfSubmit]
       ([El ''div'' []
          [El ''div'' []
            [form_label ''route-method'' ''Method'',
             El ''select'' [Attr ''id'' ''route-method'', Attr ''value'' (rf_method s), OnChange RfMethod]
               (map (\<lambda>m. El ''option'' [Attr ''value'' m] [Text m]) HTTP_METHODS)],
           El ''div'' []
            ([form_label ''route-path'' ''Path Prefix'',
              text_input ''route-path'' (rf_pathPrefix s) RfPath
                [Attr ''placeholder'' ''/api/v1'', Flag ''required'' True, Flag ''autoFocus'' True]]
             @ error_text (rf_pathError s))],
         El ''div'' []
          [El ''label'' [Attr ''htmlFor'' ''route-host''] [Text ''Host '', El ''span'' [] [Text ''(optional)'']],
           text_input ''route-host'' (rf_host s) RfHost [Attr ''placeholder'' ''api.example.com''],
           El ''p'' [] [Text ''Leave blank to match any host'']],
         El ''div'' []
          [form_label ''route-upstream'' ''Upstream'',
           El ''select'' [Attr ''id'' ''route-upstream'', Attr ''value'' (rf_upstreamId s), OnChange RfUpstream,
               Flag ''required'' True] (upstream_options upstreamList)],
         El ''div'' []
          [form_label ''route-enabled'' ''Enabled'',
           checkbox ''route-enabled'' (rf_enabled s) RfEnabled,
           El ''span'' [] [Text (if rf_enabled s then ''Route is active'' else ''Route is disabled'')]]]
        @ error_text (rf_error s)
        @ [form_buttons RfCancel (rf_loading s) (rf_upstreamId s = [] \<or> truthy_str (rf_pathError s))
             ''Saving'' submitLabel])]"

definition route_update_body :: "CreateRouteBody \<Rightarrow> UpdateRouteBody" where
  "route_update_body b =
     \<lparr>ur_method = cr_method b, ur_path_prefix = Some (cr_path_prefix b), ur_host = cr_host b,
      ur_upstream_id = Some (cr_upstream_id b), ur_enabled = cr_enabled b\<rparr>"

lemma route_update_body_same_json:
  "UpdateRouteBody_json (route_update_body b) = CreateRouteBody_json b"
  by (simp add: UpdateRouteBody_json_def CreateRouteBody_json_def route_update_body_def opt_field_def)

section \<open>Row actions, counts, detail panel\<close>

datatype route_row_event = RouteDeleted | RouteToggled

definition route_deleteMut :: "Route \<Rightarrow> (string, route_row_event) mutation_options" where
  "route_deleteMut r = useDeleteRoute (r_tenant_id r) (Some RouteDeleted)"

definition route_toggleMut :: "Route \<Rightarrow> (UpdateRouteBody, route_row_event) mutation_options" where
  "route_toggleMut r = useUpdateRoute (r_tenant_id r) (r_id r) (Some RouteToggled)"

definition route_row_toast :: "Route \<Rightarrow> route_row_event \<Rightarrow> toast_request" where
  "route_row_toast r e =
     (case e of
        RouteDeleted \<Rightarrow> success_toast ''Route deleted''
      | RouteToggled \<Rightarrow> success_toast (''Route '' @ (if r_enabled r then ''disabled'' else ''enabled'')))"

definition toggle_route_body :: "Route \<Rightarrow> UpdateRouteBody" where
  "toggle_route_body r =
     \<lparr>ur_method = None, ur_path_prefix = None, ur_host = None, ur_upstream_id = None,
      ur_enabled = Some (\<not> r_enabled r)\<rparr>"

definition route_row_call :: "Route \<Rightarrow> row_out \<Rightarrow> api_call option" where
  "route_row_call r out =
     (case out of
        OutEdit \<Rightarrow> None
      | OutToggle \<Rightarrow> Some (mutationFn (route_toggleMut r) (toggle_route_body r))
      | OutDelete \<Rightarrow> Some (mutationFn (route_deleteMut r) (r_id r)))"

definition RouteRowActions :: "Route \<Rightarrow> row_state \<Rightarrow> row_msg node list" where
  "RouteRowActions r s =
     [El ''div'' []
       [row_button ''Edit route'' RowEdit ''Pencil'',
        toggle_button ''route'' (r_enabled r) (row_toggling s),
        row_button ''Delete route'' RowAskDelete ''Trash2'']]
     @ delete_dialog ''Delete route''
         (''This will permanently delete the route '' @ dquote @ r_method r @ '' '' @ r_path_prefix r @ dquote @ ''.'') s"

text \<open>
  \<open>acc[m] = (acc[m] ?? 0) + 1\<close> on an object whose entries come out in the order in which their
  keys were first set (method names are not array indices).
\<close>

fun count_method :: "(string \<times> nat) list \<Rightarrow> string \<Rightarrow> (string \<times> nat) list" where
  "count_method [] m = [(m, 1)]"
| "count_method ((k, n) # acc) m = (if k = m then (k, n + 1) # acc else (k, n) # count_method acc m)"

definition stats_method :: "Route \<Rightarrow> string" where
  "stats_method r = (if r_method r = ''*'' then ''ANY'' else toUpperCase (r_method r))"

definition methodCounts :: "Route list \<Rightarrow> (string \<times> nat) list" where
  "methodCounts routes = foldl (\<lambda>acc r. count_method acc (stats_method r)) [] routes"

text \<open>\<open>sort(([, a], [, b]) => b - a).slice(0, 4)\<close>; the sort is stable.\<close>

definition topMethods :: "Route list \<Rightarrow> (string \<times> nat) list" where
  "topMethods routes = take 4 (sort_key (\<lambda>(m, n). - int n) (methodCounts routes))"

definition RouteStatsBar :: "Route list \<Rightarrow> 'm node" where
  "RouteStatsBar routes =
     (let all = length routes; enabled = length (filter r_enabled routes); disabled = all - enabled
      in El ''div'' []
        ([stat_cell (''Total'', all, ''GitBranch''), stat_cell (''Active'', enabled, ''CheckCircle2''),
          stat_cell (''Inactive'', disabled, ''XCircle'')]
         @ show_if (topMethods routes \<noteq> [])
             [El ''div'' []
               ([El ''span'' [] [Text ''Methods:'']]
                @ map (\<lambda>(m, n). El ''span'' [] [MethodBadge m, El ''span'' [] [Text (str_int (int n))]])
                    (topMethods routes))]))"

definition RouteDetailPanel :: "date_env \<Rightarrow> Route option \<Rightarrow> 'm \<Rightarrow> string option \<Rightarrow> 'm node list" where
  "RouteDetailPanel env route onClose upstreamName =
     panel_frame onClose route (\<lambda>r.
       [El ''div'' []
         [El ''div'' []
           [El ''div'' []
             [MethodBadge (r_method r),
              El ''div'' []
                ([El ''p'' [] [Text (r_path_prefix r)]]
                 @ when_str (Some (r_host r)) (\<lambda>h. El ''p'' [] [Text h]))],
            close_button onClose],
          El ''div'' []
           [El ''div'' [] [status_badge (r_enabled r) ''Enabled'' ''Disabled''],
            El ''div'' []
             ([Field ''Route ID'' (r_id r) True True,
               Field ''Tenant ID'' (r_tenant_id r) True True,
               Field ''Upstream ID'' (r_upstream_id r) True True]
              @ when_str upstreamName (\<lambda>n. Field ''Upstream Name'' n False False)
              @ [Field ''Host'' (nullish (or_undefined (r_host r)) ''(any)'') False False,
                 Field ''Created'' (formatDateTime env (r_created_at r)) False False,
                 Field ''Updated'' (formatDateTime env (r_updated_at r)) False False]),
            El ''div'' []
             [El ''p'' [] [Text ''Path Prefix''],
              El ''p'' [] [El ''span'' [] [Text (r_path_prefix r)], copy_button (r_path_prefix r)]]]]])"

section \<open>Page\<close>

definition routes_PAGE_SIZE :: int where
  "routes_PAGE_SIZE = 10"

definition METHOD_OPTIONS :: "FilterOption list" where
  "METHOD_OPTIONS =
     [fopt ''All Methods'' ''all'', fopt ''ANY / *'' ''any'', fopt ''GET'' ''GET'', fopt ''POST'' ''POST'',
      fopt ''PUT'' ''PUT'', fopt ''DELETE'' ''DELETE'', fopt ''PATCH'' ''PATCH'']"

record routes_page =
  rp_selectedTenant :: string
  rp_search :: string
  rp_status :: string
  rp_method :: string
  rp_page :: int
  rp_creating :: bool
  rp_editing :: "Route option"
  rp_selected :: "Route option"

definition RoutesPage_init :: routes_page where
  "RoutesPage_init =
     \<lparr>rp_selectedTenant = [], rp_search = [], rp_status = ''all'', rp_method = ''all'', rp_page = 1,
      rp_creating = False, rp_editing = None, rp_selected = None\<rparr>"

datatype routes_msg =
    RpTenant string
  | RpSearch string
  | RpStatus string
  | RpMethod string
  | RpPage int
  | RpCreating bool
  | RpEditing "Route option"
  | RpSelected "Route option"

fun RoutesPage_update :: "routes_msg \<Rightarrow> routes_page \<Rightarrow> routes_page" where
  "RoutesPage_update (RpTenant v) s =
     s\<lparr>rp_selectedTenant := v, rp_page := 1, rp_search := [], rp_status := ''all'', rp_method := ''all''\<rparr>"
| "RoutesPage_update (RpSearch v) s = s\<lparr>rp_search := v, rp_page := 1\<rparr>"
| "RoutesPage_update (RpStatus v) s = s\<lparr>rp_status := v, rp_page := 1\<rparr>"
| "RoutesPage_update (RpMethod v) s = s\<lparr>rp_method := v, rp_page := 1\<rparr>"
| "RoutesPage_update (RpPage p) s = s\<lparr>rp_page := p\<rparr>"
| "RoutesPage_update (RpCreating b) s = s\<lparr>rp_creating := b\<rparr>"
| "RoutesPage_update (RpEditing r) s = s\<lparr>rp_editing := r\<rparr>"
| "RoutesPage_update (RpSelected r) s = s\<lparr>rp_selected := r\<rparr>"

text \<open>\<open>Object.fromEntries\<close>: of two upstreams with one id the later wins.\<close>

definition upstreamMap :: "Upstream list \<Rightarrow> string \<Rightarrow> string option" where
  "upstreamMap upstreamList = map_of (rev (map (\<lambda>u. (u_id u, u_name u)) upstreamList))"

datatype routes_event = RouteCreated | RouteUpdated

definition routes_createMut :: "routes_page \<Rightarrow> (CreateRouteBody, routes_event) mutation_options" where
  "routes_createMut s = useCreateRoute (rp_selectedTenant s) (Some RouteCreated)"

definition routes_editMut :: "routes_page \<Rightarrow> (UpdateRouteBody, routes_event) mutation_options" where
  "routes_editMut s =
     useUpdateRoute (rp_selectedTenant s) (nullish (map_option r_id (rp_editing s)) []) (Some RouteUpdated)"

fun routes_on_event :: "routes_event \<Rightarrow> routes_page \<Rightarrow> routes_page \<times> toast_request" where
  "routes_on_event RouteCreated s = (s\<lparr>rp_creating := False\<rparr>, success_toast ''Route created'')"
| "routes_on_event RouteUpdated s = (s\<lparr>rp_editing := None\<rparr>, success_toast ''Route updated'')"

definition route_matches :: "string \<Rightarrow> Route \<Rightarrow> bool" where
  "route_matches search r =
     (includes_str (toLowerCase (r_path_prefix r)) (toLowerCase search)
      \<or> includes_str (toLowerCase (r_host r)) (toLowerCase search))"

definition method_hit :: "string \<Rightarrow> Route \<Rightarrow> bool" where
  "method_hit method r =
     (let m = (if r_method r = ''*'' \<or> r_method r = [] then ''any'' else toUpperCase (r_method r))
      in if method = ''any'' then m = ''any'' else m = toUpperCase method)"

definition filter_method :: "string \<Rightarrow> Route list \<Rightarrow> Route list" where
  "filter_method method list0 = (if method \<noteq> ''all'' then filter (method_hit method) list0 else list0)"

definition routes_filtered :: "Route list \<Rightarrow> routes_page \<Rightarrow> Route list" where
  "routes_filtered data s =
     filter_method (rp_method s)
       (filter_status (rp_status s) r_enabled
         (filter_search (rp_search s) (route_matches (rp_search s)) data))"

definition routes_paginated :: "Route list \<Rightarrow> routes_page \<Rightarrow> Route list" where
  "routes_paginated data s =
     js_slice (routes_filtered data s) ((rp_page s - 1) * routes_PAGE_SIZE) (rp_page s * routes_PAGE_SIZE)"

definition routes_columns :: "date_env \<Rightarrow> Upstream list \<Rightarrow> (Route, routes_msg) Column list" where
  "routes_columns env upstreamList =
     [column ''route'' ''Route'' None (\<lambda>r.
        [El ''button'' [OnClick (RpSelected (Some r))]
          [MethodBadge (r_method r), RoutePathDisplay (r_path_prefix r) (Some (r_host r))]]),
      column ''upstream'' ''Upstream'' None (\<lambda>r.
        [El ''span'' []
          [case upstreamMap upstreamList (r_upstream_id r) of
             Some n \<Rightarrow> Text n | None \<Rightarrow> El ''span'' [] [Text ''unknown'']]]),
      column ''status'' ''Status'' (Some ''100px'') (\<lambda>r. [status_badge (r_enabled r) ''Active'' ''Inactive'']),
      column ''created'' ''Created'' (Some ''120px'') (\<lambda>r. [El ''span'' [] [Text (formatDate env (r_created_at r))]]),
      actions_column ''100px'' (\<lambda>r.
        [Comp ''RouteRowActions'' [Attr ''route'' (r_id r), OnEvent ''onEdit'' (RpEditing (Some r))]])]"

definition routes_table :: "routes_page \<Rightarrow> bool \<Rightarrow> routes_msg TableOptions" where
  "routes_table s loading =
     (let unfiltered = (rp_search s = [] \<and> rp_status s = ''all'' \<and> rp_method s = ''all'') in
      \<lparr>tbl_loading = loading,
       tbl_emptyTitle = Some (if \<not> unfiltered then ''No routes match your filters'' else ''No routes yet''),
       tbl_emptyDescription =
         (if unfiltered then Some ''Create your first route to start routing traffic.'' else None),
       tbl_emptyAction =
         (if unfiltered
          then Some [El ''button'' [OnClick (RpCreating True)] [icon ''Plus'', Text '' New Route'']] else None),
       tbl_skeletonRows = None\<rparr>)"

definition RoutesPage_body ::
    "date_env \<Rightarrow> Route query_result \<Rightarrow> Upstream list \<Rightarrow> routes_page \<Rightarrow> routes_msg node list" where
  "RoutesPage_body env q upstreamList s =
     (let data = query_data q in
      show_if (data \<noteq> []) [El ''div'' [] [RouteStatsBar data]]
      @ [El ''div'' []
          [SearchBar (rp_search s) RpSearch (Some (''Search path or host'' @ ellipsis)),
           FilterSelect ''Method'' (rp_method s) METHOD_OPTIONS RpMethod,
           FilterSelect ''Status'' (rp_status s) status_options RpStatus]]
      @ load_error (qr_isError q) ''Failed to load routes. Is the control API running?''
      @ [DataTable (routes_columns env upstreamList) (routes_paginated data s) r_id (routes_table s (qr_isLoading q))]
      @ Pagination (rp_page s) routes_PAGE_SIZE (int (length (routes_filtered data s))) RpPage)"

definition RoutesPage ::
    "date_env \<Rightarrow> Tenant query_result \<Rightarrow> Upstream query_result \<Rightarrow> Route query_result \<Rightarrow> routes_page
     \<Rightarrow> routes_msg node list" where
  "RoutesPage env tq uq q s =
     [El ''div'' []
       ([PageHeader ''Routes'' (Some ''Define routing rules that map traffic to upstream services.'')
           (Some [new_button (RpCreating True) (rp_selectedTenant s) '' New Route'']) None,
         tenant_select ''route-tenant-select'' (query_data tq) (rp_selectedTenant s) RpTenant]
        @ (if rp_selectedTenant s = [] then [select_hint ''GitBranch'' ''Select a tenant to view its routes.'']
           else RoutesPage_body env q (query_data uq) s)
        @ Modal (rp_creating s) (RpCreating False) (Some ''New Route'') (Some ''Add a routing rule for this tenant.'')
            [Comp ''RouteForm'' [Attr ''tenantId'' (rp_selectedTenant s), Attr ''submitLabel'' ''Create Route'',
               OnEvent ''onCancel'' (RpCreating False)]]
        @ Modal (rp_editing s \<noteq> None) (RpEditing None) (Some ''Edit Route'') None
            (case rp_editing s of None \<Rightarrow> []
             | Some r \<Rightarrow> [Comp ''RouteForm'' [Attr ''tenantId'' (rp_selectedTenant s), Attr ''initial'' (r_id r),
                 Attr ''submitLabel'' ''Save Changes'', OnEvent ''onCancel'' (RpEditing None)]])
        @ RouteDetailPanel env (rp_selected s) (RpSelected None)
            (Option.bind (rp_selected s) (\<lambda>r. upstreamMap (query_data uq) (r_upstream_id r))))]"

section \<open>Validation of the path\<close>

lemma path_char_no_space: "\<not> path_char (CHR '' '')"
  by (simp add: path_char_def is_lower_def is_upper_def is_digit_def)

lemma includes_char: "includes_str s [c] \<longleftrightarrow> c \<in> set s"
  by (induction s) auto

lemma validatePathPrefix_None:
  "validatePathPrefix path = None \<longleftrightarrow> startsWith (trim path) ''/'' \<and> list_all path_char (trim path)"
  using path_char_no_space
  by (auto simp: validatePathPrefix_def Let_def startsWith_def includes_char list_ex_iff list_all_iff
      split: if_splits)

lemma validatePathPrefix_message: "validatePathPrefix path \<noteq> Some []"
  by (simp add: validatePathPrefix_def Let_def)

lemma validatePathPrefix_trim [simp]: "validatePathPrefix (trim path) = validatePathPrefix path"
  by (simp add: validatePathPrefix_def)

section \<open>The form meets the contract of a submission\<close>

definition route_body_ok :: "CreateRouteBody \<Rightarrow> bool" where
  "route_body_ok b \<longleftrightarrow>
     trim (cr_path_prefix b) = cr_path_prefix b \<and> validatePathPrefix (cr_path_prefix b) = None
     \<and> cr_upstream_id b \<noteq> [] \<and> cr_host b \<noteq> Some [] \<and> cr_method b \<noteq> Some ''ANY''"

lemma upstream_options_no_button: "view_elements ''button'' (upstream_options us) = []"
  by (simp add: upstream_options_def show_if_def view_elements_def)

lemma elements_El: "elements t (El u as cs) = (if t = u then [El u as cs] else []) @ view_elements t cs"
  by (simp add: view_elements_def)

lemma RouteForm_can_submit:
  "can_submit (RouteForm us lbl s) \<longleftrightarrow>
     \<not> rf_loading s \<and> rf_upstreamId s \<noteq> [] \<and> \<not> truthy_str (rf_pathError s)"
  by (auto simp: can_submit_def RouteForm_def form_view_defs is_submit_button_def is_disabled_def
      HTTP_METHODS_def elements_El upstream_options_no_button simp del: elements.simps(2) split: option.splits)

interpretation route_submit: submit_form "RouteForm us lbl" RfSubmit RouteForm_update RouteForm_settle
    rf_loading route_body_ok for us lbl
proof (unfold_locales, goal_cases)
  case (1 s)
  then show ?case by (simp add: RouteForm_can_submit)
next
  case (2 m s)
  then show ?case by (cases m) (auto simp: handlePathChange_def)
next
  case (3 s)
  then show ?case by (auto simp: RouteForm_handleSubmit_def split: option.splits if_splits)
next
  case (4 s b)
  then show ?case
    by (auto simp: RouteForm_handleSubmit_def route_body_ok_def apiMethod_def or_undefined_def
        split: option.splits if_splits)
next
  case (5 r s)
  then show ?case by (simp add: RouteForm_settle_def)
qed

lemma path_char_code:
  "path_char c \<Longrightarrow> of_char c \<in> ({48..57} \<union> {65..90} \<union> {97..122} \<union> {47, 95, 45, 46, 58, 42, 123, 125} :: nat set)"
  by (auto simp: path_char_def is_lower_def is_upper_def is_digit_def)

lemma route_body_paths: "route_body_ok b \<Longrightarrow> hd (cr_path_prefix b) = CHR ''/''
    \<and> list_all (\<lambda>c. of_char c \<in> ({48..57} \<union> {65..90} \<union> {97..122} \<union> {47, 95, 45, 46, 58, 42, 123, 125} :: nat set)) (cr_path_prefix b)"
  using path_char_code
  by (cases "cr_path_prefix b") (auto simp: route_body_ok_def validatePathPrefix_None startsWith_def list_all_iff)

interpretation route_gate: checked_form "RouteForm us lbl" RfSubmit RouteForm_update RouteForm_settle
    rf_loading route_body_ok rf_pathError "\<lambda>s. validatePathPrefix (rf_pathPrefix s)" "\<lambda>s. rf_upstreamId s \<noteq> []" for us lbl
proof (unfold_locales, goal_cases)
  case (5 s m)
  then show ?case by (cases m) (auto simp: handlePathChange_def RouteForm_handleSubmit_def split: option.splits)
qed (auto simp: RouteForm_can_submit RouteForm_handleSubmit_def RouteForm_settle_def validatePathPrefix_message
      split: option.splits if_splits)

interpretation route_row: row_actions "RouteRowActions r" for r
  by unfold_locales (auto simp: RouteRowActions_def view split: if_splits)

section \<open>The counts of methods\<close>

definition method_count :: "Route list \<Rightarrow> string \<Rightarrow> nat" where
  "method_count routes m = length (filter (\<lambda>r. stats_method r = m) routes)"

lemma count_method_keys: "set (map fst (count_method acc m)) = insert m (set (map fst acc))"
  by (induction acc m rule: count_method.induct) auto

lemma count_method_distinct: "distinct (map fst acc) \<Longrightarrow> distinct (map fst (count_method acc m))"
proof (induction acc m rule: count_method.induct)
  case (2 k n acc m)
  then show ?case using count_method_keys [of acc m] by auto
qed simp

lemma count_method_lookup:
  "map_of (count_method acc m) k = (if k = m then Some (nullish (map_of acc m) 0 + 1) else map_of acc k)"
  by (induction acc m rule: count_method.induct) (auto simp: nullish_def)

lemma methodCounts_snoc: "methodCounts (rs @ [r]) = count_method (methodCounts rs) (stats_method r)"
  by (simp add: methodCounts_def)

lemma methodCounts_distinct: "distinct (map fst (methodCounts rs))"
proof (induction rs rule: rev_induct)
  case (snoc r rs)
  then show ?case unfolding methodCounts_snoc by (rule count_method_distinct)
qed (simp add: methodCounts_def)

lemma methodCounts_lookup:
  "map_of (methodCounts rs) m = (if method_count rs m = 0 then None else Some (method_count rs m))"
proof (induction rs rule: rev_induct)
  case (snoc r rs)
  then show ?case by (auto simp: methodCounts_snoc count_method_lookup method_count_def nullish_def)
qed (simp add: methodCounts_def method_count_def)

lemma methodCounts_mem: "(m, n) \<in> set (methodCounts rs) \<longleftrightarrow> n = method_count rs m \<and> 0 < n"
  using map_of_eq_Some_iff [OF methodCounts_distinct, of rs m n] methodCounts_lookup [of rs m]
  by (auto split: if_splits)

lemma sorted_take_le:
  "sorted (map f xs) \<Longrightarrow> x \<in> set (take n xs) \<Longrightarrow> y \<in> set (drop n xs) \<Longrightarrow> (f x :: 'b :: linorder) \<le> f y"
proof -
  assume "sorted (map f xs)" and x: "x \<in> set (take n xs)" and y: "y \<in> set (drop n xs)"
  then have "sorted (map f (take n xs) @ map f (drop n xs))" by (simp flip: map_append)
  with x y show ?thesis unfolding sorted_append by auto
qed

lemma topMethods_mem: "(m, n) \<in> set (topMethods rs) \<Longrightarrow> n = method_count rs m \<and> 0 < n"
  using methodCounts_mem [of m n rs] by (auto simp: topMethods_def dest: in_set_takeD)

lemma topMethods_best:
  assumes "(m, n) \<in> set (topMethods rs)" and "k \<notin> fst ` set (topMethods rs)"
  shows "method_count rs k \<le> n"
proof (cases "method_count rs k = 0")
  case False
  let ?xs = "sort_key (\<lambda>(m, n). - int n) (methodCounts rs)"
  from False have "(k, method_count rs k) \<in> set ?xs" by (simp add: methodCounts_mem)
  with assms(2) have "(k, method_count rs k) \<in> set (drop 4 ?xs)"
    by (metis UnE append_take_drop_id fst_conv imageI set_append topMethods_def)
  moreover have "sorted (map (\<lambda>(m, n). - int n) ?xs)" by simp
  ultimately have "- int n \<le> - int (method_count rs k)"
    using assms(1) sorted_take_le [of "\<lambda>(m, n). - int n" ?xs "(m, n)" 4 "(k, method_count rs k)"]
    by (simp add: topMethods_def)
  then show ?thesis by simp
qed simp

section \<open>The page\<close>

lemma routes_filtered_eq:
  "routes_filtered data s =
     filter (\<lambda>r. (rp_search s \<noteq> [] \<longrightarrow> route_matches (rp_search s) r) \<and> status_ok (rp_status s) (r_enabled r)
                 \<and> (rp_method s \<noteq> ''all'' \<longrightarrow> method_hit (rp_method s) r)) data"
  by (auto simp: routes_filtered_def filter_method_def filter_status_eq filter_search_def intro: filter_cong)

definition routes_offers ::
    "date_env \<Rightarrow> Tenant query_result \<Rightarrow> (string \<Rightarrow> Upstream query_result) \<Rightarrow> (string \<Rightarrow> Route query_result)
     \<Rightarrow> routes_page \<Rightarrow> routes_msg set" where
  "routes_offers env tq uq q s =
     view_msgs (RoutesPage env tq (uq (rp_selectedTenant s)) (q (rp_selectedTenant s)) s)"

definition routes_data :: "(string \<Rightarrow> Route query_result) \<Rightarrow> routes_page \<Rightarrow> Route list" where
  "routes_data q s = query_data (q (rp_selectedTenant s))"

lemma MethodBadge_msgs [view]: "msgs (MethodBadge m) = {}"
  by (simp add: MethodBadge_def Let_def view)

lemma RoutePathDisplay_msgs [view]: "msgs (RoutePathDisplay p h) = {}"
  by (simp add: RoutePathDisplay_def view view_msgs_map split: prod.split)

lemma routes_parts_msgs:
  "RpPage p \<notin> msgs (DataTable (routes_columns env us) data r_id (routes_table s loading))"
  "RpPage p \<notin> view_msgs (RouteDetailPanel env sel (RpSelected None) un)"
  "msgs (RouteStatsBar data) = {}"
  by (simp_all add: view routes_columns_def routes_table_def Let_def RouteDetailPanel_def
      RouteStatsBar_def view_msgs_map split: option.split prod.split)

lemma RoutesPage_page_msgs:
  assumes "RpPage p \<in> routes_offers env tq uq q s"
  shows "p \<in> page_offers routes_PAGE_SIZE (int (length (routes_filtered (routes_data q s) s))) (rp_page s)"
proof -
  have "RpPage p \<in> view_msgs (Pagination (rp_page s) routes_PAGE_SIZE
      (int (length (routes_filtered (routes_data q s) s))) RpPage)"
    using assms
    by (cases "rp_editing s") (simp_all add: routes_offers_def routes_data_def RoutesPage_def
        RoutesPage_body_def Let_def view routes_parts_msgs image_iff split: if_splits del: DataTable_msgs)
  then show ?thesis by (rule Pagination_msg_page) simp
qed

interpretation routes_list: paged_machine rp_page "\<lambda>s. routes_filtered (routes_data q s) s"
    "\<lambda>s. routes_paginated (routes_data q s) s" "\<lambda>p. RoutesPage_update (RpPage p)" routes_PAGE_SIZE
    "routes_offers env tq uq q" RoutesPage_update for env tq uq q
proof (unfold_locales, goal_cases)
  case (5 m s)
  then show ?case
  proof (cases m)
    case (RpPage p)
    with 5 RoutesPage_page_msgs show ?thesis by (auto simp: routes_filtered_def routes_data_def)
  qed (simp_all add: routes_filtered_def routes_data_def)
qed (simp_all add: routes_PAGE_SIZE_def routes_paginated_def page_rows_def routes_filtered_def routes_data_def)

section \<open>Editing a route\<close>

lemma RouteForm_submit_body:
  assumes "validatePathPrefix (rf_pathPrefix s) = None" and "rf_upstreamId s \<noteq> []"
  shows "snd (RouteForm_handleSubmit s) =
    Some \<lparr>cr_method = Some (apiMethod (rf_method s)), cr_path_prefix = trim (rf_pathPrefix s),
          cr_host = or_undefined (trim (rf_host s)), cr_upstream_id = rf_upstreamId s,
          cr_enabled = Some (rf_enabled s)\<rparr>"
  using assms by (simp add: RouteForm_handleSubmit_def)

lemma api_form_method: "m \<in> set (''*'' # tl HTTP_METHODS) \<Longrightarrow> apiMethod (form_normalizeMethod m) = m"
  by (auto simp: HTTP_METHODS_def apiMethod_def form_normalizeMethod_def toUpperCase_def upper_char_def is_lower_def)

section \<open>Properties\<close>

text \<open>C23: In every session of the route form the paths that are sent are exactly of the intended kind: a slash
  followed by letters, digits and the characters \<open>/ _ - . : * { }\<close>, by their ASCII codes.  The message under the
  field is never an outdated one, input that would be sent is never blocked by the button, and an
  enabled button on a path that does not pass sends nothing, shows the verdict and disables itself.\<close>

theorem route_path_gate:
  assumes "reach (form_offers (RouteForm us lbl) RfSubmit) (form_step RouteForm_update RouteForm_settle)
      (open_session (RouteForm_init initial)) x"
  defines "f \<equiv> ses_form x" and "submitted \<equiv> RouteForm_update RfSubmit (ses_form x)"
  shows "list_all (\<lambda>b. hd (cr_path_prefix b) = CHR ''/''
        \<and> list_all (\<lambda>c. of_char c \<in> ({48..57} \<union> {65..90} \<union> {97..122} \<union> {47, 95, 45, 46, 58, 42, 123, 125} :: nat set))
            (cr_path_prefix b)) (ses_sent x)
    \<and> rf_pathError f \<in> {None, validatePathPrefix (rf_pathPrefix f)}
    \<and> (\<not> rf_loading f \<and> snd submitted \<noteq> None \<longrightarrow> can_submit (RouteForm us lbl f))
    \<and> (can_submit (RouteForm us lbl f) \<and> snd submitted = None \<longrightarrow>
         rf_pathError f = None \<and> validatePathPrefix (rf_pathPrefix f) \<noteq> None
         \<and> rf_pathError (fst submitted) = validatePathPrefix (rf_pathPrefix f)
         \<and> \<not> can_submit (RouteForm us lbl (fst submitted)))"
proof -
  have "list_all route_body_ok (ses_sent x)"
    using route_submit.one_submission_at_a_time [OF assms(1)] by (simp add: RouteForm_init_def)
  then have "list_all (\<lambda>b. hd (cr_path_prefix b) = CHR ''/''
      \<and> list_all (\<lambda>c. of_char c \<in> ({48..57} \<union> {65..90} \<union> {97..122} \<union> {47, 95, 45, 46, 58, 42, 123, 125} :: nat set))
          (cr_path_prefix b)) (ses_sent x)"
    by (rule list.pred_mono_strong) (rule route_body_paths)
  then show ?thesis
    using route_gate.gate [OF assms(1)] unfolding f_def submitted_def by (simp add: RouteForm_init_def)
qed

theorem route_path_gate_witness:
  "let f = RouteForm_init (no_route\<lparr>ri_path_prefix := Some ''/a?b'', ri_upstream_id := Some ''u1''\<rparr>);
       f' = fst (RouteForm_update RfSubmit f) in
   can_submit (RouteForm [] ''Save'' f) \<and> rf_pathError f' = Some ''Path prefix contains invalid characters''
   \<and> \<not> can_submit (RouteForm [] ''Save'' f')"
proof -
  define f where "f = RouteForm_init (no_route\<lparr>ri_path_prefix := Some ''/a?b'', ri_upstream_id := Some ''u1''\<rparr>)"
  have v: "validatePathPrefix (rf_pathPrefix f) = Some ''Path prefix contains invalid characters''"
    by (simp add: f_def RouteForm_init_def nullish_def no_route_def validatePathPrefix_def trim_def is_space_def
        startsWith_def path_char_def is_lower_def is_upper_def is_digit_def)
  then have "snd (RouteForm_update RfSubmit f) = None" by (simp add: RouteForm_handleSubmit_def)
  moreover have "can_submit (RouteForm [] ''Save'' f)"
    by (simp add: RouteForm_can_submit f_def RouteForm_init_def nullish_def no_route_def truthy_str_def)
  ultimately show ?thesis
    using route_path_gate [where us = "[]" and lbl = "''Save''", OF reach.start,
        of "no_route\<lparr>ri_path_prefix := Some ''/a?b'', ri_upstream_id := Some ''u1''\<rparr>"] v
    by (simp add: f_def [symmetric] open_session_def Let_def)
qed

text \<open>In every session of the route form at most one submission is under way, and every body that was
  submitted has a trimmed path that passes the check, an upstream, no empty host, and the wildcard in its
  API form \<open>*\<close> rather than \<open>ANY\<close>.\<close>

theorem route_form_one_submission:
  assumes "reach (form_offers (RouteForm us lbl) RfSubmit) (form_step RouteForm_update RouteForm_settle)
      (open_session (RouteForm_init initial)) x"
  shows "ses_in_flight x = (if rf_loading (ses_form x) then 1 else 0) \<and> list_all route_body_ok (ses_sent x)"
  using route_submit.one_submission_at_a_time [OF assms] by (simp add: RouteForm_init_def)

theorem route_form_one_submission_witness:
  "\<exists>x :: (route_form, CreateRouteBody) session.
     ses_in_flight x = 1 \<and> ses_sent x \<noteq> [] \<and> list_all route_body_ok (ses_sent x)"
proof -
  let ?s = "open_session (RouteForm_init (no_route\<lparr>ri_upstream_id := Some ''u1''\<rparr>))
    :: (route_form, CreateRouteBody) session"
  let ?x = "form_step RouteForm_update RouteForm_settle (User RfSubmit) ?s"
  have "User RfSubmit \<in> form_offers (RouteForm [] ''Save'') RfSubmit ?s"
    by (simp add: form_offers_def open_session_def RouteForm_can_submit RouteForm_init_def no_route_def
        nullish_def truthy_str_def, simp add: RouteForm_def view)
  then have "reach (form_offers (RouteForm [] ''Save'') RfSubmit)
      (form_step RouteForm_update RouteForm_settle) ?s ?x" by (rule reach_run)
  note ok = route_form_one_submission [OF this]
  have "validatePathPrefix ''/'' = None"
    by (simp add: validatePathPrefix_None trim_def is_space_def startsWith_def path_char_def)
  then have "rf_loading (ses_form ?x)" "ses_sent ?x \<noteq> []"
    by (simp_all add: open_session_def RouteForm_init_def no_route_def nullish_def RouteForm_handleSubmit_def)
  with ok show ?thesis by (intro exI [of _ ?x]) (simp del: form_step.simps)
qed

text \<open>C24: Opening the edit form of a stored route and saving it without a change sends the route's own
  values: its method (for the methods of the select and the wildcard), path, upstream and state, and its
  host unless that is empty.\<close>

theorem route_edit_roundtrip:
  assumes "r_method r \<in> set (''*'' # tl HTTP_METHODS)" and "validatePathPrefix (r_path_prefix r) = None"
    and "trim (r_path_prefix r) = r_path_prefix r" and "trim (r_host r) = r_host r" and "r_upstream_id r \<noteq> []"
  shows "snd (RouteForm_update RfSubmit (RouteForm_init (initial_of_route r))) =
    Some \<lparr>cr_method = Some (r_method r), cr_path_prefix = r_path_prefix r, cr_host = or_undefined (r_host r),
          cr_upstream_id = r_upstream_id r, cr_enabled = Some (r_enabled r)\<rparr>"
  using assms RouteForm_submit_body [of "RouteForm_init (initial_of_route r)"] api_form_method [OF assms(1)]
  by (simp add: RouteForm_init_def initial_of_route_def nullish_def)

theorem route_edit_roundtrip_witness:
  "snd (RouteForm_update RfSubmit (RouteForm_init (initial_of_route
     \<lparr>r_id = ''7'', r_tenant_id = ''t'', r_upstream_id = ''u'', r_method = ''*'', r_path_prefix = ''/v1'',
      r_host = [], r_enabled = True, r_created_at = [], r_updated_at = []\<rparr>)))
   = Some \<lparr>cr_method = Some ''*'', cr_path_prefix = ''/v1'', cr_host = None, cr_upstream_id = ''u'',
          cr_enabled = Some True\<rparr>"
proof -
  define r where "r = \<lparr>r_id = ''7'', r_tenant_id = ''t'', r_upstream_id = ''u'', r_method = ''*'',
    r_path_prefix = ''/v1'', r_host = [], r_enabled = True, r_created_at = [], r_updated_at = []\<rparr>"
  have v: "validatePathPrefix ''/v1'' = None"
    by (simp add: validatePathPrefix_None trim_def is_space_def startsWith_def path_char_def is_lower_def is_digit_def)
  have "snd (RouteForm_update RfSubmit (RouteForm_init (initial_of_route r))) =
      Some \<lparr>cr_method = Some (r_method r), cr_path_prefix = r_path_prefix r, cr_host = or_undefined (r_host r),
          cr_upstream_id = r_upstream_id r, cr_enabled = Some (r_enabled r)\<rparr>"
    using v by (intro route_edit_roundtrip) (simp_all add: r_def trim_def is_space_def)
  then show ?thesis by (simp add: r_def or_undefined_def)
qed

text \<open>Clearing the host in the edit form does not reach the server: whatever else the form holds, the
  body sent for a blank host has no \<open>host\<close> field, and a \<open>PATCH\<close> without the field leaves the stored
  host as it is.\<close>

theorem route_host_not_cleared:
  assumes "RouteForm_update RfSubmit s = (s', Some b)" and "trim (rf_host s) = []"
  shows "\<exists>fields. UpdateRouteBody_json (route_update_body b) = JObj fields \<and> ''host'' \<notin> fst ` set fields"
  using assms
  by (auto simp: RouteForm_handleSubmit_def UpdateRouteBody_json_def route_update_body_def opt_field_def
      or_undefined_def split: option.splits if_splits)

theorem route_host_not_cleared_witness:
  "\<exists>s s' b. RouteForm_update RfSubmit s = (s', Some b)
     \<and> (\<exists>fields. UpdateRouteBody_json (route_update_body b) = JObj fields \<and> ''host'' \<notin> fst ` set fields)"
proof -
  define s where "s = RouteForm_init (no_route\<lparr>ri_upstream_id := Some ''u1''\<rparr>)"
  have "validatePathPrefix ''/'' = None"
    by (simp add: validatePathPrefix_None trim_def is_space_def startsWith_def path_char_def)
  then have "\<exists>s' b. RouteForm_update RfSubmit s = (s', Some b)"
    by (simp add: s_def RouteForm_init_def no_route_def nullish_def RouteForm_handleSubmit_def)
  moreover have "trim (rf_host s) = []" by (simp add: s_def RouteForm_init_def no_route_def nullish_def trim_def)
  ultimately show ?thesis using route_host_not_cleared by blast
qed

text \<open>The method counts of the bar are right: each method occurs once, with the number of routes that
  have it; the bar shows at most four of them, in descending order, and no method left out is
  more frequent than one that is shown.\<close>

theorem route_stats_top_methods:
  "distinct (map fst (methodCounts rs))
   \<and> (\<forall>m n. (m, n) \<in> set (methodCounts rs) \<longleftrightarrow> n = method_count rs m \<and> 0 < n)
   \<and> length (topMethods rs) \<le> 4
   \<and> sorted (map (\<lambda>(m, n). - int n) (topMethods rs))
   \<and> (\<forall>m n k. (m, n) \<in> set (topMethods rs) \<longrightarrow> k \<notin> fst ` set (topMethods rs) \<longrightarrow> method_count rs k \<le> n)"
proof -
  have "sorted (map (\<lambda>(m, n). - int n) (topMethods rs))"
    unfolding topMethods_def take_map [symmetric] by (rule sorted_wrt_take) simp
  moreover have "length (topMethods rs) \<le> 4" by (simp add: topMethods_def)
  ultimately show ?thesis using methodCounts_distinct methodCounts_mem topMethods_best by blast
qed

theorem route_stats_top_methods_witness:
  "method_count [\<lparr>r_id = ''7'', r_tenant_id = ''t'', r_upstream_id = ''u'', r_method = ''get'',
     r_path_prefix = ''/'', r_host = [], r_enabled = True, r_created_at = [], r_updated_at = []\<rparr>] ''POST'' \<le> 1"
proof -
  define r where "r = \<lparr>r_id = ''7'', r_tenant_id = ''t'', r_upstream_id = ''u'', r_method = ''get'',
     r_path_prefix = ''/'', r_host = [], r_enabled = True, r_created_at = [], r_updated_at = []\<rparr>"
  have g: "toUpperCase ''get'' = ''GET''" by code_simp
  then have "topMethods [r] = [(''GET'', 1)]"
    by (simp add: topMethods_def methodCounts_def stats_method_def r_def)
  moreover have "\<forall>m n k. (m, n) \<in> set (topMethods [r]) \<longrightarrow> k \<notin> fst ` set (topMethods [r]) \<longrightarrow> method_count [r] k \<le> n"
    using route_stats_top_methods [of "[r]"] by blast
  ultimately show ?thesis by (simp add: r_def)
qed

text \<open>Going through the pages of the routes table of the selected tenant shows exactly the routes that
  pass all three filters (path or host contains the search text up to case; state; method, where the
  wildcard filter takes the routes with method \<open>*\<close> or none), each once and in the loaded order.\<close>

theorem routes_pages_show_matches:
  "concat (map (\<lambda>p. routes_paginated (routes_data q s) (RoutesPage_update (RpPage p) s))
      [1..totalPages (int (length (routes_filtered (routes_data q s) s))) routes_PAGE_SIZE])
   = filter (\<lambda>r. (rp_search s = [] \<or> contains_ci (rp_search s) (r_path_prefix r) \<or> contains_ci (rp_search s) (r_host r))
                 \<and> status_ok (rp_status s) (r_enabled r)
                 \<and> (rp_method s = ''all'' \<or> method_hit (rp_method s) r)) (routes_data q s)"
proof -
  have "concat (map (\<lambda>p. routes_paginated (routes_data q s) (RoutesPage_update (RpPage p) s))
      [1..totalPages (int (length (routes_filtered (routes_data q s) s))) routes_PAGE_SIZE])
      = routes_filtered (routes_data q s) s"
    using routes_list.pages_partition [of q s] by (simp add: routes_data_def)
  also have "\<dots> = filter (\<lambda>r. (rp_search s = [] \<or> contains_ci (rp_search s) (r_path_prefix r) \<or> contains_ci (rp_search s) (r_host r))
      \<and> status_ok (rp_status s) (r_enabled r) \<and> (rp_method s = ''all'' \<or> method_hit (rp_method s) r)) (routes_data q s)"
    unfolding routes_filtered_eq by (rule filter_cong) (auto simp: route_matches_def contains_ci_def)
  finally show ?thesis .
qed

end
