(* ===== verification/Consumers.thy ===== *)
theory Consumers
  imports Pagination Widgets Date_Utils
begin

text \<open>
  The consumers page: \<^verbatim>\<open>src/ui/admin/src/components/consumers/*.tsx\<close> and
  \<^verbatim>\<open>src/ui/admin/src/pages/ConsumersPage.tsx\<close>: the masked API key, the dialog with a generated key, the
  form, the row actions, the counts, the detail panel and the page.
\<close>

section \<open>API key display\<close>

record key_display =
  kd_copy :: copy_state
  kd_revealed :: bool

datatype key_msg = KeyReveal | KeyCopy

definition displayKey :: "string option \<Rightarrow> string option \<Rightarrow> bool \<Rightarrow> string" where
  "displayKey keyPrefix fullKey revealed =
     (case or_undefined (nullish fullKey []) of
        Some k \<Rightarrow> if revealed then k else js_slice k 0 8 @ repeat_str bullet 24
      | None \<Rightarrow> nullish keyPrefix ''undefined'' @ repeat_str bullet 20)"

definition copyValue :: "string option \<Rightarrow> string option \<Rightarrow> string" where
  "copyValue keyPrefix fullKey = nullish fullKey (nullish keyPrefix [])"

fun ApiKeyDisplay_update ::
    "string option \<Rightarrow> string option \<Rightarrow> int \<Rightarrow> key_msg \<Rightarrow> key_display \<Rightarrow> key_display \<times> string option" where
  "ApiKeyDisplay_update keyPrefix fullKey now KeyReveal s = (s\<lparr>kd_revealed := \<not> kd_revealed s\<rparr>, None)"
| "ApiKeyDisplay_update keyPrefix fullKey now KeyCopy s =
     (s\<lparr>kd_copy := fst (copy (copyValue keyPrefix fullKey) now (kd_copy s))\<rparr>,
      Some (snd (copy (copyValue keyPrefix fullKey) now (kd_copy s))))"

definition ApiKeyDisplay :: "string option \<Rightarrow> string option \<Rightarrow> key_display \<Rightarrow> key_msg node" where
  "ApiKeyDisplay keyPrefix fullKey s =
     (if \<not> truthy_str keyPrefix \<and> \<not> truthy_str fullKey then El ''span'' [] [Text ''No key'']
      else El ''span'' []
        ([El ''span'' [] [Text (displayKey keyPrefix fullKey (kd_revealed s))]]
         @ show_if (truthy_str fullKey)
             [El ''button'' [OnClick KeyReveal,
                 Attr ''title'' (if kd_revealed s then ''Hide key'' else ''Reveal key'')]
               [icon (if kd_revealed s then ''EyeOff'' else ''Eye'')]]
         @ [CopyButton KeyCopy ''Copy API key'' (kd_copy s)]))"

section \<open>Generated key\<close>

text \<open>The dialog derives a placeholder from the consumer's id when no key is passed.\<close>

definition generated_key :: "Consumer \<Rightarrow> string option \<Rightarrow> string" where
  "generated_key c generatedKey =
     nullish generatedKey (''bq_'' @ js_slice (c_id c) 0 8 @ ''_'' @ repeat_str ''x'' 32)"

definition copy_generated :: "string \<Rightarrow> int \<Rightarrow> copy_state \<Rightarrow> copy_state \<times> string" where
  "copy_generated key now s = (s\<lparr>cb_copied := True, cb_timers := cb_timers s @ [now + 2000]\<rparr>, key)"

datatype generate_msg = GenCopy | GenClose

definition ApiKeyGenerateModal :: "Consumer \<Rightarrow> string option \<Rightarrow> copy_state \<Rightarrow> generate_msg node list" where
  "ApiKeyGenerateModal c generatedKey s =
     Modal True GenClose (Some ''API Key Generated'')
       (Some (''New API key for consumer '' @ dquote @ c_name c @ dquote))
       [El ''div'' []
         [El ''div'' []
           [icon ''AlertTriangle'',
            El ''p'' [] [Text (''This key will only be shown once. Copy it now and store it securely '' @ em_dash
              @ '' you cannot retrieve it later.'')]],
          El ''div'' []
           [El ''p'' [] [Text ''API Key''],
            El ''div'' []
             [El ''span'' [] [Text (generated_key c generatedKey)],
              CopyButton GenCopy ''Copy API key'' s]],
          El ''div'' []
           [El ''button'' [Attr ''variant'' (if cb_copied s then ''btn-primary'' else ''btn-secondary''), OnClick GenClose]
             [Text (if cb_copied s then ''Done'' else ''I have copied the key'')]]]]"

section \<open>Age of a consumer\<close>

datatype age_variant = AgeNew | AgeRecent | AgeOld

definition getAgeVariant :: "date_env \<Rightarrow> string \<Rightarrow> age_variant" where
  "getAgeVariant env createdAt =
     (case parse_date env createdAt of
        None \<Rightarrow> AgeOld
      | Some t \<Rightarrow>
          let ms = now_ms env - t in
          if ms < 86400000 then AgeNew else if ms < 30 * 86400000 then AgeRecent else AgeOld)"

fun age_style :: "age_variant \<Rightarrow> string" where
  "age_style AgeNew = ''text-emerald-500''"
| "age_style AgeRecent = ''text-amber-500''"
| "age_style AgeOld = ''text-gray-400''"

definition ConsumerActivityIndicator :: "date_env \<Rightarrow> string \<Rightarrow> 'm node" where
  "ConsumerActivityIndicator env createdAt =
     El ''span'' [Attr ''variant'' (age_style (getAgeVariant env createdAt))]
       [icon ''Clock'', El ''span'' [] [Text (formatDistanceToNow env createdAt), Text '' ago'']]"

section \<open>Form\<close>

record consumer_form =
  cf_name :: string
  cf_enabled :: bool
  cf_loading :: bool
  cf_error :: "string option"

definition ConsumerForm_init :: "string option \<Rightarrow> bool option \<Rightarrow> consumer_form" where
  "ConsumerForm_init name enabled =
     \<lparr>cf_name = nullish name [], cf_enabled = nullish enabled True, cf_loading = False, cf_error = None\<rparr>"

datatype consumer_form_msg = CfName string | CfEnabled bool | CfSubmit | CfCancel

definition ConsumerForm_handleSubmit :: "consumer_form \<Rightarrow> consumer_form \<times> CreateConsumerBody option" where
  "ConsumerForm_handleSubmit s =
     (if trim (cf_name s) = [] then (s, None)
      else (s\<lparr>cf_error := None, cf_loading := True\<rparr>,
            Some \<lparr>cc_name = trim (cf_name s), cc_enabled = Some (cf_enabled s)\<rparr>))"

fun ConsumerForm_update :: "consumer_form_msg \<Rightarrow> consumer_form \<Rightarrow> consumer_form \<times> CreateConsumerBody option" where
  "ConsumerForm_update (CfName v) s = (s\<lparr>cf_name := v\<rparr>, None)"
| "ConsumerForm_update (CfEnabled b) s = (s\<lparr>cf_enabled := b\<rparr>, None)"
| "ConsumerForm_update CfSubmit s = ConsumerForm_handleSubmit s"
| "ConsumerForm_update CfCancel s = (s, None)"

definition ConsumerForm_settle :: "js_thrown option \<Rightarrow> consumer_form \<Rightarrow> consumer_form" where
  "ConsumerForm_settle r s = s\<lparr>cf_error := settled_error r (cf_error s), cf_loading := False\<rparr>"

definition ConsumerForm :: "string \<Rightarrow> consumer_form \<Rightarrow> consumer_form_msg node list" where
  "ConsumerForm submitLabel s =
     [El ''form'' [OnSubmit CfSubmit]
       ([El ''div'' []
          [form_label ''consumer-name'' ''Name'',
           text_input ''consumer-name'' (cf_name s) CfName
             [Attr ''placeholder'' ''my-service'', Flag ''required'' True, Flag ''autoFocus'' True],
           El ''p'' [] [Text ''A unique name to identify this consumer'']],
         El ''div'' []
          [form_label ''consumer-enabled'' ''Enabled'',
           checkbox ''consumer-enabled'' (cf_enabled s) CfEnabled,
           El ''span'' [] [Text (if cf_enabled s then ''Consumer is active'' else ''Consumer is disabled'')]]]
        @ error_text (cf_error s)
        @ [form_buttons CfCancel (cf_loading s) (trim (cf_name s) = []) ''Saving'' submitLabel])]"

section \<open>Row actions, counts, detail panel\<close>

datatype consumer_row_event = ConsumerDeleted

definition consumer_deleteMut :: "Consumer \<Rightarrow> (string, consumer_row_event) mutation_options" where
  "consumer_deleteMut c = useDeleteConsumer (c_tenant_id c) (Some ConsumerDeleted)"

definition consumer_row_toast :: "consumer_row_event \<Rightarrow> toast_request" where
  "consumer_row_toast e = success_toast ''Consumer deleted''"

definition consumer_row_call :: "Consumer \<Rightarrow> row_out \<Rightarrow> api_call option" where
  "consumer_row_call c out = (if out = OutDelete then Some (mutationFn (consumer_deleteMut c) (c_id c)) else None)"

text \<open>Here the parent's callback (\<open>RowEdit\<close>) is \<open>onGenerateKey\<close>, if it is given.\<close>

definition ConsumerRowActions :: "Consumer \<Rightarrow> bool \<Rightarrow> row_state \<Rightarrow> row_msg node list" where
  "ConsumerRowActions c onGenerateKey s =
     [El ''div'' []
       (show_if onGenerateKey [row_button ''Generate API key'' RowEdit ''Key'']
        @ [row_button ''Delete consumer'' RowAskDelete ''Trash2''])]
     @ delete_dialog ''Delete consumer''
         (''This will permanently delete '' @ dquote @ c_name c @ dquote @ '' and revoke its API keys.'') s"

definition consumer_stats :: "Consumer list \<Rightarrow> (string \<times> nat \<times> string) list" where
  "consumer_stats consumers =
     (let all = length consumers; enabled = length (filter c_enabled consumers); disabled = all - enabled;
          withKeys = length (filter (\<lambda>c. truthy_str (c_api_key_prefix c)) consumers)
      in [(''Total'', all, ''Users''), (''Active'', enabled, ''CheckCircle2''), (''Inactive'', disabled, ''XCircle''),
          (''With Keys'', withKeys, ''Key'')])"

definition ConsumerStatsBar :: "Consumer list \<Rightarrow> 'm node" where
  "ConsumerStatsBar consumers = El ''div'' [] (map stat_cell (consumer_stats consumers))"

definition ConsumerDetailPanel :: "date_env \<Rightarrow> Consumer option \<Rightarrow> 'm \<Rightarrow> 'm node list" where
  "ConsumerDetailPanel env consumer onClose =
     panel_frame onClose consumer (\<lambda>c.
       [El ''div'' []
         [El ''div'' []
           [El ''div'' []
             [El ''div'' [] [Text (toUpperCase (charAt0 (c_name c)))],
              El ''div'' []
               [El ''h3'' [] [Text (c_name c)],
                El ''p'' [] [Text ''Created '', Text (formatDistanceToNow env (c_created_at c)), Text '' ago'']]],
            close_button onClose],
          El ''div'' []
           ([El ''div'' [] [status_badge (c_enabled c) ''Enabled'' ''Disabled''],
             El ''div'' []
              [Field ''Consumer ID'' (c_id c) True False,
               Field ''Name'' (c_name c) False False,
               Field ''Tenant ID'' (c_tenant_id c) True False,
               Field ''Created'' (formatDateTime env (c_created_at c)) False False]]
            @ when_str (c_api_key_prefix c) (\<lambda>p.
                El ''div'' [] [El ''p'' [] [Text ''API Key''], Comp ''ApiKeyDisplay'' [Attr ''prefix'' p]]))]])"

section \<open>Page\<close>

definition consumers_PAGE_SIZE :: int where
  "consumers_PAGE_SIZE = 10"

record consumers_page =
  kp_selectedTenant :: string
  kp_search :: string
  kp_status :: string
  kp_page :: int
  kp_creating :: bool
  kp_selected :: "Consumer option"
  kp_generatingKeyFor :: "Consumer option"

definition ConsumersPage_init :: consumers_page where
  "ConsumersPage_init =
     \<lparr>kp_selectedTenant = [], kp_search = [], kp_status = ''all'', kp_page = 1, kp_creating = False,
      kp_selected = None, kp_generatingKeyFor = None\<rparr>"

datatype consumers_msg =
    KpTenant string
  | KpSearch string
  | KpStatus string
  | KpPage int
  | KpCreating bool
  | KpSelected "Consumer option"
  | KpGenerate "Consumer option"

text \<open>Choosing a tenant resets the page number only; search and status stay.\<close>

fun ConsumersPage_update :: "consumers_msg \<Rightarrow> consumers_page \<Rightarrow> consumers_page" where
  "ConsumersPage_update (KpTenant v) s = s\<lparr>kp_selectedTenant := v, kp_page := 1\<rparr>"
| "ConsumersPage_update (KpSearch v) s = s\<lparr>kp_search := v, kp_page := 1\<rparr>"
| "ConsumersPage_update (KpStatus v) s = s\<lparr>kp_status := v, kp_page := 1\<rparr>"
| "ConsumersPage_update (KpPage p) s = s\<lparr>kp_page := p\<rparr>"
| "ConsumersPage_update (KpCreating b) s = s\<lparr>kp_creating := b\<rparr>"
| "ConsumersPage_update (KpSelected c) s = s\<lparr>kp_selected := c\<rparr>"
| "ConsumersPage_update (KpGenerate c) s = s\<lparr>kp_generatingKeyFor := c\<rparr>"

datatype consumers_event = ConsumerCreated

definition consumers_createMut :: "consumers_page \<Rightarrow> (CreateConsumerBody, consumers_event) mutation_options" where
  "consumers_createMut s = useCreateConsumer (kp_selectedTenant s) (Some ConsumerCreated)"

fun consumers_on_event :: "consumers_event \<Rightarrow> consumers_page \<Rightarrow> consumers_page \<times> toast_request" where
  "consumers_on_event ConsumerCreated s = (s\<lparr>kp_creating := False\<rparr>, success_toast ''Consumer created'')"

definition consumers_filtered :: "Consumer list \<Rightarrow> consumers_page \<Rightarrow> Consumer list" where
  "consumers_filtered data s =
     filter_status (kp_status s) c_enabled
       (filter_search (kp_search s) (\<lambda>c. contains_ci (kp_search s) (c_name c)) data)"

definition consumers_paginated :: "Consumer list \<Rightarrow> consumers_page \<Rightarrow> Consumer list" where
  "consumers_paginated data s =
     js_slice (consumers_filtered data s) ((kp_page s - 1) * consumers_PAGE_SIZE) (kp_page s * consumers_PAGE_SIZE)"

definition consumers_columns :: "date_env \<Rightarrow> (Consumer, consumers_msg) Column list" where
  "consumers_columns env =
     [column ''name'' ''Consumer'' None (\<lambda>c.
        [El ''button'' [OnClick (KpSelected (Some c))]
          [El ''div'' [] [Text (toUpperCase (charAt0 (c_name c)))], El ''p'' [] [Text (c_name c)]]]),
      column ''api_key'' ''API Key'' None (\<lambda>c. [Comp ''ApiKeyDisplay'' (opt_attr ''prefix'' (c_api_key_prefix c))]),
      column ''created'' ''Created'' (Some ''140px'') (\<lambda>c.
        [El ''span'' [Attr ''title'' (c_created_at c)] [Text (formatDistanceToNow env (c_created_at c)), Text '' ago'']]),
      column ''status'' ''Status'' (Some ''100px'') (\<lambda>c. [status_badge (c_enabled c) ''Active'' ''Inactive'']),
      actions_column ''80px'' (\<lambda>c.
        [Comp ''ConsumerRowActions'' [Attr ''consumer'' (c_id c), OnEvent ''onGenerateKey'' (KpGenerate (Some c))]])]"

definition consumers_table :: "consumers_page \<Rightarrow> bool \<Rightarrow> consumers_msg TableOptions" where
  "consumers_table s loading =
     (let unfiltered = (kp_search s = [] \<and> kp_status s = ''all'') in
      \<lparr>tbl_loading = loading,
       tbl_emptyTitle = Some ''No consumers yet'',
       tbl_emptyDescription = (if unfiltered then Some ''Create a consumer to issue API keys.'' else None),
       tbl_emptyAction =
         (if unfiltered
          then Some [El ''button'' [OnClick (KpCreating True)] [icon ''Plus'', Text '' New Consumer'']] else None),
       tbl_skeletonRows = None\<rparr>)"

definition ConsumersPage_body ::
    "date_env \<Rightarrow> Consumer query_result \<Rightarrow> consumers_page \<Rightarrow> consumers_msg node list" where
  "ConsumersPage_body env q s =
     (let data = query_data q in
      show_if (data \<noteq> []) [El ''div'' [] [ConsumerStatsBar data]]
      @ [El ''div'' []
          [SearchBar (kp_search s) KpSearch (Some (''Search consumers'' @ ellipsis)),
           FilterSelect ''Status'' (kp_status s) status_options KpStatus]]
      @ load_error (qr_isError q) ''Failed to load consumers.''
      @ [DataTable (consumers_columns env) (consumers_paginated data s) c_id (consumers_table s (qr_isLoading q))]
      @ Pagination (kp_page s) consumers_PAGE_SIZE (int (length (consumers_filtered data s))) KpPage)"

definition ConsumersPage ::
    "date_env \<Rightarrow> Tenant query_result \<Rightarrow> Consumer query_result \<Rightarrow> consumers_page \<Rightarrow> consumers_msg node list" where
  "ConsumersPage env tq q s =
     [El ''div'' []
       ([PageHeader ''Consumers'' (Some ''Manage API consumers and their authentication credentials.'')
           (Some [new_button (KpCreating True) (kp_selectedTenant s) '' New Consumer'']) None,
         tenant_select ''consumer-tenant-select'' (query_data tq) (kp_selectedTenant s) KpTenant]
        @ (if kp_selectedTenant s = [] then [select_hint ''Users'' ''Select a tenant to view its consumers.'']
           else ConsumersPage_body env q s)
        @ Modal (kp_creating s) (KpCreating False) (Some ''New Consumer'')
            (Some ''Create a consumer to issue API credentials.'')
            [Comp ''ConsumerForm'' [Attr ''submitLabel'' ''Create Consumer'', OnEvent ''onCancel'' (KpCreating False)]]
        @ ConsumerDetailPanel env (kp_selected s) (KpSelected None)
        @ (case kp_generatingKeyFor s of None \<Rightarrow> []
           | Some c \<Rightarrow> [Comp ''ApiKeyGenerateModal'' [Attr ''consumer'' (c_id c), OnEvent ''onClose'' (KpGenerate None)]]))]"

section \<open>The contracts\<close>

definition consumer_body_ok :: "CreateConsumerBody \<Rightarrow> bool" where
  "consumer_body_ok b \<longleftrightarrow> cc_name b \<noteq> [] \<and> trim (cc_name b) = cc_name b"

lemma ConsumerForm_can_submit:
  "can_submit (ConsumerForm lbl s) \<longleftrightarrow> \<not> cf_loading s \<and> trim (cf_name s) \<noteq> []"
  by (auto simp: can_submit_def ConsumerForm_def form_view_defs is_submit_button_def is_disabled_def
      split: option.splits)

interpretation consumer_submit: submit_form "ConsumerForm lbl" CfSubmit ConsumerForm_update ConsumerForm_settle
    cf_loading consumer_body_ok for lbl
proof (unfold_locales, goal_cases)
  case (1 s)
  then show ?case by (simp add: ConsumerForm_can_submit)
next
  case (2 m s)
  then show ?case by (cases m) auto
next
  case (3 s)
  then show ?case by (auto simp: ConsumerForm_handleSubmit_def split: if_splits)
next
  case (4 s b)
  then show ?case by (auto simp: ConsumerForm_handleSubmit_def consumer_body_ok_def split: if_splits)
next
  case (5 r s)
  then show ?case by (simp add: ConsumerForm_settle_def)
qed

interpretation consumer_row: row_actions "ConsumerRowActions c k" for c k
  by unfold_locales (auto simp: ConsumerRowActions_def view split: if_splits)

lemma consumers_filtered_eq:
  "consumers_filtered data s =
     filter (\<lambda>c. contains_ci (kp_search s) (c_name c) \<and> status_ok (kp_status s) (c_enabled c)) data"
  by (auto simp: consumers_filtered_def filter_status_eq filter_search_def conj_commute intro: filter_cong)

definition consumers_offers ::
    "date_env \<Rightarrow> Tenant query_result \<Rightarrow> (string \<Rightarrow> Consumer query_result) \<Rightarrow> consumers_page \<Rightarrow> consumers_msg set" where
  "consumers_offers env tq q s = view_msgs (ConsumersPage env tq (q (kp_selectedTenant s)) s)"

definition consumers_data :: "(string \<Rightarrow> Consumer query_result) \<Rightarrow> consumers_page \<Rightarrow> Consumer list" where
  "consumers_data q s = query_data (q (kp_selectedTenant s))"

lemma consumers_parts_msgs:
  "KpPage p \<notin> msgs (DataTable (consumers_columns env) data c_id (consumers_table s loading))"
  "KpPage p \<notin> view_msgs (ConsumerDetailPanel env sel (KpSelected None))"
  "msgs (ConsumerStatsBar data) = {}"
  by (simp_all add: view consumers_columns_def consumers_table_def Let_def ConsumerDetailPanel_def
      ConsumerStatsBar_def view_msgs_map split: option.split)

lemma ConsumersPage_page_msgs:
  assumes "KpPage p \<in> consumers_offers env tq q s"
  shows "p \<in> page_offers consumers_PAGE_SIZE (int (length (consumers_filtered (consumers_data q s) s))) (kp_page s)"
proof -
  have "KpPage p \<in> view_msgs (Pagination (kp_page s) consumers_PAGE_SIZE
      (int (length (consumers_filtered (consumers_data q s) s))) KpPage)"
    using assms
    by (cases "kp_generatingKeyFor s") (simp_all add: consumers_offers_def consumers_data_def ConsumersPage_def
        ConsumersPage_body_def Let_def view consumers_parts_msgs image_iff split: if_splits del: DataTable_msgs)
  then show ?thesis by (rule Pagination_msg_page) simp
qed

interpretation consumers_list: paged_machine kp_page "\<lambda>s. consumers_filtered (consumers_data q s) s"
    "\<lambda>s. consumers_paginated (consumers_data q s) s" "\<lambda>p. ConsumersPage_update (KpPage p)" consumers_PAGE_SIZE
    "consumers_offers env tq q" ConsumersPage_update for env tq q
proof (unfold_locales, goal_cases)
  case (5 m s)
  then show ?case
  proof (cases m)
    case (KpPage p)
    with 5 ConsumersPage_page_msgs show ?thesis by (auto simp: consumers_filtered_def consumers_data_def)
  qed (simp_all add: consumers_filtered_def consumers_data_def)
qed (simp_all add: consumers_PAGE_SIZE_def consumers_paginated_def page_rows_def consumers_filtered_def consumers_data_def)

section \<open>Properties\<close>

text \<open>The display's state after some messages, each with its time.\<close>

definition key_display_init :: key_display where
  "key_display_init = \<lparr>kd_copy = copy_init, kd_revealed = False\<rparr>"

definition run_key_display ::
    "string option \<Rightarrow> string option \<Rightarrow> (int \<times> key_msg) list \<Rightarrow> key_display \<Rightarrow> key_display" where
  "run_key_display p k ms s = fold (\<lambda>(now, m) s. fst (ApiKeyDisplay_update p k now m s)) ms s"

lemma run_key_display_hidden:
  "KeyReveal \<notin> snd ` set ms \<Longrightarrow> kd_revealed (run_key_display p k ms s) = kd_revealed s"
proof (induction ms arbitrary: s)
  case (Cons nm ms)
  obtain now m where nm: "nm = (now, m)" by force
  with Cons.prems have "m = KeyCopy" by (cases m) auto
  with nm Cons show ?case by (simp add: run_key_display_def)
qed (simp add: run_key_display_def)

lemma run_key_display_copy:
  assumes "KeyReveal \<notin> snd ` set ms" and "kd_copy s = kd_copy s'"
  shows "kd_copy (run_key_display p k ms s) = kd_copy (run_key_display p' k' ms s')"
  using assms
proof (induction ms arbitrary: s s')
  case (Cons nm ms)
  obtain now m where nm: "nm = (now, m)" by force
  with Cons.prems have m: "m = KeyCopy" by (cases m) auto
  let ?t = "fst (ApiKeyDisplay_update p k now KeyCopy s)" and ?t' = "fst (ApiKeyDisplay_update p' k' now KeyCopy s')"
  have "kd_copy ?t = kd_copy ?t'" using Cons.prems(2) by (simp add: copy_def)
  with Cons.IH [of ?t ?t'] Cons.prems(1) show ?case by (simp add: run_key_display_def nm m)
qed (simp add: run_key_display_def)

text \<open>C27: A hidden API key does not leak: as long as the user has not clicked Reveal, what is on screen for a
  full key depends only on its first eight characters; two keys that agree there render the same tree,
  whatever copies were made in between.\<close>

theorem api_key_hidden_until_revealed:
  assumes "KeyReveal \<notin> snd ` set ms" and "k1 \<noteq> []" and "k2 \<noteq> []" and "take 8 k1 = take 8 k2"
  shows "ApiKeyDisplay p (Some k1) (run_key_display p (Some k1) ms key_display_init) =
         ApiKeyDisplay p (Some k2) (run_key_display p (Some k2) ms key_display_init)"
proof -
  have t: "js_slice k1 0 8 = js_slice k2 0 8" using assms(4) by (simp add: js_slice_nonneg)
  have "kd_copy (run_key_display p (Some k1) ms key_display_init) = kd_copy (run_key_display p (Some k2) ms key_display_init)"
    by (rule run_key_display_copy [OF assms(1)]) simp
  moreover have "\<not> kd_revealed (run_key_display p (Some k) ms key_display_init)" for k
    using run_key_display_hidden [OF assms(1)] by (simp add: key_display_init_def)
  ultimately show ?thesis
    using assms(2,3) t by (simp add: ApiKeyDisplay_def displayKey_def or_undefined_def)
qed

theorem api_key_hidden_until_revealed_witness:
  "ApiKeyDisplay None (Some ''bq_12345secret'') (run_key_display None (Some ''bq_12345secret'') [(0, KeyCopy)] key_display_init)
   = ApiKeyDisplay None (Some ''bq_12345public'') (run_key_display None (Some ''bq_12345public'') [(0, KeyCopy)] key_display_init)"
  using api_key_hidden_until_revealed [of "[(0, KeyCopy)]" "''bq_12345secret''" "''bq_12345public''" None] by simp

end
