(* ===== verification/RateLimits.thy ===== *)
theory RateLimits
  imports Complex_Main Pagination Widgets Date_Utils
begin

text \<open>
  The rate limits page: \<^verbatim>\<open>src/ui/admin/src/components/rate-limits/*.tsx\<close> and
  \<^verbatim>\<open>src/ui/admin/src/pages/RateLimitsPage.tsx\<close>.  Widths of bars are percentages; they are given as
  exact rationals beside the rendered tree, which has no styles.
\<close>

section \<open>Badges\<close>

fun ALGORITHM_CONFIG :: "RateLimitAlgorithm \<Rightarrow> BadgeVariant \<times> string \<times> string" where
  "ALGORITHM_CONFIG TokenBucket = (BvInfo, ''Token Bucket'', ''Droplets'')"
| "ALGORITHM_CONFIG SlidingWindow = (BvWarning, ''Sliding Window'', ''Activity'')"
| "ALGORITHM_CONFIG FixedWindow = (BvSuccess, ''Fixed Window'', ''LayoutGrid'')"

definition AlgorithmBadge :: "RateLimitAlgorithm \<Rightarrow> 'm node" where
  "AlgorithmBadge algorithm =
     (case ALGORITHM_CONFIG algorithm of (variant, label, ic) \<Rightarrow> Badge (Some variant) False [icon ic, Text label])"

fun SCOPE_CONFIG :: "RateLimitScope \<Rightarrow> BadgeVariant \<times> string \<times> string" where
  "SCOPE_CONFIG ScopeTenant = (BvDefault, ''Tenant'', ''Building2'')"
| "SCOPE_CONFIG ScopeConsumer = (BvInfo, ''Consumer'', ''User'')"
| "SCOPE_CONFIG ScopeRoute = (BvWarning, ''Route'', ''GitBranch'')"
| "SCOPE_CONFIG ScopeIp = (BvGold, ''IP'', ''Globe'')"

definition ScopeBadge :: "RateLimitScope \<Rightarrow> 'm node" where
  "ScopeBadge scope =
     (case SCOPE_CONFIG scope of (variant, label, ic) \<Rightarrow> Badge (Some variant) False [icon ic, Text label])"

section \<open>Windows\<close>

definition plural :: "int \<Rightarrow> string \<Rightarrow> string" where
  "plural n unit = str_int n @ '' '' @ unit @ (if n \<noteq> 1 then ''s'' else [])"

definition formatWindow :: "int \<Rightarrow> string" where
  "formatWindow secs =
     (if secs < 60 then plural secs ''second''
      else if secs < 3600 then plural (round_div secs 60) ''minute''
      else plural (round_div secs 3600) ''hour'')"

definition formatWindow_short :: "int \<Rightarrow> string" where
  "formatWindow_short secs =
     (if secs < 60 then str_int secs @ ''s''
      else if secs < 3600 then str_int (round_div secs 60) @ ''m''
      else str_int (round_div secs 3600) @ ''h'')"

section \<open>Visualizer\<close>

text \<open>
  \<open>burst_limit ? ... : 1\<close>: an absent limit and zero count alike.  With a rate limit of zero the
  quotient is infinite: \<open>Math.min\<close> makes it 2, or leaves minus infinity, which is written 0 since it
  is only compared with 1.
\<close>

definition burstRatio :: "RateLimitPolicy \<Rightarrow> rat" where
  "burstRatio p =
     (case rl_burst_limit p of
        None \<Rightarrow> 1
      | Some b \<Rightarrow>
          if b = 0 then 1
          else if rl_rate_limit p = 0 then (if 0 < b then 2 else 0)
          else min (of_int b / of_int (rl_rate_limit p)) 2)"

text \<open>The quotient \<open>rps\<close>; a window of zero gives infinity or \<open>NaN\<close>, for which \<open>intensity\<close> has a
  case of its own.\<close>

definition rps :: "RateLimitPolicy \<Rightarrow> rat" where
  "rps p = of_int (rl_rate_limit p) / of_int (rl_window_secs p)"

definition intensity :: "RateLimitPolicy \<Rightarrow> string" where
  "intensity p =
     (if rl_window_secs p = 0 then (if 0 < rl_rate_limit p then ''emerald'' else ''red'')
      else if 10 < rps p then ''emerald'' else if 1 < rps p then ''amber'' else ''red'')"

definition fillWidth :: "RateLimitPolicy \<Rightarrow> rat" where
  "fillWidth p = min (of_int (rl_rate_limit p) / of_int (max (rl_rate_limit p) 1000) * 100) 100"

definition rate_bar_width :: "RateLimitPolicy \<Rightarrow> rat" where
  "rate_bar_width p = max (fillWidth p) 4"

definition burst_bar_width :: "RateLimitPolicy \<Rightarrow> rat" where
  "burst_bar_width p = min (fillWidth p * burstRatio p) 100"

text \<open>\<open>{burst_limit && ...}\<close> renders the number 0 itself when the limit is zero.\<close>

definition burst_and :: "RateLimitPolicy \<Rightarrow> (int \<Rightarrow> 'm node list) \<Rightarrow> 'm node list" where
  "burst_and p f =
     (case rl_burst_limit p of None \<Rightarrow> [] | Some b \<Rightarrow> if b = 0 then [Text (str_int 0)] else f b)"

definition RateLimitVisualizer :: "RateLimitPolicy \<Rightarrow> 'm node" where
  "RateLimitVisualizer p =
     El ''div'' []
       ([El ''div'' []
          ([El ''span'' [] [Text (str_int (rl_rate_limit p)), Text '' req / '', Text (formatWindow_short (rl_window_secs p))]]
           @ burst_and p (\<lambda>b. [El ''span'' [] [Text ''burst: '', Text (str_int b)]])),
         El ''div'' [] [El ''div'' [Attr ''variant'' (intensity p)] []]]
        @ burst_and p (\<lambda>b. show_if (1 < burstRatio p) [El ''div'' [] [El ''div'' [] []]]))"

section \<open>Form\<close>

record rate_limit_initial =
  rli_name :: "string option"
  rli_scope :: "RateLimitScope option"
  rli_algorithm :: "RateLimitAlgorithm option"
  rli_rate_limit :: "int option"
  rli_window_secs :: "int option"
  rli_burst_limit :: "int option"
  rli_enabled :: "bool option"

definition no_rate_limit :: rate_limit_initial where
  "no_rate_limit = \<lparr>rli_name = None, rli_scope = None, rli_algorithm = None, rli_rate_limit = None,
     rli_window_secs = None, rli_burst_limit = None, rli_enabled = None\<rparr>"

record rate_limit_form =
  lf_name :: string
  lf_scope :: RateLimitScope
  lf_algorithm :: RateLimitAlgorithm
  lf_rateLimit :: string
  lf_windowSecs :: string
  lf_burstLimit :: string
  lf_enabled :: bool
  lf_loading :: bool
  lf_error :: "string option"

definition RateLimitForm_init :: "rate_limit_initial \<Rightarrow> rate_limit_form" where
  "RateLimitForm_init initial =
     \<lparr>lf_name = nullish (rli_name initial) [], lf_scope = nullish (rli_scope initial) ScopeTenant,
      lf_algorithm = nullish (rli_algorithm initial) TokenBucket,
      lf_rateLimit = str_int (nullish (rli_rate_limit initial) 100),
      lf_windowSecs = str_int (nullish (rli_window_secs initial) 60),
      lf_burstLimit = nullish (map_option str_int (rli_burst_limit initial)) [],
      lf_enabled = nullish (rli_enabled initial) True, lf_loading = False, lf_error = None\<rparr>"

record preset =
  ps_name :: string
  ps_rate_limit :: int
  ps_window_secs :: int
  ps_burst_limit :: int
  ps_algorithm :: RateLimitAlgorithm
  ps_description :: string

definition PRESETS :: "preset list" where
  "PRESETS =
     [\<lparr>ps_name = ''Strict'', ps_rate_limit = 10, ps_window_secs = 60, ps_burst_limit = 15,
       ps_algorithm = SlidingWindow, ps_description = ''10 req/min '' @ em_dash @ '' for sensitive endpoints''\<rparr>,
      \<lparr>ps_name = ''Normal'', ps_rate_limit = 100, ps_window_secs = 60, ps_burst_limit = 150,
       ps_algorithm = TokenBucket, ps_description = ''100 req/min '' @ em_dash @ '' general use''\<rparr>,
      \<lparr>ps_name = ''Permissive'', ps_rate_limit = 500, ps_window_secs = 60, ps_burst_limit = 750,
       ps_algorithm = FixedWindow, ps_description = ''500 req/min '' @ em_dash @ '' high-traffic APIs''\<rparr>]"

definition applyPreset :: "preset \<Rightarrow> rate_limit_form \<Rightarrow> rate_limit_form" where
  "applyPreset p s =
     s\<lparr>lf_name := (if lf_name s = [] then ps_name p else lf_name s),
       lf_rateLimit := str_int (ps_rate_limit p), lf_windowSecs := str_int (ps_window_secs p),
       lf_burstLimit := str_int (ps_burst_limit p), lf_algorithm := ps_algorithm p\<rparr>"

text \<open>The values of the two selects; a select sends no other string.\<close>

definition scope_of :: "string \<Rightarrow> RateLimitScope option" where
  "scope_of v = find (\<lambda>c. scope_name c = v) [ScopeTenant, ScopeConsumer, ScopeRoute, ScopeIp]"

definition algorithm_of :: "string \<Rightarrow> RateLimitAlgorithm option" where
  "algorithm_of v = find (\<lambda>a. algorithm_name a = v) [TokenBucket, SlidingWindow, FixedWindow]"

datatype rate_limit_form_msg =
    LfName string
  | LfScope string
  | LfAlgorithm string
  | LfRate string
  | LfWindow string
  | LfBurst string
  | LfEnabled bool
  | LfPreset preset
  | LfSubmit
  | LfCancel

definition RateLimitForm_handleSubmit :: "rate_limit_form \<Rightarrow> rate_limit_form \<times> CreateRateLimitPolicyBody option" where
  "RateLimitForm_handleSubmit s =
     (if trim (lf_name s) = [] then (s, None)
      else (s\<lparr>lf_error := None, lf_loading := True\<rparr>,
            Some \<lparr>crl_name = trim (lf_name s), crl_scope = lf_scope s, crl_algorithm = lf_algorithm s,
                  crl_rate_limit = parseInt_or (lf_rateLimit s) 100,
                  crl_window_secs = parseInt_or (lf_windowSecs s) 60,
                  crl_burst_limit = (if lf_burstLimit s \<noteq> [] then Some (parseInt (lf_burstLimit s)) else None),
                  crl_enabled = Some (lf_enabled s)\<rparr>))"

fun RateLimitForm_update ::
    "rate_limit_form_msg \<Rightarrow> rate_limit_form \<Rightarrow> rate_limit_form \<times> CreateRateLimitPolicyBody option" where
  "RateLimitForm_update (LfName v) s = (s\<lparr>lf_name := v\<rparr>, None)"
| "RateLimitForm_update (LfScope v) s = (s\<lparr>lf_scope := nullish (scope_of v) (lf_scope s)\<rparr>, None)"
| "RateLimitForm_update (LfAlgorithm v) s = (s\<lparr>lf_algorithm := nullish (algorithm_of v) (lf_algorithm s)\<rparr>, None)"
| "RateLimitForm_update (LfRate v) s = (s\<lparr>lf_rateLimit := v\<rparr>, None)"
| "RateLimitForm_update (LfWindow v) s = (s\<lparr>lf_windowSecs := v\<rparr>, None)"
| "RateLimitForm_update (LfBurst v) s = (s\<lparr>lf_burstLimit := v\<rparr>, None)"
| "RateLimitForm_update (LfEnabled b) s = (s\<lparr>lf_enabled := b\<rparr>, None)"
| "RateLimitForm_update (LfPreset p) s = (applyPreset p s, None)"
| "RateLimitForm_update LfSubmit s = RateLimitForm_handleSubmit s"
| "RateLimitForm_update LfCancel s = (s, None)"

definition RateLimitForm_settle :: "js_thrown option \<Rightarrow> rate_limit_form \<Rightarrow> rate_limit_form" where
  "RateLimitForm_settle r s = s\<lparr>lf_error := settled_error r (lf_error s), lf_loading := False\<rparr>"

definition RateLimitForm :: "string \<Rightarrow> rate_limit_form \<Rightarrow> rate_limit_form_msg node list" where
  "RateLimitForm submitLabel s =
     [El ''form'' [OnSubmit LfSubmit]
       ([El ''div'' []
          [El ''p'' [] [Text ''Quick Presets''],
           El ''div'' []
             (map (\<lambda>p. El ''button'' [Attr ''type'' ''button'', OnClick (LfPreset p)]
                [El ''p'' [] [Text (ps_name p)], El ''p'' [] [Text (ps_description p)]]) PRESETS)],
         El ''div'' []
          [form_label ''rl-name'' ''Policy Name'',
           text_input ''rl-name'' (lf_name s) LfName
             [Attr ''placeholder'' ''My Rate Limit Policy'', Flag ''required'' True, Flag ''autoFocus'' True]],
         El ''div'' []
          [El ''div'' []
            [form_label ''rl-scope'' ''Scope'',
             El ''select'' [Attr ''id'' ''rl-scope'', Attr ''value'' (scope_name (lf_scope s)), OnChange LfScope]
               (select_options [(''tenant'', ''Tenant''), (''consumer'', ''Consumer''), (''route'', ''Route''), (''ip'', ''IP'')])],
           El ''div'' []
            [form_label ''rl-algorithm'' ''Algorithm'',
             El ''select'' [Attr ''id'' ''rl-algorithm'', Attr ''value'' (algorithm_name (lf_algorithm s)), OnChange LfAlgorithm]
               (select_options [(''token_bucket'', ''Token Bucket''), (''sliding_window'', ''Sliding Window''),
                  (''fixed_window'', ''Fixed Window'')])]],
         El ''div'' []
          [El ''div'' []
            [form_label ''rl-rate'' ''Rate Limit'',
             text_input ''rl-rate'' (lf_rateLimit s) LfRate [Attr ''type'' ''number'', Attr ''min'' ''1'', Flag ''required'' True],
             El ''p'' [] [Text ''requests'']],
           El ''div'' []
            [form_label ''rl-window'' ''Window (s)'',
             text_input ''rl-window'' (lf_windowSecs s) LfWindow [Attr ''type'' ''number'', Attr ''min'' ''1'', Flag ''required'' True],
             El ''p'' [] [Text ''seconds'']],
           El ''div'' []
            [El ''label'' [Attr ''htmlFor'' ''rl-burst''] [Text ''Burst '', El ''span'' [] [Text ''(opt)'']],
             text_input ''rl-burst'' (lf_burstLimit s) LfBurst
               [Attr ''type'' ''number'', Attr ''min'' ''1'', Attr ''placeholder'' em_dash],
             El ''p'' [] [Text ''requests'']]],
         El ''div'' []
          [form_label ''rl-enabled'' ''Enabled'',
           checkbox ''rl-enabled'' (lf_enabled s) LfEnabled,
           El ''span'' [] [Text (if lf_enabled s then ''Policy is active'' else ''Policy is disabled'')]]]
        @ error_text (lf_error s)
        @ [form_buttons LfCancel (lf_loading s) (trim (lf_name s) = []) ''Saving'' submitLabel])]"

section \<open>Row actions, detail panel\<close>

datatype rate_limit_row_event = PolicyDeleted

definition rate_limit_deleteMut :: "RateLimitPolicy \<Rightarrow> (string, rate_limit_row_event) mutation_options" where
  "rate_limit_deleteMut p = useDeleteRateLimit (rl_tenant_id p) (Some PolicyDeleted)"

definition rate_limit_row_toast :: "rate_limit_row_event \<Rightarrow> toast_request" where
  "rate_limit_row_toast e = success_toast ''Rate limit policy deleted''"

definition rate_limit_row_call :: "RateLimitPolicy \<Rightarrow> row_out \<Rightarrow> api_call option" where
  "rate_limit_row_call p out =
     (if out = OutDelete then Some (mutationFn (rate_limit_deleteMut p) (rl_id p)) else None)"

definition RateLimitRowActions :: "RateLimitPolicy \<Rightarrow> row_state \<Rightarrow> row_msg node list" where
  "RateLimitRowActions p s =
     [row_button ''Delete policy'' RowAskDelete ''Trash2'']
     @ delete_dialog ''Delete rate limit policy''
         (''This will permanently delete the '' @ dquote @ rl_name p @ dquote @ '' policy.'') s"

definition RateLimitDetailPanel :: "date_env \<Rightarrow> RateLimitPolicy option \<Rightarrow> 'm \<Rightarrow> 'm node list" where
  "RateLimitDetailPanel env policy onClose =
     panel_frame onClose policy (\<lambda>p.
       [El ''div'' []
         [El ''div'' []
           [El ''div'' []
             [El ''h3'' [] [Text (rl_name p)],
              El ''div'' [] [ScopeBadge (rl_scope p), AlgorithmBadge (rl_algorithm p)]],
            close_button onClose],
          El ''div'' []
           [El ''div'' [] [status_badge (rl_enabled p) ''Enabled'' ''Disabled''],
            El ''div'' [] [El ''p'' [] [Text ''Rate Limit Visualization''], RateLimitVisualizer p],
            El ''div'' []
             ([Field ''Policy ID'' (rl_id p) True False,
               Field ''Tenant ID'' (rl_tenant_id p) True False,
               Field ''Rate Limit'' (str_int (rl_rate_limit p) @ '' requests per '' @ formatWindow (rl_window_secs p)) False False]
              @ burst_and p (\<lambda>b. [Field ''Burst Limit'' (str_int b @ '' requests'') False False])
              @ [Field ''Window'' (formatWindow (rl_window_secs p)) False False,
                 Field ''Created'' (formatDateTime env (rl_created_at p)) False False])]]])"

section \<open>Page\<close>

definition rateLimits_PAGE_SIZE :: int where
  "rateLimits_PAGE_SIZE = 10"

record rate_limits_page =
  lp_selectedTenant :: string
  lp_search :: string
  lp_scope :: string
  lp_algorithm :: string
  lp_page :: int
  lp_creating :: bool
  lp_selected :: "RateLimitPolicy option"

definition RateLimitsPage_init :: rate_limits_page where
  "RateLimitsPage_init =
     \<lparr>lp_selectedTenant = [], lp_search = [], lp_scope = ''all'', lp_algorithm = ''all'', lp_page = 1,
      lp_creating = False, lp_selected = None\<rparr>"

datatype rate_limits_msg =
    LpTenant string
  | LpSearch string
  | LpScope string
  | LpAlgorithm string
  | LpPage int
  | LpCreating bool
  | LpSelected "RateLimitPolicy option"

fun RateLimitsPage_update :: "rate_limits_msg \<Rightarrow> rate_limits_page \<Rightarrow> rate_limits_page" where
  "RateLimitsPage_update (LpTenant v) s = s\<lparr>lp_selectedTenant := v, lp_page := 1\<rparr>"
| "RateLimitsPage_update (LpSearch v) s = s\<lparr>lp_search := v, lp_page := 1\<rparr>"
| "RateLimitsPage_update (LpScope v) s = s\<lparr>lp_scope := v, lp_page := 1\<rparr>"
| "RateLimitsPage_update (LpAlgorithm v) s = s\<lparr>lp_algorithm := v, lp_page := 1\<rparr>"
| "RateLimitsPage_update (LpPage p) s = s\<lparr>lp_page := p\<rparr>"
| "RateLimitsPage_update (LpCreating b) s = s\<lparr>lp_creating := b\<rparr>"
| "RateLimitsPage_update (LpSelected p) s = s\<lparr>lp_selected := p\<rparr>"

datatype rate_limits_event = PolicyCreated

definition rateLimits_createMut :: "rate_limits_page \<Rightarrow> (CreateRateLimitPolicyBody, rate_limits_event) mutation_options" where
  "rateLimits_createMut s = useCreateRateLimit (lp_selectedTenant s) (Some PolicyCreated)"

fun rateLimits_on_event :: "rate_limits_event \<Rightarrow> rate_limits_page \<Rightarrow> rate_limits_page \<times> toast_request" where
  "rateLimits_on_event PolicyCreated s = (s\<lparr>lp_creating := False\<rparr>, success_toast ''Rate limit policy created'')"

definition rateLimits_filtered :: "RateLimitPolicy list \<Rightarrow> rate_limits_page \<Rightarrow> RateLimitPolicy list" where
  "rateLimits_filtered data s =
     (let list1 = filter_search (lp_search s) (\<lambda>p. contains_ci (lp_search s) (rl_name p)) data;
          list2 = (if lp_scope s \<noteq> ''all'' then filter (\<lambda>p. scope_name (rl_scope p) = lp_scope s) list1 else list1);
          list3 = (if lp_algorithm s \<noteq> ''all''
                   then filter (\<lambda>p. algorithm_name (rl_algorithm p) = lp_algorithm s) list2 else list2)
      in list3)"

definition rateLimits_paginated :: "RateLimitPolicy list \<Rightarrow> rate_limits_page \<Rightarrow> RateLimitPolicy list" where
  "rateLimits_paginated data s =
     js_slice (rateLimits_filtered data s) ((lp_page s - 1) * rateLimits_PAGE_SIZE) (lp_page s * rateLimits_PAGE_SIZE)"

definition rateLimits_columns :: "(RateLimitPolicy, rate_limits_msg) Column list" where
  "rateLimits_columns =
     [column ''name'' ''Name'' None (\<lambda>p. [El ''button'' [OnClick (LpSelected (Some p))] [Text (rl_name p)]]),
      column ''scope'' ''Scope'' (Some ''120px'') (\<lambda>p. [ScopeBadge (rl_scope p)]),
      column ''algorithm'' ''Algorithm'' (Some ''160px'') (\<lambda>p. [AlgorithmBadge (rl_algorithm p)]),
      column ''limit'' ''Limit'' None (\<lambda>p. [RateLimitVisualizer p]),
      column ''status'' ''Status'' (Some ''100px'') (\<lambda>p. [status_badge (rl_enabled p) ''Active'' ''Inactive'']),
      actions_column ''60px'' (\<lambda>p. [Comp ''RateLimitRowActions'' [Attr ''policy'' (rl_id p)]])]"

definition rateLimits_table :: "rate_limits_page \<Rightarrow> bool \<Rightarrow> rate_limits_msg TableOptions" where
  "rateLimits_table s loading =
     (let unfiltered = (lp_search s = [] \<and> lp_scope s = ''all'' \<and> lp_algorithm s = ''all'') in
      \<lparr>tbl_loading = loading,
       tbl_emptyTitle = Some ''No rate limit policies'',
       tbl_emptyDescription = (if unfiltered then Some ''Create a policy to start limiting requests.'' else None),
       tbl_emptyAction =
         (if unfiltered
          then Some [El ''button'' [OnClick (LpCreating True)] [icon ''Plus'', Text '' New Policy'']] else None),
       tbl_skeletonRows = None\<rparr>)"

definition scope_options :: "FilterOption list" where
  "scope_options =
     [fopt ''All Scopes'' ''all'', fopt ''Tenant'' ''tenant'', fopt ''Consumer'' ''consumer'', fopt ''Route'' ''route'',
      fopt ''IP'' ''ip'']"

definition algorithm_options :: "FilterOption list" where
  "algorithm_options =
     [fopt ''All Algorithms'' ''all'', fopt ''Token Bucket'' ''token_bucket'', fopt ''Sliding Window'' ''sliding_window'',
      fopt ''Fixed Window'' ''fixed_window'']"

definition RateLimitsPage_body ::
    "RateLimitPolicy query_result \<Rightarrow> rate_limits_page \<Rightarrow> rate_limits_msg node list" where
  "RateLimitsPage_body q s =
     (let data = query_data q in
      [El ''div'' []
        [SearchBar (lp_search s) LpSearch (Some (''Search policies'' @ ellipsis)),
         FilterSelect ''Scope'' (lp_scope s) scope_options LpScope,
         FilterSelect ''Algorithm'' (lp_algorithm s) algorithm_options LpAlgorithm]]
      @ load_error (qr_isError q) ''Failed to load rate limit policies.''
      @ [DataTable rateLimits_columns (rateLimits_paginated data s) rl_id (rateLimits_table s (qr_isLoading q))]
      @ Pagination (lp_page s) rateLimits_PAGE_SIZE (int (length (rateLimits_filtered data s))) LpPage)"

definition RateLimitsPage ::
    "date_env \<Rightarrow> Tenant query_result \<Rightarrow> RateLimitPolicy query_result \<Rightarrow> rate_limits_page \<Rightarrow> rate_limits_msg node list" where
  "RateLimitsPage env tq q s =
     [El ''div'' []
       ([PageHeader ''Rate Limits'' (Some ''Define request rate limiting policies per tenant.'')
           (Some [new_button (LpCreating True) (lp_selectedTenant s) '' New Policy'']) None,
         tenant_select ''rl-tenant-select'' (query_data tq) (lp_selectedTenant s) LpTenant]
        @ (if lp_selectedTenant s = [] then [select_hint ''Shield'' ''Select a tenant to view its rate limit policies.'']
           else RateLimitsPage_body q s)
        @ Modal (lp_creating s) (LpCreating False) (Some ''New Rate Limit Policy'')
            (Some ''Configure a request rate limiting policy.'')
            [Comp ''RateLimitForm'' [Attr ''submitLabel'' ''Create Policy'', OnEvent ''onCancel'' (LpCreating False)]]
        @ RateLimitDetailPanel env (lp_selected s) (LpSelected None))]"

section \<open>The contracts\<close>

definition rate_limit_body_ok :: "CreateRateLimitPolicyBody \<Rightarrow> bool" where
  "rate_limit_body_ok b \<longleftrightarrow>
     crl_name b \<noteq> [] \<and> trim (crl_name b) = crl_name b \<and> crl_rate_limit b \<noteq> 0 \<and> crl_window_secs b \<noteq> 0"

lemma RateLimitForm_can_submit:
  "can_submit (RateLimitForm lbl s) \<longleftrightarrow> \<not> lf_loading s \<and> trim (lf_name s) \<noteq> []"
  by (auto simp: can_submit_def RateLimitForm_def form_view_defs is_submit_button_def is_disabled_def
      select_options_def PRESETS_def split: option.splits)

interpretation rate_limit_submit: submit_form "RateLimitForm lbl" LfSubmit RateLimitForm_update RateLimitForm_settle
    lf_loading rate_limit_body_ok for lbl
proof (unfold_locales, goal_cases)
  case (1 s)
  then show ?case by (simp add: RateLimitForm_can_submit)
next
  case (2 m s)
  then show ?case by (cases m) (auto simp: applyPreset_def)
next
  case (3 s)
  then show ?case by (auto simp: RateLimitForm_handleSubmit_def split: if_splits)
next
  case (4 s b)
  then show ?case
    by (auto simp: RateLimitForm_handleSubmit_def rate_limit_body_ok_def parseInt_or_def split: if_splits option.splits)
next
  case (5 r s)
  then show ?case by (simp add: RateLimitForm_settle_def)
qed

interpretation rate_limit_row: row_actions "RateLimitRowActions p" for p
  by unfold_locales (auto simp: RateLimitRowActions_def view split: if_splits)

lemma rateLimits_filtered_eq:
  "rateLimits_filtered data s =
     filter (\<lambda>p. contains_ci (lp_search s) (rl_name p)
                 \<and> (lp_scope s = ''all'' \<or> scope_name (rl_scope p) = lp_scope s)
                 \<and> (lp_algorithm s = ''all'' \<or> algorithm_name (rl_algorithm p) = lp_algorithm s)) data"
  by (auto simp: rateLimits_filtered_def filter_search_def Let_def intro: filter_cong)

definition rateLimits_offers ::
    "date_env \<Rightarrow> Tenant query_result \<Rightarrow> (string \<Rightarrow> RateLimitPolicy query_result) \<Rightarrow> rate_limits_page \<Rightarrow> rate_limits_msg set" where
  "rateLimits_offers env tq q s = view_msgs (RateLimitsPage env tq (q (lp_selectedTenant s)) s)"

definition rateLimits_data :: "(string \<Rightarrow> RateLimitPolicy query_result) \<Rightarrow> rate_limits_page \<Rightarrow> RateLimitPolicy list" where
  "rateLimits_data q s = query_data (q (lp_selectedTenant s))"

lemma rate_limit_views_msgs [view]:
  "msgs (AlgorithmBadge a) = {}" "msgs (ScopeBadge c) = {}" "msgs (RateLimitVisualizer p) = {}"
  by (simp_all add: AlgorithmBadge_def ScopeBadge_def RateLimitVisualizer_def burst_and_def view
      split: prod.split option.split)

lemma burst_and_msgs [view]:
  "(\<And>b. view_msgs (f b) = {}) \<Longrightarrow> view_msgs (burst_and p f) = {}"
  by (simp add: burst_and_def split: option.split)

lemma rateLimits_parts_msgs:
  "LpPage p \<notin> msgs (DataTable rateLimits_columns data rl_id (rateLimits_table s loading))"
  "LpPage p \<notin> view_msgs (RateLimitDetailPanel env sel (LpSelected None))"
  by (simp_all add: view rateLimits_columns_def rateLimits_table_def Let_def RateLimitDetailPanel_def
      split: option.split)

lemma RateLimitsPage_page_msgs:
  assumes "LpPage p \<in> rateLimits_offers env tq q s"
  shows "p \<in> page_offers rateLimits_PAGE_SIZE (int (length (rateLimits_filtered (rateLimits_data q s) s))) (lp_page s)"
proof -
  have "LpPage p \<in> view_msgs (Pagination (lp_page s) rateLimits_PAGE_SIZE
      (int (length (rateLimits_filtered (rateLimits_data q s) s))) LpPage)"
    using assms
    by (simp add: rateLimits_offers_def rateLimits_data_def RateLimitsPage_def
        RateLimitsPage_body_def Let_def view rateLimits_parts_msgs image_iff split: if_splits del: DataTable_msgs)
  then show ?thesis by (rule Pagination_msg_page) simp
qed

interpretation rateLimits_list: paged_machine lp_page "\<lambda>s. rateLimits_filtered (rateLimits_data q s) s"
    "\<lambda>s. rateLimits_paginated (rateLimits_data q s) s" "\<lambda>p. RateLimitsPage_update (LpPage p)" rateLimits_PAGE_SIZE
    "rateLimits_offers env tq q" RateLimitsPage_update for env tq q
proof (unfold_locales, goal_cases)
  case (5 m s)
  then show ?case
  proof (cases m)
    case (LpPage p)
    with 5 RateLimitsPage_page_msgs show ?thesis by (auto simp: rateLimits_filtered_eq rateLimits_data_def)
  qed (simp_all add: rateLimits_filtered_eq rateLimits_data_def)
qed (simp_all add: rateLimits_PAGE_SIZE_def rateLimits_paginated_def page_rows_def rateLimits_filtered_eq rateLimits_data_def)

section \<open>Rounding of windows and widths of bars\<close>

lemma round_div_near: "0 < b \<Longrightarrow> \<bar>round_div a b * b - a\<bar> * 2 \<le> b"
proof -
  assume b: "0 < b"
  let ?q = "(2 * a + b) div (2 * b)" and ?r = "(2 * a + b) mod (2 * b)"
  have "?q * (2 * b) + ?r = 2 * a + b" by (rule div_mult_mod_eq)
  moreover have "0 \<le> ?r" "?r < 2 * b" using b by simp_all
  ultimately show ?thesis unfolding round_div_def by (simp add: abs_if algebra_simps)
qed

lemma bar_width_bounds: "4 \<le> rate_bar_width p \<and> rate_bar_width p \<le> 100 \<and> burst_bar_width p \<le> 100"
  by (auto simp: rate_bar_width_def burst_bar_width_def fillWidth_def)

lemma parseInt_or_str_int: "n \<noteq> 0 \<Longrightarrow> parseInt_or (str_int n) d = n"
  by (simp add: parseInt_or_def parseInt_str_int)

section \<open>Properties\<close>

text \<open>The window of a policy is shown rounded to the nearest unit: below a minute exactly, below an
  hour in minutes that are off by at most 30 seconds, and above in hours that are off by at most
  half an hour.  From 3570 seconds on the minutes read 60 although a larger unit would fit.\<close>

theorem formatWindow_rounds:
  "(secs < 60 \<longrightarrow> formatWindow secs = plural secs ''second'')
   \<and> (60 \<le> secs \<longrightarrow> secs < 3600 \<longrightarrow>
        (\<exists>n. formatWindow secs = plural n ''minute'' \<and> 1 \<le> n \<and> n \<le> 60 \<and> \<bar>n * 60 - secs\<bar> \<le> 30
             \<and> (n = 60 \<longleftrightarrow> 3570 \<le> secs)))
   \<and> (3600 \<le> secs \<longrightarrow> (\<exists>n. formatWindow secs = plural n ''hour'' \<and> 1 \<le> n \<and> \<bar>n * 3600 - secs\<bar> \<le> 1800))"
proof -
  have m: "\<bar>round_div secs 60 * 60 - secs\<bar> \<le> 30" using round_div_near [of 60 secs] by simp
  have h: "\<bar>round_div secs 3600 * 3600 - secs\<bar> \<le> 1800" using round_div_near [of 3600 secs] by simp
  have e: "3570 \<le> secs \<Longrightarrow> secs < 3600 \<Longrightarrow> round_div secs 60 = 60" unfolding round_div_def by simp
  have l: "secs < 3570 \<Longrightarrow> round_div secs 60 < 60" unfolding round_div_def by simp
  have "\<exists>n. formatWindow secs = plural n ''minute'' \<and> 1 \<le> n \<and> n \<le> 60 \<and> \<bar>n * 60 - secs\<bar> \<le> 30
      \<and> (n = 60 \<longleftrightarrow> 3570 \<le> secs)" if "60 \<le> secs" "secs < 3600"
    using m e l that by (intro exI [of _ "round_div secs 60"]) (auto simp: formatWindow_def)
  moreover have "\<exists>n. formatWindow secs = plural n ''hour'' \<and> 1 \<le> n \<and> \<bar>n * 3600 - secs\<bar> \<le> 1800" if "3600 \<le> secs"
    using h that by (intro exI [of _ "round_div secs 3600"]) (auto simp: formatWindow_def)
  ultimately show ?thesis by (simp add: formatWindow_def)
qed

theorem formatWindow_rounds_witness: "\<exists>n. formatWindow 3599 = plural n ''minute'' \<and> n = 60"
  using formatWindow_rounds [of 3599] by auto

text \<open>A preset of the policy form arrives in the request as it stands: after choosing it, whatever the
  form held before, submitting sends its limit, window, burst and algorithm, with the form's name, or the
  preset's when the name was empty.\<close>

theorem preset_reaches_request:
  assumes "p \<in> set PRESETS" and "lf_name s = [] \<or> trim (lf_name s) \<noteq> []"
  shows "snd (RateLimitForm_update LfSubmit (fst (RateLimitForm_update (LfPreset p) s))) =
    Some \<lparr>crl_name = (if lf_name s = [] then ps_name p else trim (lf_name s)), crl_scope = lf_scope s,
          crl_algorithm = ps_algorithm p, crl_rate_limit = ps_rate_limit p, crl_window_secs = ps_window_secs p,
          crl_burst_limit = Some (Some (ps_burst_limit p)), crl_enabled = Some (lf_enabled s)\<rparr>"
proof -
  have p: "ps_rate_limit p \<noteq> 0" "ps_window_secs p \<noteq> 0" "ps_name p \<noteq> []" "trim (ps_name p) = ps_name p"
    using assms(1) by (auto simp: PRESETS_def trim_def is_space_def)
  show ?thesis
    using assms(2) p
    by (auto simp: RateLimitForm_handleSubmit_def applyPreset_def parseInt_or_str_int parseInt_str_int)
qed

theorem preset_reaches_request_witness:
  "map_option crl_rate_limit (snd (RateLimitForm_update LfSubmit
     (fst (RateLimitForm_update (LfPreset (hd PRESETS)) (RateLimitForm_init no_rate_limit))))) = Some 10"
  using preset_reaches_request [of "hd PRESETS" "RateLimitForm_init no_rate_limit"]
  by (simp add: PRESETS_def RateLimitForm_init_def no_rate_limit_def)

end
