(* ===== verification/WasmPlugins.thy ===== *)
theory WasmPlugins
  imports Complex_Main Pagination Widgets Date_Utils
begin

text \<open>
  The WASM plugins page: \<^verbatim>\<open>src/ui/admin/src/components/wasm/*.tsx\<close> and
  \<^verbatim>\<open>src/ui/admin/src/pages/WasmPluginsPage.tsx\<close>.  The form validates a checksum as it is typed; the
  properties relate the message under the field, the submit button and what a submission sends.
\<close>

section \<open>Checksums\<close>

definition is_hex :: "char \<Rightarrow> bool" where
  "is_hex c \<longleftrightarrow> is_digit c \<or> (97 \<le> code c \<and> code c \<le> 102) \<or> (65 \<le> code c \<and> code c \<le> 70)"

definition validateSha256 :: "string \<Rightarrow> string option" where
  "validateSha256 sha =
     (if sha = [] then None
      else if length sha < 64
      then Some (''SHA256 needs '' @ str_int (64 - int (length sha)) @ '' more hex characters'')
      else if 64 < length sha then Some ''SHA256 must be exactly 64 hex characters''
      else if \<not> (length sha = 64 \<and> list_all is_hex sha)
      then Some ''SHA256 must contain only hex characters (0-9, a-f)''
      else None)"

text \<open>The width of the bar in percent, and the two flags that choose its colour.\<close>

definition sha_pct :: "string \<Rightarrow> rat" where
  "sha_pct value = min (of_nat (length value) / 64 * 100) 100"

definition sha_isValid :: "string \<Rightarrow> bool" where
  "sha_isValid value \<longleftrightarrow> length value = 64 \<and> validateSha256 value = None"

definition sha_hasError :: "string \<Rightarrow> bool" where
  "sha_hasError value \<longleftrightarrow> value \<noteq> [] \<and> \<not> sha_isValid value"

definition Sha256ProgressBar :: "string \<Rightarrow> 'm node" where
  "Sha256ProgressBar value =
     El ''div'' []
       [El ''div'' []
          [El ''div'' [Attr ''variant'' (if sha_isValid value then ''emerald'' else if sha_hasError value then ''red'' else ''amber'')] []],
        El ''p'' []
          ([Text (str_int (int (length value))), Text ''/64 characters'']
           @ show_if (sha_isValid value) [Text ('' '' @ em_dash @ '' valid SHA256'')])]"

definition sha_short :: "string \<Rightarrow> string" where
  "sha_short sha256 = js_slice sha256 0 8 @ ellipsis @ js_slice_from sha256 (- 8)"

definition PluginShaDisplay :: "'m \<Rightarrow> string \<Rightarrow> copy_state \<Rightarrow> 'm node" where
  "PluginShaDisplay onCopy sha256 s =
     (if sha256 = [] then El ''span'' [] [Text em_dash]
      else El ''span'' []
        [El ''span'' [Attr ''title'' sha256] [Text (sha_short sha256)],
         CopyButton onCopy ''Copy full SHA256'' s])"

definition sha_copy :: "string \<Rightarrow> int \<Rightarrow> copy_state \<Rightarrow> copy_state \<times> string" where
  "sha_copy sha256 now s = copy sha256 now s"

section \<open>Badges\<close>

fun TRIGGER_CONFIG :: "PluginTrigger \<Rightarrow> BadgeVariant \<times> string \<times> string" where
  "TRIGGER_CONFIG OnRequest = (BvInfo, ''On Request'', ''ArrowDownToLine'')"
| "TRIGGER_CONFIG OnResponse = (BvWarning, ''On Response'', ''ArrowUpFromLine'')"
| "TRIGGER_CONFIG Both = (BvSuccess, ''Both'', ''ArrowLeftRight'')"

definition PluginTriggerBadge :: "PluginTrigger \<Rightarrow> 'm node" where
  "PluginTriggerBadge trigger =
     (case TRIGGER_CONFIG trigger of (variant, label, ic) \<Rightarrow> Badge (Some variant) False [icon ic, Text label])"

text \<open>The major version is what \<open>parseInt\<close> reads before the first dot; \<open>NaN\<close> compares as 1.x.\<close>

definition getSemverVariant :: "string \<Rightarrow> BadgeVariant" where
  "getSemverVariant version =
     (case parseInt (hd (split_on (CHR ''.'') version)) of
        None \<Rightarrow> BvInfo
      | Some major \<Rightarrow> if major = 0 then BvWarning else if 2 \<le> major then BvSuccess else BvInfo)"

definition PluginVersionBadge :: "string \<Rightarrow> 'm node" where
  "PluginVersionBadge version =
     Badge (Some (getSemverVariant version)) False [icon ''Tag'', Text ''v'', Text version]"

section \<open>Form\<close>

record plugin_initial =
  wi_name :: "string option"
  wi_version :: "string option"
  wi_trigger :: "PluginTrigger option"
  wi_enabled :: "bool option"

definition no_plugin :: plugin_initial where
  "no_plugin = \<lparr>wi_name = None, wi_version = None, wi_trigger = None, wi_enabled = None\<rparr>"

record plugin_form =
  wf_name :: string
  wf_version :: string
  wf_trigger :: PluginTrigger
  wf_storageUrl :: string
  wf_sha256 :: string
  wf_enabled :: bool
  wf_loading :: bool
  wf_error :: "string option"
  wf_shaError :: "string option"

definition PluginForm_init :: "plugin_initial \<Rightarrow> plugin_form" where
  "PluginForm_init initial =
     \<lparr>wf_name = nullish (wi_name initial) [], wf_version = nullish (wi_version initial) ''1.0.0'',
      wf_trigger = nullish (wi_trigger initial) OnRequest, wf_storageUrl = [], wf_sha256 = [],
      wf_enabled = nullish (wi_enabled initial) True, wf_loading = False, wf_error = None, wf_shaError = None\<rparr>"

definition trigger_of :: "string \<Rightarrow> PluginTrigger option" where
  "trigger_of v = find (\<lambda>t. trigger_name t = v) [OnRequest, OnResponse, Both]"

datatype plugin_form_msg =
    WfName string
  | WfVersion string
  | WfTrigger string
  | WfStorageUrl string
  | WfSha string
  | WfEnabled bool
  | WfSubmit
  | WfCancel

definition handleShaChange :: "string \<Rightarrow> plugin_form \<Rightarrow> plugin_form" where
  "handleShaChange v s = s\<lparr>wf_sha256 := v, wf_shaError := validateSha256 v\<rparr>"

definition PluginForm_handleSubmit :: "plugin_form \<Rightarrow> plugin_form \<times> CreateWasmPluginBody option" where
  "PluginForm_handleSubmit s =
     (case validateSha256 (wf_sha256 s) of
        Some shaErr \<Rightarrow> (s\<lparr>wf_shaError := Some shaErr\<rparr>, None)
      | None \<Rightarrow>
          if trim (wf_name s) = [] \<or> trim (wf_version s) = [] then (s, None)
          else (s\<lparr>wf_error := None, wf_loading := True\<rparr>,
                Some \<lparr>cw_name = trim (wf_name s), cw_version = trim (wf_version s), cw_trigger = wf_trigger s,
                      cw_storage_url = or_undefined (trim (wf_storageUrl s)), cw_enabled = Some (wf_enabled s)\<rparr>))"

fun PluginForm_update :: "plugin_form_msg \<Rightarrow> plugin_form \<Rightarrow> plugin_form \<times> CreateWasmPluginBody option" where
  "PluginForm_update (WfName v) s = (s\<lparr>wf_name := v\<rparr>, None)"
| "PluginForm_update (WfVersion v) s = (s\<lparr>wf_version := v\<rparr>, None)"
| "PluginForm_update (WfTrigger v) s = (s\<lparr>wf_trigger := nullish (trigger_of v) (wf_trigger s)\<rparr>, None)"
| "PluginForm_update (WfStorageUrl v) s = (s\<lparr>wf_storageUrl := v\<rparr>, None)"
| "PluginForm_update (WfSha v) s = (handleShaChange v s, None)"
| "PluginForm_update (WfEnabled b) s = (s\<lparr>wf_enabled := b\<rparr>, None)"
| "PluginForm_update WfSubmit s = PluginForm_handleSubmit s"
| "PluginForm_update WfCancel s = (s, None)"

definition PluginForm_settle :: "js_thrown option \<Rightarrow> plugin_form \<Rightarrow> plugin_form" where
  "PluginForm_settle r s = s\<lparr>wf_error := settled_error r (wf_error s), wf_loading := False\<rparr>"

definition PluginForm :: "string \<Rightarrow> plugin_form \<Rightarrow> plugin_form_msg node list" where
  "PluginForm submitLabel s =
     [El ''form'' [OnSubmit WfSubmit]
       ([El ''div'' []
          [form_label ''plugin-name'' ''Plugin Name'',
           text_input ''plugin-name'' (wf_name s) WfName
             [Attr ''placeholder'' ''my-auth-plugin'', Flag ''required'' True, Flag ''autoFocus'' True]],
         El ''div'' []
          [El ''div'' []
            [form_label ''plugin-version'' ''Version'',
             text_input ''plugin-version'' (wf_version s) WfVersion [Attr ''placeholder'' ''1.0.0'', Flag ''required'' True]],
           El ''div'' []
            [form_label ''plugin-trigger'' ''Trigger'',
             El ''select'' [Attr ''id'' ''plugin-trigger'', Attr ''value'' (trigger_name (wf_trigger s)), OnChange WfTrigger]
               (select_options [(''on_request'', ''On Request''), (''on_response'', ''On Response''), (''both'', ''Both'')])]],
         El ''div'' []
          [El ''label'' [Attr ''htmlFor'' ''plugin-storage-url''] [Text ''Storage URL '', El ''span'' [] [Text ''(optional)'']],
           text_input ''plugin-storage-url'' (wf_storageUrl s) WfStorageUrl [Attr ''placeholder'' ''s3://bucket/plugin.wasm'']],
         El ''div'' []
          ([El ''label'' [Attr ''htmlFor'' ''plugin-sha256''] [Text ''SHA256 '', El ''span'' [] [Text ''(optional, for verification)'']],
            text_input ''plugin-sha256'' (wf_sha256 s) WfSha
              [Attr ''placeholder'' ''e3b0c44298fc1c149afbf4c8996fb92427ae41e4649b934ca495991b7852b855'', Attr ''maxLength'' ''64'']]
           @ error_text (wf_shaError s)
           @ show_if (wf_sha256 s \<noteq> []) [Sha256ProgressBar (wf_sha256 s)]),
         El ''div'' []
          [form_label ''plugin-enabled'' ''Enabled'',
           checkbox ''plugin-enabled'' (wf_enabled s) WfEnabled,
           El ''span'' [] [Text (if wf_enabled s then ''Plugin is active'' else ''Plugin is disabled'')]]]
        @ error_text (wf_error s)
        @ [form_buttons WfCancel (wf_loading s)
             (trim (wf_name s) = [] \<or> trim (wf_version s) = [] \<or> truthy_str (wf_shaError s)) ''Saving'' submitLabel])]"

section \<open>Row actions, detail panel\<close>

datatype plugin_row_event = PluginDeleted

definition plugin_deleteMut :: "WasmPlugin \<Rightarrow> (string, plugin_row_event) mutation_options" where
  "plugin_deleteMut p = useDeleteWasmPlugin (w_tenant_id p) (Some PluginDeleted)"

definition plugin_row_toast :: "plugin_row_event \<Rightarrow> toast_request" where
  "plugin_row_toast e = success_toast ''WASM plugin deleted''"

definition plugin_row_call :: "WasmPlugin \<Rightarrow> row_out \<Rightarrow> api_call option" where
  "plugin_row_call p out =
     (if out = OutDelete then Some (mutationFn (plugin_deleteMut p) (w_id p)) else None)"

definition PluginRowActions :: "WasmPlugin \<Rightarrow> row_state \<Rightarrow> row_msg node list" where
  "PluginRowActions p s =
     [row_button ''Delete plugin'' RowAskDelete ''Trash2'']
     @ delete_dialog ''Delete WASM plugin''
         (''This will permanently delete the '' @ dquote @ w_name p @ dquote @ '' plugin (v'' @ w_version p @ '').'') s"

definition PluginDetailPanel :: "date_env \<Rightarrow> WasmPlugin option \<Rightarrow> 'm \<Rightarrow> 'm node list" where
  "PluginDetailPanel env plugin onClose =
     panel_frame onClose plugin (\<lambda>p.
       [El ''div'' []
         [El ''div'' []
           [El ''div'' []
             [El ''h3'' [] [Text (w_name p)],
              El ''div'' [] [PluginVersionBadge (w_version p), PluginTriggerBadge (w_trigger p)]],
            close_button onClose],
          El ''div'' []
           ([El ''div'' [] [status_badge (w_enabled p) ''Enabled'' ''Disabled''],
             El ''div'' []
              [Field ''Plugin ID'' (w_id p) True True,
               Field ''Name'' (w_name p) False False,
               Field ''Version'' (w_version p) False False,
               Field ''Tenant ID'' (w_tenant_id p) True True,
               Field ''Created'' (formatDateTime env (w_created_at p)) False False]]
            @ when_str (Some (w_sha256 p)) (\<lambda>sha.
                El ''div'' []
                  [El ''p'' [] [Text ''SHA256 Checksum''],
                   El ''div'' [] [El ''span'' [] [Text sha], copy_button sha]]))]])"

section \<open>Page\<close>

definition wasm_PAGE_SIZE :: int where
  "wasm_PAGE_SIZE = 10"

record wasm_page =
  wp_selectedTenant :: string
  wp_search :: string
  wp_trigger :: string
  wp_page :: int
  wp_creating :: bool
  wp_selected :: "WasmPlugin option"

definition WasmPluginsPage_init :: wasm_page where
  "WasmPluginsPage_init =
     \<lparr>wp_selectedTenant = [], wp_search = [], wp_trigger = ''all'', wp_page = 1, wp_creating = False, wp_selected = None\<rparr>"

datatype wasm_msg =
    WpTenant string
  | WpSearch string
  | WpTrigger string
  | WpPage int
  | WpCreating bool
  | WpSelected "WasmPlugin option"

fun WasmPluginsPage_update :: "wasm_msg \<Rightarrow> wasm_page \<Rightarrow> wasm_page" where
  "WasmPluginsPage_update (WpTenant v) s = s\<lparr>wp_selectedTenant := v, wp_page := 1\<rparr>"
| "WasmPluginsPage_update (WpSearch v) s = s\<lparr>wp_search := v, wp_page := 1\<rparr>"
| "WasmPluginsPage_update (WpTrigger v) s = s\<lparr>wp_trigger := v, wp_page := 1\<rparr>"
| "WasmPluginsPage_update (WpPage p) s = s\<lparr>wp_page := p\<rparr>"
| "WasmPluginsPage_update (WpCreating b) s = s\<lparr>wp_creating := b\<rparr>"
| "WasmPluginsPage_update (WpSelected p) s = s\<lparr>wp_selected := p\<rparr>"

datatype wasm_event = PluginCreated

definition wasm_createMut :: "wasm_page \<Rightarrow> (CreateWasmPluginBody, wasm_event) mutation_options" where
  "wasm_createMut s = useCreateWasmPlugin (wp_selectedTenant s) (Some PluginCreated)"

fun wasm_on_event :: "wasm_event \<Rightarrow> wasm_page \<Rightarrow> wasm_page \<times> toast_request" where
  "wasm_on_event PluginCreated s = (s\<lparr>wp_creating := False\<rparr>, success_toast ''WASM plugin added'')"

definition wasm_filtered :: "WasmPlugin list \<Rightarrow> wasm_page \<Rightarrow> WasmPlugin list" where
  "wasm_filtered data s =
     (let list1 = filter_search (wp_search s) (\<lambda>p. contains_ci (wp_search s) (w_name p)) data;
          list2 = (if wp_trigger s \<noteq> ''all'' then filter (\<lambda>p. trigger_name (w_trigger p) = wp_trigger s) list1 else list1)
      in list2)"

definition wasm_paginated :: "WasmPlugin list \<Rightarrow> wasm_page \<Rightarrow> WasmPlugin list" where
  "wasm_paginated data s =
     js_slice (wasm_filtered data s) ((wp_page s - 1) * wasm_PAGE_SIZE) (wp_page s * wasm_PAGE_SIZE)"

definition wasm_columns :: "date_env \<Rightarrow> (WasmPlugin, wasm_msg) Column list" where
  "wasm_columns env =
     [column ''name'' ''Plugin'' None (\<lambda>p.
        [El ''button'' [OnClick (WpSelected (Some p))]
          [El ''div'' [] [icon ''Puzzle''],
           El ''div'' [] [El ''p'' [] [Text (w_name p)], PluginVersionBadge (w_version p)]]]),
      column ''trigger'' ''Trigger'' (Some ''140px'') (\<lambda>p. [PluginTriggerBadge (w_trigger p)]),
      column ''sha256'' ''SHA256'' None (\<lambda>p. [Comp ''PluginShaDisplay'' [Attr ''sha256'' (w_sha256 p)]]),
      column ''status'' ''Status'' (Some ''100px'') (\<lambda>p. [status_badge (w_enabled p) ''Active'' ''Inactive'']),
      column ''created'' ''Created'' (Some ''120px'') (\<lambda>p. [El ''span'' [] [Text (formatDate env (w_created_at p))]]),
      actions_column ''60px'' (\<lambda>p. [Comp ''PluginRowActions'' [Attr ''plugin'' (w_id p)]])]"

definition wasm_table :: "wasm_page \<Rightarrow> bool \<Rightarrow> wasm_msg TableOptions" where
  "wasm_table s loading =
     (let unfiltered = (wp_search s = [] \<and> wp_trigger s = ''all'') in
      \<lparr>tbl_loading = loading,
       tbl_emptyTitle = Some ''No WASM plugins'',
       tbl_emptyDescription = (if unfiltered then Some ''Add your first WASM plugin to extend gateway behavior.'' else None),
       tbl_emptyAction =
         (if unfiltered
          then Some [El ''button'' [OnClick (WpCreating True)] [icon ''Plus'', Text '' Add Plugin'']] else None),
       tbl_skeletonRows = None\<rparr>)"

definition trigger_options :: "FilterOption list" where
  "trigger_options =
     [fopt ''All Triggers'' ''all'', fopt ''On Request'' ''on_request'', fopt ''On Response'' ''on_response'',
      fopt ''Both'' ''both'']"

definition WasmPluginsPage_body :: "date_env \<Rightarrow> WasmPlugin query_result \<Rightarrow> wasm_page \<Rightarrow> wasm_msg node list" where
  "WasmPluginsPage_body env q s =
     (let data = query_data q in
      [El ''div'' []
        [SearchBar (wp_search s) WpSearch (Some (''Search plugins'' @ ellipsis)),
         FilterSelect ''Trigger'' (wp_trigger s) trigger_options WpTrigger]]
      @ load_error (qr_isError q) ''Failed to load WASM plugins.''
      @ [DataTable (wasm_columns env) (wasm_paginated data s) w_id (wasm_table s (qr_isLoading q))]
      @ Pagination (wp_page s) wasm_PAGE_SIZE (int (length (wasm_filtered data s))) WpPage)"

definition WasmPluginsPage ::
    "date_env \<Rightarrow> Tenant query_result \<Rightarrow> WasmPlugin query_result \<Rightarrow> wasm_page \<Rightarrow> wasm_msg node list" where
  "WasmPluginsPage env tq q s =
     [El ''div'' []
       ([PageHeader ''WASM Plugins'' (Some ''Manage WebAssembly plugins for request/response processing.'')
           (Some [new_button (WpCreating True) (wp_selectedTenant s) '' Add Plugin'']) None,
         tenant_select ''wasm-tenant-select'' (query_data tq) (wp_selectedTenant s) WpTenant]
        @ (if wp_selectedTenant s = [] then [select_hint ''Puzzle'' ''Select a tenant to view its WASM plugins.'']
           else WasmPluginsPage_body env q s)
        @ Modal (wp_creating s) (WpCreating False) (Some ''Add WASM Plugin'')
            (Some ''Upload a WebAssembly plugin for this tenant.'')
            [Comp ''PluginForm'' [Attr ''submitLabel'' ''Add Plugin'', OnEvent ''onCancel'' (WpCreating False)]]
        @ PluginDetailPanel env (wp_selected s) (WpSelected None))]"

section \<open>The contracts\<close>

definition plugin_body_ok :: "CreateWasmPluginBody \<Rightarrow> bool" where
  "plugin_body_ok b \<longleftrightarrow>
     cw_name b \<noteq> [] \<and> trim (cw_name b) = cw_name b \<and> cw_version b \<noteq> [] \<and> trim (cw_version b) = cw_version b
     \<and> cw_storage_url b \<noteq> Some []"

lemma PluginForm_can_submit:
  "can_submit (PluginForm lbl s) \<longleftrightarrow>
     \<not> wf_loading s \<and> trim (wf_name s) \<noteq> [] \<and> trim (wf_version s) \<noteq> [] \<and> \<not> truthy_str (wf_shaError s)"
  by (auto simp: can_submit_def PluginForm_def form_view_defs is_submit_button_def is_disabled_def
      select_options_def Sha256ProgressBar_def split: option.splits)

interpretation plugin_submit: submit_form "PluginForm lbl" WfSubmit PluginForm_update PluginForm_settle
    wf_loading plugin_body_ok for lbl
proof (unfold_locales, goal_cases)
  case (1 s)
  then show ?case by (simp add: PluginForm_can_submit)
next
  case (2 m s)
  then show ?case by (cases m) (auto simp: handleShaChange_def)
next
  case (3 s)
  then show ?case by (auto simp: PluginForm_handleSubmit_def split: if_splits option.splits)
next
  case (4 s b)
  then show ?case
    by (auto simp: PluginForm_handleSubmit_def plugin_body_ok_def or_undefined_def split: if_splits option.splits)
next
  case (5 r s)
  then show ?case by (simp add: PluginForm_settle_def)
qed

interpretation plugin_row: row_actions "PluginRowActions p" for p
  by unfold_locales (auto simp: PluginRowActions_def view split: if_splits)

lemma wasm_filtered_eq:
  "wasm_filtered data s =
     filter (\<lambda>p. contains_ci (wp_search s) (w_name p)
                 \<and> (wp_trigger s = ''all'' \<or> trigger_name (w_trigger p) = wp_trigger s)) data"
  by (auto simp: wasm_filtered_def filter_search_def Let_def intro: filter_cong)

definition wasm_offers ::
    "date_env \<Rightarrow> Tenant query_result \<Rightarrow> (string \<Rightarrow> WasmPlugin query_result) \<Rightarrow> wasm_page \<Rightarrow> wasm_msg set" where
  "wasm_offers env tq q s = view_msgs (WasmPluginsPage env tq (q (wp_selectedTenant s)) s)"

definition wasm_data :: "(string \<Rightarrow> WasmPlugin query_result) \<Rightarrow> wasm_page \<Rightarrow> WasmPlugin list" where
  "wasm_data q s = query_data (q (wp_selectedTenant s))"

lemma plugin_views_msgs [view]:
  "msgs (PluginTriggerBadge t) = {}" "msgs (PluginVersionBadge v) = {}"
  by (simp_all add: PluginTriggerBadge_def PluginVersionBadge_def view split: prod.split)

lemma wasm_parts_msgs:
  "WpPage p \<notin> msgs (DataTable (wasm_columns env) data w_id (wasm_table s loading))"
  "WpPage p \<notin> view_msgs (PluginDetailPanel env sel (WpSelected None))"
  by (simp_all add: view wasm_columns_def wasm_table_def Let_def PluginDetailPanel_def split: option.split)

lemma WasmPluginsPage_page_msgs:
  assumes "WpPage p \<in> wasm_offers env tq q s"
  shows "p \<in> page_offers wasm_PAGE_SIZE (int (length (wasm_filtered (wasm_data q s) s))) (wp_page s)"
proof -
  have "WpPage p \<in> view_msgs (Pagination (wp_page s) wasm_PAGE_SIZE
      (int (length (wasm_filtered (wasm_data q s) s))) WpPage)"
    using assms
    by (simp add: wasm_offers_def wasm_data_def WasmPluginsPage_def
        WasmPluginsPage_body_def Let_def view wasm_parts_msgs image_iff split: if_splits del: DataTable_msgs)
  then show ?thesis by (rule Pagination_msg_page) simp
qed

interpretation wasm_list: paged_machine wp_page "\<lambda>s. wasm_filtered (wasm_data q s) s"
    "\<lambda>s. wasm_paginated (wasm_data q s) s" "\<lambda>p. WasmPluginsPage_update (WpPage p)" wasm_PAGE_SIZE
    "wasm_offers env tq q" WasmPluginsPage_update for env tq q
proof (unfold_locales, goal_cases)
  case (5 m s)
  then show ?case
  proof (cases m)
    case (WpPage p)
    with 5 WasmPluginsPage_page_msgs show ?thesis by (auto simp: wasm_filtered_eq wasm_data_def)
  qed (simp_all add: wasm_filtered_eq wasm_data_def)
qed (simp_all add: wasm_PAGE_SIZE_def wasm_paginated_def page_rows_def wasm_filtered_eq wasm_data_def)

section \<open>Checksums in the form\<close>

lemma validateSha256_None: "validateSha256 sha = None \<longleftrightarrow> sha = [] \<or> (length sha = 64 \<and> list_all is_hex sha)"
  by (auto simp: validateSha256_def)

lemma validateSha256_not_empty: "validateSha256 sha \<noteq> Some []"
  by (simp add: validateSha256_def)

lemma truthy_sha: "truthy_str (validateSha256 sha) \<longleftrightarrow> validateSha256 sha \<noteq> None"
  using validateSha256_not_empty [of sha] by (cases "validateSha256 sha") auto

abbreviation sha_checked :: "(plugin_form, CreateWasmPluginBody) session \<Rightarrow> bool" where
  "sha_checked x \<equiv> wf_shaError (ses_form x) = validateSha256 (wf_sha256 (ses_form x))"

lemma sha_checked_upd:
  "wf_shaError s = validateSha256 (wf_sha256 s) \<Longrightarrow>
   wf_shaError (fst (PluginForm_update m s)) = validateSha256 (wf_sha256 (fst (PluginForm_update m s)))"
  by (cases m) (auto simp: handleShaChange_def PluginForm_handleSubmit_def split: option.splits)

lemma sha_checked_step: "sha_checked x \<Longrightarrow> sha_checked (form_step PluginForm_update PluginForm_settle m x)"
proof (cases m)
  case (User u)
  assume "sha_checked x"
  then show ?thesis using sha_checked_upd [of "ses_form x" u] User by (auto split: prod.splits option.splits)
qed (simp add: PluginForm_settle_def)

interpretation plugin_sha: ui_machine "form_offers (PluginForm lbl) WfSubmit"
    "form_step PluginForm_update PluginForm_settle" sha_checked for lbl
  by unfold_locales (rule sha_checked_step)

section \<open>Properties\<close>

text \<open>The checksum is accepted exactly when it is left empty or is 64 hexadecimal characters, and the
  progress bar shows it as valid exactly when it is a full checksum; otherwise a message is given, and one
  that is too short is told how many characters are missing.\<close>

theorem sha256_verdict:
  "(validateSha256 sha = None \<longleftrightarrow> sha = [] \<or> (length sha = 64 \<and> list_all is_hex sha))
   \<and> (sha_isValid sha \<longleftrightarrow> length sha = 64 \<and> list_all is_hex sha)
   \<and> (0 < length sha \<and> length sha < 64 \<longrightarrow>
        validateSha256 sha = Some (''SHA256 needs '' @ str_int (64 - int (length sha)) @ '' more hex characters''))
   \<and> (sha_pct sha = 100 \<longleftrightarrow> 64 \<le> length sha)"
proof -
  have "sha_pct sha = 100 \<longleftrightarrow> (100 :: rat) \<le> of_nat (length sha) / 64 * 100"
    unfolding sha_pct_def by (metis min.absorb_iff2)
  also have "\<dots> \<longleftrightarrow> (of_nat 64 :: rat) \<le> of_nat (length sha)" by linarith
  finally have "sha_pct sha = 100 \<longleftrightarrow> 64 \<le> length sha" by (simp only: of_nat_le_iff)
  then show ?thesis by (auto simp: validateSha256_None sha_isValid_def validateSha256_def)
qed

theorem sha256_verdict_witness:
  "validateSha256 ''abc'' = Some ''SHA256 needs 61 more hex characters'' \<and> sha_pct (replicate 64 CHR ''a'') = 100"
  using sha256_verdict [of "''abc''"] sha256_verdict [of "replicate 64 CHR ''a''"]
  by (simp add: str_int_def nat_digits.simps)

text \<open>C28: Throughout a session of the plugin form the message under the checksum is the verdict on what the
  field holds, and the submit button is enabled exactly when no submission is under way and submitting
  would send a request.\<close>

theorem plugin_button_matches_submit:
  assumes "reach (form_offers (PluginForm lbl) WfSubmit) (form_step PluginForm_update PluginForm_settle)
      (open_session (PluginForm_init initial)) x"
  shows "wf_shaError (ses_form x) = validateSha256 (wf_sha256 (ses_form x))
    \<and> (can_submit (PluginForm lbl (ses_form x)) \<longleftrightarrow>
         \<not> wf_loading (ses_form x) \<and> snd (PluginForm_update WfSubmit (ses_form x)) \<noteq> None)"
proof -
  have "sha_checked x"
    using plugin_sha.reach_inv [OF assms] by (simp add: open_session_def PluginForm_init_def validateSha256_def)
  then show ?thesis
    by (auto simp: PluginForm_can_submit PluginForm_handleSubmit_def truthy_sha split: option.splits)
qed

theorem plugin_button_matches_submit_witness:
  "\<exists>x :: (plugin_form, CreateWasmPluginBody) session.
     wf_sha256 (ses_form x) = ''xyz'' \<and> \<not> can_submit (PluginForm ''Save'' (ses_form x))"
proof -
  let ?x = "form_step PluginForm_update PluginForm_settle (User (WfSha ''xyz''))
              (open_session (PluginForm_init no_plugin)) :: (plugin_form, CreateWasmPluginBody) session"
  have "User (WfSha ''xyz'') \<in> form_offers (PluginForm ''Save'') WfSubmit
      (open_session (PluginForm_init no_plugin) :: (plugin_form, CreateWasmPluginBody) session)"
    by (auto simp: form_offers_def PluginForm_def view form_view_defs msgs_El is_disabled_def)
  then have "reach (form_offers (PluginForm ''Save'') WfSubmit) (form_step PluginForm_update PluginForm_settle)
      (open_session (PluginForm_init no_plugin)) ?x"
    by (intro reach.step) (auto intro: reach.intros)
  from plugin_button_matches_submit [OF this] show ?thesis
    by (intro exI [of _ ?x]) (simp add: open_session_def handleShaChange_def PluginForm_handleSubmit_def validateSha256_def)
qed

text \<open>The checksum never reaches the server: two forms that differ only in the checksum, both accepted, send
  the same request.\<close>

theorem sha256_not_sent:
  assumes "validateSha256 a = None" and "validateSha256 b = None"
  shows "snd (PluginForm_update WfSubmit (s\<lparr>wf_sha256 := a\<rparr>)) = snd (PluginForm_update WfSubmit (s\<lparr>wf_sha256 := b\<rparr>))"
  using assms by (simp add: PluginForm_handleSubmit_def)

theorem sha256_not_sent_witness:
  "snd (PluginForm_update WfSubmit ((PluginForm_init (no_plugin\<lparr>wi_name := Some ''auth''\<rparr>))\<lparr>wf_sha256 := []\<rparr>))
   = snd (PluginForm_update WfSubmit ((PluginForm_init (no_plugin\<lparr>wi_name := Some ''auth''\<rparr>))\<lparr>wf_sha256 := replicate 64 CHR ''a''\<rparr>))"
  by (rule sha256_not_sent) (simp_all add: validateSha256_None is_hex_def list_all_iff)

end
