(* ===== verification/Numbers.thy ===== *)
theory Numbers
  imports Complex_Main Prelude
begin

text \<open>
  JavaScript numbers that are not integers, as exact rationals: \<open>Math.round\<close>, \<open>toFixed\<close> and the text
  of a number.  Rounding of double precision is not modelled; \<open>NaN\<close> and the infinities, where the source can
  produce them, are \<open>None\<close> or a case of their own at the place of use.
\<close>

section \<open>Rounding\<close>

definition js_round :: "rat \<Rightarrow> int" where
  "js_round x = \<lfloor>x + 1 / 2\<rfloor>"

lemma js_round_near: "\<bar>of_int (js_round x) - x\<bar> \<le> 1 / 2"
  unfolding js_round_def using floor_correct [of "x + 1 / 2"] by linarith

lemma js_round_mono: "x \<le> y \<Longrightarrow> js_round x \<le> js_round y"
  by (simp add: js_round_def floor_mono)

lemma js_round_of_int [simp]: "js_round (of_int n) = n"
  unfolding js_round_def by (rule floor_unique) simp_all

lemma js_round_bounds: "of_int a \<le> x \<Longrightarrow> x \<le> of_int b \<Longrightarrow> a \<le> js_round x \<and> js_round x \<le> b"
  using js_round_mono [of "of_int a" x] js_round_mono [of x "of_int b"] by simp

section \<open>Fixed decimals\<close>

text \<open>
  \<open>x.toFixed(d)\<close>: the digits of the nearest multiple of \<open>10 ^ -d\<close>, halves away from zero, with
  the sign of \<open>x\<close> kept even when everything is rounded away.
\<close>

definition scaled :: "nat \<Rightarrow> rat \<Rightarrow> nat" where
  "scaled d x = nat (js_round (\<bar>x\<bar> * 10 ^ d))"

definition pad_zeros :: "nat \<Rightarrow> string \<Rightarrow> string" where
  "pad_zeros k s = replicate (k - length s) CHR ''0'' @ s"

definition toFixed :: "nat \<Rightarrow> rat \<Rightarrow> string" where
  "toFixed d x =
     (let s = pad_zeros (d + 1) (nat_digits (scaled d x));
          body = (if d = 0 then s else take (length s - d) s @ ''.'' @ drop (length s - d) s)
      in (if x < 0 then ''-'' else []) @ body)"

lemma scaled_near: "\<bar>of_nat (scaled d x) - \<bar>x\<bar> * 10 ^ d\<bar> \<le> 1 / 2"
proof -
  have "0 \<le> js_round (\<bar>x\<bar> * 10 ^ d)" using js_round_mono [of "of_int 0" "\<bar>x\<bar> * 10 ^ d"] js_round_of_int [of 0] by simp
  then have "(of_nat (scaled d x) :: rat) = of_int (js_round (\<bar>x\<bar> * 10 ^ d))" by (simp add: scaled_def)
  then show ?thesis using js_round_near by simp
qed

lemma toFixed_0: "0 \<le> x \<Longrightarrow> toFixed 0 x = str_int (js_round x)"
proof -
  assume x: "0 \<le> x"
  then have "0 \<le> js_round x" using js_round_mono [of "of_int 0" x] js_round_of_int [of 0] by simp
  moreover have "length (nat_digits n) \<noteq> 0" for n by simp
  ultimately show ?thesis using x by (auto simp: toFixed_def Let_def pad_zeros_def scaled_def str_int_def not_less Suc_le_eq)
qed

section \<open>The text of a number\<close>

text \<open>
  \<open>String(x)\<close> for a number with at most twenty decimals: the shortest text that stands for it.
\<close>

definition str_num :: "rat \<Rightarrow> string" where
  "str_num x =
     (case find (\<lambda>d. x * 10 ^ d = of_int \<lfloor>x * 10 ^ d\<rfloor>) [0..<21] of
        Some d \<Rightarrow> toFixed d x
      | None \<Rightarrow> toFixed 20 x)"

section \<open>Extrema of a list\<close>

text \<open>\<open>Math.min(...xs)\<close> and \<open>Math.max(...xs)\<close> of a nonempty list.\<close>

definition list_min :: "rat list \<Rightarrow> rat" where
  "list_min xs = fold min (tl xs) (hd xs)"

definition list_max :: "rat list \<Rightarrow> rat" where
  "list_max xs = fold max (tl xs) (hd xs)"

lemma fold_min: "fold min xs a \<in> insert a (set xs) \<and> (\<forall>x \<in> insert a (set xs). fold min xs a \<le> x)"
  for a :: "'a :: linorder"
proof (induction xs arbitrary: a)
  case (Cons b xs)
  from Cons [of "min b a"] show ?case by (auto simp: min_def split: if_splits)
qed simp

lemma fold_max: "fold max xs a \<in> insert a (set xs) \<and> (\<forall>x \<in> insert a (set xs). x \<le> fold max xs a)"
  for a :: "'a :: linorder"
proof (induction xs arbitrary: a)
  case (Cons b xs)
  from Cons [of "max b a"] show ?case by (auto simp: max_def split: if_splits)
qed simp

lemma list_min_in: "xs \<noteq> [] \<Longrightarrow> list_min xs \<in> set xs"
  using fold_min [of "tl xs" "hd xs"] by (cases xs) (auto simp: list_min_def)

lemma list_min_le: "x \<in> set xs \<Longrightarrow> list_min xs \<le> x"
  using fold_min [of "tl xs" "hd xs"] by (cases xs) (auto simp: list_min_def)

lemma list_max_in: "xs \<noteq> [] \<Longrightarrow> list_max xs \<in> set xs"
  using fold_max [of "tl xs" "hd xs"] by (cases xs) (auto simp: list_max_def)

lemma list_max_ge: "x \<in> set xs \<Longrightarrow> x \<le> list_max xs"
  using fold_max [of "tl xs" "hd xs"] by (cases xs) (auto simp: list_max_def)

end
