(* ===== verification/AIProviders.thy ===== *)
theory AIProviders
  imports Numbers Widgets Date_Utils
begin

text \<open>
  The AI providers page: \<^verbatim>\<open>src/ui/admin/src/components/ai-providers/*.tsx\<close> and
  \<^verbatim>\<open>src/ui/admin/src/pages/AIProvidersPage.tsx\<close>.  The page has no table: each provider is a card.
\<close>

section \<open>Logo\<close>

record brand =
  br_initials :: "string option"
  br_bg :: string
  br_text :: string

definition known_brand :: "string \<Rightarrow> string \<Rightarrow> brand" where
  "known_brand initials bg = \<lparr>br_initials = Some initials, br_bg = bg, br_text = ''text-white''\<rparr>"

definition PROVIDER_BRAND :: "(string \<times> brand) list" where
  "PROVIDER_BRAND =
     [(''openai'', known_brand ''OAI'' ''bg-[#10a37f]''),
      (''anthropic'', known_brand ''ANT'' ''bg-[#d97706]''),
      (''groq'', known_brand ''GRQ'' ''bg-[#f55036]''),
      (''ollama'', known_brand ''OLL'' ''bg-[#3b82f6]''),
      (''bedrock'', known_brand ''AWS'' ''bg-[#ff9900]''),
      (''cohere'', known_brand ''COH'' ''bg-[#39594d]''),
      (''mistral'', known_brand ''MIS'' ''bg-[#7c3aed]'')]"

text \<open>
  The lookup in the object literal also finds what it inherits: of the names of \<open>Object.prototype\<close> two
  are in lower case, and their value has none of the three fields.
\<close>

definition inherited_names :: "string list" where
  "inherited_names = [''constructor'', ''__proto__'']"

definition getBrand :: "string \<Rightarrow> brand" where
  "getBrand slug =
     (let normalized = toLowerCase slug in
      case map_of PROVIDER_BRAND normalized of
        Some b \<Rightarrow> b
      | None \<Rightarrow>
          if normalized \<in> set inherited_names then \<lparr>br_initials = None, br_bg = [], br_text = []\<rparr>
          else \<lparr>br_initials = Some (toUpperCase (js_slice slug 0 3)), br_bg = ''bg-navy'', br_text = ''text-white''\<rparr>)"

definition ProviderLogo :: "string \<Rightarrow> 'm node" where
  "ProviderLogo slug =
     (let b = getBrand slug in
      El ''div'' [Attr ''variant'' (br_bg b)] (case br_initials b of None \<Rightarrow> [] | Some i \<Rightarrow> [Text i]))"

section \<open>Badges and summary\<close>

text \<open>\<open>{maxTokens && ...}\<close> renders the number 0 itself.\<close>

definition ModelPolicyBadge :: "string list option \<Rightarrow> int option \<Rightarrow> 'm node" where
  "ModelPolicyBadge models maxTokens =
     (if nullish models [] = [] \<and> (maxTokens = None \<or> maxTokens = Some 0)
      then Badge (Some BvGhost) False [icon ''Cpu'', Text ''No limits'']
      else El ''div'' []
        (map (\<lambda>m. Badge (Some BvInfo) False [icon ''Cpu'', Text m]) (js_slice (nullish models []) 0 2)
         @ show_if (2 < length (nullish models []))
             [Badge (Some BvGhost) False [Text ''+'', Text (str_int (int (length (nullish models [])) - 2))]]
         @ (case maxTokens of
              None \<Rightarrow> []
            | Some n \<Rightarrow>
                if n = 0 then [Text (str_int 0)]
                else [Badge (Some BvWarning) False [Text (toFixed 0 (of_int n / 1000)), Text ''k max'']])))"

record summary_item =
  si_icon :: string
  si_label :: string
  si_value :: string
  si_muted :: bool

definition config_items :: "AiProvider \<Rightarrow> summary_item list" where
  "config_items provider =
     [\<lparr>si_icon = ''Globe'', si_label = ''Base URL'', si_value = nullish (p_base_url provider) ''Default'',
       si_muted = (\<not> truthy_str (p_base_url provider))\<rparr>,
      \<lparr>si_icon = ''Key'', si_label = ''API Key'', si_value = ''Configured via env'', si_muted = False\<rparr>,
      \<lparr>si_icon = (if p_enabled provider then ''CheckCircle2'' else ''XCircle''), si_label = ''Status'',
       si_value = (if p_enabled provider then ''Enabled'' else ''Disabled''), si_muted = (\<not> p_enabled provider)\<rparr>]"

definition ProviderConfigSummary :: "AiProvider \<Rightarrow> 'm node" where
  "ProviderConfigSummary provider =
     El ''div'' []
       (map (\<lambda>it. El ''div'' [Attr ''key'' (si_label it)]
          [icon (si_icon it), El ''span'' [] [Text (si_label it), Text '':''],
           El ''span'' [Attr ''variant'' (if si_muted it then ''muted'' else ''plain'')] [Text (si_value it)]])
        (config_items provider))"

datatype PingStatus = Online | Offline | Checking | UnknownPing

record status_config =
  sc_icon :: string
  sc_label :: string
  sc_pulse :: bool

fun STATUS_CONFIG :: "PingStatus \<Rightarrow> status_config" where
  "STATUS_CONFIG Online = \<lparr>sc_icon = ''Wifi'', sc_label = ''Online'', sc_pulse = True\<rparr>"
| "STATUS_CONFIG Offline = \<lparr>sc_icon = ''WifiOff'', sc_label = ''Offline'', sc_pulse = False\<rparr>"
| "STATUS_CONFIG Checking = \<lparr>sc_icon = ''Loader2'', sc_label = ''Checking'', sc_pulse = False\<rparr>"
| "STATUS_CONFIG UnknownPing = \<lparr>sc_icon = ''WifiOff'', sc_label = ''Unknown'', sc_pulse = False\<rparr>"

definition provider_effectiveStatus :: "bool \<Rightarrow> PingStatus option \<Rightarrow> PingStatus" where
  "provider_effectiveStatus enabled pingStatus = (if \<not> enabled then Offline else nullish pingStatus UnknownPing)"

definition ProviderHealthStatus :: "bool \<Rightarrow> PingStatus option \<Rightarrow> 'm node" where
  "ProviderHealthStatus enabled pingStatus =
     (let st = provider_effectiveStatus enabled pingStatus; cfg = STATUS_CONFIG st in
      El ''div'' []
        ([El ''svg'' ([Attr ''icon'' (sc_icon cfg)] @ (if st = Checking then [Attr ''variant'' ''spin''] else [])) [],
          El ''span'' [] [Text (sc_label cfg)]]
         @ show_if (sc_pulse cfg \<and> enabled) [El ''span'' [] [El ''span'' [] [], El ''span'' [] []]]))"

section \<open>Form\<close>

definition PROVIDER_SLUGS :: "string list" where
  "PROVIDER_SLUGS = [''openai'', ''anthropic'', ''groq'', ''ollama'', ''bedrock'', ''cohere'', ''mistral'']"

record provider_initial =
  pi_name :: "string option"
  pi_slug :: "string option"
  pi_base_url :: "string option"
  pi_enabled :: "bool option"

definition no_provider :: provider_initial where
  "no_provider = \<lparr>pi_name = None, pi_slug = None, pi_base_url = None, pi_enabled = None\<rparr>"

record provider_form =
  pf_name :: string
  pf_slug :: string
  pf_baseUrl :: string
  pf_apiKeyEnv :: string
  pf_enabled :: bool
  pf_nameEdited :: bool
  pf_loading :: bool
  pf_error :: "string option"

definition ProviderForm_init :: "provider_initial \<Rightarrow> provider_form" where
  "ProviderForm_init initial =
     \<lparr>pf_name = nullish (pi_name initial) [], pf_slug = nullish (pi_slug initial) ''openai'',
      pf_baseUrl = nullish (pi_base_url initial) [], pf_apiKeyEnv = [], pf_enabled = nullish (pi_enabled initial) True,
      pf_nameEdited = truthy_str (pi_name initial), pf_loading = False, pf_error = None\<rparr>"

definition capitalized :: "string \<Rightarrow> string" where
  "capitalized v = toUpperCase (charAt0 v) @ js_slice_from v 1"

datatype provider_form_msg =
    PfSlug string
  | PfName string
  | PfBaseUrl string
  | PfApiKeyEnv string
  | PfEnabled bool
  | PfSubmit
  | PfCancel

definition handleSlugChange :: "string \<Rightarrow> provider_form \<Rightarrow> provider_form" where
  "handleSlugChange v s =
     (let s1 = s\<lparr>pf_slug := v\<rparr> in if \<not> pf_nameEdited s then s1\<lparr>pf_name := capitalized v\<rparr> else s1)"

definition ProviderForm_handleSubmit :: "provider_form \<Rightarrow> provider_form \<times> CreateAiProviderBody option" where
  "ProviderForm_handleSubmit s =
     (if trim (pf_name s) = [] then (s, None)
      else (s\<lparr>pf_error := None, pf_loading := True\<rparr>,
            Some \<lparr>cap_name = trim (pf_name s), cap_slug = pf_slug s,
                  cap_base_url = or_undefined (trim (pf_baseUrl s)),
                  cap_api_key_env = or_undefined (trim (pf_apiKeyEnv s)), cap_enabled = Some (pf_enabled s)\<rparr>))"

fun ProviderForm_update :: "provider_form_msg \<Rightarrow> provider_form \<Rightarrow> provider_form \<times> CreateAiProviderBody option" where
  "ProviderForm_update (PfSlug v) s = (handleSlugChange v s, None)"
| "ProviderForm_update (PfName v) s = (s\<lparr>pf_name := v, pf_nameEdited := True\<rparr>, None)"
| "ProviderForm_update (PfBaseUrl v) s = (s\<lparr>pf_baseUrl := v\<rparr>, None)"
| "ProviderForm_update (PfApiKeyEnv v) s = (s\<lparr>pf_apiKeyEnv := v\<rparr>, None)"
| "ProviderForm_update (PfEnabled b) s = (s\<lparr>pf_enabled := b\<rparr>, None)"
| "ProviderForm_update PfSubmit s = ProviderForm_handleSubmit s"
| "ProviderForm_update PfCancel s = (s, None)"

definition ProviderForm_settle :: "js_thrown option \<Rightarrow> provider_form \<Rightarrow> provider_form" where
  "ProviderForm_settle r s = s\<lparr>pf_error := settled_error r (pf_error s), pf_loading := False\<rparr>"

definition ProviderForm :: "string \<Rightarrow> provider_form \<Rightarrow> provider_form_msg node list" where
  "ProviderForm submitLabel s =
     [El ''form'' [OnSubmit PfSubmit]
       ([El ''div'' []
          [form_label ''provider-slug'' ''Provider'',
           El ''div'' []
            [ProviderLogo (pf_slug s),
             El ''select'' [Attr ''id'' ''provider-slug'', Attr ''value'' (pf_slug s), OnChange PfSlug]
               (select_options (map (\<lambda>v. (v, capitalized v)) PROVIDER_SLUGS))]],
         El ''div'' []
          [form_label ''provider-name'' ''Display Name'',
           text_input ''provider-name'' (pf_name s) PfName
             [Attr ''placeholder'' ''My OpenAI Instance'', Flag ''required'' True, Flag ''autoFocus'' True]],
         El ''div'' []
          [El ''label'' [Attr ''htmlFor'' ''provider-base-url''] [Text ''Base URL '', El ''span'' [] [Text ''(optional)'']],
           text_input ''provider-base-url'' (pf_baseUrl s) PfBaseUrl [Attr ''placeholder'' ''https://api.openai.com/v1''],
           El ''p'' [] [Text ''Override the default API endpoint (e.g., for proxies)'']],
         El ''div'' []
          [El ''label'' [Attr ''htmlFor'' ''provider-api-key-env''] [Text ''API Key Env Var '', El ''span'' [] [Text ''(optional)'']],
           text_input ''provider-api-key-env'' (pf_apiKeyEnv s) PfApiKeyEnv [Attr ''placeholder'' ''OPENAI_API_KEY''],
           El ''p'' [] [Text ''Environment variable name containing the API key'']],
         El ''div'' []
          [form_label ''provider-enabled'' ''Enabled'',
           checkbox ''provider-enabled'' (pf_enabled s) PfEnabled,
           El ''span'' [] [Text (if pf_enabled s then ''Provider is active'' else ''Provider is disabled'')]]]
        @ error_text (pf_error s)
        @ [form_buttons PfCancel (pf_loading s) (trim (pf_name s) = []) ''Saving'' submitLabel])]"

section \<open>Row actions, detail panel\<close>

datatype provider_row_event = ProviderDeleted

definition provider_deleteMut :: "AiProvider \<Rightarrow> (string, provider_row_event) mutation_options" where
  "provider_deleteMut p = useDeleteAiProvider (p_tenant_id p) (Some ProviderDeleted)"

definition provider_row_toast :: "provider_row_event \<Rightarrow> toast_request" where
  "provider_row_toast e = success_toast ''Provider deleted''"

definition provider_row_call :: "AiProvider \<Rightarrow> row_out \<Rightarrow> api_call option" where
  "provider_row_call p out =
     (if out = OutDelete then Some (mutationFn (provider_deleteMut p) (p_id p)) else None)"

definition ProviderRowActions :: "AiProvider \<Rightarrow> row_state \<Rightarrow> row_msg node list" where
  "ProviderRowActions p s =
     [row_button ''Delete provider'' RowAskDelete ''Trash2'']
     @ delete_dialog ''Delete AI provider''
         (''This will permanently delete '' @ dquote @ p_name p @ dquote @ ''. Routes using this provider will stop working.'') s"

definition ProviderDetailPanel :: "date_env \<Rightarrow> AiProvider option \<Rightarrow> 'm \<Rightarrow> 'm node list" where
  "ProviderDetailPanel env provider onClose =
     panel_frame onClose provider (\<lambda>p.
       [El ''div'' []
         [El ''div'' []
           [El ''div'' []
             [ProviderLogo (p_slug p),
              El ''div'' [] [El ''h3'' [] [Text (p_name p)], El ''p'' [] [Text (p_slug p)]]],
            close_button onClose],
          El ''div'' []
           [El ''div'' [] [status_badge (p_enabled p) ''Enabled'' ''Disabled''],
            El ''div'' []
             [Field ''Provider ID'' (p_id p) True True,
              Field ''Name'' (p_name p) False False,
              Field ''Slug'' (p_slug p) True False,
              Field ''Tenant ID'' (p_tenant_id p) True True,
              Field ''Created'' (formatDateTime env (p_created_at p)) False False,
              Field ''Updated'' (formatDateTime env (p_updated_at p)) False False],
            El ''div'' [] [El ''p'' [] [Text ''Configuration''], ProviderConfigSummary p]]]])"

section \<open>Page\<close>

record providers_page =
  pp_selectedTenant :: string
  pp_creating :: bool
  pp_selected :: "AiProvider option"

definition AIProvidersPage_init :: providers_page where
  "AIProvidersPage_init = \<lparr>pp_selectedTenant = [], pp_creating = False, pp_selected = None\<rparr>"

datatype providers_msg =
    PpTenant string
  | PpCreating bool
  | PpSelected "AiProvider option"

fun AIProvidersPage_update :: "providers_msg \<Rightarrow> providers_page \<Rightarrow> providers_page" where
  "AIProvidersPage_update (PpTenant v) s = s\<lparr>pp_selectedTenant := v\<rparr>"
| "AIProvidersPage_update (PpCreating b) s = s\<lparr>pp_creating := b\<rparr>"
| "AIProvidersPage_update (PpSelected p) s = s\<lparr>pp_selected := p\<rparr>"

datatype providers_event = ProviderCreated

definition providers_createMut :: "providers_page \<Rightarrow> (CreateAiProviderBody, providers_event) mutation_options" where
  "providers_createMut s = useCreateAiProvider (pp_selectedTenant s) (Some ProviderCreated)"

fun providers_on_event :: "providers_event \<Rightarrow> providers_page \<Rightarrow> providers_page \<times> toast_request" where
  "providers_on_event ProviderCreated s = (s\<lparr>pp_creating := False\<rparr>, success_toast ''AI Provider added'')"

definition ProviderHealthIndicator :: "bool \<Rightarrow> 'm node" where
  "ProviderHealthIndicator enabled =
     El ''div'' []
       [El ''span'' [Attr ''variant'' (if enabled then ''emerald'' else ''gray'')] [],
        El ''span'' [] [Text (if enabled then ''Online'' else ''Offline'')]]"

text \<open>The actions stand in a part of the card that stops the propagation of clicks.\<close>

definition ProviderCard :: "AiProvider \<Rightarrow> 'm \<Rightarrow> 'm node" where
  "ProviderCard provider onClick =
     El ''div'' [OnClick onClick]
       [El ''div'' []
         [El ''div'' []
           [ProviderLogo (p_slug provider),
            El ''div'' [] [El ''p'' [] [Text (p_name provider)], El ''p'' [] [Text (p_slug provider)]]],
          El ''div'' [] [Comp ''ProviderRowActions'' [Attr ''provider'' (p_id provider)]]],
        El ''div'' [] [ProviderConfigSummary provider],
        El ''div'' [] [status_badge (p_enabled provider) ''Active'' ''Inactive'', ProviderHealthIndicator (p_enabled provider)]]"

definition AIProvidersPage_body :: "AiProvider query_result \<Rightarrow> providers_page \<Rightarrow> providers_msg node" where
  "AIProvidersPage_body q s =
     (if pp_selectedTenant s = [] then select_hint ''Cpu'' ''Select a tenant to view its AI providers.''
      else if qr_isLoading q then El ''div'' [] [Spinner]
      else if qr_isError q then El ''div'' [] [El ''p'' [] [Text ''Failed to load AI providers. Is the control API running?'']]
      else if query_data q = []
      then El ''div'' []
        [icon ''Cpu'', El ''p'' [] [Text ''No AI providers yet''],
         El ''p'' [] [Text ''Add your first AI provider to start routing model requests.''],
         El ''button'' [OnClick (PpCreating True)] [icon ''Plus'', Text '' Add Provider'']]
      else El ''div'' [] (map (\<lambda>p. ProviderCard p (PpSelected (Some p))) (query_data q)))"

definition AIProvidersPage ::
    "date_env \<Rightarrow> Tenant query_result \<Rightarrow> AiProvider query_result \<Rightarrow> providers_page \<Rightarrow> providers_msg node list" where
  "AIProvidersPage env tq q s =
     [El ''div'' []
       ([PageHeader ''AI Providers'' (Some ''Configure AI model providers and their API connections.'')
           (Some [new_button (PpCreating True) (pp_selectedTenant s) '' Add Provider'']) None,
         tenant_select ''ai-tenant-select'' (query_data tq) (pp_selectedTenant s) PpTenant,
         AIProvidersPage_body q s]
        @ Modal (pp_creating s) (PpCreating False) (Some ''Add AI Provider'')
            (Some ''Connect an AI model provider to this tenant.'')
            [Comp ''ProviderForm'' [Attr ''submitLabel'' ''Add Provider'', OnEvent ''onCancel'' (PpCreating False)]]
        @ ProviderDetailPanel env (pp_selected s) (PpSelected None))]"

section \<open>The contracts\<close>

definition provider_body_ok :: "CreateAiProviderBody \<Rightarrow> bool" where
  "provider_body_ok b \<longleftrightarrow>
     cap_name b \<noteq> [] \<and> trim (cap_name b) = cap_name b \<and> cap_base_url b \<noteq> Some [] \<and> cap_api_key_env b \<noteq> Some []"

lemma ProviderLogo_view [view]:
  "msgs (ProviderLogo slug) = {}" "elements t (ProviderLogo slug) = (if t = ''div'' then [ProviderLogo slug] else [])"
  by (auto simp: ProviderLogo_def Let_def msgs_El split: option.splits)

lemma ProviderForm_can_submit:
  "can_submit (ProviderForm lbl s) \<longleftrightarrow> \<not> pf_loading s \<and> trim (pf_name s) \<noteq> []"
  by (auto simp: can_submit_def ProviderForm_def form_view_defs is_submit_button_def is_disabled_def
      select_options_def PROVIDER_SLUGS_def view split: option.splits)

interpretation provider_submit: submit_form "ProviderForm lbl" PfSubmit ProviderForm_update ProviderForm_settle
    pf_loading provider_body_ok for lbl
proof (unfold_locales, goal_cases)
  case (1 s)
  then show ?case by (simp add: ProviderForm_can_submit)
next
  case (2 m s)
  then show ?case by (cases m) (auto simp: handleSlugChange_def Let_def)
next
  case (3 s)
  then show ?case by (auto simp: ProviderForm_handleSubmit_def split: if_splits)
next
  case (4 s b)
  then show ?case by (auto simp: ProviderForm_handleSubmit_def provider_body_ok_def or_undefined_def split: if_splits)
next
  case (5 r s)
  then show ?case by (simp add: ProviderForm_settle_def)
qed

interpretation provider_row: row_actions "ProviderRowActions p" for p
  by unfold_locales (auto simp: ProviderRowActions_def view split: if_splits)

section \<open>The name that follows the provider\<close>

definition run_provider_form :: "provider_form_msg list \<Rightarrow> provider_form \<Rightarrow> provider_form" where
  "run_provider_form ms s = fold (\<lambda>m s. fst (ProviderForm_update m s)) ms s"

text \<open>What the name should be: the last text typed into it, else the capitalised last choice.\<close>

definition typed_names :: "provider_form_msg list \<Rightarrow> string list" where
  "typed_names ms = concat (map (\<lambda>m. case m of PfName v \<Rightarrow> [v] | _ \<Rightarrow> []) ms)"

definition chosen_slugs :: "provider_form_msg list \<Rightarrow> string list" where
  "chosen_slugs ms = concat (map (\<lambda>m. case m of PfSlug v \<Rightarrow> [v] | _ \<Rightarrow> []) ms)"

definition expected_name :: "string \<Rightarrow> bool \<Rightarrow> provider_form_msg list \<Rightarrow> string" where
  "expected_name old edited ms =
     (if typed_names ms \<noteq> [] then last (typed_names ms)
      else if edited \<or> chosen_slugs ms = [] then old
      else capitalized (last (chosen_slugs ms)))"

lemma run_provider_form_name:
  "pf_name (run_provider_form ms s) = expected_name (pf_name s) (pf_nameEdited s) ms
   \<and> pf_nameEdited (run_provider_form ms s) = (pf_nameEdited s \<or> typed_names ms \<noteq> [])
   \<and> pf_slug (run_provider_form ms s) = (if chosen_slugs ms = [] then pf_slug s else last (chosen_slugs ms))"
proof (induction ms rule: rev_induct)
  case Nil
  then show ?case by (simp add: run_provider_form_def expected_name_def typed_names_def chosen_slugs_def)
next
  case (snoc m ms)
  then show ?case
    by (cases m) (auto simp: run_provider_form_def expected_name_def typed_names_def chosen_slugs_def
        handleSlugChange_def Let_def ProviderForm_handleSubmit_def)
qed

section \<open>Properties\<close>

text \<open>C29: The display name of the provider form is the text typed last; as long as nothing was typed (and the form did
  not open with a name) it is the capitalised name of the provider chosen last, and choosing a provider
  never overwrites a typed name.  The provider is the one chosen last.\<close>

theorem provider_name_follows_choice:
  "pf_name (run_provider_form ms (ProviderForm_init initial)) =
     (if typed_names ms \<noteq> [] then last (typed_names ms)
      else if truthy_str (pi_name initial) \<or> chosen_slugs ms = [] then nullish (pi_name initial) []
      else capitalized (last (chosen_slugs ms)))
   \<and> pf_slug (run_provider_form ms (ProviderForm_init initial)) =
       last (nullish (pi_slug initial) ''openai'' # chosen_slugs ms)"
  by (simp add: run_provider_form_name expected_name_def ProviderForm_init_def)

end
