(* ===== verification/Regions.thy ===== *)
theory Regions
  imports Widgets Date_Utils
begin

text \<open>
  The regions page: \<^verbatim>\<open>src/ui/admin/src/components/regions/*.tsx\<close> and
  \<^verbatim>\<open>src/ui/admin/src/pages/RegionsPage.tsx\<close>.
\<close>

section \<open>Brokers\<close>

definition broker_list :: "string \<Rightarrow> string list" where
  "broker_list kafkaBrokers = filter (\<lambda>b. 0 < length b) (map trim (split_on (CHR '','') kafkaBrokers))"

definition BrokerListDisplay :: "string \<Rightarrow> 'm node" where
  "BrokerListDisplay kafkaBrokers =
     (let brokers = broker_list kafkaBrokers in
      El ''div'' []
        (map (\<lambda>broker. El ''span'' [Attr ''title'' broker] [Text broker]) brokers
         @ show_if (length brokers = 0) [El ''span'' [] [Text ''No brokers configured'']]))"

definition brokerCount :: "string \<Rightarrow> nat" where
  "brokerCount kafkaBrokers = length (filter (\<lambda>b. 0 < length (trim b)) (split_on (CHR '','') kafkaBrokers))"

section \<open>Card, bar of counts, status\<close>

definition RegionCard :: "date_env \<Rightarrow> Region \<Rightarrow> 'm node list \<Rightarrow> 'm node" where
  "RegionCard env region actions =
     El ''div'' []
       [El ''div'' []
         [El ''div'' []
           [El ''div'' [] [icon ''Server''],
            El ''div'' []
             [El ''h3'' [] [Text (rg_name region)],
              El ''p'' []
               [Text (str_int (int (brokerCount (rg_kafka_brokers region)))), Text '' broker'',
                Text (if brokerCount (rg_kafka_brokers region) \<noteq> 1 then ''s'' else [])]]],
          El ''div'' []
           ([Badge (Some (if rg_is_primary region then BvGold else BvOutline)) False
               [Text (if rg_is_primary region then ''Primary'' else ''Secondary'')]] @ actions)],
        El ''div'' [] [El ''p'' [Attr ''title'' (rg_kafka_brokers region)] [Text (rg_kafka_brokers region)]],
        El ''p'' [] [Text ''Created '', Text (formatDistanceToNow env (rg_created_at region)), Text '' ago'']]"

definition region_counts :: "Region list \<Rightarrow> (string \<times> nat \<times> string) list" where
  "region_counts regions =
     (let total_regions = length regions; primary = length (filter rg_is_primary regions) in
      [(''Total Regions'', total_regions, ''Globe''), (''Primary'', primary, ''Star''),
       (''Secondary'', total_regions - primary, ''Radio'')])"

definition RegionStatsBar :: "Region list \<Rightarrow> 'm node" where
  "RegionStatsBar regions =
     El ''div'' []
       (map (\<lambda>(label, value, ic).
          El ''div'' []
            [El ''div'' [] [icon ic],
             El ''div'' [] [El ''p'' [] [Text (str_int (int value))], El ''p'' [] [Text label]]])
        (region_counts regions))"

datatype ReplicationStatus = Idle | Syncing | ReplError

fun statusConfig :: "ReplicationStatus \<Rightarrow> string" where
  "statusConfig Idle = ''Idle''"
| "statusConfig Syncing = ''Syncing''"
| "statusConfig ReplError = ''Error''"

definition RegionStatusIndicator :: "ReplicationStatus \<Rightarrow> 'm node" where
  "RegionStatusIndicator status =
     El ''span'' [] [El ''span'' [Attr ''variant'' (statusConfig status)] [], El ''span'' [] [Text (statusConfig status)]]"

section \<open>Form\<close>

record region_form =
  gf_name :: string
  gf_kafkaBrokers :: string
  gf_isPrimary :: bool
  gf_loading :: bool

definition RegionForm_init :: region_form where
  "RegionForm_init = \<lparr>gf_name = [], gf_kafkaBrokers = [], gf_isPrimary = False, gf_loading = False\<rparr>"

datatype region_form_msg =
    GfName string
  | GfBrokers string
  | GfTogglePrimary
  | GfSubmit
  | GfCancel

definition RegionForm_handleSubmit :: "region_form \<Rightarrow> region_form \<times> CreateRegionBody option" where
  "RegionForm_handleSubmit s =
     (if trim (gf_name s) = [] \<or> trim (gf_kafkaBrokers s) = [] then (s, None)
      else (s\<lparr>gf_loading := True\<rparr>,
            Some \<lparr>crg_name = trim (gf_name s), crg_kafka_brokers = trim (gf_kafkaBrokers s),
                  crg_is_primary = Some (gf_isPrimary s)\<rparr>))"

fun RegionForm_update :: "region_form_msg \<Rightarrow> region_form \<Rightarrow> region_form \<times> CreateRegionBody option" where
  "RegionForm_update (GfName v) s = (s\<lparr>gf_name := v\<rparr>, None)"
| "RegionForm_update (GfBrokers v) s = (s\<lparr>gf_kafkaBrokers := v\<rparr>, None)"
| "RegionForm_update GfTogglePrimary s = (s\<lparr>gf_isPrimary := \<not> gf_isPrimary s\<rparr>, None)"
| "RegionForm_update GfSubmit s = RegionForm_handleSubmit s"
| "RegionForm_update GfCancel s = (s, None)"

text \<open>There is no \<open>catch\<close>: whatever the outcome, only \<open>loading\<close> is reset.\<close>

definition RegionForm_settle :: "js_thrown option \<Rightarrow> region_form \<Rightarrow> region_form" where
  "RegionForm_settle r s = s\<lparr>gf_loading := False\<rparr>"

definition RegionForm :: "string \<Rightarrow> region_form \<Rightarrow> region_form_msg node list" where
  "RegionForm submitLabel s =
     [El ''form'' [OnSubmit GfSubmit]
       [El ''div'' []
         [form_label ''region-name'' ''Region Name'',
          text_input ''region-name'' (gf_name s) GfName
            [Attr ''placeholder'' ''e.g. us-east-1'', Flag ''required'' True, Flag ''autoFocus'' True]],
        El ''div'' []
         [form_label ''region-brokers'' ''Kafka Brokers'',
          text_input ''region-brokers'' (gf_kafkaBrokers s) GfBrokers
            [Attr ''placeholder'' ''broker1:9092,broker2:9092,broker3:9092'', Flag ''required'' True],
          El ''p'' [] [Text ''Comma-separated list of Kafka broker addresses.'']],
        El ''div'' []
         [El ''button'' [Attr ''type'' ''button'', Attr ''role'' ''switch'', Flag ''aria-checked'' (gf_isPrimary s), OnClick GfTogglePrimary]
            [El ''span'' [] []],
          El ''span'' [] [Text ''Primary region'']],
        El ''div'' []
         [El ''button'' [Attr ''type'' ''button'', OnClick GfCancel, Flag ''disabled'' (gf_loading s)] [Text ''Cancel''],
          El ''button'' [Attr ''type'' ''submit'',
              Flag ''disabled'' (gf_loading s \<or> trim (gf_name s) = [] \<or> trim (gf_kafkaBrokers s) = [])]
            [Text (if gf_loading s then ''Creating'' @ ellipsis else submitLabel)]]]]"

section \<open>Row actions\<close>

text \<open>
  The dialog closes in the mutation's \<open>onSuccess\<close>: as with the other rows it stays open
  when the delete fails.
\<close>

datatype region_row_event = RegionDeleted

definition region_deleteMut :: "(string, region_row_event) mutation_options" where
  "region_deleteMut = useDeleteRegion (Some RegionDeleted)"

definition region_row_toast :: "Region \<Rightarrow> region_row_event \<Rightarrow> toast_request" where
  "region_row_toast region e = success_toast (''Region '' @ dquote @ rg_name region @ dquote @ '' deleted'')"

definition region_row_call :: "Region \<Rightarrow> row_out \<Rightarrow> api_call option" where
  "region_row_call region out = (if out = OutDelete then Some (mutationFn region_deleteMut (rg_id region)) else None)"

definition RegionRowActions :: "Region \<Rightarrow> row_state \<Rightarrow> row_msg node list" where
  "RegionRowActions region s =
     [El ''button'' [OnClick RowAskDelete, Attr ''aria-label'' (''Delete region '' @ rg_name region), Attr ''title'' ''Delete region'']
        [icon ''Trash2'']]
     @ delete_dialog ''Delete Region''
         (''Are you sure you want to delete '' @ dquote @ rg_name region @ dquote @ ''? This action cannot be undone.'') s"

section \<open>Page\<close>

record regions_page =
  gp_creating :: bool

definition RegionsPage_init :: regions_page where
  "RegionsPage_init = \<lparr>gp_creating = False\<rparr>"

datatype regions_msg = GpCreating bool

fun RegionsPage_update :: "regions_msg \<Rightarrow> regions_page \<Rightarrow> regions_page" where
  "RegionsPage_update (GpCreating b) s = s\<lparr>gp_creating := b\<rparr>"

datatype regions_event = RegionCreated

definition regions_createMut :: "(CreateRegionBody, regions_event) mutation_options" where
  "regions_createMut = useCreateRegion (Some RegionCreated)"

fun regions_on_event :: "regions_event \<Rightarrow> regions_page \<Rightarrow> regions_page \<times> toast_request" where
  "regions_on_event RegionCreated s = (s\<lparr>gp_creating := False\<rparr>, success_toast ''Region created'')"

definition replication_group :: "Region list \<Rightarrow> string" where
  "replication_group regionList =
     ''barqium-mm2-''
     @ (if 0 < length regionList then nullish (map_option rg_name (find rg_is_primary regionList)) ''primary'' else ''primary'')
     @ ''-replication''"

definition active_regions :: "Region list \<Rightarrow> string" where
  "active_regions regionList =
     (if 0 < length regionList then join ('' '' @ right_arrow @ '' '') (map rg_name regionList) else ''No regions configured'')"

definition mirror_maker_info :: "Region list \<Rightarrow> 'm node" where
  "mirror_maker_info regionList =
     El ''div'' [] [El ''div'' []
       [El ''div'' [] [icon ''GitMerge''],
        El ''div'' []
         [El ''div'' [] [El ''h3'' [] [Text ''MirrorMaker 2 Replication''], El ''span'' [] [icon ''Info'', Text '' How it works'']],
          El ''p'' []
           [Text ''Barqium uses Kafka MirrorMaker 2 to replicate configuration changes across regions in near-real-time. Each region receives a copy of the routing and policy config via a dedicated replication group.''],
          El ''div'' []
           [El ''div'' [] [El ''p'' [] [Text ''Replication Group ID''], El ''p'' [] [Text (replication_group regionList)]],
            El ''div'' [] [El ''p'' [] [Text ''Active Regions''], El ''p'' [] [Text (active_regions regionList)]]]]]]"

definition RegionsPage_body :: "date_env \<Rightarrow> Region query_result \<Rightarrow> regions_msg node" where
  "RegionsPage_body env q =
     (if qr_isLoading q then El ''div'' [] (replicate 3 (El ''div'' [] []))
      else if length (query_data q) = 0
      then El ''div'' []
        [EmptyState (Some ''Globe'') ''No regions configured''
           (Some ''Add a region to enable multi-region deployment with Kafka-based replication.'')
           (Some [El ''button'' [OnClick (GpCreating True)] [icon ''Plus'', Text '' New Region'']])]
      else El ''div'' []
        (map (\<lambda>region. RegionCard env region [Comp ''RegionRowActions'' [Attr ''region'' (rg_id region)]]) (query_data q)))"

definition RegionsPage :: "date_env \<Rightarrow> Region query_result \<Rightarrow> regions_page \<Rightarrow> regions_msg node list" where
  "RegionsPage env q s =
     (let regionList = query_data q in
      [El ''div'' []
        ([PageHeader ''Regions'' (Some ''Manage multi-region deployments and Kafka replication topology.'')
            (Some [El ''button'' [OnClick (GpCreating True)] [icon ''Plus'', Text '' New Region'']]) None]
         @ show_if (0 < length regionList) [El ''div'' [] [RegionStatsBar regionList]]
         @ load_error (qr_isError q) ''Failed to load regions.''
         @ [RegionsPage_body env q, mirror_maker_info regionList]
         @ Modal (gp_creating s) (GpCreating False) (Some ''New Region'') (Some ''Add a region to the multi-region topology.'')
             [Comp ''RegionForm'' [OnEvent ''onCancel'' (GpCreating False)]])])"

section \<open>The contracts\<close>

definition region_body_ok :: "CreateRegionBody \<Rightarrow> bool" where
  "region_body_ok b \<longleftrightarrow>
     crg_name b \<noteq> [] \<and> trim (crg_name b) = crg_name b
     \<and> crg_kafka_brokers b \<noteq> [] \<and> trim (crg_kafka_brokers b) = crg_kafka_brokers b"

lemma RegionForm_can_submit:
  "can_submit (RegionForm lbl s) \<longleftrightarrow> \<not> gf_loading s \<and> trim (gf_name s) \<noteq> [] \<and> trim (gf_kafkaBrokers s) \<noteq> []"
  by (auto simp: can_submit_def RegionForm_def form_view_defs is_submit_button_def is_disabled_def)

interpretation region_submit: submit_form "RegionForm lbl" GfSubmit RegionForm_update RegionForm_settle
    gf_loading region_body_ok for lbl
proof (unfold_locales, goal_cases)
  case (1 s)
  then show ?case by (simp add: RegionForm_can_submit)
next
  case (2 m s)
  then show ?case by (cases m) auto
next
  case (3 s)
  then show ?case by (auto simp: RegionForm_handleSubmit_def split: if_splits)
next
  case (4 s b)
  then show ?case by (auto simp: RegionForm_handleSubmit_def region_body_ok_def split: if_splits)
next
  case (5 r s)
  then show ?case by (simp add: RegionForm_settle_def)
qed

interpretation region_row: row_actions "RegionRowActions p" for p
  by unfold_locales (auto simp: RegionRowActions_def view split: if_splits)

section \<open>Properties\<close>

lemma brokerCount_length: "brokerCount s = length (broker_list s)"
  by (simp add: brokerCount_def broker_list_def filter_map comp_def)

lemma broker_list_items:
  "b \<in> set (broker_list s) \<Longrightarrow> b \<noteq> [] \<and> trim b = b \<and> CHR '','' \<notin> set b"
  using split_on_sep_free [of _ "CHR '',''" s] set_trim by (fastforce simp: broker_list_def)

lemma broker_list_join:
  assumes "\<forall>b \<in> set bs. b \<noteq> [] \<and> trim b = b \<and> CHR '','' \<notin> set b"
  shows "broker_list (join '','' bs) = bs"
proof (cases "bs = []")
  case False
  then have "split_on (CHR '','') (join '','' bs) = bs" using assms by (intro split_on_join) auto
  moreover have "map trim bs = bs" using assms by (simp add: map_idI)
  ultimately show ?thesis using assms by (simp add: broker_list_def filter_id_conv)
qed (simp add: broker_list_def)

text \<open>The number of brokers on a region's card is the number of brokers that the broker list shows; each
  of them is nonempty, trimmed and free of commas, and joining them with commas gives a text with the
  same brokers.\<close>

theorem broker_count_matches_list:
  "brokerCount kafkaBrokers = length (broker_list kafkaBrokers)
   \<and> (\<forall>b. b \<in> set (broker_list kafkaBrokers) \<longrightarrow> b \<noteq> [] \<and> trim b = b \<and> CHR '','' \<notin> set b)
   \<and> broker_list (join '','' (broker_list kafkaBrokers)) = broker_list kafkaBrokers"
  using brokerCount_length broker_list_items broker_list_join by blast

theorem broker_count_matches_list_witness:
  "brokerCount '' a:1, ,b:2,'' = 2 \<and> trim ''b:2'' = ''b:2''"
  using broker_count_matches_list [of "'' a:1, ,b:2,''"]
  by (simp add: broker_list_def trim_def trimStart_def is_space_def)

end
