(* ===== verification/Json_Indent.thy ===== *)
theory Json_Indent
  imports Json
begin

text \<open>
  \<open>JSON.stringify(x, null, 2)\<close>, which the checkpoint viewer and the audit log show, and that its text
  without white space is the plain JSON text; so the indented text determines the value too.
\<close>

section \<open>Printing\<close>

text \<open>\<open>JSON.stringify(x, null, 2)\<close>; the first argument is the indentation of the line.\<close>

abbreviation newline :: string where "newline \<equiv> [CHR 0x0A]"

fun stringify_indent :: "string \<Rightarrow> json \<Rightarrow> string" where
  "stringify_indent ind (JArr js) =
     (if js = [] then ''[]''
      else ''['' @ newline
           @ join ('','' @ newline) (map (\<lambda>j. ind @ ''  '' @ stringify_indent (ind @ ''  '') j) js)
           @ newline @ ind @ '']'')"
| "stringify_indent ind (JObj kvs) =
     (if kvs = [] then ''{}''
      else ''{'' @ newline
           @ join ('','' @ newline)
               (map (\<lambda>(k, v). ind @ ''  '' @ json_quote k @ '': '' @ stringify_indent (ind @ ''  '') v) kvs)
           @ newline @ ind @ ''}'')"
| "stringify_indent ind j = stringify j"

section \<open>Indented text and plain text\<close>

text \<open>White space outside string literals taken out of a JSON text.\<close>

fun minify :: "string \<Rightarrow> string" and minify_string :: "string \<Rightarrow> string" where
  "minify [] = []"
| "minify (c # cs) =
     (if c = CHR 0x22 then c # minify_string cs
      else if c = CHR 0x20 \<or> c = CHR 0x0A then minify cs
      else c # minify cs)"
| "minify_string [] = []"
| "minify_string [c] = [c]"
| "minify_string (c # d # cs) =
     (if c = backslash then c # d # minify_string cs
      else if c = CHR 0x22 then c # minify (d # cs)
      else c # minify_string (d # cs))"

lemma minify_string_plain: "c \<noteq> backslash \<Longrightarrow> c \<noteq> CHR 0x22 \<Longrightarrow> minify_string (c # cs) = c # minify_string cs"
  by (cases cs) simp_all

lemma minify_string_end: "minify_string (CHR 0x22 # cs) = CHR 0x22 # minify cs"
  by (cases cs) simp_all

lemma hex_digit_plain: "n < 16 \<Longrightarrow> hex_digit n \<noteq> backslash \<and> hex_digit n \<noteq> CHR 0x22"
  by (auto simp: hex_digit_def dest!: arg_cong [where f = "of_char :: char \<Rightarrow> nat"] split: if_splits)

lemma minify_escape: "minify_string (json_escape_char c @ xs) = json_escape_char c @ minify_string xs"
proof (cases c rule: json_escape_cases)
  case plain
  moreover have "c \<noteq> CHR 0x22" using plain(1) by (auto simp: json_escape_char_def)
  ultimately show ?thesis by (simp add: minify_string_plain)
next
  case (short l)
  then show ?thesis by simp
next
  case hex
  have "code c div 16 < 16" "code c mod 16 < 16" using hex(2) by simp_all
  then show ?thesis using hex(1) by (simp add: minify_string_plain hex_digit_plain)
qed

lemma minify_quote: "minify (json_quote s @ xs) = json_quote s @ minify xs"
proof -
  have "minify_string (concat (map json_escape_char s) @ CHR 0x22 # xs) =
        concat (map json_escape_char s) @ CHR 0x22 # minify xs"
    by (induction s) (simp_all add: minify_string_end minify_escape)
  then show ?thesis by (simp add: json_quote_def)
qed

lemma minify_plain:
  "\<forall>c \<in> set s. c \<notin> {CHR 0x22, CHR 0x20, CHR 0x0A} \<Longrightarrow> minify (s @ xs) = s @ minify xs"
  by (induction s) auto

lemma minify_spaces: "set s \<subseteq> {CHR 0x20, CHR 0x0A} \<Longrightarrow> minify (s @ xs) = minify xs"
  by (induction s) auto

lemma minify_str_int: "minify (str_int n @ xs) = str_int n @ minify xs"
proof (rule minify_plain)
  have "is_digit c \<Longrightarrow> c \<notin> {CHR 0x22, CHR 0x20, CHR 0x0A}" for c by (auto simp: is_digit_def)
  then show "\<forall>c \<in> set (str_int n). c \<notin> {CHR 0x22, CHR 0x20, CHR 0x0A}"
    using nat_digits_is_digit by (auto simp: str_int_def)
qed

lemma minify_join:
  assumes "\<And>x r. x \<in> set xs \<Longrightarrow> minify (f x @ r) = g x @ minify r"
  shows "minify (join ('','' @ newline) (map f xs) @ r) = join '','' (map g xs) @ minify r"
  using assms
proof (induction xs)
  case (Cons x xs)
  show ?case
  proof (cases xs)
    case (Cons y ys)
    have "minify (join ('','' @ newline) (map f (x # xs)) @ r)
        = minify (f x @ CHR '','' # CHR 0x0A # join ('','' @ newline) (map f xs) @ r)"
      using Cons by simp
    also have "\<dots> = g x @ CHR '','' # minify (join ('','' @ newline) (map f xs) @ r)"
      using Cons.prems [of x] by simp
    finally show ?thesis using Cons.IH Cons.prems Cons by simp
  qed (use Cons.prems in simp)
qed simp

lemma minify_stringify_indent:
  "set ind \<subseteq> {CHR 0x20} \<Longrightarrow> minify (stringify_indent ind j @ r) = stringify j @ minify r"
proof (induction ind j arbitrary: r rule: stringify_indent.induct)
  case (1 ind js)
  have sp: "minify (ind @ xs) = minify xs" for xs using 1 by (intro minify_spaces) auto
  have step: "minify ((ind @ ''  '' @ stringify_indent (ind @ ''  '') j) @ s) = stringify j @ minify s" if "j \<in> set js" for j s
    using 1(1) [of j s] 1(2) that sp by force
  have "minify (join ('','' @ newline) (map (\<lambda>j. ind @ ''  '' @ stringify_indent (ind @ ''  '') j) js) @ s)
      = join '','' (map stringify js) @ minify s" for s
    by (rule minify_join) (rule step)
  then show ?case using sp by simp
next
  case (2 ind kvs)
  have sp: "minify (ind @ xs) = minify xs" for xs using 2 by (intro minify_spaces) auto
  have step: "minify ((case p of (k, v) \<Rightarrow> ind @ ''  '' @ json_quote k @ '': '' @ stringify_indent (ind @ ''  '') v) @ s)
      = (case p of (k, v) \<Rightarrow> json_quote k @ '':'' @ stringify v) @ minify s" if "p \<in> set kvs" for p s
  proof (cases p)
    case (Pair k v)
    have "minify (stringify_indent (ind @ ''  '') v @ s) = stringify v @ minify s"
      using 2(1) [of p k v s] 2(2) that Pair by force
    then show ?thesis using Pair sp by (simp add: minify_quote)
  qed
  have "minify (join ('','' @ newline)
          (map (\<lambda>(k, v). ind @ ''  '' @ json_quote k @ '': '' @ stringify_indent (ind @ ''  '') v) kvs) @ s)
      = join '','' (map (\<lambda>(k, v). json_quote k @ '':'' @ stringify v) kvs) @ minify s" for s
    by (rule minify_join) (rule step)
  then show ?case using sp by simp
qed (simp_all add: minify_quote minify_str_int)

lemma stringify_indent_inject: "stringify_indent [] j = stringify_indent [] k \<Longrightarrow> j = k"
  using minify_stringify_indent [of "[]" j "[]"] minify_stringify_indent [of "[]" k "[]"]
  by (auto intro: stringify_inject)

end
