(* ===== verification/Checkpoints.thy ===== *)
theory Checkpoints
  imports Json_Indent Widgets Date_Utils
begin

text \<open>
  The checkpoints page: \<^verbatim>\<open>src/ui/admin/src/components/checkpoints/*.tsx\<close> and
  \<^verbatim>\<open>src/ui/admin/src/pages/CheckpointsPage.tsx\<close>: the timeline, the viewer that shows a snapshot beside
  the one before it, and the rollback behind a confirmation.
\<close>

section \<open>Cards, badge, timeline\<close>

definition SequenceBadge :: "int \<Rightarrow> 'm node" where
  "SequenceBadge sequence =
     El ''span'' [Attr ''title'' (''Sequence #'' @ str_int sequence)] [Text ''#'', Text (str_int sequence)]"

text \<open>\<open>note || ...\<close>: an absent note and an empty one are replaced alike.\<close>

definition checkpoint_title :: "Checkpoint \<Rightarrow> string" where
  "checkpoint_title checkpoint =
     (if truthy_str (cp_note checkpoint) then nullish (cp_note checkpoint) []
      else ''Checkpoint #'' @ str_int (cp_sequence checkpoint))"

definition CheckpointCard :: "date_env \<Rightarrow> Checkpoint \<Rightarrow> bool \<Rightarrow> (Checkpoint \<Rightarrow> 'm) option \<Rightarrow> 'm node" where
  "CheckpointCard env checkpoint isLatest onRollback =
     El ''div'' [Attr ''variant'' (if isLatest then ''latest'' else ''plain'')]
       [El ''div'' []
         ([El ''div'' []
            [SequenceBadge (cp_sequence checkpoint),
             El ''div'' []
              [El ''p'' [] [Text (checkpoint_title checkpoint)],
               El ''p'' []
                ([Text (formatDistanceToNow env (cp_created_at checkpoint)), Text '' ago'']
                 @ show_if isLatest [El ''span'' [] [Text ''Latest'']])]]]
          @ (case onRollback of
               None \<Rightarrow> []
             | Some f \<Rightarrow> show_if (\<not> isLatest)
                 [El ''button'' [OnClick (f checkpoint), Attr ''title'' (''Rollback to checkpoint #'' @ str_int (cp_sequence checkpoint))]
                   [icon ''RotateCcw'', Text ''Rollback'']]))]"

text \<open>\<open>sort((a, b) => b.sequence - a.sequence)\<close> on a copy; the sort is stable.\<close>

definition sorted_checkpoints :: "Checkpoint list \<Rightarrow> Checkpoint list" where
  "sorted_checkpoints cps = sort_key (\<lambda>c. - cp_sequence c) cps"

definition CheckpointTimeline :: "Checkpoint list \<Rightarrow> (Checkpoint \<Rightarrow> bool \<Rightarrow> 'm node) \<Rightarrow> 'm node list" where
  "CheckpointTimeline checkpoints renderItem =
     (if checkpoints = [] then []
      else [El ''div'' []
        [El ''div'' [Attr ''aria-hidden'' ''true''] [],
         El ''ol'' []
           (map (\<lambda>(idx, cp).
              El ''li'' [Attr ''key'' (cp_id cp)]
                [El ''div'' [Attr ''variant'' (if idx = 0 then ''gold'' else ''gray'')] [Text (str_int (cp_sequence cp))],
                 El ''div'' [] [renderItem cp (idx = 0)]])
            (enumerate 0 (sorted_checkpoints checkpoints)))]])"

section \<open>Diff viewer\<close>

definition diff_toggle :: "bool \<Rightarrow> bool" where
  "diff_toggle expanded = (\<not> expanded)"

definition before_text :: "Checkpoint option \<Rightarrow> string" where
  "before_text previous =
     (case previous of
        None \<Rightarrow> em_dash @ '' No previous checkpoint '' @ em_dash
      | Some p \<Rightarrow> stringify_indent [] (JObj (cp_snapshot p)))"

definition CheckpointDiffViewer :: "'m \<Rightarrow> Checkpoint \<Rightarrow> Checkpoint option \<Rightarrow> bool \<Rightarrow> 'm node" where
  "CheckpointDiffViewer onToggle current previous expanded =
     El ''div'' []
       ([El ''button'' [Attr ''type'' ''button'', OnClick onToggle]
          [El ''span'' []
            [Text ''Snapshot diff (#'', Text (case previous of None \<Rightarrow> em_dash | Some p \<Rightarrow> str_int (cp_sequence p)),
             Text ('' '' @ right_arrow @ '' #''), Text (str_int (cp_sequence current)), Text '')''],
           icon (if expanded then ''ChevronUp'' else ''ChevronDown'')]]
        @ show_if expanded
           [El ''div'' []
             [El ''div'' []
               [El ''div'' [] [El ''span'' []
                  [Text ''Before'',
                   Text (case previous of None \<Rightarrow> '' (none)'' | Some p \<Rightarrow> '' (#'' @ str_int (cp_sequence p) @ '')'')]],
                El ''pre'' [] [Text (before_text previous)]],
              El ''div'' []
               [El ''div'' [] [El ''span'' [] [Text ''After (#'', Text (str_int (cp_sequence current)), Text '')'']],
                El ''pre'' [] [Text (stringify_indent [] (JObj (cp_snapshot current)))]]]])"

section \<open>Form\<close>

record checkpoint_form =
  hf_note :: string
  hf_loading :: bool

definition CheckpointForm_init :: checkpoint_form where
  "CheckpointForm_init = \<lparr>hf_note = [], hf_loading = False\<rparr>"

datatype checkpoint_form_msg = HfNote string | HfSubmit | HfCancel

text \<open>The form hands over the trimmed note.\<close>

definition CheckpointForm_handleSubmit :: "checkpoint_form \<Rightarrow> checkpoint_form \<times> string option" where
  "CheckpointForm_handleSubmit s = (s\<lparr>hf_loading := True\<rparr>, Some (trim (hf_note s)))"

fun CheckpointForm_update :: "checkpoint_form_msg \<Rightarrow> checkpoint_form \<Rightarrow> checkpoint_form \<times> string option" where
  "CheckpointForm_update (HfNote v) s = (s\<lparr>hf_note := v\<rparr>, None)"
| "CheckpointForm_update HfSubmit s = CheckpointForm_handleSubmit s"
| "CheckpointForm_update HfCancel s = (s, None)"

definition CheckpointForm_settle :: "js_thrown option \<Rightarrow> checkpoint_form \<Rightarrow> checkpoint_form" where
  "CheckpointForm_settle r s = s\<lparr>hf_loading := False\<rparr>"

definition CheckpointForm :: "string \<Rightarrow> checkpoint_form \<Rightarrow> checkpoint_form_msg node list" where
  "CheckpointForm submitLabel s =
     [El ''form'' [OnSubmit HfSubmit]
       [El ''div'' []
         [form_label ''checkpoint-note'' ''Note (optional)'',
          El ''textarea'' [Attr ''id'' ''checkpoint-note'', Attr ''value'' (hf_note s), OnChange HfNote,
             Attr ''placeholder'' (''Describe what this checkpoint captures, e.g. '' @ [CHR 0x27] @ ''Before route restructure'' @ [CHR 0x27] @ ellipsis),
             Flag ''autoFocus'' True] [],
          El ''p'' []
           [Text ''A short description helps identify this checkpoint later. Leave blank for an auto-generated label.'']],
        El ''div'' []
         [El ''button'' [Attr ''type'' ''button'', OnClick HfCancel, Flag ''disabled'' (hf_loading s)] [Text ''Cancel''],
          El ''button'' [Attr ''type'' ''submit'', Flag ''disabled'' (hf_loading s)]
            [Text (if hf_loading s then ''Creating'' @ ellipsis else submitLabel)]]]]"

section \<open>Rollback dialog\<close>

definition RollbackConfirmModal :: "bool \<Rightarrow> Checkpoint option \<Rightarrow> 'm \<Rightarrow> 'm \<Rightarrow> bool \<Rightarrow> 'm node list" where
  "RollbackConfirmModal open checkpoint onClose onConfirm loading =
     Modal open onClose None None
       [El ''div'' []
         ([El ''div'' []
            [El ''div'' [] [icon ''AlertTriangle''],
             El ''div'' []
              [El ''h2'' [] [Text ''Rollback Configuration?''], El ''p'' [] [Text ''This action cannot be undone'']]],
           El ''div'' []
            [El ''p'' [] [Text ''Warning''],
             El ''ul'' []
              [El ''li'' []
                [Text ''All changes made after checkpoint '',
                 El ''strong'' []
                  ([Text ''#''] @ (case checkpoint of None \<Rightarrow> [] | Some c \<Rightarrow> [Text (str_int (cp_sequence c))])),
                 Text '' will be lost.''],
               El ''li'' [] [Text ''Active routes, consumers, and policies will revert immediately.''],
               El ''li'' [] [Text ''This may cause brief disruption to live traffic.'']]]]
          @ when_str (Option.bind checkpoint cp_note) (\<lambda>note.
              El ''p'' [] [Text ''Rolling back to: '', El ''span'' [] [Text ldquo, Text note, Text rdquo]])
          @ [El ''div'' []
              [El ''button'' [OnClick onClose, Flag ''disabled'' loading] [Text ''Cancel''],
               El ''button'' [OnClick onConfirm, Flag ''disabled'' loading]
                 [Text (if loading then ''Rolling back'' @ ellipsis else ''Yes, Rollback'')]]])]"

section \<open>Page\<close>

record checkpoints_page =
  hp_creating :: bool
  hp_rollbackTarget :: "Checkpoint option"
  hp_expanded :: "string option"
  hp_rollbackPending :: bool

definition CheckpointsPage_init :: checkpoints_page where
  "CheckpointsPage_init = \<lparr>hp_creating = False, hp_rollbackTarget = None, hp_expanded = None, hp_rollbackPending = False\<rparr>"

datatype checkpoints_msg =
    HpCreating bool
  | HpRollbackTarget "Checkpoint option"
  | HpExpand string
  | HpConfirm
  | HpRolledBack "js_thrown option"

datatype checkpoints_event = CheckpointCreated | RolledBack

definition checkpoints_createMut :: "(CreateCheckpointBody, checkpoints_event) mutation_options" where
  "checkpoints_createMut = useCreateCheckpoint (Some CheckpointCreated)"

definition checkpoints_rollbackMut :: "(string, checkpoints_event) mutation_options" where
  "checkpoints_rollbackMut = useRollbackCheckpoint (Some RolledBack)"

fun checkpoints_on_event :: "checkpoints_event \<Rightarrow> checkpoints_page \<Rightarrow> checkpoints_page \<times> toast_request" where
  "checkpoints_on_event CheckpointCreated s = (s\<lparr>hp_creating := False\<rparr>, success_toast ''Checkpoint created'')"
| "checkpoints_on_event RolledBack s = (s\<lparr>hp_rollbackTarget := None\<rparr>, success_toast ''Rollback successful'')"

text \<open>\<open>createMut.mutateAsync({ note: note || undefined })\<close>\<close>

definition checkpoint_body :: "string \<Rightarrow> CreateCheckpointBody" where
  "checkpoint_body note = \<lparr>ccp_note = or_undefined note\<rparr>"

text \<open>
  The second component is the identifier that a confirmation passes to the rollback mutation.  When
  the mutation ends, its \<open>onSuccess\<close> clears the target; a failed one leaves the dialog.
\<close>

fun CheckpointsPage_update :: "checkpoints_msg \<Rightarrow> checkpoints_page \<Rightarrow> checkpoints_page \<times> string option" where
  "CheckpointsPage_update (HpCreating b) s = (s\<lparr>hp_creating := b\<rparr>, None)"
| "CheckpointsPage_update (HpRollbackTarget t) s = (s\<lparr>hp_rollbackTarget := t\<rparr>, None)"
| "CheckpointsPage_update (HpExpand i) s = (s\<lparr>hp_expanded := (if hp_expanded s = Some i then None else Some i)\<rparr>, None)"
| "CheckpointsPage_update HpConfirm s =
     (case hp_rollbackTarget s of
        None \<Rightarrow> (s, None)
      | Some c \<Rightarrow> (s\<lparr>hp_rollbackPending := True\<rparr>, Some (cp_id c)))"
| "CheckpointsPage_update (HpRolledBack r) s =
     ((case r of None \<Rightarrow> fst (checkpoints_on_event RolledBack s) | Some e \<Rightarrow> s)\<lparr>hp_rollbackPending := False\<rparr>, None)"

definition rollback_call :: "string \<Rightarrow> api_call" where
  "rollback_call i = mutationFn checkpoints_rollbackMut i"

text \<open>\<open>findIndex\<close> gives -1 for a checkpoint that is not in the list, and then the first one is taken.\<close>

definition getPrevious :: "Checkpoint list \<Rightarrow> Checkpoint \<Rightarrow> Checkpoint option" where
  "getPrevious cpList cp =
     (let sorted = sorted_checkpoints cpList;
          next_idx = (case List.find (\<lambda>i. cp_id (sorted ! i) = cp_id cp) [0..<length sorted] of None \<Rightarrow> 0 | Some i \<Rightarrow> i + 1)
      in if next_idx < length sorted then Some (sorted ! next_idx) else None)"

definition checkpoint_item :: "date_env \<Rightarrow> Checkpoint list \<Rightarrow> checkpoints_page \<Rightarrow> Checkpoint \<Rightarrow> bool \<Rightarrow> checkpoints_msg node" where
  "checkpoint_item env cpList s cp isLatest =
     El ''div'' []
       ([CheckpointCard env cp isLatest (if \<not> isLatest then Some (\<lambda>c. HpRollbackTarget (Some c)) else None),
         El ''button'' [Attr ''type'' ''button'', OnClick (HpExpand (cp_id cp))]
           [Text (if hp_expanded s = Some (cp_id cp) then ''Hide diff'' else ''Show diff'')]]
        @ show_if (hp_expanded s = Some (cp_id cp))
            [Comp ''CheckpointDiffViewer''
              ([Attr ''current'' (cp_id cp)] @ opt_attr ''previous'' (map_option cp_id (getPrevious cpList cp)))])"

definition retention_info :: "nat \<Rightarrow> 'm node" where
  "retention_info stored =
     El ''div'' [] [El ''div'' []
       [El ''div'' [] [icon ''Archive''],
        El ''div'' []
         [El ''h3'' [] [Text ''Checkpoint Retention''],
          El ''div'' []
           [El ''div'' [] [El ''div'' [] [icon ''Clock'', El ''p'' [] [Text ''Max Retention'']], El ''p'' [] [Text ''30 days'']],
            El ''div'' [] [El ''div'' [] [icon ''History'', El ''p'' [] [Text ''Max Checkpoints'']], El ''p'' [] [Text ''100'']],
            El ''div'' [] [El ''div'' [] [icon ''Archive'', El ''p'' [] [Text ''Stored'']],
              El ''p'' [] [Text (str_int (int stored)), Text '' / 100'']]],
          El ''p'' []
           [Text ''Checkpoints older than 30 days or exceeding the limit are automatically purged. Pinned checkpoints are excluded from automatic purge.'']]]]"

definition CheckpointsPage_body :: "date_env \<Rightarrow> Checkpoint query_result \<Rightarrow> checkpoints_page \<Rightarrow> checkpoints_msg node list" where
  "CheckpointsPage_body env q s =
     (if qr_isLoading q then [El ''div'' [] (replicate 3 (El ''div'' [] []))]
      else if length (query_data q) = 0
      then [El ''div'' []
        [EmptyState (Some ''History'') ''No checkpoints yet''
           (Some ''Create a checkpoint to snapshot the current configuration and enable rollback.'')
           (Some [El ''button'' [OnClick (HpCreating True)] [icon ''Plus'', Text '' Create Checkpoint'']])]]
      else CheckpointTimeline (query_data q) (checkpoint_item env (query_data q) s))"

definition CheckpointsPage :: "date_env \<Rightarrow> Checkpoint query_result \<Rightarrow> checkpoints_page \<Rightarrow> checkpoints_msg node list" where
  "CheckpointsPage env q s =
     [El ''div'' []
       ([PageHeader ''Checkpoints'' (Some ''Snapshot and restore gateway configuration at any point in time.'')
           (Some [El ''button'' [OnClick (HpCreating True)] [icon ''Plus'', Text '' Create Checkpoint'']]) None]
        @ load_error (qr_isError q) ''Failed to load checkpoints.''
        @ CheckpointsPage_body env q s
        @ Modal (hp_creating s) (HpCreating False) (Some ''Create Checkpoint'') (Some ''Snapshot the current configuration state.'')
            [Comp ''CheckpointForm'' [OnEvent ''onCancel'' (HpCreating False)]]
        @ [retention_info (length (query_data q))]
        @ RollbackConfirmModal (hp_rollbackTarget s \<noteq> None) (hp_rollbackTarget s) (HpRollbackTarget None) HpConfirm
            (hp_rollbackPending s))]"

section \<open>The contracts\<close>

lemma CheckpointForm_can_submit: "can_submit (CheckpointForm lbl s) \<longleftrightarrow> \<not> hf_loading s"
  by (auto simp: can_submit_def CheckpointForm_def form_view_defs is_submit_button_def is_disabled_def)

interpretation checkpoint_submit: submit_form "CheckpointForm lbl" HfSubmit CheckpointForm_update CheckpointForm_settle
    hf_loading "\<lambda>note. trim note = note" for lbl
proof (unfold_locales, goal_cases)
  case (1 s)
  then show ?case by (simp add: CheckpointForm_can_submit)
next
  case (2 m s)
  then show ?case by (cases m) auto
qed (auto simp: CheckpointForm_handleSubmit_def CheckpointForm_settle_def)

section \<open>The order of checkpoints\<close>

lemma set_sorted_checkpoints [simp]: "set (sorted_checkpoints cps) = set cps"
  by (simp add: sorted_checkpoints_def)

lemma length_sorted_checkpoints [simp]: "length (sorted_checkpoints cps) = length cps"
  by (simp add: sorted_checkpoints_def)

lemma sorted_checkpoints_mono:
  "i \<le> j \<Longrightarrow> j < length cps \<Longrightarrow>
   cp_sequence (sorted_checkpoints cps ! j) \<le> cp_sequence (sorted_checkpoints cps ! i)"
  using sorted_nth_mono [of "map (\<lambda>c. - cp_sequence c) (sorted_checkpoints cps)" i j]
  by (simp add: sorted_checkpoints_def)

lemma sorted_checkpoints_distinct:
  assumes "distinct (map f cps)"
  shows "distinct (map f (sorted_checkpoints cps))"
proof -
  have "distinct (sorted_checkpoints cps)"
    using assms by (simp add: sorted_checkpoints_def distinct_map)
  then show ?thesis using assms by (simp add: distinct_map)
qed

lemma sorted_checkpoints_strict:
  assumes "distinct (map cp_sequence cps)" and "i < j" and "j < length cps"
  shows "cp_sequence (sorted_checkpoints cps ! j) < cp_sequence (sorted_checkpoints cps ! i)"
proof -
  have "cp_sequence (sorted_checkpoints cps ! j) \<noteq> cp_sequence (sorted_checkpoints cps ! i)"
    using sorted_checkpoints_distinct [OF assms(1)] assms(2,3) by (auto simp: distinct_conv_nth)
  with sorted_checkpoints_mono [of i j cps] assms(2,3) show ?thesis by simp
qed

lemma getPrevious_nth:
  assumes "distinct (map cp_id cps)" and i: "i < length cps"
  shows "getPrevious cps (sorted_checkpoints cps ! i) =
    (if i + 1 < length cps then Some (sorted_checkpoints cps ! (i + 1)) else None)"
proof -
  let ?xs = "sorted_checkpoints cps"
  have "List.find (\<lambda>j. cp_id (?xs ! j) = cp_id (?xs ! i)) [0..<length ?xs] = Some i"
    using sorted_checkpoints_distinct [OF assms(1)] i
    by (auto simp: find_Some_iff distinct_conv_nth intro!: exI [of _ i])
  then show ?thesis by (simp add: getPrevious_def Let_def)
qed

lemma getPrevious_cases:
  assumes "distinct (map cp_id cps)" and "distinct (map cp_sequence cps)" and "cp \<in> set cps"
  shows "case getPrevious cps cp of
           None \<Rightarrow> \<forall>c \<in> set cps. cp_sequence cp \<le> cp_sequence c
         | Some p \<Rightarrow> p \<in> set cps \<and> cp_sequence p < cp_sequence cp
             \<and> (\<forall>c \<in> set cps. cp_sequence c < cp_sequence cp \<longrightarrow> cp_sequence c \<le> cp_sequence p)"
proof -
  let ?xs = "sorted_checkpoints cps"
  from assms(3) obtain i where i: "i < length cps" "cp = ?xs ! i"
    by (metis in_set_conv_nth length_sorted_checkpoints set_sorted_checkpoints)
  have older: "cp_sequence c \<le> cp_sequence (?xs ! k)"
    if "c \<in> set cps" "k \<le> i + 1" "cp_sequence c < cp_sequence cp \<or> k \<le> i \<and> cp_sequence c \<le> cp_sequence cp" "k < length cps" for c k
  proof -
    from that(1) obtain j where j: "j < length cps" "c = ?xs ! j"
      by (metis in_set_conv_nth length_sorted_checkpoints set_sorted_checkpoints)
    have "k \<le> j \<or> cp_sequence (?xs ! j) \<le> cp_sequence (?xs ! k)"
      using that(2,3) i j sorted_checkpoints_mono [of j i cps] sorted_checkpoints_mono [of k i cps] by force
    then show ?thesis using sorted_checkpoints_mono [of k j cps] j by auto
  qed
  have all: "\<forall>c \<in> set cps. cp_sequence cp \<le> cp_sequence c" if "\<not> i + 1 < length cps"
  proof
    fix c assume "c \<in> set cps"
    then obtain j where "j < length cps" "c = ?xs ! j"
      by (metis in_set_conv_nth length_sorted_checkpoints set_sorted_checkpoints)
    then show "cp_sequence cp \<le> cp_sequence c"
      using sorted_checkpoints_mono [of j i cps] i that by simp
  qed
  have "?xs ! (i + 1) \<in> set cps" if "i + 1 < length cps"
    using that nth_mem [of "i + 1" ?xs] by simp
  then show ?thesis
    using getPrevious_nth [OF assms(1) i(1)] i older [of _ "i + 1"] all sorted_checkpoints_strict [OF assms(2), of i "i + 1"]
    by auto
qed

lemma outranked:
  assumes "distinct (map cp_sequence cps)" and "c \<in> set (tl (sorted_checkpoints cps))"
  shows "\<exists>d. c \<in> set cps \<and> d \<in> set cps \<and> cp_sequence c < cp_sequence d"
proof -
  from assms(2) obtain i where "i < length (tl (sorted_checkpoints cps))" "c = tl (sorted_checkpoints cps) ! i"
    by (metis in_set_conv_nth)
  then have i: "i + 1 < length cps" "c = sorted_checkpoints cps ! (i + 1)" by (simp_all add: nth_tl)
  then have "c \<in> set cps" "sorted_checkpoints cps ! 0 \<in> set cps"
    using nth_mem [of "i + 1" "sorted_checkpoints cps"] nth_mem [of 0 "sorted_checkpoints cps"]
    by (simp_all del: length_greater_0_conv)
  with sorted_checkpoints_strict [OF assms(1), of 0 "i + 1"] i show ?thesis by auto
qed

section \<open>Rollbacks\<close>

text \<open>The page with how many rollbacks are under way and the identifiers sent.\<close>

record checkpoints_run =
  cr_page :: checkpoints_page
  cr_in_flight :: nat
  cr_sent :: "string list"

definition checkpoints_start :: checkpoints_run where
  "checkpoints_start = \<lparr>cr_page = CheckpointsPage_init, cr_in_flight = 0, cr_sent = []\<rparr>"

definition checkpoints_offers :: "date_env \<Rightarrow> Checkpoint query_result \<Rightarrow> checkpoints_run \<Rightarrow> checkpoints_msg set" where
  "checkpoints_offers env q x =
     view_msgs (CheckpointsPage env q (cr_page x)) \<union> (if 0 < cr_in_flight x then range HpRolledBack else {})"

definition checkpoints_step :: "checkpoints_msg \<Rightarrow> checkpoints_run \<Rightarrow> checkpoints_run" where
  "checkpoints_step m x =
     (let (s, sent) = CheckpointsPage_update m (cr_page x) in
      \<lparr>cr_page = s,
       cr_in_flight = cr_in_flight x + (if sent = None then 0 else 1) - (case m of HpRolledBack r \<Rightarrow> 1 | _ \<Rightarrow> 0),
       cr_sent = cr_sent x @ (case sent of None \<Rightarrow> [] | Some i \<Rightarrow> [i])\<rparr>)"

lemma view_msgs_replicate [view]: "view_msgs (replicate n x) = (if n = 0 then {} else msgs x)"
  by (auto simp: view_msgs_def)

lemma SequenceBadge_msgs [view]: "msgs (SequenceBadge n) = {}"
  by (simp add: SequenceBadge_def view)

lemma CheckpointCard_msgs [view]:
  "msgs (CheckpointCard env cp latest f) = (if latest then {} else case f of None \<Rightarrow> {} | Some g \<Rightarrow> {g cp})"
  by (simp add: CheckpointCard_def view split: option.split)

lemma checkpoint_item_msgs [view]:
  "msgs (checkpoint_item env cps s cp latest) =
     (if latest then {} else {HpRollbackTarget (Some cp)}) \<union> {HpExpand (cp_id cp)}"
  by (auto simp: checkpoint_item_def view)

lemma enumerate_tl: "(i, x) \<in> set (enumerate 0 xs) \<Longrightarrow> i \<noteq> 0 \<Longrightarrow> x \<in> set (tl xs)"
  by (cases xs) (auto simp: in_set_enumerate_eq nth_Cons' intro: nth_mem)

lemma timeline_rollbacks:
  assumes "HpRollbackTarget (Some c) \<in> view_msgs (CheckpointTimeline cps (checkpoint_item env cps' s))"
  shows "c \<in> set (tl (sorted_checkpoints cps))"
  using assms
  by (auto simp: CheckpointTimeline_def view view_msgs_map dest!: enumerate_tl split: if_splits)

lemma retention_info_msgs [view]: "msgs (retention_info n) = {}"
  by (simp add: retention_info_def view)

lemma RollbackConfirmModal_msgs [view]:
  "view_msgs (RollbackConfirmModal open cp close confirm loading) =
     (if open then (if loading then {close} else {close, confirm}) else {})"
  by (auto simp: RollbackConfirmModal_def view split: option.splits)

lemma page_rollback_target:
  assumes "HpRollbackTarget (Some c) \<in> view_msgs (CheckpointsPage env q s)"
  shows "c \<in> set (tl (sorted_checkpoints (query_data q)))"
  using assms timeline_rollbacks
  by (auto simp: CheckpointsPage_def CheckpointsPage_body_def view split: if_splits)

lemma page_confirm:
  assumes "HpConfirm \<in> view_msgs (CheckpointsPage env q s)"
  shows "hp_rollbackTarget s \<noteq> None \<and> \<not> hp_rollbackPending s"
  using assms
  by (auto simp: CheckpointsPage_def CheckpointsPage_body_def CheckpointTimeline_def view view_msgs_map split: if_splits)

lemma confirm_offered:
  assumes "hp_rollbackTarget s = Some c" and "\<not> hp_rollbackPending s"
  shows "HpConfirm \<in> view_msgs (CheckpointsPage env q s)"
  using assms by (simp add: CheckpointsPage_def view)

abbreviation rollback_inv :: "Checkpoint list \<Rightarrow> checkpoints_run \<Rightarrow> bool" where
  "rollback_inv cps x \<equiv>
     set_option (hp_rollbackTarget (cr_page x)) \<subseteq> set (tl (sorted_checkpoints cps))
     \<and> set (cr_sent x) \<subseteq> cp_id ` set (tl (sorted_checkpoints cps))
     \<and> cr_in_flight x = (if hp_rollbackPending (cr_page x) then 1 else 0)"

lemma page_no_settle: "HpRolledBack r \<notin> view_msgs (CheckpointsPage env q s)"
  by (auto simp: CheckpointsPage_def CheckpointsPage_body_def CheckpointTimeline_def view view_msgs_map split: if_splits)

lemma rollback_inv_step:
  assumes inv: "rollback_inv (query_data q) x" and m: "m \<in> checkpoints_offers env q x"
  shows "rollback_inv (query_data q) (checkpoints_step m x)"
proof (cases m)
  case (HpRollbackTarget t)
  with m have "HpRollbackTarget t \<in> view_msgs (CheckpointsPage env q (cr_page x))"
    by (auto simp: checkpoints_offers_def split: if_splits)
  then have "set_option t \<subseteq> set (tl (sorted_checkpoints (query_data q)))"
    using page_rollback_target by (cases t) auto
  with inv HpRollbackTarget show ?thesis by (simp add: checkpoints_step_def)
next
  case HpConfirm
  with m page_confirm have "hp_rollbackTarget (cr_page x) \<noteq> None \<and> \<not> hp_rollbackPending (cr_page x)"
    by (auto simp: checkpoints_offers_def split: if_splits)
  with inv HpConfirm show ?thesis by (auto simp: checkpoints_step_def)
next
  case (HpRolledBack r)
  with m page_no_settle have "0 < cr_in_flight x"
    by (auto simp: checkpoints_offers_def split: if_splits)
  with inv HpRolledBack show ?thesis by (auto simp: checkpoints_step_def split: option.splits if_splits)
qed (use inv in \<open>simp_all add: checkpoints_step_def\<close>)

interpretation rollbacks: ui_machine "checkpoints_offers env q" checkpoints_step "rollback_inv (query_data q)" for env q
  by unfold_locales (rule rollback_inv_step)

section \<open>Properties\<close>

text \<open>C30: The snapshot compared with a checkpoint's is that of the next older checkpoint: the one with the
  largest smaller sequence number.  Only the oldest checkpoint has none.\<close>

theorem previous_is_next_older:
  assumes "distinct (map cp_id cps)" and "distinct (map cp_sequence cps)" and "cp \<in> set cps"
  shows "case getPrevious cps cp of
           None \<Rightarrow> \<forall>c \<in> set cps. cp_sequence cp \<le> cp_sequence c
         | Some p \<Rightarrow> p \<in> set cps \<and> cp_sequence p < cp_sequence cp
             \<and> (\<forall>c \<in> set cps. cp_sequence c < cp_sequence cp \<longrightarrow> cp_sequence c \<le> cp_sequence p)"
  using assms by (rule getPrevious_cases)

text \<open>Three checkpoints for the witnesses.\<close>

definition sample_checkpoint :: "string \<Rightarrow> int \<Rightarrow> Checkpoint" where
  "sample_checkpoint i n = \<lparr>cp_id = i, cp_sequence = n, cp_note = None, cp_snapshot = [], cp_created_at = ''t''\<rparr>"

definition sample_checkpoints :: "Checkpoint list" where
  "sample_checkpoints = [sample_checkpoint ''a'' 1, sample_checkpoint ''b'' 3, sample_checkpoint ''c'' 2]"

theorem previous_is_next_older_witness:
  "case getPrevious sample_checkpoints (sample_checkpoint ''b'' 3) of None \<Rightarrow> False | Some p \<Rightarrow> cp_sequence p = 2"
  using previous_is_next_older [of sample_checkpoints "sample_checkpoint ''b'' 3"]
  by (simp add: sample_checkpoints_def sample_checkpoint_def getPrevious_def Let_def sorted_checkpoints_def upt_rec)

text \<open>C11: Whatever the user does on the page, rollbacks are requested one at a time and never for the
  latest checkpoint: every request names a checkpoint of the list that has a newer one.\<close>

theorem rollback_never_latest:
  assumes "reach (checkpoints_offers env q) checkpoints_step checkpoints_start x"
    and "distinct (map cp_sequence (query_data q))"
  shows "cr_in_flight x \<le> 1
    \<and> (\<forall>i. i \<in> set (cr_sent x) \<longrightarrow>
          (\<exists>c d. c \<in> set (query_data q) \<and> d \<in> set (query_data q) \<and> cp_id c = i \<and> cp_sequence c < cp_sequence d))"
proof -
  have "rollback_inv (query_data q) x"
    by (rule rollbacks.reach_inv [OF assms(1)]) (simp add: checkpoints_start_def CheckpointsPage_init_def)
  then show ?thesis using outranked [OF assms(2)] by (force split: if_splits)
qed

definition sample_query :: "Checkpoint query_result" where
  "sample_query = \<lparr>qr_data = Some sample_checkpoints, qr_isLoading = False, qr_isError = False\<rparr>"

definition sample_clicks :: "checkpoints_msg list" where
  "sample_clicks = [HpRollbackTarget (Some (sample_checkpoint ''c'' 2)), HpConfirm]"

lemma sample_sorted: "sorted_checkpoints sample_checkpoints
    = [sample_checkpoint ''b'' 3, sample_checkpoint ''c'' 2, sample_checkpoint ''a'' 1]"
  by (simp add: sorted_checkpoints_def sample_checkpoints_def sample_checkpoint_def)

lemma sample_reach: "reach (checkpoints_offers env sample_query) checkpoints_step checkpoints_start
    (fold checkpoints_step sample_clicks checkpoints_start)"
proof -
  let ?m = "HpRollbackTarget (Some (sample_checkpoint ''c'' 2))"
  have "?m \<in> checkpoints_offers env sample_query checkpoints_start"
    by (simp add: checkpoints_offers_def CheckpointsPage_def CheckpointsPage_body_def sample_query_def query_data_def
        CheckpointTimeline_def sample_sorted view) (simp add: sample_checkpoints_def)
  moreover have "HpConfirm \<in> checkpoints_offers env sample_query
      (checkpoints_step ?m checkpoints_start)"
    by (simp add: checkpoints_offers_def CheckpointsPage_def checkpoints_step_def checkpoints_start_def
        CheckpointsPage_init_def view)
  ultimately have "reach (checkpoints_offers env sample_query) checkpoints_step checkpoints_start
      (checkpoints_step HpConfirm (checkpoints_step ?m checkpoints_start))"
    by (intro reach.step reach.start)
  then show ?thesis by (simp add: sample_clicks_def)
qed

theorem rollback_never_latest_witness:
  "cr_sent (fold checkpoints_step sample_clicks checkpoints_start) = [''c'']
   \<and> (\<exists>c d. c \<in> set sample_checkpoints \<and> d \<in> set sample_checkpoints \<and> cp_id c = ''c'' \<and> cp_sequence c < cp_sequence d)"
proof -
  have "cr_sent (fold checkpoints_step sample_clicks checkpoints_start) = [''c'']"
    by (simp add: sample_clicks_def checkpoints_step_def checkpoints_start_def CheckpointsPage_init_def sample_checkpoint_def)
  moreover have "query_data sample_query = sample_checkpoints" by (simp add: query_data_def sample_query_def)
  moreover have "distinct (map cp_sequence sample_checkpoints)" by (simp add: sample_checkpoints_def sample_checkpoint_def)
  ultimately show ?thesis using rollback_never_latest [OF sample_reach] by simp
qed

text \<open>C31: The open viewer shows each snapshot on its own side: after its caption come a pane headed \<open>Before\<close> with
  the number of the earlier checkpoint, or \<open>(none)\<close> and a notice, and then a pane headed \<open>After\<close> with the number of
  the current one; the text of each pane, with the white space outside strings removed, is the plain JSON
  text of the snapshot of the checkpoint named above it.
  Nothing of a snapshot is lost: two viewers that look the same show the same two snapshots (with the same
  order of keys, which \<open>JSON.stringify\<close> keeps) of checkpoints with the same sequence numbers.\<close>

theorem snapshot_text_faithful:
  "(\<exists>before after. drop 5 (texts (CheckpointDiffViewer t c p True)) =
        [''Before'', (case p of None \<Rightarrow> '' (none)'' | Some x \<Rightarrow> '' (#'' @ str_int (cp_sequence x) @ '')''), before,
         ''After (#'', str_int (cp_sequence c), '')'', after]
      \<and> minify after = stringify (JObj (cp_snapshot c))
      \<and> (case p of None \<Rightarrow> before = em_dash @ '' No previous checkpoint '' @ em_dash
          | Some x \<Rightarrow> minify before = stringify (JObj (cp_snapshot x))))
   \<and> (CheckpointDiffViewer t c p True = CheckpointDiffViewer t d q True \<longrightarrow>
        cp_snapshot c = cp_snapshot d \<and> cp_sequence c = cp_sequence d
        \<and> map_option (\<lambda>x. (cp_sequence x, cp_snapshot x)) p = map_option (\<lambda>x. (cp_sequence x, cp_snapshot x)) q)"
proof -
  have inj: "stringify_indent [] (JObj xs) = stringify_indent [] (JObj ys) \<longleftrightarrow> xs = ys" for xs ys
    using stringify_indent_inject [of "JObj xs" "JObj ys"] by auto
  have panes: "minify (stringify_indent [] (JObj xs)) = stringify (JObj xs)" for xs
    using minify_stringify_indent [of "[]" "JObj xs" "[]"] by (simp del: stringify_indent.simps)
  have "map_option (\<lambda>x. (cp_sequence x, cp_snapshot x)) p = map_option (\<lambda>x. (cp_sequence x, cp_snapshot x)) q"
    if "CheckpointDiffViewer t c p True = CheckpointDiffViewer t d q True"
    using that by (cases p; cases q) (simp_all add: CheckpointDiffViewer_def before_text_def inj show_if_def del: stringify_indent.simps)
  moreover have "drop 5 (texts (CheckpointDiffViewer t c p True)) =
      [''Before'', (case p of None \<Rightarrow> '' (none)'' | Some x \<Rightarrow> '' (#'' @ str_int (cp_sequence x) @ '')''), before_text p,
       ''After (#'', str_int (cp_sequence c), '')'', stringify_indent [] (JObj (cp_snapshot c))]"
    by (simp add: CheckpointDiffViewer_def show_if_def icon_def del: stringify_indent.simps)
  moreover have "case p of None \<Rightarrow> before_text p = em_dash @ '' No previous checkpoint '' @ em_dash
      | Some x \<Rightarrow> minify (before_text p) = stringify (JObj (cp_snapshot x))"
    by (simp add: before_text_def panes split: option.split del: stringify_indent.simps)
  ultimately show ?thesis
    using panes [of "cp_snapshot c"]
    by (auto simp: CheckpointDiffViewer_def inj show_if_def simp del: stringify_indent.simps)
qed

theorem snapshot_text_faithful_witness:
  "let c = (sample_checkpoint ''a'' 1)\<lparr>cp_snapshot := [(''a b'', JNum 1)]\<rparr> in
   (\<exists>before after. drop 5 (texts (CheckpointDiffViewer () c (Some (sample_checkpoint ''b'' 0)) True)) =
      [''Before'', '' (#0)'', before, ''After (#'', ''1'', '')'', after]
      \<and> minify after = stringify (JObj [(''a b'', JNum 1)]) \<and> minify before = ''{}'')
   \<and> CheckpointDiffViewer () c (Some (sample_checkpoint ''b'' 0)) True
       \<noteq> CheckpointDiffViewer () (sample_checkpoint ''a'' 1) (Some (sample_checkpoint ''b'' 0)) True"
proof -
  let ?c = "(sample_checkpoint ''a'' 1)\<lparr>cp_snapshot := [(''a b'', JNum 1)]\<rparr>"
  let ?p = "Some (sample_checkpoint ''b'' 0)"
  have "str_int 0 = ''0''" "str_int 1 = ''1''" "stringify (JObj []) = ''{}''" by code_simp+
  moreover have "cp_sequence (sample_checkpoint i n) = n" "cp_snapshot (sample_checkpoint i n) = []" for i n
    by (simp_all add: sample_checkpoint_def)
  ultimately show ?thesis
    using snapshot_text_faithful [of "()" ?c ?p "sample_checkpoint ''a'' 1" ?p]
    by (simp add: Let_def del: stringify.simps)
qed

end
