(* ===== verification/Audit_Query.thy ===== *)
theory Audit_Query
  imports Queries
begin

text \<open>
  \<^verbatim>\<open>src/ui/admin/src/hooks/use-audit-log.ts\<close>: the entries of the audit log, the query string that
  \<open>URLSearchParams\<close> makes of a query, and \<open>fetchAuditLog\<close> with all its branches.  The query string
  can be read back: it determines the query, and so does the key of the cached answer.
\<close>

section \<open>Entries and queries\<close>

datatype ActorType = ActorUser | ActorApiKey | ActorSystem

fun actor_type_name :: "ActorType \<Rightarrow> string" where
  "actor_type_name ActorUser = ''user''"
| "actor_type_name ActorApiKey = ''api_key''"
| "actor_type_name ActorSystem = ''system''"

type_synonym json_object = "(string \<times> json) list"

record AuditLogEntry =
  ae_id :: string
  ae_tenant_id :: "string option"
  ae_actor :: string
  ae_actor_type :: ActorType
  ae_event_type :: string
  ae_resource_type :: string
  ae_resource_id :: "string option"
  ae_before :: "json_object option"
  ae_after :: "json_object option"
  ae_metadata :: "json_object option"
  ae_created_at :: string

text \<open>\<open>None\<close> is an absent key; no caller passes an explicit \<open>undefined\<close> limit.\<close>

record AuditLogQuery =
  aq_limit :: "int option"
  aq_offset :: "int option"
  aq_event_type :: "string option"
  aq_actor :: "string option"
  aq_date_from :: "string option"
  aq_date_to :: "string option"

definition empty_query :: AuditLogQuery where
  "empty_query = \<lparr>aq_limit = None, aq_offset = None, aq_event_type = None, aq_actor = None,
     aq_date_from = None, aq_date_to = None\<rparr>"

section \<open>Query strings\<close>

text \<open>
  \<open>URLSearchParams\<close> writes letters, digits and \<open>*-._\<close> as they are, a space as \<open>+\<close>, and the
  bytes of everything else in hexadecimal; a code unit from 128 to 255 has two bytes in UTF-8.
\<close>

definition form_plain :: "char \<Rightarrow> bool" where
  "form_plain c \<longleftrightarrow> is_digit c \<or> is_lower c \<or> is_upper c \<or> c \<in> set ''*-._''"

definition upper_hex :: "nat \<Rightarrow> char" where
  "upper_hex n = (if n < 10 then char_of (48 + n) else char_of (55 + n))"

definition percent_byte :: "nat \<Rightarrow> string" where
  "percent_byte b = ''%'' @ [upper_hex (b div 16), upper_hex (b mod 16)]"

definition form_encode_char :: "char \<Rightarrow> string" where
  "form_encode_char c =
     (if form_plain c then [c]
      else if c = CHR '' '' then ''+''
      else if code c < 128 then percent_byte (code c)
      else percent_byte (192 + code c div 64) @ percent_byte (128 + code c mod 64))"

definition form_encode :: "string \<Rightarrow> string" where
  "form_encode s = concat (map form_encode_char s)"

definition params_text :: "(string \<times> string) list \<Rightarrow> string" where
  "params_text ps = join ''&'' (map (\<lambda>(k, v). form_encode k @ ''='' @ form_encode v) ps)"

section \<open>The hook\<close>

text \<open>\<open>if (query.limit) ...\<close>: zero and the empty string are left out.\<close>

definition num_param :: "string \<Rightarrow> int option \<Rightarrow> (string \<times> string) list" where
  "num_param k x = (case x of None \<Rightarrow> [] | Some n \<Rightarrow> if n = 0 then [] else [(k, str_int n)])"

definition str_param :: "string \<Rightarrow> string option \<Rightarrow> (string \<times> string) list" where
  "str_param k x = (case x of None \<Rightarrow> [] | Some v \<Rightarrow> if v = [] then [] else [(k, v)])"

definition audit_params :: "AuditLogQuery \<Rightarrow> (string \<times> string) list" where
  "audit_params query =
     num_param ''limit'' (aq_limit query) @ num_param ''offset'' (aq_offset query)
     @ str_param ''event_type'' (aq_event_type query) @ str_param ''actor'' (aq_actor query)
     @ str_param ''date_from'' (aq_date_from query) @ str_param ''date_to'' (aq_date_to query)"

definition audit_url :: "AuditLogQuery \<Rightarrow> string" where
  "audit_url query = ''/api/v1/audit?'' @ params_text (audit_params query)"

definition fetchAuditLog :: "fetch \<Rightarrow> AuditLogQuery \<Rightarrow> js_thrown + json" where
  "fetchAuditLog fetch query =
     (case fetch \<lparr>fetch_url = audit_url query, fetch_method = None, fetch_headers = [], fetch_body = None\<rparr> of
        Inl e \<Rightarrow> Inl e
      | Inr res \<Rightarrow>
          if \<not> res_ok res
          then (if res_status res = 404 then Inr (JArr [])
                else Inl (JsError (str_int (res_status res) @ '' '' @ res_statusText res)))
          else res_json res)"

definition AuditLogQuery_json :: "AuditLogQuery \<Rightarrow> json" where
  "AuditLogQuery_json q = JObj
     (opt_field ''limit'' JNum (aq_limit q) @ opt_field ''offset'' JNum (aq_offset q)
      @ opt_field ''event_type'' JStr (aq_event_type q) @ opt_field ''actor'' JStr (aq_actor q)
      @ opt_field ''date_from'' JStr (aq_date_from q) @ opt_field ''date_to'' JStr (aq_date_to q))"

definition useAuditLog :: "AuditLogQuery \<Rightarrow> (fetch \<Rightarrow> js_thrown + json) query_options" where
  "useAuditLog query =
     \<lparr>queryKey = [JStr ''audit-log'', AuditLogQuery_json query],
      queryFn = (\<lambda>fetch. fetchAuditLog fetch (query\<lparr>aq_limit := Some (nullish (aq_limit query) 50)\<rparr>)),
      queryEnabled = True\<rparr>"

section \<open>Reading a query string back\<close>

definition hex_value :: "char \<Rightarrow> nat" where
  "hex_value c = (if is_digit c then code c - 48 else code c - 55)"

text \<open>The bytes, then the characters that the bytes encode.\<close>

fun form_bytes :: "string \<Rightarrow> nat list" where
  "form_bytes [] = []"
| "form_bytes (c # cs) =
     (if c = CHR ''%'' then (case cs of a # b # ds \<Rightarrow> (16 * hex_value a + hex_value b) # form_bytes ds | _ \<Rightarrow> [])
      else if c = CHR ''+'' then 32 # form_bytes cs
      else code c # form_bytes cs)"

fun utf8_chars :: "nat list \<Rightarrow> string" where
  "utf8_chars [] = []"
| "utf8_chars [b] = [char_of b]"
| "utf8_chars (b # b' # bs) =
     (if b < 128 then char_of b # utf8_chars (b' # bs)
      else char_of ((b - 192) * 64 + (b' - 128)) # utf8_chars bs)"

definition form_decode :: "string \<Rightarrow> string" where
  "form_decode s = utf8_chars (form_bytes s)"

definition parse_pair :: "string \<Rightarrow> string \<times> string" where
  "parse_pair s =
     (form_decode (takeWhile (\<lambda>c. c \<noteq> CHR ''='') s), form_decode (drop 1 (dropWhile (\<lambda>c. c \<noteq> CHR ''='') s)))"

definition parse_params :: "string \<Rightarrow> (string \<times> string) list" where
  "parse_params s = (if s = [] then [] else map parse_pair (split_on (CHR ''&'') s))"

lemma upper_hex_value: "n < 16 \<Longrightarrow> hex_value (upper_hex n) = n"
  by (auto simp: hex_value_def upper_hex_def is_digit_def)

lemma form_bytes_percent [simp]: "b < 256 \<Longrightarrow> form_bytes (percent_byte b @ s) = b # form_bytes s"
  by (simp add: percent_byte_def upper_hex_value)

definition char_bytes :: "char \<Rightarrow> nat list" where
  "char_bytes c = (if code c < 128 then [code c] else [192 + code c div 64, 128 + code c mod 64])"

lemma form_plain_code: "form_plain c \<Longrightarrow> code c < 128 \<and> c \<noteq> CHR ''%'' \<and> c \<noteq> CHR ''+'' \<and> c \<noteq> CHR ''&'' \<and> c \<noteq> CHR ''=''"
  by (auto simp: form_plain_def is_digit_def is_lower_def is_upper_def)

lemma form_bytes_encode_char: "form_bytes (form_encode_char c @ s) = char_bytes c @ form_bytes s"
proof (cases "form_plain c")
  case True
  with form_plain_code [OF True] show ?thesis by (simp add: form_encode_char_def char_bytes_def)
next
  case False
  have "192 + code c div 64 < 256" "128 + code c mod 64 < 256" using nat_of_char_less_256 [of c] by linarith+
  with False show ?thesis
    by (auto simp: form_encode_char_def char_bytes_def form_bytes_percent)
qed

lemma utf8_chars_bytes: "utf8_chars (char_bytes c @ bs) = c # utf8_chars bs"
proof (cases "code c < 128")
  case True
  then show ?thesis by (cases bs) (simp_all add: char_bytes_def)
next
  case False
  have "code c div 64 * 64 + code c mod 64 = code c" by simp
  with False show ?thesis by (simp add: char_bytes_def)
qed

lemma form_decode_encode: "form_decode (form_encode s) = s"
proof -
  have "form_bytes (form_encode s) = concat (map char_bytes s)"
    by (induction s) (simp_all add: form_encode_def form_bytes_encode_char)
  moreover have "utf8_chars (concat (map char_bytes s)) = s"
    by (induction s) (simp_all add: utf8_chars_bytes)
  ultimately show ?thesis by (simp add: form_decode_def)
qed

lemma upper_hex_separator: "n < 16 \<Longrightarrow> upper_hex n \<noteq> CHR ''&'' \<and> upper_hex n \<noteq> CHR ''=''"
  by (auto simp: upper_hex_def dest!: arg_cong [where f = "of_char :: char \<Rightarrow> nat"] split: if_splits)

lemma percent_byte_separator: "b < 256 \<Longrightarrow> CHR ''&'' \<notin> set (percent_byte b) \<and> CHR ''='' \<notin> set (percent_byte b)"
  using upper_hex_separator [of "b div 16"] upper_hex_separator [of "b mod 16"]
  by (auto simp: percent_byte_def div_less_iff_less_mult)

lemma form_encode_char_separator: "CHR ''&'' \<notin> set (form_encode_char c) \<and> CHR ''='' \<notin> set (form_encode_char c)"
proof -
  have "192 + code c div 64 < 256" "128 + code c mod 64 < 256" using nat_of_char_less_256 [of c] by linarith+
  then show ?thesis
    using form_plain_code [of c] by (auto simp: form_encode_char_def percent_byte_separator)
qed

lemma form_encode_separator: "CHR ''&'' \<notin> set (form_encode s)" "CHR ''='' \<notin> set (form_encode s)"
  using form_encode_char_separator by (auto simp: form_encode_def)

lemma parse_pair_encode: "parse_pair (form_encode k @ ''='' @ form_encode v) = (k, v)"
proof -
  have "\<forall>c \<in> set (form_encode k). c \<noteq> CHR ''=''" using form_encode_separator(2) by auto
  then show ?thesis by (simp add: parse_pair_def form_decode_encode)
qed

lemma parse_params_text: "parse_params (params_text ps) = ps"
proof (cases ps)
  case (Cons p qs)
  let ?f = "\<lambda>(k, v). form_encode k @ ''='' @ form_encode v"
  have "split_on (CHR ''&'') (params_text ps) = map ?f ps"
    unfolding params_text_def using Cons form_encode_separator(1) by (intro split_on_join) auto
  moreover have "params_text ps \<noteq> []" using Cons by (cases p; cases qs) (auto simp: params_text_def)
  moreover have "map (parse_pair \<circ> ?f) ps = ps" by (rule map_idI) (auto simp: parse_pair_encode [simplified])
  ultimately show ?thesis by (simp add: parse_params_def)
qed (simp add: parse_params_def params_text_def)

section \<open>The address determines the query\<close>

text \<open>The reader of the endpoint: numbers by \<open>parseInt\<close>, texts as they are, an absent parameter as
  an absent condition.\<close>

definition query_of :: "(string \<times> string) list \<Rightarrow> AuditLogQuery" where
  "query_of ps =
     \<lparr>aq_limit = Option.bind (map_of ps ''limit'') parseInt, aq_offset = Option.bind (map_of ps ''offset'') parseInt,
      aq_event_type = map_of ps ''event_type'', aq_actor = map_of ps ''actor'',
      aq_date_from = map_of ps ''date_from'', aq_date_to = map_of ps ''date_to''\<rparr>"

text \<open>A query without zeros and empty texts, as every query that a page makes is.\<close>

definition proper_query :: "AuditLogQuery \<Rightarrow> bool" where
  "proper_query query \<longleftrightarrow> aq_limit query \<noteq> Some 0 \<and> aq_offset query \<noteq> Some 0 \<and> aq_event_type query \<noteq> Some []
     \<and> aq_actor query \<noteq> Some [] \<and> aq_date_from query \<noteq> Some [] \<and> aq_date_to query \<noteq> Some []"

lemma map_of_str_param: "map_of (str_param k x) k' = (if k' = k \<and> x \<noteq> Some [] then x else None)"
  by (auto simp: str_param_def split: option.splits)

lemma map_of_num_param: "map_of (num_param k x) k' = (if k' = k \<and> x \<noteq> Some 0 then map_option str_int x else None)"
  by (auto simp: num_param_def split: option.splits)

lemma map_of_opt_field: "map_of (opt_field k f x) k' = (if k' = k then map_option f x else None)"
  by (simp add: opt_field_def split: option.splits)

lemmas map_of_params = map_add_def map_of_str_param map_of_num_param map_of_opt_field

lemma map_of_audit_params:
  "map_of (audit_params query) ''limit'' = (if aq_limit query \<noteq> Some 0 then map_option str_int (aq_limit query) else None)"
  "map_of (audit_params query) ''offset'' = (if aq_offset query \<noteq> Some 0 then map_option str_int (aq_offset query) else None)"
  "map_of (audit_params query) ''event_type'' = (if aq_event_type query \<noteq> Some [] then aq_event_type query else None)"
  "map_of (audit_params query) ''actor'' = (if aq_actor query \<noteq> Some [] then aq_actor query else None)"
  "map_of (audit_params query) ''date_from'' = (if aq_date_from query \<noteq> Some [] then aq_date_from query else None)"
  "map_of (audit_params query) ''date_to'' = (if aq_date_to query \<noteq> Some [] then aq_date_to query else None)"
  by (simp_all add: audit_params_def map_of_params option.case_eq_if)

lemma query_of_audit_params: "proper_query query \<Longrightarrow> query_of (audit_params query) = query"
proof -
  have "Option.bind (map_option str_int x) parseInt = x" for x by (cases x) simp_all
  then show "proper_query query \<Longrightarrow> query_of (audit_params query) = query"
    by (simp add: query_of_def map_of_audit_params proper_query_def)
qed

lemma subseq_distinct:
  assumes "subseq xs ys" and "distinct ys"
  shows "distinct xs \<and> set xs \<subseteq> set ys"
proof -
  have "xs \<in> set (subseqs ys)" using assms(1) by simp
  then have "set xs \<in> Pow (set ys)" unfolding subseqs_powset [symmetric] by (rule imageI)
  with \<open>xs \<in> set (subseqs ys)\<close> assms(2) show ?thesis using subseqs_distinctD by blast
qed

lemma audit_params_keys:
  "distinct (map fst (audit_params query))
   \<and> fst ` set (audit_params query) \<subseteq> {''limit'', ''offset'', ''event_type'', ''actor'', ''date_from'', ''date_to''}"
proof -
  have "subseq (map fst (num_param k x)) [k]" "subseq (map fst (str_param k v)) [k]" for k x v
    by (simp_all add: num_param_def str_param_def split: option.splits)
  then have "subseq (map fst (audit_params query))
      ([''limit''] @ [''offset''] @ [''event_type''] @ [''actor''] @ [''date_from''] @ [''date_to''])" (is "subseq _ ?keys")
    unfolding audit_params_def map_append by (intro list_emb_append_mono)
  from subseq_distinct [OF this] show ?thesis by simp
qed

text \<open>The key under which the answer is cached determines the query too.\<close>

definition json_field :: "json \<Rightarrow> string \<Rightarrow> json option" where
  "json_field j k = (case j of JObj kvs \<Rightarrow> map_of kvs k | _ \<Rightarrow> None)"

lemma AuditLogQuery_json_fields:
  "json_field (AuditLogQuery_json q) ''limit'' = map_option JNum (aq_limit q)"
  "json_field (AuditLogQuery_json q) ''offset'' = map_option JNum (aq_offset q)"
  "json_field (AuditLogQuery_json q) ''event_type'' = map_option JStr (aq_event_type q)"
  "json_field (AuditLogQuery_json q) ''actor'' = map_option JStr (aq_actor q)"
  "json_field (AuditLogQuery_json q) ''date_from'' = map_option JStr (aq_date_from q)"
  "json_field (AuditLogQuery_json q) ''date_to'' = map_option JStr (aq_date_to q)"
  by (simp_all add: json_field_def AuditLogQuery_json_def map_of_params option.case_eq_if)

lemma AuditLogQuery_json_inject: "AuditLogQuery_json q = AuditLogQuery_json q' \<longleftrightarrow> q = q'"
proof
  assume "AuditLogQuery_json q = AuditLogQuery_json q'"
  then have eq: "json_field (AuditLogQuery_json q) k = json_field (AuditLogQuery_json q') k" for k by simp
  have inj: "map_option JNum x = map_option JNum y \<longleftrightarrow> x = y" "map_option JStr u = map_option JStr v \<longleftrightarrow> u = v"
    for x y u v by (cases x; cases y; simp; fail) (cases u; cases v; simp)
  show "q = q'"
    using eq [of "''limit''"] eq [of "''offset''"] eq [of "''event_type''"] eq [of "''actor''"]
      eq [of "''date_from''"] eq [of "''date_to''"]
    unfolding AuditLogQuery_json_fields inj by simp
qed simp

end
