(* ===== verification/Audit_Csv.thy ===== *)
theory Audit_Csv
  imports Audit_Query Widgets
begin

text \<open>
  \<^verbatim>\<open>src/ui/admin/src/components/audit/log-export-button.tsx\<close>: the CSV text of the audit log, with a reader
  for it.  Reading back what was written gives the rows.
\<close>

section \<open>Writing\<close>

definition csv_headers :: "string list" where
  "csv_headers = [''id'', ''event_type'', ''resource_type'', ''resource_id'', ''actor'', ''actor_type'', ''created_at'']"

text \<open>\<open>val == null ? '' : String(val)\<close> for each header.\<close>

definition csv_value :: "AuditLogEntry \<Rightarrow> string \<Rightarrow> string" where
  "csv_value e h =
     (if h = ''id'' then ae_id e
      else if h = ''event_type'' then ae_event_type e
      else if h = ''resource_type'' then ae_resource_type e
      else if h = ''resource_id'' then nullish (ae_resource_id e) []
      else if h = ''actor'' then ae_actor e
      else if h = ''actor_type'' then actor_type_name (ae_actor_type e)
      else if h = ''created_at'' then ae_created_at e
      else [])"

definition double_quotes :: "string \<Rightarrow> string" where
  "double_quotes s = concat (map (\<lambda>c. if c = CHR 0x22 then [CHR 0x22, CHR 0x22] else [c]) s)"

definition csv_cell :: "string \<Rightarrow> string" where
  "csv_cell s =
     (if includes_str s '','' \<or> includes_str s dquote \<or> includes_str s [CHR 0x0A]
      then dquote @ double_quotes s @ dquote else s)"

definition toCsv :: "AuditLogEntry list \<Rightarrow> string" where
  "toCsv entries =
     (let rows = map (\<lambda>e. join '','' (map (\<lambda>h. csv_cell (csv_value e h)) csv_headers)) entries
      in join [CHR 0x0A] (join '','' csv_headers # rows))"

text \<open>The download: the text and the name of the file.\<close>

definition handleExport :: "string option \<Rightarrow> AuditLogEntry list \<Rightarrow> string \<times> string" where
  "handleExport filename entries = (toCsv entries, nullish filename ''audit-log.csv'')"

definition LogExportButton :: "'m \<Rightarrow> AuditLogEntry list \<Rightarrow> 'm node" where
  "LogExportButton onExport entries =
     El ''button''
       [OnClick onExport, Flag ''disabled'' (length entries = 0),
        Attr ''title'' (if length entries = 0 then ''No entries to export''
                        else ''Export '' @ str_int (int (length entries)) @ '' entries as CSV'')]
       [icon ''Download'', Text ''Export CSV'']"

section \<open>Reading\<close>

text \<open>
  A reader of comma-separated rows: \<open>f\<close> is the field read so far, \<open>r\<close> the fields of the row before
  it.  A field that starts with a quote ends at the next single quote; two quotes stand for one.
\<close>

fun csv_plain :: "string \<Rightarrow> string list \<Rightarrow> string \<Rightarrow> string list list"
  and csv_quoted :: "string \<Rightarrow> string list \<Rightarrow> string \<Rightarrow> string list list" where
  "csv_plain f r [] = [r @ [f]]"
| "csv_plain f r (c # cs) =
     (if c = CHR '','' then csv_plain [] (r @ [f]) cs
      else if c = CHR 0x0A then (r @ [f]) # csv_plain [] [] cs
      else if c = CHR 0x22 \<and> f = [] then csv_quoted [] r cs
      else csv_plain (f @ [c]) r cs)"
| "csv_quoted f r [] = [r @ [f]]"
| "csv_quoted f r [c] = (if c = CHR 0x22 then csv_plain f r [] else [r @ [f @ [c]]])"
| "csv_quoted f r (c # d # cs) =
     (if c = CHR 0x22 then (if d = CHR 0x22 then csv_quoted (f @ [CHR 0x22]) r cs else csv_plain f r (d # cs))
      else csv_quoted (f @ [c]) r (d # cs))"

definition parse_csv :: "string \<Rightarrow> string list list" where
  "parse_csv s = csv_plain [] [] s"

definition cell_end :: "string \<Rightarrow> bool" where
  "cell_end rest = (case rest of [] \<Rightarrow> True | c # _ \<Rightarrow> c = CHR '','' \<or> c = CHR 0x0A)"

lemma cell_end_simps [simp]: "cell_end []" "cell_end (CHR '','' # r)" "cell_end (CHR 0x0A # r)"
  by (simp_all add: cell_end_def)

lemma includes_single: "includes_str s [c] \<longleftrightarrow> c \<in> set s"
  by (metis includes_str_iff in_set_conv_decomp sublist_def append_Cons append_Nil)

lemma csv_plain_field:
  "CHR '','' \<notin> set s \<Longrightarrow> CHR 0x22 \<notin> set s \<Longrightarrow> CHR 0x0A \<notin> set s \<Longrightarrow>
   csv_plain f r (s @ rest) = csv_plain (f @ s) r rest"
  by (induction s arbitrary: f) auto

lemma csv_quoted_char: "c \<noteq> CHR 0x22 \<Longrightarrow> xs \<noteq> [] \<Longrightarrow> csv_quoted f r (c # xs) = csv_quoted (f @ [c]) r xs"
  by (cases xs) simp_all

lemma csv_quoted_field:
  "cell_end rest \<Longrightarrow> csv_quoted f r (double_quotes s @ CHR 0x22 # rest) = csv_plain (f @ s) r rest"
proof (induction s arbitrary: f)
  case Nil
  then show ?case by (cases rest) (auto simp: double_quotes_def cell_end_def)
next
  case (Cons c s)
  then show ?case by (auto simp: double_quotes_def csv_quoted_char)
qed

lemma csv_plain_cell: "cell_end rest \<Longrightarrow> csv_plain [] r (csv_cell s @ rest) = csv_plain s r rest"
  by (auto simp: csv_cell_def includes_single csv_quoted_field csv_plain_field)

lemma csv_plain_row:
  assumes "fs \<noteq> []" and "rest = [] \<or> (\<exists>xs. rest = CHR 0x0A # xs)"
  shows "csv_plain [] r (join '','' (map csv_cell fs) @ rest) = csv_plain (last fs) (r @ butlast fs) rest"
  using assms(1)
proof (induction fs arbitrary: r)
  case (Cons f fs)
  show ?case
  proof (cases fs)
    case Nil
    with assms(2) show ?thesis using csv_plain_cell [of "[]" r f] by (auto simp: csv_plain_cell)
  next
    case (Cons g gs)
    then have "csv_plain [] r (join '','' (map csv_cell (f # fs)) @ rest)
        = csv_plain [] r (csv_cell f @ CHR '','' # join '','' (map csv_cell fs) @ rest)" by simp
    also have "\<dots> = csv_plain [] (r @ [f]) (join '','' (map csv_cell fs) @ rest)"
      by (subst csv_plain_cell) simp_all
    also have "\<dots> = csv_plain (last fs) ((r @ [f]) @ butlast fs) rest" using Cons.IH Cons by blast
    finally show ?thesis using Cons by simp
  qed
qed simp

lemma parse_csv_rows:
  assumes "rows \<noteq> []" and "\<forall>row \<in> set rows. row \<noteq> []"
  shows "parse_csv (join [CHR 0x0A] (map (\<lambda>row. join '','' (map csv_cell row)) rows)) = rows"
  using assms
proof (induction rows)
  case (Cons row rows)
  show ?case
  proof (cases rows)
    case Nil
    then show ?thesis using csv_plain_row [of row "[]" "[]"] Cons.prems by (simp add: parse_csv_def)
  next
    case (Cons row' rows')
    let ?t = "join [CHR 0x0A] (map (\<lambda>row. join '','' (map csv_cell row)) rows)"
    have "parse_csv (join '','' (map csv_cell row) @ CHR 0x0A # ?t) = row # parse_csv ?t"
      using csv_plain_row [of row "CHR 0x0A # ?t" "[]"] Cons.prems by (simp add: parse_csv_def)
    with Cons Cons.IH Cons.prems show ?thesis by simp
  qed
qed simp

lemma csv_rows_read:
  "parse_csv (toCsv entries) = csv_headers # map (\<lambda>e. map (csv_value e) csv_headers) entries"
proof -
  have "join '','' csv_headers = join '','' (map csv_cell csv_headers)"
    by (simp add: csv_headers_def csv_cell_def includes_single)
  then have "toCsv entries = join [CHR 0x0A] (map (\<lambda>row. join '','' (map csv_cell row))
      (csv_headers # map (\<lambda>e. map (csv_value e) csv_headers) entries))"
    by (simp add: toCsv_def Let_def comp_def)
  moreover have "csv_headers \<noteq> []" by (simp add: csv_headers_def)
  ultimately show ?thesis by (simp only:) (rule parse_csv_rows; auto)
qed

section \<open>Properties\<close>

text \<open>C12: The exported CSV file can be read back: whatever commas, quotes and line feeds the values hold, a reader
  of quoted comma-separated rows with line feeds between them gets the header row and then one row per entry with its seven values.\<close>

theorem csv_export_roundtrip:
  "parse_csv (toCsv entries) = csv_headers # map (\<lambda>e. map (csv_value e) csv_headers) entries"
  by (rule csv_rows_read)

end
