(* ===== verification/AuditLog.thy ===== *)
theory AuditLog
  imports Audit_Csv Json_Indent Pagination Date_Utils
begin

text \<open>
  The audit log page: \<^verbatim>\<open>src/ui/admin/src/components/audit/*.tsx\<close> and
  \<^verbatim>\<open>src/ui/admin/src/pages/AuditLogPage.tsx\<close>.
\<close>

section \<open>Actors\<close>

text \<open>\<open>s.split(/[\s._@-]/)\<close>\<close>

fun split_where :: "(char \<Rightarrow> bool) \<Rightarrow> string \<Rightarrow> string list" where
  "split_where p [] = [[]]"
| "split_where p (c # cs) =
     (if p c then [] # split_where p cs
      else (case split_where p cs of [] \<Rightarrow> [[c]] | w # ws \<Rightarrow> (c # w) # ws))"

definition is_actor_separator :: "char \<Rightarrow> bool" where
  "is_actor_separator c \<longleftrightarrow> is_space c \<or> c \<in> set ''._@-''"

definition getInitials :: "string \<Rightarrow> string" where
  "getInitials actor =
     (let initials = join [] (map (\<lambda>s. toUpperCase (charAt0 s)) (js_slice (split_where is_actor_separator actor) 0 2))
      in if initials \<noteq> [] then initials else toUpperCase (js_slice actor 0 2))"

fun ACTOR_TYPE_ICON :: "ActorType \<Rightarrow> string" where
  "ACTOR_TYPE_ICON ActorUser = ''User''"
| "ACTOR_TYPE_ICON ActorApiKey = ''Key''"
| "ACTOR_TYPE_ICON ActorSystem = ''Bot''"

fun ACTOR_TYPE_BG :: "ActorType \<Rightarrow> string" where
  "ACTOR_TYPE_BG ActorUser = ''blue''"
| "ACTOR_TYPE_BG ActorApiKey = ''amber''"
| "ACTOR_TYPE_BG ActorSystem = ''gray''"

text \<open>\<open>s.replace('_', ' ')\<close>: the first underscore only.\<close>

fun replace_first :: "char \<Rightarrow> char \<Rightarrow> string \<Rightarrow> string" where
  "replace_first a b [] = []"
| "replace_first a b (c # cs) = (if c = a then b # cs else c # replace_first a b cs)"

definition ActorDisplay :: "string \<Rightarrow> ActorType \<Rightarrow> 'm node" where
  "ActorDisplay actor actorType =
     El ''div'' []
       [El ''div'' [Attr ''variant'' (ACTOR_TYPE_BG actorType)]
          [if actorType = ActorSystem then icon (ACTOR_TYPE_ICON actorType) else Text (getInitials actor)],
        El ''div'' []
          [El ''p'' [] [Text actor],
           El ''p'' []
             [icon (ACTOR_TYPE_ICON actorType), Text (replace_first (CHR ''_'') (CHR '' '') (actor_type_name actorType))]]]"

section \<open>Events\<close>

definition mentions :: "string \<Rightarrow> string list \<Rightarrow> bool" where
  "mentions s ws = list_ex (includes_str s) ws"

definition getIconConfig :: "string \<Rightarrow> string \<times> string" where
  "getIconConfig eventType =
     (let lower = toLowerCase eventType in
      if mentions lower [''create'', ''add''] then (''PlusCircle'', ''emerald'')
      else if mentions lower [''update'', ''edit'', ''patch''] then (''Pencil'', ''amber'')
      else if mentions lower [''delete'', ''remove''] then (''Trash2'', ''red'')
      else if mentions lower [''login'', ''logout'', ''auth''] then (''LogIn'', ''blue'')
      else if mentions lower [''error'', ''fail'', ''deny''] then (''ShieldAlert'', ''red'')
      else (''FileText'', ''gray''))"

definition EventIcon :: "string \<Rightarrow> 'm node" where
  "EventIcon eventType =
     (case getIconConfig eventType of (ic, colour) \<Rightarrow> El ''div'' [Attr ''variant'' colour] [icon ic])"

definition event_variant :: "string \<Rightarrow> BadgeVariant" where
  "event_variant eventType =
     (let lower = toLowerCase eventType in
      if mentions lower [''create'', ''add''] then BvSuccess
      else if mentions lower [''delete'', ''remove''] then BvDestructive
      else if mentions lower [''update'', ''edit''] then BvWarning
      else if mentions lower [''login'', ''auth''] then BvInfo
      else BvGhost)"

text \<open>\<open>replace(/\b\w/g, c => c.toUpperCase())\<close>: a word character that follows none.\<close>

definition is_word :: "char \<Rightarrow> bool" where
  "is_word c \<longleftrightarrow> is_digit c \<or> is_lower c \<or> is_upper c \<or> c = CHR ''_''"

fun upper_words :: "bool \<Rightarrow> string \<Rightarrow> string" where
  "upper_words after_word [] = []"
| "upper_words after_word (c # cs) =
     (if is_word c \<and> \<not> after_word then upper_char c else c) # upper_words (is_word c) cs"

definition formatLabel :: "string \<Rightarrow> string" where
  "formatLabel eventType = upper_words False (map (\<lambda>c. if c = CHR ''_'' then CHR '' '' else c) eventType)"

definition EventTypeBadge :: "string \<Rightarrow> 'm node" where
  "EventTypeBadge eventType = Badge (Some (event_variant eventType)) False [Text (formatLabel eventType)]"

section \<open>Filters\<close>

definition EVENT_TYPE_OPTIONS :: "FilterOption list" where
  "EVENT_TYPE_OPTIONS =
     [fopt ''All Events'' [], fopt ''Create'' ''create'', fopt ''Update'' ''update'', fopt ''Delete'' ''delete'',
      fopt ''Login'' ''login'', fopt ''Auth'' ''auth'']"

definition DateRangePicker :: "string \<Rightarrow> string \<Rightarrow> (string \<Rightarrow> 'm) \<Rightarrow> (string \<Rightarrow> 'm) \<Rightarrow> 'm node" where
  "DateRangePicker from_date to_date onFromChange onToChange =
     El ''div'' []
       [icon ''Calendar'',
        El ''input'' [Attr ''type'' ''date'', Attr ''value'' from_date, OnChange onFromChange,
           Attr ''title'' ''From date'', Attr ''aria-label'' ''From date''] [],
        El ''span'' [] [Text ''to''],
        El ''input'' [Attr ''type'' ''date'', Attr ''value'' to_date, Attr ''min'' from_date, OnChange onToChange,
           Attr ''title'' ''To date'', Attr ''aria-label'' ''To date''] []]"

record 'm audit_filters =
  fl_search :: string
  fl_eventType :: string
  fl_actor :: string
  fl_dateFrom :: string
  fl_dateTo :: string
  fl_onSearchChange :: "string \<Rightarrow> 'm"
  fl_onEventTypeChange :: "string \<Rightarrow> 'm"
  fl_onActorChange :: "string \<Rightarrow> 'm"
  fl_onDateFromChange :: "string \<Rightarrow> 'm"
  fl_onDateToChange :: "string \<Rightarrow> 'm"

definition AuditFilters :: "'m audit_filters \<Rightarrow> 'm node" where
  "AuditFilters p =
     El ''div'' []
       [El ''div'' []
         [SearchBar (fl_search p) (fl_onSearchChange p) (Some (''Search resource or ID'' @ ellipsis)),
          FilterSelect ''Event Type'' (fl_eventType p) EVENT_TYPE_OPTIONS (fl_onEventTypeChange p),
          El ''div'' []
           [El ''label'' [] [Text ''Actor:''],
            El ''input'' [Attr ''value'' (fl_actor p), OnChange (fl_onActorChange p),
               Attr ''placeholder'' (''Filter by actor'' @ ellipsis)] []]],
        DateRangePicker (fl_dateFrom p) (fl_dateTo p) (fl_onDateFromChange p) (fl_onDateToChange p)]"

section \<open>Detail panel\<close>

text \<open>The keys of both objects, each once, in the order of their first occurrence.\<close>

definition allKeys :: "json_object option \<Rightarrow> json_object option \<Rightarrow> string list" where
  "allKeys before after = rev (remdups (rev (map fst (nullish before []) @ map fst (nullish after []))))"

definition field_of :: "json_object option \<Rightarrow> string \<Rightarrow> json option" where
  "field_of obj key = Option.bind obj (\<lambda>kvs. map_of kvs key)"

text \<open>\<open>JSON.stringify(undefined)\<close> is \<open>undefined\<close>, which renders nothing.\<close>

definition diff_changed :: "json_object option \<Rightarrow> json_object option \<Rightarrow> string \<Rightarrow> bool" where
  "diff_changed before after key \<longleftrightarrow>
     map_option stringify (field_of before key) \<noteq> map_option stringify (field_of after key)"

definition json_text :: "json option \<Rightarrow> 'm node list" where
  "json_text v = (case v of None \<Rightarrow> [] | Some j \<Rightarrow> [Text (stringify j)])"

text \<open>\<open>aVal ?? bVal\<close>: both \<open>undefined\<close> and \<open>null\<close> fall through.\<close>

definition nullish_json :: "json option \<Rightarrow> json option \<Rightarrow> json option" where
  "nullish_json a b = (case a of Some j \<Rightarrow> if j = JNull then b else a | None \<Rightarrow> b)"

definition diff_row :: "json_object option \<Rightarrow> json_object option \<Rightarrow> string \<Rightarrow> 'm node" where
  "diff_row before after key =
     (let bVal = field_of before key; aVal = field_of after key; changed = diff_changed before after key in
      El ''div'' [Attr ''key'' key, Attr ''variant'' (if changed then ''changed'' else ''plain'')]
        [El ''span'' [] [Text key, Text '':''], Text '' '',
         (if changed then El ''span'' [] [El ''span'' [] (json_text bVal), El ''span'' [] (json_text aVal)]
          else El ''span'' [] (json_text (nullish_json aVal bVal)))])"

definition JsonDiff :: "json_object option \<Rightarrow> json_object option \<Rightarrow> 'm node list" where
  "JsonDiff before after =
     (if before = None \<and> after = None then []
      else [El ''div'' [] (map (diff_row before after) (allKeys before after))])"

definition AuditLogDetailPanel :: "date_env \<Rightarrow> AuditLogEntry option \<Rightarrow> 'm \<Rightarrow> 'm node list" where
  "AuditLogDetailPanel env entry onClose =
     panel_frame onClose entry (\<lambda>e.
       [El ''div'' []
         [El ''div'' []
           [El ''div'' [] [EventTypeBadge (ae_event_type e), El ''p'' [] [Text (ae_resource_type e)]],
            close_button onClose],
          El ''div'' []
           ([El ''div'' [] [El ''p'' [] [Text ''Actor''], ActorDisplay (ae_actor e) (ae_actor_type e)],
             El ''div'' []
              ([El ''div'' [] [El ''p'' [] [Text ''Entry ID''], El ''p'' [] [Text (ae_id e)]]]
               @ when_str (ae_resource_id e) (\<lambda>r.
                   El ''div'' [] [El ''p'' [] [Text ''Resource ID''], El ''p'' [] [Text r]])
               @ [El ''div'' [] [El ''p'' [] [Text ''Timestamp''], El ''p'' [] [Text (formatDateTime env (ae_created_at e))]]])]
            @ show_if (ae_before e \<noteq> None \<or> ae_after e \<noteq> None)
                [El ''div'' [] ([El ''p'' [] [Text ''Changes'']] @ JsonDiff (ae_before e) (ae_after e))]
            @ show_if (nullish (ae_metadata e) [] \<noteq> [])
                [El ''div'' [] [El ''p'' [] [Text ''Metadata''],
                   El ''pre'' [] [Text (stringify_indent [] (JObj (nullish (ae_metadata e) [])))]]])]])"

section \<open>Page\<close>

definition audit_PAGE_SIZE :: int where
  "audit_PAGE_SIZE = 20"

record audit_page =
  ap_search :: string
  ap_eventType :: string
  ap_actor :: string
  ap_dateFrom :: string
  ap_dateTo :: string
  ap_page :: int
  ap_selected :: "AuditLogEntry option"

definition AuditLogPage_init :: audit_page where
  "AuditLogPage_init =
     \<lparr>ap_search = [], ap_eventType = [], ap_actor = [], ap_dateFrom = [], ap_dateTo = [], ap_page = 1, ap_selected = None\<rparr>"

datatype audit_msg =
    ApSearch string
  | ApEventType string
  | ApActor string
  | ApDateFrom string
  | ApDateTo string
  | ApPage int
  | ApSelected "AuditLogEntry option"
  | ApExport

fun AuditLogPage_update :: "audit_msg \<Rightarrow> audit_page \<Rightarrow> audit_page" where
  "AuditLogPage_update (ApSearch v) s = s\<lparr>ap_search := v, ap_page := 1\<rparr>"
| "AuditLogPage_update (ApEventType v) s = s\<lparr>ap_eventType := v, ap_page := 1\<rparr>"
| "AuditLogPage_update (ApActor v) s = s\<lparr>ap_actor := v, ap_page := 1\<rparr>"
| "AuditLogPage_update (ApDateFrom v) s = s\<lparr>ap_dateFrom := v, ap_page := 1\<rparr>"
| "AuditLogPage_update (ApDateTo v) s = s\<lparr>ap_dateTo := v, ap_page := 1\<rparr>"
| "AuditLogPage_update (ApPage p) s = s\<lparr>ap_page := p\<rparr>"
| "AuditLogPage_update (ApSelected e) s = s\<lparr>ap_selected := e\<rparr>"
| "AuditLogPage_update ApExport s = s"

definition audit_query :: "audit_page \<Rightarrow> AuditLogQuery" where
  "audit_query s =
     \<lparr>aq_limit = Some 200, aq_offset = None, aq_event_type = or_undefined (ap_eventType s),
      aq_actor = or_undefined (ap_actor s), aq_date_from = or_undefined (ap_dateFrom s),
      aq_date_to = or_undefined (ap_dateTo s)\<rparr>"

definition audit_matches :: "string \<Rightarrow> AuditLogEntry \<Rightarrow> bool" where
  "audit_matches q e \<longleftrightarrow>
     includes_str (toLowerCase (ae_resource_type e)) q
     \<or> (case ae_resource_id e of None \<Rightarrow> False | Some r \<Rightarrow> includes_str (toLowerCase r) q)
     \<or> includes_str (toLowerCase (ae_event_type e)) q
     \<or> includes_str (toLowerCase (ae_actor e)) q"

definition audit_filtered :: "AuditLogEntry list \<Rightarrow> audit_page \<Rightarrow> AuditLogEntry list" where
  "audit_filtered data s =
     (if ap_search s = [] then data else filter (audit_matches (toLowerCase (ap_search s))) data)"

definition audit_paginated :: "AuditLogEntry list \<Rightarrow> audit_page \<Rightarrow> AuditLogEntry list" where
  "audit_paginated data s =
     js_slice (audit_filtered data s) ((ap_page s - 1) * audit_PAGE_SIZE) (ap_page s * audit_PAGE_SIZE)"

definition audit_columns :: "date_env \<Rightarrow> (AuditLogEntry, audit_msg) Column list" where
  "audit_columns env =
     [column ''event'' ''Event'' None (\<lambda>e.
        [El ''button'' [OnClick (ApSelected (Some e))]
          [EventIcon (ae_event_type e),
           El ''div'' [] [EventTypeBadge (ae_event_type e), El ''p'' [] [Text (ae_resource_type e)]]]]),
      column ''actor'' ''Actor'' None (\<lambda>e. [ActorDisplay (ae_actor e) (ae_actor_type e)]),
      column ''resource'' ''Resource'' None (\<lambda>e.
        [El ''span'' []
          [Text (if truthy_str (ae_resource_id e) then js_slice (nullish (ae_resource_id e) []) 0 8 @ ellipsis else em_dash)]]),
      column ''time'' ''Time'' (Some ''160px'') (\<lambda>e.
        [El ''span'' [Attr ''title'' (formatDateTime env (ae_created_at e))]
          [Text (formatDistanceToNow env (ae_created_at e)), Text '' ago'']])]"

definition audit_table :: "audit_page \<Rightarrow> bool \<Rightarrow> audit_msg TableOptions" where
  "audit_table s loading =
     \<lparr>tbl_loading = loading,
      tbl_emptyTitle =
        Some (if ap_search s \<noteq> [] \<or> ap_eventType s \<noteq> [] \<or> ap_actor s \<noteq> [] \<or> ap_dateFrom s \<noteq> [] \<or> ap_dateTo s \<noteq> []
              then ''No entries match your filters'' else ''No audit entries''),
      tbl_emptyDescription =
        (if ap_search s = [] \<and> ap_eventType s = [] \<and> ap_actor s = []
         then Some ''Audit entries will appear here as actions are performed.'' else None),
      tbl_emptyAction = None,
      tbl_skeletonRows = None\<rparr>"

definition audit_page_filters :: "audit_page \<Rightarrow> audit_msg audit_filters" where
  "audit_page_filters s =
     \<lparr>fl_search = ap_search s, fl_eventType = ap_eventType s, fl_actor = ap_actor s, fl_dateFrom = ap_dateFrom s,
      fl_dateTo = ap_dateTo s, fl_onSearchChange = ApSearch, fl_onEventTypeChange = ApEventType,
      fl_onActorChange = ApActor, fl_onDateFromChange = ApDateFrom, fl_onDateToChange = ApDateTo\<rparr>"

definition AuditLogPage :: "date_env \<Rightarrow> AuditLogEntry query_result \<Rightarrow> audit_page \<Rightarrow> audit_msg node list" where
  "AuditLogPage env q s =
     (let data = query_data q in
      [El ''div'' []
        ([PageHeader ''Audit Log'' (Some ''Track all changes and actions across the gateway.'')
            (Some [LogExportButton ApExport (audit_filtered data s)]) None,
          El ''div'' [] [AuditFilters (audit_page_filters s)]]
         @ load_error (qr_isError q)
             ''Audit log endpoint not available yet. This feature requires the audit API to be implemented.''
         @ [DataTable (audit_columns env) (audit_paginated data s) ae_id (audit_table s (qr_isLoading q))]
         @ Pagination (ap_page s) audit_PAGE_SIZE (int (length (audit_filtered data s))) ApPage
         @ AuditLogDetailPanel env (ap_selected s) (ApSelected None))])"

section \<open>The contracts\<close>

definition audit_data :: "(AuditLogQuery \<Rightarrow> AuditLogEntry query_result) \<Rightarrow> audit_page \<Rightarrow> AuditLogEntry list" where
  "audit_data q s = query_data (q (audit_query s))"

definition audit_offers ::
    "date_env \<Rightarrow> (AuditLogQuery \<Rightarrow> AuditLogEntry query_result) \<Rightarrow> audit_page \<Rightarrow> audit_msg set" where
  "audit_offers env q s = view_msgs (AuditLogPage env (q (audit_query s)) s)"

lemma audit_views_msgs [view]:
  "msgs (EventIcon t) = {}" "msgs (EventTypeBadge t) = {}" "msgs (ActorDisplay a k) = {}"
  by (simp_all add: EventIcon_def EventTypeBadge_def ActorDisplay_def view split: prod.split)

lemma LogExportButton_msgs [view]: "msgs (LogExportButton m es) = (if es = [] then {} else {m})"
  by (simp add: LogExportButton_def view)

lemma AuditFilters_msgs [view]:
  "msgs (AuditFilters (audit_page_filters s)) =
     range ApSearch \<union> range ApEventType \<union> range ApActor \<union> range ApDateFrom \<union> range ApDateTo"
  by (auto simp: AuditFilters_def audit_page_filters_def DateRangePicker_def view)

lemma json_text_msgs [view]: "view_msgs (json_text v) = {}"
  by (simp add: json_text_def split: option.split)

lemma diff_row_msgs [view]: "msgs (diff_row b a k) = {}"
  by (simp add: diff_row_def Let_def view)

lemma JsonDiff_msgs [view]: "view_msgs (JsonDiff b a) = {}"
  by (simp add: JsonDiff_def view view_msgs_map)

lemma audit_parts_msgs:
  "ApPage p \<notin> msgs (DataTable (audit_columns env) data ae_id (audit_table s loading))"
  "ApPage p \<notin> view_msgs (AuditLogDetailPanel env sel (ApSelected None))"
  by (simp_all add: view audit_columns_def audit_table_def AuditLogDetailPanel_def split: option.split)

lemma AuditLogPage_page_msgs:
  assumes "ApPage p \<in> audit_offers env q s"
  shows "p \<in> page_offers audit_PAGE_SIZE (int (length (audit_filtered (audit_data q s) s))) (ap_page s)"
proof -
  have "ApPage p \<in> view_msgs (Pagination (ap_page s) audit_PAGE_SIZE
      (int (length (audit_filtered (audit_data q s) s))) ApPage)"
    using assms
    by (simp add: audit_offers_def audit_data_def AuditLogPage_def Let_def view audit_parts_msgs image_iff
        split: if_splits del: DataTable_msgs)
  then show ?thesis by (rule Pagination_msg_page) simp
qed

interpretation audit_list: paged_machine ap_page "\<lambda>s. audit_filtered (audit_data q s) s"
    "\<lambda>s. audit_paginated (audit_data q s) s" "\<lambda>p. AuditLogPage_update (ApPage p)" audit_PAGE_SIZE
    "audit_offers env q" AuditLogPage_update for env q
proof (unfold_locales, goal_cases)
  case (5 m s)
  then show ?case
  proof (cases m)
    case (ApPage p)
    with 5 AuditLogPage_page_msgs show ?thesis by (auto simp: audit_filtered_def audit_data_def audit_query_def)
  qed (simp_all add: audit_filtered_def audit_data_def audit_query_def)
qed (simp_all add: audit_PAGE_SIZE_def audit_paginated_def page_rows_def audit_filtered_def audit_data_def audit_query_def)

section \<open>Initials\<close>

lemma split_where_not_Nil [simp]: "split_where p s \<noteq> []"
  by (induction s) (auto split: list.splits)

lemma length_charAt0: "length (toUpperCase (charAt0 s)) \<le> 1"
  by (simp add: toUpperCase_def charAt0_def split: list.split)

lemma getInitials_length: "length (getInitials actor) \<le> 2"
proof -
  have two: "length (join [] (map (\<lambda>s. toUpperCase (charAt0 s)) ws)) \<le> 2" if "length ws \<le> 2" for ws
  proof (cases ws)
    case (Cons v vs)
    with that show ?thesis using length_charAt0 [of v] length_charAt0 [of "hd vs"] by (cases vs) auto
  qed simp
  have "length (js_slice (split_where is_actor_separator actor) 0 2) \<le> 2" "length (js_slice actor 0 2) \<le> 2"
    using length_js_slice_prefix [of 2 "split_where is_actor_separator actor"] length_js_slice_prefix [of 2 actor]
    by simp_all
  with two show ?thesis by (simp add: getInitials_def Let_def) (simp add: toUpperCase_def)
qed

lemma getInitials_nonempty: "actor \<noteq> [] \<Longrightarrow> getInitials actor \<noteq> []"
  by (auto simp: getInitials_def Let_def toUpperCase_def js_slice_nonneg)

section \<open>Properties\<close>

text \<open>C32: The audit log page asks the endpoint for exactly what its filters say: a single request without method,
  headers or body goes to the fixed path, and reading its query string back gives a limit of 200, no offset,
  and the event type, actor and two dates of the filters, each left out when its field is empty, with no
  parameter twice and no other parameter, whatever separators or special characters the fields hold.  The
  answer is the parsed body, an empty list for a missing endpoint, or the error with the status.  Two states
  share a cached answer exactly when these four filters agree, so the search and the page ask nothing new.\<close>

theorem audit_page_request:
  "(\<exists>address. take 14 address = ''/api/v1/audit?''
      \<and> distinct (map fst (parse_params (drop 14 address)))
      \<and> fst ` set (parse_params (drop 14 address))
          \<subseteq> {''limit'', ''offset'', ''event_type'', ''actor'', ''date_from'', ''date_to''}
      \<and> query_of (parse_params (drop 14 address)) =
          \<lparr>aq_limit = Some 200, aq_offset = None,
           aq_event_type = (if ap_eventType s = [] then None else Some (ap_eventType s)),
           aq_actor = (if ap_actor s = [] then None else Some (ap_actor s)),
           aq_date_from = (if ap_dateFrom s = [] then None else Some (ap_dateFrom s)),
           aq_date_to = (if ap_dateTo s = [] then None else Some (ap_dateTo s))\<rparr>
      \<and> queryFn (useAuditLog (audit_query s)) fetch =
          (case fetch \<lparr>fetch_url = address, fetch_method = None, fetch_headers = [], fetch_body = None\<rparr> of
             Inl e \<Rightarrow> Inl e
           | Inr res \<Rightarrow>
               if res_ok res then res_json res
               else if res_status res = 404 then Inr (JArr [])
               else Inl (JsError (str_int (res_status res) @ '' '' @ res_statusText res))))
   \<and> (queryKey (useAuditLog (audit_query s)) = queryKey (useAuditLog (audit_query s')) \<longleftrightarrow>
        ap_eventType s = ap_eventType s' \<and> ap_actor s = ap_actor s'
        \<and> ap_dateFrom s = ap_dateFrom s' \<and> ap_dateTo s = ap_dateTo s')"
proof (intro conjI exI [of _ "audit_url (audit_query s)"])
  have proper: "proper_query (audit_query s)"
    by (simp add: proper_query_def audit_query_def or_undefined_def)
  have text_of: "drop 14 (audit_url query) = params_text (audit_params query)" for query by (simp add: audit_url_def)
  show "distinct (map fst (parse_params (drop 14 (audit_url (audit_query s)))))"
    using audit_params_keys [of "audit_query s"] by (simp add: text_of parse_params_text)
  show "fst ` set (parse_params (drop 14 (audit_url (audit_query s))))
      \<subseteq> {''limit'', ''offset'', ''event_type'', ''actor'', ''date_from'', ''date_to''}"
    using audit_params_keys [of "audit_query s"] unfolding text_of parse_params_text by simp
  show "query_of (parse_params (drop 14 (audit_url (audit_query s)))) =
      \<lparr>aq_limit = Some 200, aq_offset = None,
       aq_event_type = (if ap_eventType s = [] then None else Some (ap_eventType s)),
       aq_actor = (if ap_actor s = [] then None else Some (ap_actor s)),
       aq_date_from = (if ap_dateFrom s = [] then None else Some (ap_dateFrom s)),
       aq_date_to = (if ap_dateTo s = [] then None else Some (ap_dateTo s))\<rparr>"
    unfolding text_of parse_params_text query_of_audit_params [OF proper] by (simp add: audit_query_def or_undefined_def)
  show "queryKey (useAuditLog (audit_query s)) = queryKey (useAuditLog (audit_query s')) \<longleftrightarrow>
        ap_eventType s = ap_eventType s' \<and> ap_actor s = ap_actor s'
        \<and> ap_dateFrom s = ap_dateFrom s' \<and> ap_dateTo s = ap_dateTo s'"
    by (auto simp: useAuditLog_def AuditLogQuery_json_inject audit_query_def or_undefined_def split: if_splits)
qed (simp_all add: audit_url_def useAuditLog_def fetchAuditLog_def audit_query_def nullish_def split: sum.split)

text \<open>A line of the change list as it is rendered: its key, whether it is marked, and the values it shows.\<close>

fun diff_values :: "'m node \<Rightarrow> string list list" where
  "diff_values (El t as [El u bs cs, El v ds es]) = [texts (El u bs cs), texts (El v ds es)]"
| "diff_values n = [texts n]"

fun diff_line :: "'m node \<Rightarrow> string \<times> bool \<times> string list list" where
  "diff_line (El t as [El u bs (Text k # cs), sep, v]) = (k, Attr ''variant'' ''changed'' \<in> set as, diff_values v)"
| "diff_line n = ([], False, [])"

definition value_text :: "json_object option \<Rightarrow> string \<Rightarrow> string list" where
  "value_text obj k = (case obj of None \<Rightarrow> [] | Some kvs \<Rightarrow> (case map_of kvs k of None \<Rightarrow> [] | Some j \<Rightarrow> [stringify j]))"

lemma texts_json_text: "concat (map texts (json_text (field_of obj k))) = value_text obj k"
  by (simp add: json_text_def field_of_def value_text_def split: option.split)

lemma diff_values_plain: "diff_values (El t as (json_text v)) = [texts (El t as (json_text v))]"
  by (cases v) (simp_all add: json_text_def)

lemma stringify_option_inject: "map_option stringify x = map_option stringify y \<longleftrightarrow> x = y"
  by (metis option.inj_map stringify_inject injI inj_eq)

lemma diff_line_row:
  "diff_line (diff_row before after k) =
     (if field_of before k \<noteq> field_of after k then (k, True, [value_text before k, value_text after k])
      else (k, False, [value_text after k]))"
proof -
  have "nullish_json (field_of after k) (field_of after k) = field_of after k"
    by (simp add: nullish_json_def split: option.split)
  then show ?thesis
    by (auto simp: diff_row_def diff_changed_def stringify_option_inject Let_def diff_values_plain texts_json_text)
qed

text \<open>C33: The change list of an audit entry is complete and right: it is absent when the entry has neither object,
  and otherwise it has one line for each key of the two objects, none twice and no other.  The line of a
  key whose values differ is marked and shows the earlier value and then the later one, an absent value as
  nothing; every other line is unmarked and shows the common value.  Values are compared as JSON with the
  order of keys, as \<open>JSON.stringify\<close> writes them.\<close>

theorem audit_diff_marks_changes:
  "let differ = (\<lambda>k. Option.bind before (\<lambda>kvs. map_of kvs k) \<noteq> Option.bind after (\<lambda>kvs. map_of kvs k)) in
    if before = None \<and> after = None then JsonDiff before after = ([] :: 'm node list)
    else \<exists>rows keys. JsonDiff before after = [El ''div'' [] rows :: 'm node]
      \<and> map diff_line rows =
          map (\<lambda>k. (k, differ k, if differ k then [value_text before k, value_text after k] else [value_text after k])) keys
      \<and> distinct keys
      \<and> set keys = (case before of None \<Rightarrow> {} | Some kvs \<Rightarrow> fst ` set kvs)
          \<union> (case after of None \<Rightarrow> {} | Some kvs \<Rightarrow> fst ` set kvs)"
proof (cases "before = None \<and> after = None")
  case False
  define differ where "differ k \<longleftrightarrow> Option.bind before (\<lambda>kvs. map_of kvs k) \<noteq> Option.bind after (\<lambda>kvs. map_of kvs k)" for k
  have "distinct (allKeys before after)"
    "set (allKeys before after) = (case before of None \<Rightarrow> {} | Some kvs \<Rightarrow> fst ` set kvs)
       \<union> (case after of None \<Rightarrow> {} | Some kvs \<Rightarrow> fst ` set kvs)"
    by (auto simp: allKeys_def nullish_def split: option.splits)
  moreover define rows :: "'m node list" where "rows = map (diff_row before after) (allKeys before after)"
  then have "map diff_line rows =
      map (\<lambda>k. (k, differ k, if differ k then [value_text before k, value_text after k] else [value_text after k]))
        (allKeys before after)"
    by (simp add: diff_line_row differ_def field_of_def)
  moreover have "JsonDiff before after = [El ''div'' [] rows]" using False by (simp add: JsonDiff_def rows_def)
  ultimately show ?thesis unfolding Let_def if_not_P [OF False] differ_def by blast
qed (simp add: JsonDiff_def)

text \<open>The avatar of an actor shows at most two characters, and at least one unless the name is empty.\<close>

theorem actor_initials_bounds:
  "length (getInitials actor) \<le> 2 \<and> (getInitials actor = [] \<longleftrightarrow> actor = [])"
  using getInitials_length [of actor] getInitials_nonempty [of actor]
  by (auto simp: getInitials_def Let_def js_slice_nonneg toUpperCase_def charAt0_def)

text \<open>C34: With fixed answers to the queries, every state of the audit log page that the controls lead to shows a
  nonempty table whenever an entry matches the search.  The pages together show exactly the matching
  entries in order, and the exported file reads back as the header and exactly these entries.\<close>

theorem audit_table_and_export:
  assumes "reach (audit_offers env q) AuditLogPage_update AuditLogPage_init s"
  shows "(audit_filtered (audit_data q s) s \<noteq> [] \<longrightarrow> audit_paginated (audit_data q s) s \<noteq> [])
    \<and> concat (map (\<lambda>p. audit_paginated (audit_data q s) (AuditLogPage_update (ApPage p) s))
         [1..totalPages (int (length (audit_filtered (audit_data q s) s))) audit_PAGE_SIZE])
       = filter (\<lambda>e. ap_search s = [] \<or> audit_matches (toLowerCase (ap_search s)) e) (audit_data q s)
    \<and> parse_csv (fst (handleExport None (audit_filtered (audit_data q s) s)))
       = csv_headers # map (\<lambda>e. map (csv_value e) csv_headers)
           (filter (\<lambda>e. ap_search s = [] \<or> audit_matches (toLowerCase (ap_search s)) e) (audit_data q s))"
proof -
  have f: "audit_filtered (audit_data q s) s =
      filter (\<lambda>e. ap_search s = [] \<or> audit_matches (toLowerCase (ap_search s)) e) (audit_data q s)"
    by (simp add: audit_filtered_def)
  have d: "audit_data q (AuditLogPage_update (ApPage p) s) = audit_data q s" for p
    by (simp add: audit_data_def audit_query_def)
  have "audit_filtered (audit_data q s) s \<noteq> [] \<longrightarrow> audit_paginated (audit_data q s) s \<noteq> []"
    using audit_list.table_filled [OF assms] by (simp add: AuditLogPage_init_def)
  moreover note audit_list.pages_partition [of q s]
  ultimately show ?thesis
    unfolding f d handleExport_def by (simp add: csv_rows_read)
qed

text \<open>An entry for the witness.\<close>

definition sample_entry :: AuditLogEntry where
  "sample_entry =
     \<lparr>ae_id = ''1'', ae_tenant_id = None, ae_actor = ''amy'', ae_actor_type = ActorUser, ae_event_type = ''route_create'',
      ae_resource_type = ''route'', ae_resource_id = None, ae_before = None, ae_after = None, ae_metadata = None,
      ae_created_at = ''t''\<rparr>"

theorem audit_table_and_export_witness:
  "audit_paginated [sample_entry] AuditLogPage_init \<noteq> []
   \<and> parse_csv (fst (handleExport None [sample_entry])) =
       [csv_headers, [''1'', ''route_create'', ''route'', [], ''amy'', ''user'', ''t'']]"
proof -
  let ?q = "\<lambda>_. \<lparr>qr_data = Some [sample_entry], qr_isLoading = False, qr_isError = False\<rparr>"
  have "audit_data ?q AuditLogPage_init = [sample_entry]" by (simp add: audit_data_def query_data_def)
  moreover have "audit_filtered [sample_entry] AuditLogPage_init = [sample_entry]"
    by (simp add: audit_filtered_def AuditLogPage_init_def)
  ultimately show ?thesis
    using audit_table_and_export [OF reach.start, of ?q] by (simp add: AuditLogPage_init_def sample_entry_def csv_headers_def csv_value_def)
qed

end
