(* ===== verification/Persisted_State.thy ===== *)
theory Persisted_State
  imports Prelude
begin

text \<open>
  \<^verbatim>\<open>src/ui/admin/src/hooks/use-persisted-state.ts\<close>: a state whose value is kept in the browser's storage.
  Reading and writing the storage may throw; both are ignored.  What the hook needs of its
  \<open>serialize\<close> and \<open>deserialize\<close> is the contract \<open>codec\<close>.
\<close>

section \<open>The browser's storage\<close>

record local_storage =
  ls_items :: "string \<rightharpoonup> string"
  ls_readable :: bool
  ls_writable :: bool

definition getItem :: "local_storage \<Rightarrow> string \<Rightarrow> js_thrown + string option" where
  "getItem st key = (if ls_readable st then Inr (ls_items st key) else Inl (JsError ''SecurityError''))"

definition setItem :: "local_storage \<Rightarrow> string \<Rightarrow> string \<Rightarrow> js_thrown + local_storage" where
  "setItem st key value =
     (if ls_writable st then Inr (st\<lparr>ls_items := (ls_items st)(key \<mapsto> value)\<rparr>)
      else Inl (JsError ''QuotaExceededError''))"

section \<open>The hook\<close>

definition persisted_init ::
    "(string \<Rightarrow> js_thrown + 't) \<Rightarrow> string \<Rightarrow> 't \<Rightarrow> local_storage \<Rightarrow> 't" where
  "persisted_init deserialize key defaultValue st =
     (case getItem st key of
        Inl e \<Rightarrow> defaultValue
      | Inr None \<Rightarrow> defaultValue
      | Inr (Some raw) \<Rightarrow> (case deserialize raw of Inl e \<Rightarrow> defaultValue | Inr v \<Rightarrow> v))"

text \<open>The storage and the state after \<open>setState(value)\<close>; \<open>serialize\<close> may throw as well.\<close>

definition persisted_set ::
    "('t \<Rightarrow> js_thrown + string) \<Rightarrow> string \<Rightarrow> 't \<Rightarrow> local_storage \<Rightarrow> local_storage \<times> 't" where
  "persisted_set serialize key value st =
     (case serialize value of
        Inl e \<Rightarrow> (st, value)
      | Inr raw \<Rightarrow> (case setItem st key raw of Inl e \<Rightarrow> (st, value) | Inr st' \<Rightarrow> (st', value)))"

section \<open>The contract of the two conversions\<close>

locale codec =
  fixes serialize :: "'t \<Rightarrow> js_thrown + string"
    and deserialize :: "string \<Rightarrow> js_thrown + 't"
  assumes read_back: "serialize v = Inr raw \<Longrightarrow> deserialize raw = Inr v"
begin

lemma set_then_reload:
  assumes "ls_readable st" and "ls_writable st" and "serialize v = Inr raw"
  shows "persisted_init deserialize key d (fst (persisted_set serialize key v st)) = v"
  using assms read_back [OF assms(3)]
  by (simp add: persisted_set_def persisted_init_def setItem_def getItem_def)

lemma set_keeps_others:
  assumes "key' \<noteq> key"
  shows "persisted_init deserialize' key' d (fst (persisted_set serialize key v st)) = persisted_init deserialize' key' d st"
  using assms
  by (simp add: persisted_set_def persisted_init_def setItem_def getItem_def split: sum.split)

text \<open>In the session itself the value is the one set, whatever the storage does.\<close>

lemma set_state: "snd (persisted_set serialize key v st) = v"
  by (simp add: persisted_set_def split: sum.split)

end

section \<open>The time window of the metrics page\<close>

datatype Window = W1h | W6h | W24h | W7d

fun window_name :: "Window \<Rightarrow> string" where
  "window_name W1h = ''1h''"
| "window_name W6h = ''6h''"
| "window_name W24h = ''24h''"
| "window_name W7d = ''7d''"

definition WINDOWS :: "Window list" where
  "WINDOWS = [W1h, W6h, W24h, W7d]"

definition STORAGE_KEY_WINDOW :: string where
  "STORAGE_KEY_WINDOW = ''metrics:timeWindow''"

definition window_serialize :: "Window \<Rightarrow> js_thrown + string" where
  "window_serialize v = Inr (window_name v)"

definition window_deserialize :: "string \<Rightarrow> js_thrown + Window" where
  "window_deserialize raw = (case find (\<lambda>w. window_name w = raw) WINDOWS of Some w \<Rightarrow> Inr w | None \<Rightarrow> Inr W1h)"

lemma window_deserialize_name: "window_deserialize (window_name w) = Inr w"
  by (cases w) (simp_all add: window_deserialize_def WINDOWS_def)

interpretation window_codec: codec window_serialize window_deserialize
  by unfold_locales (auto simp: window_serialize_def window_deserialize_name)

definition window_init :: "local_storage \<Rightarrow> Window" where
  "window_init st = persisted_init window_deserialize STORAGE_KEY_WINDOW W1h st"

definition setWindow :: "Window \<Rightarrow> local_storage \<Rightarrow> local_storage \<times> Window" where
  "setWindow w st = persisted_set window_serialize STORAGE_KEY_WINDOW w st"

section \<open>Properties\<close>

text \<open>C35: The chosen time window is in force at once even when the browser's storage fails, and when the storage
  works it is the window after a reload; any other key keeps its value.  A stored text that is no
  window, or an unreadable storage, gives one hour.\<close>

theorem window_survives_reload:
  "snd (setWindow w st) = w
   \<and> (ls_readable st \<and> ls_writable st \<longrightarrow> window_init (fst (setWindow w st)) = w)
   \<and> (\<forall>key. key \<noteq> STORAGE_KEY_WINDOW \<longrightarrow> ls_items (fst (setWindow w st)) key = ls_items st key)
   \<and> (\<not> ls_readable st \<or> (\<forall>v. ls_items st STORAGE_KEY_WINDOW \<noteq> Some (window_name v)) \<longrightarrow> window_init st = W1h)"
proof -
  have "window_deserialize raw = Inr W1h" if "\<forall>v. raw \<noteq> window_name v" for raw
  proof -
    have "find (\<lambda>w. window_name w = raw) WINDOWS = None" using that by (auto simp: find_None_iff)
    then show ?thesis by (simp add: window_deserialize_def)
  qed
  then have "window_init st = W1h"
    if "\<not> ls_readable st \<or> (\<forall>v. ls_items st STORAGE_KEY_WINDOW \<noteq> Some (window_name v))"
    using that by (auto simp: window_init_def persisted_init_def getItem_def split: option.split sum.split)
  moreover have "window_init (fst (setWindow w st)) = w" if "ls_readable st" "ls_writable st"
    unfolding window_init_def setWindow_def
    by (rule window_codec.set_then_reload [OF that]) (simp add: window_serialize_def)
  moreover have "snd (setWindow w st) = w" unfolding setWindow_def by (rule window_codec.set_state)
  moreover have "ls_items (fst (setWindow w st)) key = ls_items st key" if "key \<noteq> STORAGE_KEY_WINDOW" for key
    using that by (simp add: setWindow_def persisted_set_def setItem_def window_serialize_def)
  ultimately show ?thesis by blast
qed

theorem window_survives_reload_witness:
  "window_init (fst (setWindow W24h \<lparr>ls_items = Map.empty, ls_readable = True, ls_writable = True\<rparr>)) = W24h"
  using window_survives_reload [of W24h "\<lparr>ls_items = Map.empty, ls_readable = True, ls_writable = True\<rparr>"] by simp

end
