(* ===== verification/Live_Metrics.thy ===== *)
theory Live_Metrics
  imports Numbers Vdom
begin

text \<open>
  \<^verbatim>\<open>src/ui/admin/src/hooks/use-live-metrics.ts\<close>: the metrics that the metrics page shows, generated every
  ten seconds, with the last twenty of them.  The random numbers and the clock are inputs.
\<close>

section \<open>Samples\<close>

record LiveMetrics =
  lm_requestRate :: int
  lm_p99Latency :: int
  lm_p95Latency :: int
  lm_p50Latency :: int
  lm_errorRate :: rat
  lm_connections :: int
  lm_timestamp :: int

text \<open>The six values of \<open>Math.random()\<close> and the value of \<open>Date.now()\<close> that one sample uses.\<close>

record draws =
  dr_requestRate :: rat
  dr_p99Latency :: rat
  dr_p95Latency :: rat
  dr_p50Latency :: rat
  dr_errorRate :: rat
  dr_connections :: rat
  dr_now :: int

definition randomBetween :: "rat \<Rightarrow> rat \<Rightarrow> rat \<Rightarrow> rat" where
  "randomBetween r lo hi = lo + r * (hi - lo)"

text \<open>\<open>parseFloat(x.toFixed(2))\<close> for a nonnegative number: the number that the text stands for.\<close>

definition two_decimals :: "rat \<Rightarrow> rat" where
  "two_decimals x = of_nat (scaled 2 x) / 100"

definition generateMetrics :: "draws \<Rightarrow> LiveMetrics" where
  "generateMetrics d =
     \<lparr>lm_requestRate = js_round (randomBetween (dr_requestRate d) 80 180),
      lm_p99Latency = js_round (randomBetween (dr_p99Latency d) 90 250),
      lm_p95Latency = js_round (randomBetween (dr_p95Latency d) 50 120),
      lm_p50Latency = js_round (randomBetween (dr_p50Latency d) 15 50),
      lm_errorRate = two_decimals (randomBetween (dr_errorRate d) (1 / 2) 5),
      lm_connections = js_round (randomBetween (dr_connections d) 30 90),
      lm_timestamp = dr_now d\<rparr>"

section \<open>The hook\<close>

definition POLL_INTERVAL_MS :: int where
  "POLL_INTERVAL_MS = 10000"

definition HISTORY_SIZE :: nat where
  "HISTORY_SIZE = 20"

record live_state =
  live_current :: LiveMetrics
  live_history :: "LiveMetrics list"
  live_connected :: bool
  live_timer :: bool

text \<open>The first render: \<open>current\<close> has its own draws, the history twenty others.\<close>

definition live_init :: "draws \<Rightarrow> draws list \<Rightarrow> live_state" where
  "live_init d ds =
     \<lparr>live_current = generateMetrics d, live_history = map generateMetrics (take HISTORY_SIZE ds),
      live_connected = True, live_timer = False\<rparr>"

datatype live_event = LiveMount | LiveTick draws | LiveUnmount

fun live_step :: "live_event \<Rightarrow> live_state \<Rightarrow> live_state" where
  "live_step LiveMount s = s\<lparr>live_connected := True, live_timer := True\<rparr>"
| "live_step (LiveTick d) s =
     (if live_timer s
      then let next_sample = generateMetrics d in
        s\<lparr>live_current := next_sample,
          live_history := js_slice_from (live_history s) (- (int HISTORY_SIZE - 1)) @ [next_sample]\<rparr>
      else s)"
| "live_step LiveUnmount s = s\<lparr>live_timer := False, live_connected := False\<rparr>"

definition run_live :: "live_event list \<Rightarrow> live_state \<Rightarrow> live_state" where
  "run_live es s = fold live_step es s"

section \<open>The abstract log\<close>

text \<open>
  What the hook promises: the samples of all ticks, of which the last twenty are seen.  A window on a
  growing log is the contract \<open>recent_window\<close>: pushing onto the window agrees with pushing onto the log.
\<close>

definition recent :: "nat \<Rightarrow> 'a list \<Rightarrow> 'a list" where
  "recent n xs = drop (length xs - n) xs"

locale recent_window =
  fixes n :: nat and push :: "'a \<Rightarrow> 'a list \<Rightarrow> 'a list"
  assumes push_recent: "push x (recent n xs) = recent n (xs @ [x])"
begin

lemma run_recent: "fold push ys (recent n xs) = recent n (xs @ ys)"
proof (induction ys arbitrary: xs)
  case (Cons y ys)
  have "fold push (y # ys) (recent n xs) = fold push ys (recent n (xs @ [y]))" by (simp add: push_recent)
  also have "\<dots> = recent n ((xs @ [y]) @ ys)" by (rule Cons.IH)
  finally show ?case by simp
qed simp

lemma window_length: "length (recent n xs) = min n (length xs)"
  by (simp add: recent_def)

end

definition history_push :: "LiveMetrics \<Rightarrow> LiveMetrics list \<Rightarrow> LiveMetrics list" where
  "history_push x xs = js_slice_from xs (- (int HISTORY_SIZE - 1)) @ [x]"

lemma js_slice_from_neg: "0 < k \<Longrightarrow> js_slice_from xs (- int k) = recent k xs"
  by (auto simp: js_slice_from_def js_slice_def slice_index_def recent_def Let_def nat_diff_distrib min_def max_def
      intro!: arg_cong [where f = "\<lambda>i. drop i xs"])

lemma history_push_recent: "history_push x (recent HISTORY_SIZE xs) = recent HISTORY_SIZE (xs @ [x])"
proof -
  have "history_push x ys = recent 19 ys @ [x]" for ys
    using js_slice_from_neg [of 19 ys] by (simp add: history_push_def HISTORY_SIZE_def)
  moreover have "length xs - (length xs - 20 + 19) + (length xs - 20) = length xs - 19" by simp
  ultimately show ?thesis by (simp add: recent_def HISTORY_SIZE_def)
qed

interpretation live_window: recent_window HISTORY_SIZE history_push
  by unfold_locales (rule history_push_recent)

text \<open>The samples that a run adds: those of the ticks while the timer runs.\<close>

fun live_samples :: "bool \<Rightarrow> live_event list \<Rightarrow> LiveMetrics list" where
  "live_samples timer [] = []"
| "live_samples timer (LiveMount # es) = live_samples True es"
| "live_samples timer (LiveTick d # es) = (if timer then [generateMetrics d] else []) @ live_samples timer es"
| "live_samples timer (LiveUnmount # es) = live_samples False es"

lemma run_live_history:
  "live_history (run_live es s) = fold history_push (live_samples (live_timer s) es) (live_history s)"
proof (induction es arbitrary: s)
  case (Cons e es)
  then show ?case by (cases e) (simp_all add: run_live_def Let_def history_push_def)
qed (simp add: run_live_def)

lemma run_live_current:
  "live_current (run_live es s) = last (live_current s # live_samples (live_timer s) es)"
proof (induction es arbitrary: s)
  case (Cons e es)
  then show ?case by (cases e) (simp_all add: run_live_def Let_def)
qed (simp add: run_live_def)

section \<open>Ranges\<close>

definition draw_ok :: "rat \<Rightarrow> bool" where
  "draw_ok r \<longleftrightarrow> 0 \<le> r \<and> r < 1"

definition draws_ok :: "draws \<Rightarrow> bool" where
  "draws_ok d \<longleftrightarrow> draw_ok (dr_requestRate d) \<and> draw_ok (dr_p99Latency d) \<and> draw_ok (dr_p95Latency d)
     \<and> draw_ok (dr_p50Latency d) \<and> draw_ok (dr_errorRate d) \<and> draw_ok (dr_connections d)"

definition metrics_ok :: "LiveMetrics \<Rightarrow> bool" where
  "metrics_ok m \<longleftrightarrow>
     80 \<le> lm_requestRate m \<and> lm_requestRate m \<le> 180 \<and> 90 \<le> lm_p99Latency m \<and> lm_p99Latency m \<le> 250
     \<and> 50 \<le> lm_p95Latency m \<and> lm_p95Latency m \<le> 120 \<and> 15 \<le> lm_p50Latency m \<and> lm_p50Latency m \<le> 50
     \<and> 1 / 2 \<le> lm_errorRate m \<and> lm_errorRate m \<le> 5 \<and> 30 \<le> lm_connections m \<and> lm_connections m \<le> 90"

lemma randomBetween_bounds: "draw_ok r \<Longrightarrow> lo \<le> hi \<Longrightarrow> lo \<le> randomBetween r lo hi \<and> randomBetween r lo hi \<le> hi"
proof -
  assume r: "draw_ok r" and le: "lo \<le> hi"
  have "0 \<le> r * (hi - lo)" using r le by (simp add: draw_ok_def)
  moreover have "r * (hi - lo) \<le> 1 * (hi - lo)" using r le by (intro mult_right_mono) (auto simp: draw_ok_def)
  ultimately show ?thesis by (simp add: randomBetween_def)
qed

lemma round_randomBetween:
  assumes "draw_ok r" and "a \<le> b"
  shows "a \<le> js_round (randomBetween r (of_int a) (of_int b)) \<and> js_round (randomBetween r (of_int a) (of_int b)) \<le> b"
  using randomBetween_bounds [OF assms(1), of "of_int a" "of_int b"] assms(2) by (intro js_round_bounds) simp_all

lemma two_decimals_bounds:
  assumes "of_int a / 100 \<le> x" and "x \<le> of_int b / 100" and "0 \<le> a"
  shows "of_int a / 100 \<le> two_decimals x \<and> two_decimals x \<le> of_int b / 100"
proof -
  have x: "0 \<le> x" using assms(1,3) by (metis divide_nonneg_nonneg of_int_0_le_iff order_trans zero_le_numeral)
  have "a \<le> js_round (\<bar>x\<bar> * 10 ^ 2) \<and> js_round (\<bar>x\<bar> * 10 ^ 2) \<le> b"
    using assms(1,2) x by (intro js_round_bounds) (simp_all add: field_simps)
  moreover from this have "(of_nat (scaled 2 x) :: rat) = of_int (js_round (\<bar>x\<bar> * 10 ^ 2))"
    using assms(3) by (simp add: scaled_def)
  ultimately show ?thesis by (simp add: two_decimals_def divide_right_mono)
qed

lemma generateMetrics_ok: "draws_ok d \<Longrightarrow> metrics_ok (generateMetrics d)"
  unfolding draws_ok_def
  using round_randomBetween [of "dr_requestRate d" 80 180] round_randomBetween [of "dr_p99Latency d" 90 250]
    round_randomBetween [of "dr_p95Latency d" 50 120] round_randomBetween [of "dr_p50Latency d" 15 50]
    round_randomBetween [of "dr_connections d" 30 90]
    two_decimals_bounds [of 50 "randomBetween (dr_errorRate d) (1 / 2) 5" 500]
    randomBetween_bounds [of "dr_errorRate d" "1 / 2" 5]
  by (simp add: metrics_ok_def generateMetrics_def)

fun event_ok :: "live_event \<Rightarrow> bool" where
  "event_ok (LiveTick d) = draws_ok d"
| "event_ok e = True"

lemma live_samples_ok: "list_all event_ok es \<Longrightarrow> list_all metrics_ok (live_samples timer es)"
  by (induction timer es rule: live_samples.induct) (auto simp: generateMetrics_ok)

lemma live_history_recent:
  assumes "length ds = HISTORY_SIZE"
  shows "live_history (run_live es (live_init d ds)) = recent HISTORY_SIZE (map generateMetrics ds @ live_samples False es)"
proof -
  have "live_history (live_init d ds) = recent HISTORY_SIZE (map generateMetrics ds)"
    using assms by (simp add: live_init_def recent_def)
  then show ?thesis unfolding run_live_history by (simp add: live_window.run_recent live_init_def)
qed

lemma live_history_length:
  "length ds = HISTORY_SIZE \<Longrightarrow> length (live_history (run_live es (live_init d ds))) = HISTORY_SIZE"
  by (simp add: live_history_recent live_window.window_length)

lemma history_push_ok:
  "list_all metrics_ok ys \<Longrightarrow> list_all metrics_ok xs \<Longrightarrow> list_all metrics_ok (fold history_push ys xs)"
proof (induction ys arbitrary: xs)
  case (Cons y ys)
  have "list_all metrics_ok (history_push y xs)"
    using Cons.prems set_js_slice [of xs] by (auto simp: history_push_def js_slice_from_def list_all_iff)
  with Cons show ?case by simp
qed simp

lemma live_metrics_ok:
  assumes "draws_ok d" and "list_all draws_ok ds" and "list_all event_ok es"
  shows "metrics_ok (live_current (run_live es (live_init d ds)))
    \<and> list_all metrics_ok (live_history (run_live es (live_init d ds)))"
proof -
  have new: "list_all metrics_ok (live_samples False es)" using assms(3) by (rule live_samples_ok)
  have old: "list_all metrics_ok (live_history (live_init d ds))"
    using assms(2) by (auto simp: live_init_def list_all_iff dest!: in_set_takeD intro: generateMetrics_ok)
  have "metrics_ok (last (generateMetrics d # live_samples False es))"
    using new generateMetrics_ok [OF assms(1)] by (auto simp: list_all_iff)
  with history_push_ok [OF new old] show ?thesis by (simp add: run_live_history run_live_current live_init_def)
qed

section \<open>Properties\<close>

text \<open>C13: The history of the live metrics refines a log that keeps every sample: after any sequence of mounting,
  ticks and unmounting it is the last twenty of the initial samples followed by the samples of the
  ticks that came while mounted, and the current metrics are the newest of these.\<close>

theorem live_history_refines_log:
  assumes "length ds = HISTORY_SIZE"
  shows "live_history (run_live es (live_init d ds)) = recent HISTORY_SIZE (map generateMetrics ds @ live_samples False es)
    \<and> length (live_history (run_live es (live_init d ds))) = HISTORY_SIZE
    \<and> live_current (run_live es (live_init d ds)) = last (generateMetrics d # live_samples False es)"
  using live_history_recent [OF assms] live_history_length [OF assms] by (simp add: run_live_current live_init_def)

definition sample_draws :: draws where
  "sample_draws = \<lparr>dr_requestRate = 1 / 2, dr_p99Latency = 0, dr_p95Latency = 0, dr_p50Latency = 0, dr_errorRate = 0,
     dr_connections = 0, dr_now = 0\<rparr>"

theorem live_history_refines_log_witness:
  "length (live_history (run_live [LiveMount, LiveTick sample_draws] (live_init sample_draws (replicate 20 sample_draws)))) = 20"
  using live_history_refines_log [of "replicate 20 sample_draws" "[LiveMount, LiveTick sample_draws]" sample_draws]
  by (simp add: HISTORY_SIZE_def recent_def)

text \<open>C36: Every sample that the page ever holds is well-formed: rates, latencies, connections and error rate stay in
  the ranges they are drawn from, also after rounding, for all values of \<open>Math.random()\<close> in [0, 1).\<close>

theorem live_metrics_typed:
  assumes "draws_ok d" and "list_all draws_ok ds" and "list_all event_ok es"
  shows "list_all metrics_ok (live_current (run_live es (live_init d ds)) # live_history (run_live es (live_init d ds)))"
  using live_metrics_ok [OF assms] by simp

theorem live_metrics_typed_witness:
  "metrics_ok (live_current (run_live [LiveMount, LiveTick sample_draws] (live_init sample_draws [])))"
  using live_metrics_typed [of sample_draws "[]" "[LiveMount, LiveTick sample_draws]"]
  by (simp add: draws_ok_def draw_ok_def sample_draws_def)

end
