(* ===== verification/Charts.thy ===== *)
theory Charts
  imports "HOL-Library.Multiset" Live_Metrics Ui_Kit
begin

text \<open>
  The charts of \<^verbatim>\<open>src/ui/admin/src/components/dashboard/sparkline.tsx\<close> and
  \<^verbatim>\<open>src/ui/admin/src/components/metrics/*.tsx\<close>.  A drawing is the list of its shapes with exact
  coordinates; a coordinate that is \<open>NaN\<close> is \<open>None\<close>.  The format of \<open>toLocaleString\<close> depends on the
  browser's locale and is the parameter \<open>loc\<close>.
\<close>

section \<open>Sparkline\<close>

type_synonym point = "rat option \<times> rat option"

datatype shape =
    Polygon "point list"
  | Polyline "point list"
  | Circle point rat
  | Rect rat rat rat rat rat

definition sparkline_range :: "rat list \<Rightarrow> rat" where
  "sparkline_range data = (let r = list_max data - list_min data in if r = 0 then 1 else r)"

text \<open>\<open>i / (data.length - 1)\<close> is \<open>NaN\<close> for the only point of a list of one.\<close>

definition sparkline_x :: "rat \<Rightarrow> nat \<Rightarrow> nat \<Rightarrow> rat option" where
  "sparkline_x width n i =
     (if n = 1 then None else Some (2 + of_nat i / of_nat (n - 1) * (width - 2 * 2)))"

definition sparkline_y :: "rat \<Rightarrow> rat list \<Rightarrow> rat \<Rightarrow> rat" where
  "sparkline_y height data v = 2 + (list_max data - v) / sparkline_range data * (height - 2 * 2)"

definition sparkline_points :: "rat list \<Rightarrow> rat \<Rightarrow> rat \<Rightarrow> point list" where
  "sparkline_points data width height =
     map (\<lambda>(i, v). (sparkline_x width (length data) i, Some (sparkline_y height data v))) (enumerate 0 data)"

definition sparkline_area :: "rat list \<Rightarrow> rat \<Rightarrow> rat \<Rightarrow> point list" where
  "sparkline_area data width height =
     [(Some 2, Some (height - 2))] @ sparkline_points data width height @ [(Some (width - 2), Some (height - 2))]"

definition Sparkline :: "rat list \<Rightarrow> rat option \<Rightarrow> rat option \<Rightarrow> bool option \<Rightarrow> shape list" where
  "Sparkline data width height fill =
     (if length data = 0 then []
      else let w = nullish width 80; h = nullish height 32; points = sparkline_points data w h in
        (if nullish fill True then [Polygon (sparkline_area data w h)] else [])
        @ [Polyline points]
        @ (if 0 < length points then [Circle (last points) (5 / 2)] else []))"

section \<open>Bars\<close>

definition bar_width :: "rat \<Rightarrow> nat \<Rightarrow> rat" where
  "bar_width width n = (width - (of_nat n - 1) * 2) / of_nat n"

definition bar_height :: "rat \<Rightarrow> rat list \<Rightarrow> rat \<Rightarrow> rat" where
  "bar_height height data v = v / max (list_max data) 1 * height"

definition MiniBarChart :: "rat list \<Rightarrow> rat option \<Rightarrow> rat option \<Rightarrow> shape list" where
  "MiniBarChart data width height =
     (if length data = 0 then []
      else let w = nullish width 80; h = nullish height 32; barW = bar_width w (length data) in
        map (\<lambda>(i, v).
          Rect (of_nat i * (barW + 2)) (h - bar_height h data v) barW (bar_height h data v)
            (if i = length data - 1 then 1 else 2 / 5)) (enumerate 0 data))"

section \<open>Gauge\<close>

text \<open>\<open>Math.min(1, Math.max(0, (value - min) / (max - min)))\<close>, with an empty range: 0, 1 or \<open>NaN\<close>.\<close>

definition gauge_pct :: "real \<Rightarrow> real \<Rightarrow> real \<Rightarrow> real option" where
  "gauge_pct value lo hi =
     (if hi = lo then (if value = lo then None else Some (if value < lo then 0 else 1))
      else Some (min 1 (max 0 ((value - lo) / (hi - lo)))))"

definition polarToCartesian :: "real \<Rightarrow> real \<Rightarrow> real \<times> real" where
  "polarToCartesian size_px angle =
     (size_px / 2 + (size_px / 2 * (8 / 10)) * cos angle, size_px / 2 - (size_px / 2 * (8 / 10)) * sin angle)"

text \<open>An arc command of an SVG path: from, to, radius, large-arc flag, sweep flag.\<close>

record arc =
  arc_from :: "real \<times> real"
  arc_to :: "real \<times> real"
  arc_radius :: real
  arc_large :: bool
  arc_sweep :: bool

definition gauge_background :: "real \<Rightarrow> arc" where
  "gauge_background size_px =
     \<lparr>arc_from = polarToCartesian size_px pi, arc_to = polarToCartesian size_px 0, arc_radius = size_px / 2 * (8 / 10),
      arc_large = False, arc_sweep = False\<rparr>"

definition gauge_value_arc :: "real \<Rightarrow> real \<Rightarrow> arc" where
  "gauge_value_arc size_px pct =
     \<lparr>arc_from = polarToCartesian size_px pi, arc_to = polarToCartesian size_px (pi - pct * pi),
      arc_radius = size_px / 2 * (8 / 10), arc_large = (1 / 2 < pct), arc_sweep = False\<rparr>"

text \<open>\<open>pct > 0\<close> is false for \<open>NaN\<close>.\<close>

definition GaugeChart_arcs :: "real \<Rightarrow> real \<Rightarrow> real \<Rightarrow> real \<Rightarrow> arc list" where
  "GaugeChart_arcs size_px value lo hi =
     gauge_background size_px
     # (case gauge_pct value lo hi of None \<Rightarrow> [] | Some pct \<Rightarrow> if 0 < pct then [gauge_value_arc size_px pct] else [])"

definition gauge_view_height :: "real \<Rightarrow> real" where
  "gauge_view_height size_px = size_px * (6 / 10)"

definition GaugeChart :: "(rat \<Rightarrow> string) \<Rightarrow> rat \<Rightarrow> string \<Rightarrow> string \<Rightarrow> 'm node" where
  "GaugeChart loc value label unit =
     El ''div'' []
       [El ''svg'' [Attr ''aria-label'' label] [],
        El ''p'' [] [Text (loc value), El ''span'' [] [Text unit]],
        El ''p'' [] [Text label]]"

section \<open>Latency histogram\<close>

definition latency_bars :: "rat \<Rightarrow> rat \<Rightarrow> rat \<Rightarrow> (string \<times> rat \<times> string) list" where
  "latency_bars p50 p95 p99 =
     [(''p50'', p50, ''bg-emerald-500''), (''p95'', p95, ''bg-amber-500''), (''p99'', p99, ''bg-red-500'')]"

definition latency_max :: "rat \<Rightarrow> rat \<Rightarrow> rat \<Rightarrow> rat" where
  "latency_max p50 p95 p99 = list_max [p50, p95, p99, 1]"

definition latency_width :: "rat \<Rightarrow> rat \<Rightarrow> rat \<Rightarrow> rat \<Rightarrow> rat" where
  "latency_width p50 p95 p99 v = v / latency_max p50 p95 p99 * 100"

definition LatencyHistogram :: "rat \<Rightarrow> rat \<Rightarrow> rat \<Rightarrow> 'm node" where
  "LatencyHistogram p50 p95 p99 =
     El ''div'' []
       (map (\<lambda>(label, v, colour).
          El ''div'' [Attr ''key'' label]
            [El ''span'' [] [Text label], El ''div'' [] [El ''div'' [Attr ''variant'' colour] []],
             El ''span'' [] [Text (str_num v), Text '' ms'']]) (latency_bars p50 p95 p99))"

section \<open>Cache hit rate\<close>

definition clampedRate :: "rat \<Rightarrow> rat" where
  "clampedRate hitRate = min 100 (max 0 hitRate)"

definition donut_circumference :: real where
  "donut_circumference = 2 * pi * 36"

definition donut_offset :: "rat \<Rightarrow> real" where
  "donut_offset hitRate = donut_circumference * (1 - of_rat (clampedRate hitRate) / 100)"

definition rateColor :: "rat \<Rightarrow> string" where
  "rateColor hitRate =
     (if 70 \<le> clampedRate hitRate then ''#10b981'' else if 40 \<le> clampedRate hitRate then ''#f59e0b'' else ''#ef4444'')"

definition CacheHitRate :: "(rat \<Rightarrow> string) \<Rightarrow> rat \<Rightarrow> rat \<Rightarrow> rat \<Rightarrow> 'm node" where
  "CacheHitRate loc hitRate totalRequests cacheHits =
     El ''div'' []
       [El ''div'' []
         [El ''svg'' [] [El ''circle'' [] [], El ''circle'' [Attr ''stroke'' (rateColor hitRate)] []],
          El ''div'' [] [El ''span'' [] [Text (toFixed 0 (clampedRate hitRate)), Text ''%'']]],
        El ''div'' []
         [El ''div'' [] [El ''p'' [] [Text ''Cache Hits''], El ''p'' [] [Text (loc cacheHits)]],
          El ''div'' [] [El ''p'' [] [Text ''Total Requests''], El ''p'' [] [Text (loc totalRequests)]],
          El ''div'' []
           [El ''p'' [] [Text ''Semantic Cache''],
            El ''span'' [Attr ''color'' (rateColor hitRate)]
             [El ''span'' [Attr ''background'' (rateColor hitRate)] [],
              Text (if 70 \<le> clampedRate hitRate then ''Excellent'' else if 40 \<le> clampedRate hitRate then ''Good'' else ''Low'')]]]]"

section \<open>Error breakdown\<close>

record ErrorEntry =
  er_status :: int
  er_label :: string
  er_count :: int

definition statusColorClass :: "int \<Rightarrow> string" where
  "statusColorClass status =
     (case str_int status of
        c # _ \<Rightarrow> if c = CHR ''4'' then ''bg-amber-400'' else if c = CHR ''5'' then ''bg-red-500'' else ''bg-gray-400''
      | [] \<Rightarrow> ''bg-gray-400'')"

definition error_total :: "ErrorEntry list \<Rightarrow> int" where
  "error_total errors = foldl (\<lambda>acc e. acc + er_count e) 0 errors"

text \<open>\<open>errors.sort((a, b) => b.count - a.count)\<close> sorts the caller's array itself: the list after rendering.\<close>

definition sorted_errors :: "ErrorEntry list \<Rightarrow> ErrorEntry list" where
  "sorted_errors errors = sort_key (\<lambda>e. - er_count e) errors"

definition errors_after_render :: "ErrorEntry list \<Rightarrow> ErrorEntry list" where
  "errors_after_render errors = (if length errors = 0 then errors else sorted_errors errors)"

definition error_share :: "ErrorEntry list \<Rightarrow> ErrorEntry \<Rightarrow> rat" where
  "error_share errors e = of_int (er_count e) / of_int (error_total errors) * 100"

definition error_pct :: "ErrorEntry list \<Rightarrow> ErrorEntry \<Rightarrow> string" where
  "error_pct errors e = (if 0 < error_total errors then toFixed 1 (error_share errors e) else ''0'')"

definition error_row :: "(rat \<Rightarrow> string) \<Rightarrow> ErrorEntry list \<Rightarrow> ErrorEntry \<Rightarrow> 'm node" where
  "error_row loc errors e =
     El ''tr'' [Attr ''key'' (str_int (er_status e))]
       [El ''td'' [] [El ''span'' [] [Text (str_int (er_status e))]],
        El ''td'' [] [Text (er_label e)],
        El ''td'' [] [El ''div'' [] [El ''div'' [Attr ''variant'' (statusColorClass (er_status e)), Attr ''width'' (error_pct errors e @ ''%'')] []]],
        El ''td'' [] [Text (loc (of_int (er_count e)))],
        El ''td'' [] [Text (error_pct errors e), Text ''%'']]"

definition header_row :: "string list \<Rightarrow> 'm node" where
  "header_row hs = El ''thead'' [] [El ''tr'' [] (map (\<lambda>h. El ''th'' [] [Text h]) hs)]"

definition ErrorBreakdownTable :: "(rat \<Rightarrow> string) \<Rightarrow> ErrorEntry list \<Rightarrow> 'm node" where
  "ErrorBreakdownTable loc errors =
     (if length errors = 0 then El ''p'' [] [Text ''No errors recorded in this window.'']
      else El ''div'' [] [El ''table'' []
        [header_row [''Status'', ''Label'', ''Distribution'', ''Count'', ''%''],
         El ''tbody'' [] (map (error_row loc errors) (sorted_errors errors))]])"

section \<open>Top routes\<close>

record RouteEntry =
  re_path :: string
  re_method :: string
  re_requests :: int
  re_p99 :: int

definition METHOD_COLORS :: "string \<Rightarrow> string" where
  "METHOD_COLORS m =
     nullish (map_of [(''GET'', ''blue''), (''POST'', ''emerald''), (''PUT'', ''amber''), (''PATCH'', ''purple''), (''DELETE'', ''red'')] m)
       ''gray''"

definition max_requests :: "RouteEntry list \<Rightarrow> rat" where
  "max_requests routes = list_max (map (\<lambda>r. of_int (re_requests r)) routes @ [1])"

definition route_volume :: "RouteEntry list \<Rightarrow> RouteEntry \<Rightarrow> rat" where
  "route_volume routes r = of_int (re_requests r) / max_requests routes * 100"

definition TopRoutesTable :: "(rat \<Rightarrow> string) \<Rightarrow> RouteEntry list \<Rightarrow> 'm node" where
  "TopRoutesTable loc routes =
     (if length routes = 0 then El ''p'' [] [Text ''No route data available.'']
      else El ''div'' [] [El ''table'' []
        [header_row [''Method'', ''Path'', ''Volume'', ''Requests'', ''p99 (ms)''],
         El ''tbody'' []
          (map (\<lambda>(idx, r).
             El ''tr'' [Attr ''key'' (str_int (int idx))]
               [El ''td'' [] [El ''span'' [Attr ''variant'' (METHOD_COLORS (re_method r))] [Text (re_method r)]],
                El ''td'' [] [Text (re_path r)],
                El ''td'' [] [El ''div'' [] [El ''div'' [] []]],
                El ''td'' [] [Text (loc (of_int (re_requests r)))],
                El ''td'' [] [Text (str_int (re_p99 r))]]) (enumerate 0 routes))]])"

section \<open>Provider cost, live indicator\<close>

record ProviderCost =
  pc_provider :: string
  pc_estimatedCost :: rat
  pc_tokens :: int
  pc_deltaPercent :: rat

definition totalCost :: "ProviderCost list \<Rightarrow> rat" where
  "totalCost providers = foldl (\<lambda>acc p. acc + pc_estimatedCost p) 0 providers"

definition cost_delta :: "rat \<Rightarrow> 'm node list" where
  "cost_delta d =
     show_if (d \<noteq> 0)
       [El ''span'' [Attr ''variant'' (if 0 < d then ''red'' else ''emerald'')]
         [icon (if 0 < d then ''TrendingUp'' else ''TrendingDown''), Text (toFixed 1 \<bar>d\<bar>), Text ''%'']]"

definition ProviderCostSummary :: "(rat \<Rightarrow> string) \<Rightarrow> ProviderCost list \<Rightarrow> 'm node" where
  "ProviderCostSummary loc providers =
     El ''div'' []
       [El ''div'' []
         [El ''div'' [] [icon ''DollarSign'', El ''span'' [] [Text ''Estimated Total'']],
          El ''span'' [] [Text ''$'', Text (toFixed 4 (totalCost providers))]],
        El ''div'' []
         (map (\<lambda>p.
            El ''div'' [Attr ''key'' (pc_provider p)]
              [El ''div'' [] [El ''p'' [] [Text (pc_provider p)], El ''p'' [] [Text (loc (of_int (pc_tokens p))), Text '' tokens'']],
               El ''div'' []
                ([El ''span'' [] [Text ''$'', Text (toFixed 4 (pc_estimatedCost p))]] @ cost_delta (pc_deltaPercent p))]) providers),
        El ''p'' [] [Text ''Costs are estimated based on published provider pricing. Actuals may differ.'']]"

definition LiveIndicator :: "bool \<Rightarrow> 'm node" where
  "LiveIndicator is_connected =
     El ''span'' [Attr ''variant'' (if is_connected then ''emerald'' else ''gray'')]
       [El ''span'' [] [], Text (if is_connected then ''LIVE'' else ''PAUSED'')]"

section \<open>Lemmas\<close>

lemma sparkline_range_pos: "data \<noteq> [] \<Longrightarrow> 0 < sparkline_range data"
  using list_min_le [OF list_max_in, of data] by (simp add: sparkline_range_def Let_def)

lemma unit_scale: "0 \<le> t \<Longrightarrow> t \<le> 1 \<Longrightarrow> 0 \<le> k \<Longrightarrow> 0 \<le> t * k \<and> t * k \<le> k" for t k :: rat
  using mult_right_mono [of t 1 k] by simp

lemma sparkline_y_bounds:
  assumes "v \<in> set data" and "4 \<le> height"
  shows "2 \<le> sparkline_y height data v \<and> sparkline_y height data v \<le> height - 2"
proof -
  let ?t = "(list_max data - v) / sparkline_range data"
  have r: "0 < sparkline_range data" using assms(1) by (intro sparkline_range_pos) auto
  have "0 \<le> ?t" using list_max_ge [OF assms(1)] r by simp
  moreover have "list_max data - v \<le> sparkline_range data"
    using list_min_le [OF assms(1)] list_max_ge [OF assms(1)] by (auto simp: sparkline_range_def Let_def)
  with r have "?t \<le> 1" by simp
  ultimately have "0 \<le> ?t * (height - 4) \<and> ?t * (height - 4) \<le> height - 4"
    using assms(2) by (intro unit_scale) simp_all
  then show ?thesis by (simp add: sparkline_y_def)
qed

lemma sparkline_x_bounds:
  assumes "i < n" and "2 \<le> n" and "4 \<le> width"
  shows "\<exists>x. sparkline_x width n i = Some x \<and> 2 \<le> x \<and> x \<le> width - 2"
proof -
  let ?t = "of_nat i / of_nat (n - 1) :: rat"
  have "?t \<le> 1" using assms(1,2) by (simp add: of_nat_diff divide_le_eq_1)
  then have "0 \<le> ?t * (width - 4) \<and> ?t * (width - 4) \<le> width - 4" using assms(3) by (intro unit_scale) simp_all
  then show ?thesis using assms(2) by (auto simp: sparkline_x_def)
qed

lemma gauge_pct_bounds: "gauge_pct value lo hi = Some p \<Longrightarrow> 0 \<le> p \<and> p \<le> 1"
  by (auto simp: gauge_pct_def split: if_splits)

text \<open>The end of the value arc is on the dial, not below its centre.\<close>

lemma gauge_end_above:
  assumes "0 \<le> pct" and "pct \<le> 1" and "0 \<le> size_px"
  shows "snd (arc_to (gauge_value_arc size_px pct)) \<le> size_px / 2"
proof -
  have "pct * pi \<le> 1 * pi" using assms(2) by (intro mult_right_mono) simp_all
  then have "0 \<le> sin (pi - pct * pi)" using assms(1) by (intro sin_ge_zero) simp_all
  then have "0 \<le> size_px / 2 * (8 / 10) * sin (pi - pct * pi)" using assms(3) by (intro mult_nonneg_nonneg) simp_all
  then show ?thesis by (simp add: gauge_value_arc_def polarToCartesian_def)
qed

text \<open>
  The highest or lowest point of a half circle, as SVG draws it: the arc starts at \<open>arc_from\<close> and turns in
  the direction of growing angles, with the y-axis pointing down, exactly when the sweep flag is set.
\<close>

definition half_circle_middle :: "arc \<Rightarrow> real \<times> real" where
  "half_circle_middle a =
     (let cx = (fst (arc_from a) + fst (arc_to a)) / 2; cy = (snd (arc_from a) + snd (arc_to a)) / 2;
          dx = fst (arc_from a) - cx; dy = snd (arc_from a) - cy
      in if arc_sweep a then (cx - dy, cy + dx) else (cx + dy, cy - dx))"

lemma gauge_background_middle: "half_circle_middle (gauge_background size_px) = (size_px / 2, size_px * (9 / 10))"
  by (simp add: half_circle_middle_def gauge_background_def polarToCartesian_def Let_def field_simps)



lemma bars_right_edge: "data \<noteq> [] \<Longrightarrow> of_nat (length data - 1) * (bar_width w (length data) + 2) + bar_width w (length data) = w"
  by (simp add: bar_width_def of_nat_diff field_simps Suc_le_eq)

lemma bar_height_bounds: "v \<in> set data \<Longrightarrow> 0 \<le> v \<Longrightarrow> 0 \<le> h \<Longrightarrow> 0 \<le> bar_height h data v \<and> bar_height h data v \<le> h"
  using list_max_ge [of v data] unfolding bar_height_def by (intro unit_scale) (auto simp: divide_le_eq_1)

lemma latency_width_bounds:
  assumes "v \<in> {p50, p95, p99}" and "0 \<le> v"
  shows "0 \<le> latency_width p50 p95 p99 v \<and> latency_width p50 p95 p99 v \<le> 100"
proof -
  have "v \<le> latency_max p50 p95 p99" "1 \<le> latency_max p50 p95 p99"
    using assms list_max_ge [of _ "[p50, p95, p99, 1]"] by (auto simp: latency_max_def)
  with assms(2) show ?thesis unfolding latency_width_def by (intro unit_scale) (auto simp: divide_le_eq_1)
qed

lemma donut_offset_bounds: "0 \<le> donut_offset r \<and> donut_offset r \<le> donut_circumference"
proof -
  have "0 \<le> (of_rat (clampedRate r) :: real)" by (simp add: clampedRate_def)
  moreover have "(of_rat (clampedRate r) :: real) \<le> of_rat 100"
    by (simp only: of_rat_less_eq) (simp add: clampedRate_def)
  ultimately have "0 \<le> 1 - of_rat (clampedRate r) / (100 :: real)" "1 - of_rat (clampedRate r) / (100 :: real) \<le> 1"
    by simp_all
  then show ?thesis
    unfolding donut_offset_def using mult_left_mono [of "1 - of_rat (clampedRate r) / (100 :: real)" 1 donut_circumference]
    by (simp add: donut_circumference_def)
qed

section \<open>Properties\<close>

text \<open>With at least two values a sparkline stays inside its frame: every corner of the area under the line
  has coordinates, two units or more away from each side.\<close>

theorem sparkline_stays_in_frame:
  assumes "2 \<le> length data" and "4 \<le> width" and "4 \<le> height" and "p \<in> set (sparkline_area data width height)"
  shows "\<exists>x y. p = (Some x, Some y) \<and> 2 \<le> x \<and> x \<le> width - 2 \<and> 2 \<le> y \<and> y \<le> height - 2"
proof -
  have "\<exists>x y. p = (Some x, Some y) \<and> 2 \<le> x \<and> x \<le> width - 2 \<and> 2 \<le> y \<and> y \<le> height - 2"
    if p: "p \<in> set (sparkline_points data width height)"
  proof -
    from p obtain i v where iv: "(i, v) \<in> set (enumerate 0 data)"
      and "p = (sparkline_x width (length data) i, Some (sparkline_y height data v))"
      by (auto simp: sparkline_points_def)
    moreover from iv have "i < length data" "v \<in> set data" by (auto simp: in_set_enumerate_eq)
    ultimately show ?thesis
      using sparkline_x_bounds [OF _ assms(1,2)] sparkline_y_bounds [OF _ assms(3)] by auto
  qed
  then show ?thesis using assms(2-4) by (auto simp: sparkline_area_def)
qed

theorem sparkline_stays_in_frame_witness:
  "(Some 2, Some 26) \<in> set (sparkline_area [3, 7] 80 28)
   \<and> (\<exists>x y. (Some 2, Some 26) = (Some x :: rat option, Some y :: rat option) \<and> 2 \<le> x \<and> x \<le> 80 - 2 \<and> 2 \<le> y \<and> y \<le> 28 - 2)"
proof -
  have "(Some 2, Some 26) \<in> set (sparkline_area [3, 7] 80 28)" by (simp add: sparkline_area_def)
  with sparkline_stays_in_frame [of "[3, 7]" 80 28 "(Some 2, Some 26)"] show ?thesis by simp
qed

text \<open>The sparkline of a single value has no place to draw it: the point's x-coordinate is \<open>NaN\<close>, in the
  line, in the area and for the dot.\<close>

theorem sparkline_single_point_lost:
  "Sparkline [v] width height fill =
     (let h = nullish height 32; p = (None, Some 2) in
      (if nullish fill True then [Polygon [(Some 2, Some (h - 2)), p, (Some (nullish width 80 - 2), Some (h - 2))]] else [])
      @ [Polyline [p], Circle p (5 / 2)])"
  by (simp add: Sparkline_def sparkline_area_def sparkline_points_def sparkline_x_def sparkline_y_def Let_def
      list_max_def)

text \<open>C40: The dial of a gauge is drawn upside down: the background arc runs through the point below the centre,
  outside the visible part of the drawing, although both of its ends and the end of every value arc
  are at or above the centre.\<close>

theorem gauge_dial_below_view:
  assumes "0 < size_px" and "gauge_pct value lo hi = Some pct"
  shows "gauge_view_height size_px < snd (half_circle_middle (gauge_background size_px))
    \<and> snd (arc_from (gauge_background size_px)) = size_px / 2 \<and> snd (arc_to (gauge_background size_px)) = size_px / 2
    \<and> snd (arc_to (gauge_value_arc size_px pct)) \<le> size_px / 2"
  using assms(1) gauge_end_above [of pct size_px] gauge_pct_bounds [OF assms(2)]
  by (simp add: gauge_background_middle gauge_view_height_def) (simp add: gauge_background_def polarToCartesian_def)

theorem gauge_dial_below_view_witness:
  "gauge_view_height 120 < snd (half_circle_middle (gauge_background 120))"
  using gauge_dial_below_view [of 120 50 0 100 "1 / 2"] by (simp add: gauge_pct_def)



end
