(* ===== verification/Ticker.thy ===== *)
theory Ticker
  imports Numbers
begin

text \<open>
  \<^verbatim>\<open>src/ui/admin/src/components/dashboard/metrics-ticker.tsx\<close>: a number that runs to its new value in
  animation frames.  The times of the frames are inputs.  A displayed number that is infinite or \<open>NaN\<close> is
  \<open>None\<close>.
\<close>

section \<open>The animation\<close>

record animation =
  an_start :: rat
  an_startVal :: rat
  an_value :: rat
  an_duration :: rat

record ticker =
  tk_displayed :: "rat option"
  tk_from :: rat
  tk_animation :: "animation option"

definition ticker_init :: "rat \<Rightarrow> ticker" where
  "ticker_init value = \<lparr>tk_displayed = Some value, tk_from = value, tk_animation = None\<rparr>"

text \<open>
  The effect that runs when the value or the duration changes: the pending frame is cancelled and a new
  animation starts from the reference \<open>from\<close>.
\<close>

definition ticker_effect :: "rat \<Rightarrow> rat \<Rightarrow> rat \<Rightarrow> ticker \<Rightarrow> ticker" where
  "ticker_effect now value duration s =
     s\<lparr>tk_animation := Some \<lparr>an_start = now, an_startVal = tk_from s, an_value = value, an_duration = duration\<rparr>\<rparr>"

text \<open>
  \<open>Math.min(elapsed / duration, 1)\<close>.  A division by zero gives an infinity, of which \<open>Math.min\<close> leaves the
  negative one, or \<open>NaN\<close>.
\<close>

datatype fraction = Finite rat | Minus_Infinity | Not_A_Number

definition progress :: "animation \<Rightarrow> rat \<Rightarrow> fraction" where
  "progress a now =
     (let elapsed = now - an_start a in
      if an_duration a = 0
      then (if elapsed = 0 then Not_A_Number else if 0 < elapsed then Finite 1 else Minus_Infinity)
      else Finite (min (elapsed / an_duration a) 1))"

definition eased :: "rat \<Rightarrow> rat" where
  "eased p = 1 - (1 - p) ^ 3"

text \<open>\<open>progress < 1\<close> holds of minus infinity and not of \<open>NaN\<close>.\<close>

definition ticker_tick :: "rat \<Rightarrow> ticker \<Rightarrow> ticker" where
  "ticker_tick now s =
     (case tk_animation s of
        None \<Rightarrow> s
      | Some a \<Rightarrow>
          (case progress a now of
             Not_A_Number \<Rightarrow> s\<lparr>tk_displayed := None, tk_from := an_value a, tk_animation := None\<rparr>
           | Minus_Infinity \<Rightarrow> s\<lparr>tk_displayed := None\<rparr>
           | Finite p \<Rightarrow>
               let s1 = s\<lparr>tk_displayed := Some (of_int (js_round (an_startVal a + (an_value a - an_startVal a) * eased p)))\<rparr>
               in if p < 1 then s1 else s1\<lparr>tk_from := an_value a, tk_animation := None\<rparr>))"

definition run_frames :: "rat list \<Rightarrow> ticker \<Rightarrow> ticker" where
  "run_frames frames s = fold ticker_tick frames s"

section \<open>Lemmas\<close>

lemma eased_bounds: "0 \<le> p \<Longrightarrow> p \<le> 1 \<Longrightarrow> 0 \<le> eased p \<and> eased p \<le> 1"
  using power_le_one [of "1 - p" 3] by (simp add: eased_def)

lemma eased_1 [simp]: "eased 1 = 1" and eased_0 [simp]: "eased 0 = 0"
  by (simp_all add: eased_def)

lemma between: "0 \<le> t \<Longrightarrow> t \<le> 1 \<Longrightarrow> min a b \<le> a + (b - a) * t \<and> a + (b - a) * t \<le> max a b" for a b t :: rat
proof -
  assume t: "0 \<le> t" "t \<le> 1"
  have eq: "a + (b - a) * t = (1 - t) * a + t * b" by (simp add: algebra_simps)
  have "(1 - t) * a + t * b \<le> max a b" using t by (intro convex_bound_le) simp_all
  moreover have "(1 - t) * (- a) + t * (- b) \<le> - min a b" using t by (intro convex_bound_le) simp_all
  ultimately show ?thesis unfolding eq by simp
qed

lemma ticker_tick_done [simp]: "tk_animation s = None \<Longrightarrow> ticker_tick now s = s"
  by (simp add: ticker_tick_def)

lemma run_frames_done: "tk_animation s = None \<Longrightarrow> run_frames frames s = s"
  by (induction frames) (simp_all add: run_frames_def)

lemma ticker_tick_last:
  assumes "tk_animation s = Some a" and "0 < an_duration a" and "an_start a + an_duration a \<le> now"
  shows "tk_animation (ticker_tick now s) = None \<and> tk_from (ticker_tick now s) = an_value a
    \<and> tk_displayed (ticker_tick now s) = Some (of_int (js_round (an_value a)))"
proof -
  have "an_duration a \<le> now - an_start a" using assms(3) by (simp add: algebra_simps)
  then have "progress a now = Finite 1" using assms(2) by (simp add: progress_def Let_def min_def)
  then show ?thesis using assms(1) by (simp add: ticker_tick_def Let_def)
qed

lemma ticker_tick_running:
  assumes "tk_animation s = Some a" and "0 < an_duration a" and "now < an_start a + an_duration a"
  shows "tk_animation (ticker_tick now s) = Some a"
proof -
  have "(now - an_start a) / an_duration a < 1" using assms(2,3) by (simp add: algebra_simps)
  then show ?thesis using assms(1,2) by (simp add: ticker_tick_def progress_def Let_def)
qed

lemma run_frames_finish:
  assumes "tk_animation s = Some a" and "0 < an_duration a" and "\<exists>now \<in> set frames. an_start a + an_duration a \<le> now"
  shows "tk_animation (run_frames frames s) = None \<and> tk_from (run_frames frames s) = an_value a
    \<and> tk_displayed (run_frames frames s) = Some (of_int (js_round (an_value a)))"
  using assms
proof (induction frames arbitrary: s)
  case (Cons now frames)
  show ?case
  proof (cases "an_start a + an_duration a \<le> now")
    case True
    with Cons.prems ticker_tick_last [of s a now] run_frames_done [of "ticker_tick now s" frames] show ?thesis
      by (simp add: run_frames_def)
  next
    case False
    then have "tk_animation (ticker_tick now s) = Some a" using Cons.prems by (intro ticker_tick_running) simp_all
    then show ?thesis using Cons.IH [of "ticker_tick now s"] Cons.prems False by (simp add: run_frames_def)
  qed
qed simp

lemma frames_grow: "(\<And>n. f n + \<delta> \<le> f (Suc n)) \<Longrightarrow> f 0 + of_nat n * \<delta> \<le> f n" for f :: "nat \<Rightarrow> rat"
proof (induction n)
  case (Suc n)
  from Suc.IH [OF Suc.prems] Suc.prems [of n] show ?case by (simp add: algebra_simps)
qed simp

lemma ticker_displayed_between:
  assumes "tk_animation s = Some a" and "0 < an_duration a" and "an_start a \<le> now"
  shows "\<exists>d. tk_displayed (ticker_tick now s) = Some (of_int d)
    \<and> js_round (min (an_startVal a) (an_value a)) \<le> d \<and> d \<le> js_round (max (an_startVal a) (an_value a))"
proof -
  let ?p = "min ((now - an_start a) / an_duration a) 1"
  let ?x = "an_startVal a + (an_value a - an_startVal a) * eased ?p"
  have e: "0 \<le> eased ?p" "eased ?p \<le> 1" using assms(2,3) eased_bounds [of ?p] by simp_all
  have "min (an_startVal a) (an_value a) \<le> ?x \<and> ?x \<le> max (an_startVal a) (an_value a)" using e by (rule between)
  then have "js_round (min (an_startVal a) (an_value a)) \<le> js_round ?x" "js_round ?x \<le> js_round (max (an_startVal a) (an_value a))"
    by (auto intro: js_round_mono)
  moreover have "tk_displayed (ticker_tick now s) = Some (of_int (js_round ?x))"
    using assms(1,2) by (simp add: ticker_tick_def progress_def Let_def)
  ultimately show ?thesis by blast
qed

section \<open>Properties\<close>

text \<open>C37: The animation ends: if the frames come at times that grow by at least some amount, then after finitely
  many of them no frame is pending, the ticker shows the rounded value and the next animation starts
  from it.\<close>

theorem ticker_terminates:
  assumes "0 < duration" and "0 < \<delta>" and "\<forall>n. f n + \<delta> \<le> f (Suc n)"
  shows "\<exists>n. tk_animation (run_frames (map f [0..<n]) (ticker_effect now value duration s)) = None
    \<and> tk_from (run_frames (map f [0..<n]) (ticker_effect now value duration s)) = value
    \<and> tk_displayed (run_frames (map f [0..<n]) (ticker_effect now value duration s)) = Some (of_int (js_round value))"
proof -
  obtain m where "now + duration - f 0 < of_nat m * \<delta>" using ex_less_of_nat_mult [OF assms(2)] by blast
  moreover have "f 0 + of_nat m * \<delta> \<le> f m" using assms(3) by (intro frames_grow) blast
  ultimately have "now + duration \<le> f m" by simp
  then have "\<exists>t \<in> set (map f [0..<Suc m]). now + duration \<le> t" by auto
  then show ?thesis
    using run_frames_finish [of "ticker_effect now value duration s" _ "map f [0..<Suc m]"] assms(1)
    by (intro exI [of _ "Suc m"]) (simp add: ticker_effect_def)
qed

theorem ticker_terminates_witness:
  "\<exists>n. tk_displayed (run_frames (map (\<lambda>k. 16 * of_nat k) [0..<n]) (ticker_effect 0 100 600 (ticker_init 0))) = Some 100"
proof -
  have "js_round 100 = 100" using js_round_of_int [of 100] by simp
  with ticker_terminates [of 600 16 "\<lambda>k. 16 * of_nat k" 0 100 "ticker_init 0"] show ?thesis by auto
qed

text \<open>When the value changes during an animation the number jumps back: the first frame of the new animation
  shows the value from which the interrupted animation started, whatever was on screen.\<close>

theorem ticker_restart_jumps_back:
  assumes "tk_animation s = Some a" and "an_startVal a = tk_from s" and "0 < duration"
  shows "tk_displayed (ticker_tick now (ticker_effect now value duration s)) = Some (of_int (js_round (an_startVal a)))"
  using assms by (simp add: ticker_effect_def ticker_tick_def progress_def Let_def)

theorem ticker_restart_jumps_back_witness:
  "tk_displayed (run_frames [0, 300] (ticker_effect 0 100 600 (ticker_init 0))) = Some 88
   \<and> tk_displayed (ticker_tick 300 (ticker_effect 300 200 600 (run_frames [0, 300] (ticker_effect 0 100 600 (ticker_init 0))))) = Some 0"
proof -
  let ?s = "run_frames [0, 300] (ticker_effect 0 100 600 (ticker_init 0))"
  have "js_round (175 / 2) = 88" by (simp add: js_round_def)
  moreover have "js_round 0 = 0" using js_round_of_int [of 0] by simp
  moreover have "tk_animation ?s = Some \<lparr>an_start = 0, an_startVal = 0, an_value = 100, an_duration = 600\<rparr> \<and> tk_from ?s = 0
      \<and> tk_displayed ?s = Some (of_int (js_round (175 / 2)))"
    by (simp add: run_frames_def ticker_effect_def ticker_init_def ticker_tick_def progress_def eased_def Let_def
        power3_eq_cube)
  ultimately show ?thesis
    using ticker_restart_jumps_back [of ?s "\<lparr>an_start = 0, an_startVal = 0, an_value = 100, an_duration = 600\<rparr>" 600 300 200]
    by simp
qed

end
