(* ===== verification/Dashboard.thy ===== *)
theory Dashboard
  imports Ticker Charts Date_Utils Queries
begin

text \<open>
  The dashboard: \<^verbatim>\<open>src/ui/admin/src/components/dashboard/*.tsx\<close> (the sparkline is in \<open>Charts\<close>, the ticker in
  \<open>Ticker\<close>) and \<^verbatim>\<open>src/ui/admin/src/pages/Dashboard.tsx\<close>.
\<close>

section \<open>Stat card\<close>

datatype Trend = TrendUp | TrendDown | TrendNeutral

record 'm stat_card =
  st_label :: string
  st_value :: "'m node list"
  st_unit :: "string option"
  st_icon :: string
  st_trend :: "Trend option"
  st_trendLabel :: "string option"
  st_color :: "string option"
  st_loading :: bool

definition plain_stat :: "string \<Rightarrow> string option \<Rightarrow> string \<Rightarrow> string option \<Rightarrow> 'm stat_card" where
  "plain_stat label unit ic color =
     \<lparr>st_label = label, st_value = [Text em_dash], st_unit = unit, st_icon = ic, st_trend = None, st_trendLabel = None,
      st_color = color, st_loading = False\<rparr>"

fun trend_icon :: "Trend \<Rightarrow> string" where
  "trend_icon TrendUp = ''TrendingUp''"
| "trend_icon TrendDown = ''TrendingDown''"
| "trend_icon TrendNeutral = ''Minus''"

definition StatCard :: "'m stat_card \<Rightarrow> 'm node" where
  "StatCard p =
     (if st_loading p
      then El ''div'' [] [El ''div'' [] [Skeleton SkRectangular, Skeleton SkText], Skeleton SkText, Skeleton SkText]
      else El ''div'' []
        [El ''div'' []
          ([El ''div'' [Attr ''variant'' (nullish (st_color p) ''default'')] [icon (st_icon p)]]
           @ (case st_trend p of
                None \<Rightarrow> []
              | Some t \<Rightarrow> [El ''div'' [] ([icon (trend_icon t)] @ (case st_trendLabel p of None \<Rightarrow> [] | Some l \<Rightarrow> [Text l]))])),
         El ''p'' [] [Text (st_label p)],
         El ''p'' [] (st_value p @ when_str (st_unit p) (\<lambda>u. El ''span'' [] [Text u]))])"

section \<open>Gateway status\<close>

record HealthResponse =
  he_status :: string
  he_db :: string
  he_uptime_seconds :: "rat option"

text \<open>\<open>seconds % 3600\<close> for a nonnegative number.\<close>

definition rem_hour :: "rat \<Rightarrow> rat" where
  "rem_hour seconds = seconds - 3600 * of_int \<lfloor>seconds / 3600\<rfloor>"

definition formatUptime :: "rat \<Rightarrow> string" where
  "formatUptime seconds =
     (if seconds < 60 then str_int (js_round seconds) @ ''s''
      else if seconds < 3600 then str_int (js_round (seconds / 60)) @ ''m''
      else str_int \<lfloor>seconds / 3600\<rfloor> @ ''h '' @ str_int (js_round (rem_hour seconds / 60)) @ ''m'')"

definition isHealthy :: "HealthResponse option \<Rightarrow> bool \<Rightarrow> bool" where
  "isHealthy health isError \<longleftrightarrow> \<not> isError \<and> map_option he_status health = Some ''ok''"

definition GatewayStatusCard ::
    "HealthResponse option \<Rightarrow> bool \<Rightarrow> bool \<Rightarrow> string option \<Rightarrow> 'm option \<Rightarrow> 'm node" where
  "GatewayStatusCard health isError isLoading lastUpdated onRefresh =
     (let healthy = isHealthy health isError in
      if isLoading
      then El ''div'' []
        [Skeleton SkCircular, El ''div'' [] [Skeleton SkText, Skeleton SkText], Skeleton SkRectangular]
      else El ''div'' [Attr ''variant'' (if healthy then ''emerald'' else ''red'')]
        [El ''div'' [] [icon (if healthy then ''CheckCircle2'' else ''XCircle'')],
         El ''div'' []
          [El ''p'' [] [Text (if healthy then ''Control API healthy'' else ''Control API unreachable'')],
           El ''div'' []
            (when_str (map_option he_db health) (\<lambda>db. El ''span'' [] [Text ''DB: '', El ''span'' [] [Text db]])
             @ (case Option.bind health he_uptime_seconds of
                  None \<Rightarrow> []
                | Some u \<Rightarrow> [El ''span'' [] [icon ''Clock'', Text ''uptime '', Text (formatUptime u)]])
             @ (case lastUpdated of None \<Rightarrow> [] | Some t \<Rightarrow> [El ''span'' [] [Text ''updated '', Text t]]))],
         El ''div'' []
          ((case onRefresh of
              None \<Rightarrow> []
            | Some m \<Rightarrow>
                [El ''button'' [OnClick m, Attr ''title'' ''Refresh health'', Attr ''aria-label'' ''Refresh health status''] [icon ''RefreshCw'']])
           @ [Badge (Some (if healthy then BvSuccess else BvDestructive)) True [Text (if healthy then ''healthy'' else ''unhealthy'')]])])"

section \<open>Provider grid\<close>

datatype ServiceStatus = SvOk | SvDegraded | SvDown | SvUnknown

record ProviderStatus =
  ps2_name :: string
  ps2_slug :: string
  ps2_latencyMs :: "rat option"
  ps2_status :: ServiceStatus

definition unknown_provider :: "string \<Rightarrow> string \<Rightarrow> ProviderStatus" where
  "unknown_provider name slug = \<lparr>ps2_name = name, ps2_slug = slug, ps2_latencyMs = None, ps2_status = SvUnknown\<rparr>"

definition PROVIDERS :: "ProviderStatus list" where
  "PROVIDERS =
     [unknown_provider ''OpenAI'' ''openai'', unknown_provider ''Anthropic'' ''anthropic'', unknown_provider ''Groq'' ''groq'',
      unknown_provider ''Ollama'' ''ollama'', unknown_provider ''Bedrock'' ''bedrock'']"

fun statusVariant :: "ServiceStatus \<Rightarrow> BadgeVariant" where
  "statusVariant SvOk = BvSuccess"
| "statusVariant SvDegraded = BvWarning"
| "statusVariant SvDown = BvDestructive"
| "statusVariant SvUnknown = BvGhost"

fun statusLabel :: "ServiceStatus \<Rightarrow> string" where
  "statusLabel SvOk = ''OK''"
| "statusLabel SvDegraded = ''Degraded''"
| "statusLabel SvDown = ''Down''"
| "statusLabel SvUnknown = ''Not configured''"

definition status_ProviderCard :: "ProviderStatus \<Rightarrow> 'm node" where
  "status_ProviderCard provider =
     El ''div'' []
       [El ''div'' []
         [El ''div'' [] [Text (toUpperCase (js_slice (ps2_name provider) 0 2))],
          El ''div'' []
           ([El ''p'' [] [Text (ps2_name provider)]]
            @ (case ps2_latencyMs provider of None \<Rightarrow> [] | Some l \<Rightarrow> [El ''p'' [] [Text (str_num l), Text ''ms avg'']]))],
        Badge (Some (statusVariant (ps2_status provider))) True [Text (statusLabel (ps2_status provider))]]"

definition ProviderStatusGrid :: "ProviderStatus list option \<Rightarrow> 'm node" where
  "ProviderStatusGrid providers = El ''div'' [] (map status_ProviderCard (nullish providers PROVIDERS))"

section \<open>Quick actions\<close>

record QuickAction =
  qa_label :: string
  qa_description :: string
  qa_to :: string
  qa_icon :: string

definition ACTIONS :: "QuickAction list" where
  "ACTIONS =
     [\<lparr>qa_label = ''New Tenant'', qa_description = ''Onboard a new tenant'', qa_to = ''/tenants'', qa_icon = ''Building2''\<rparr>,
      \<lparr>qa_label = ''New Upstream'', qa_description = ''Register a backend service'', qa_to = ''/upstreams'', qa_icon = ''Network''\<rparr>,
      \<lparr>qa_label = ''New Route'', qa_description = ''Map a path to an upstream'', qa_to = ''/routes'', qa_icon = ''Route''\<rparr>,
      \<lparr>qa_label = ''AI Provider'', qa_description = ''Connect an LLM provider'', qa_to = ''/ai-providers'', qa_icon = ''Brain''\<rparr>]"

definition QuickActionsBar :: "'m node" where
  "QuickActionsBar =
     El ''div'' []
       (map (\<lambda>a. El ''Link'' [Attr ''to'' (qa_to a)]
          [El ''div'' [] [icon (qa_icon a)],
           El ''div'' [] [El ''p'' [] [Text (qa_label a)], El ''p'' [] [Text (qa_description a)]],
           icon ''ArrowRight'']) ACTIONS)"

section \<open>Recent activity\<close>

record ActivityEvent =
  av_id :: string
  av_action :: string
  av_resourceType :: string
  av_resourceId :: string
  av_actor :: string
  av_occurredAt :: string
  av_success :: bool

definition resourceColors :: "string \<Rightarrow> string" where
  "resourceColors t =
     nullish (map_of [(''tenant'', ''navy''), (''upstream'', ''blue''), (''route'', ''purple''), (''policy'', ''emerald''),
                      (''default'', ''gray'')] t) ''gray''"

definition ActivityRow :: "date_env \<Rightarrow> ActivityEvent \<Rightarrow> 'm node" where
  "ActivityRow env e =
     El ''div'' [Attr ''key'' (av_id e)]
       [El ''div'' [Attr ''variant'' (resourceColors (av_resourceType e))] [Text (toUpperCase (js_slice (av_resourceType e) 0 2))],
        El ''div'' []
         [El ''p'' []
           [El ''span'' [] [Text (av_actor e)], Text '' '', El ''span'' [] [Text (av_action e)], Text '' '',
            El ''span'' [] [Text (av_resourceType e)], Text '' '', El ''span'' [] [Text (js_slice (av_resourceId e) 0 8)]],
          El ''p'' [] [Text (formatDistanceToNow env (av_occurredAt e))]],
        Badge (Some (if av_success e then BvSuccess else BvDestructive)) False [Text (if av_success e then ''success'' else ''failure'')]]"

text \<open>\<open>iso\<close> is \<open>new Date(t).toISOString()\<close>; the placeholders are dated when the module is loaded, at \<open>t0\<close>.\<close>

definition PLACEHOLDER_EVENTS :: "(int \<Rightarrow> string) \<Rightarrow> int \<Rightarrow> ActivityEvent list" where
  "PLACEHOLDER_EVENTS iso_text t0 =
     [\<lparr>av_id = ''1'', av_action = ''created'', av_resourceType = ''tenant'', av_resourceId = ''a1b2c3d4'', av_actor = ''admin'',
       av_occurredAt = iso_text (t0 - 60000), av_success = True\<rparr>,
      \<lparr>av_id = ''2'', av_action = ''updated'', av_resourceType = ''upstream'', av_resourceId = ''e5f6a7b8'', av_actor = ''admin'',
       av_occurredAt = iso_text (t0 - 5 * 60000), av_success = True\<rparr>,
      \<lparr>av_id = ''3'', av_action = ''deleted'', av_resourceType = ''route'', av_resourceId = ''c9d0e1f2'', av_actor = ''admin'',
       av_occurredAt = iso_text (t0 - 15 * 60000), av_success = False\<rparr>]"

definition RecentActivity :: "date_env \<Rightarrow> ActivityEvent list \<Rightarrow> bool \<Rightarrow> int option \<Rightarrow> 'm node" where
  "RecentActivity env events loading maxItems =
     El ''div'' []
       ([El ''h3'' [] [Text ''Recent Activity'']]
        @ (if loading
           then replicate 3 (El ''div'' [] [Skeleton SkRectangular, El ''div'' [] [Skeleton SkText, Skeleton SkText]])
           else map (ActivityRow env) (js_slice events 0 (nullish maxItems 5))))"

section \<open>System information\<close>

text \<open>The width of a bar in percent; the bars here have a maximum of 100.\<close>

definition resource_pct :: "rat \<Rightarrow> rat \<Rightarrow> rat" where
  "resource_pct value hi = min (value / hi * 100) 100"

definition resource_color :: "rat \<Rightarrow> rat \<Rightarrow> string \<Rightarrow> string" where
  "resource_color value hi color =
     (if 80 < resource_pct value hi then ''bg-red-400'' else if 60 < resource_pct value hi then ''bg-amber-400'' else color)"

definition ResourceBar :: "string \<Rightarrow> rat \<Rightarrow> rat option \<Rightarrow> string option \<Rightarrow> string option \<Rightarrow> 'm node" where
  "ResourceBar label value hi unit color =
     El ''div'' []
       [El ''div'' [] [El ''span'' [] [Text label], El ''span'' [] [Text (str_num value), Text (nullish unit ''%'')]],
        El ''div'' []
         [El ''div'' [Attr ''variant'' (resource_color value (nullish hi 100) (nullish color ''bg-navy''))] []]]"

record system_snapshot =
  sy_cpuPct :: "rat option"
  sy_memPct :: "rat option"
  sy_openConnections :: "rat option"
  sy_snapshotAgeMs :: "rat option"

definition system_items :: "system_snapshot option \<Rightarrow> (string \<times> string \<times> rat \<times> string) list" where
  "system_items snapshot =
     [(''Cpu'', ''CPU'', nullish (Option.bind snapshot sy_cpuPct) 0, ''%''),
      (''HardDrive'', ''Memory'', nullish (Option.bind snapshot sy_memPct) 0, ''%''),
      (''Wifi'', ''Connections'', nullish (Option.bind snapshot sy_openConnections) 0, []),
      (''Database'', ''Snapshot age'', nullish (Option.bind snapshot sy_snapshotAgeMs) 0, ''ms'')]"

definition SystemInfoPanel :: "system_snapshot option \<Rightarrow> 'm node" where
  "SystemInfoPanel snapshot =
     El ''div'' []
       [El ''h3'' [] [Text ''Data Plane''],
        El ''div'' []
         (map (\<lambda>(ic, label, value, unit).
            El ''div'' [Attr ''key'' label]
              [El ''div'' [] [icon ic],
               El ''div'' [] [El ''p'' [] [Text label], El ''p'' [] [Text (str_num value), Text unit]]])
          (system_items snapshot)),
        El ''div'' []
         [ResourceBar ''CPU utilization'' (nullish (Option.bind snapshot sy_cpuPct) 0) None None (Some ''bg-navy''),
          ResourceBar ''Memory pressure'' (nullish (Option.bind snapshot sy_memPct) 0) None None (Some ''bg-gold'')],
        El ''p'' [] [Text ''Connect OTLP pipeline to populate live data plane stats.'']]"

section \<open>Page\<close>

definition health_key :: query_key where
  "health_key = [JStr ''health'']"

text \<open>\<open>api_base\<close> is the build's \<open>VITE_API_URL\<close>, if set.\<close>

definition fetch_health :: "string option \<Rightarrow> fetch \<Rightarrow> js_thrown + json" where
  "fetch_health api_base fetch =
     (case fetch \<lparr>fetch_url = nullish api_base [] @ ''/health'', fetch_method = None, fetch_headers = [], fetch_body = None\<rparr> of
        Inl e \<Rightarrow> Inl e
      | Inr res \<Rightarrow> if \<not> res_ok res then Inl (JsError ''health check failed'') else res_json res)"

record health_query =
  hq_data :: "HealthResponse option"
  hq_isError :: bool
  hq_isFetching :: bool
  hq_dataUpdatedAt :: int

datatype dashboard_msg = RefreshHealth

definition dashboard_refresh :: "dashboard_msg \<Rightarrow> 'e effect list" where
  "dashboard_refresh m = [Invalidate health_key]"

text \<open>\<open>time_text\<close> is \<open>toLocaleTimeString\<close>.\<close>

definition lastUpdated :: "(int \<Rightarrow> string) \<Rightarrow> health_query \<Rightarrow> string option" where
  "lastUpdated time_text q = (if hq_dataUpdatedAt q \<noteq> 0 then Some (time_text (hq_dataUpdatedAt q)) else None)"

definition page_section :: "'m node list \<Rightarrow> 'm node list \<Rightarrow> 'm node" where
  "page_section heading body = El ''section'' [] ([El ''h2'' [] heading] @ body)"

definition DashboardPage ::
    "date_env \<Rightarrow> (int \<Rightarrow> string) \<Rightarrow> ActivityEvent list \<Rightarrow> health_query \<Rightarrow> dashboard_msg node" where
  "DashboardPage env time_text events q =
     El ''div'' []
       [PageHeader ''Dashboard'' (Some ''Gateway health and live request metrics.'') None None,
        page_section [Text ''Gateway Status'']
          [GatewayStatusCard (hq_data q) (hq_isError q) (hq_isFetching q \<and> hq_data q = None) (lastUpdated time_text q)
             (Some RefreshHealth)],
        page_section [Text ''Quick Actions''] [QuickActionsBar],
        page_section [Text ''Data Plane Metrics'', El ''span'' [] [Text ''(live once OTLP pipeline connected)'']]
          [El ''div'' []
            [StatCard
               \<lparr>st_label = ''Requests / sec'', st_value = [Comp ''MetricsTicker'' [Attr ''value'' ''0'']], st_unit = None,
                st_icon = ''Zap'', st_trend = Some TrendNeutral, st_trendLabel = Some ''+0%'', st_color = Some ''info'',
                st_loading = False\<rparr>,
             StatCard (plain_stat ''P99 Latency'' (Some ''ms'') ''Clock'' (Some ''warning'')),
             StatCard (plain_stat ''Active Connections'' None ''Activity'' (Some ''default'')),
             StatCard (plain_stat ''Error Rate'' (Some ''%'') ''XCircle'' (Some ''danger''))]],
        page_section [Text ''Configuration Summary'']
          [El ''div'' []
            [StatCard (plain_stat ''Tenants'' None ''Building2'' None), StatCard (plain_stat ''Upstreams'' None ''Network'' None),
             StatCard (plain_stat ''Routes'' None ''Route'' None), StatCard (plain_stat ''AI Providers'' None ''Brain'' None)]],
        page_section [Text ''AI Provider Status''] [ProviderStatusGrid None],
        El ''section'' []
          [El ''div'' [] [RecentActivity env events False None], El ''div'' [] [SystemInfoPanel None]]]"

section \<open>Lemmas\<close>

lemma rem_hour_bounds: "0 \<le> rem_hour s \<and> rem_hour s < 3600"
  using floor_correct [of "s / 3600"] by (simp add: rem_hour_def field_simps)

lemma floor_hours:
  assumes "0 \<le> r" and "r < 3600"
  shows "\<lfloor>(3600 * of_int h + r) / 3600\<rfloor> = h"
  using assms by (intro floor_unique) (simp_all add: field_simps)

section \<open>Properties\<close>

text \<open>An uptime of an hour or more is printed with its whole hours and the rest in minutes, rounded: the two
  numbers are at most 30 seconds away from the uptime, but in the last 30 seconds of every hour the
  minutes read 60.\<close>

theorem uptime_minutes_reach_60:
  assumes "0 \<le> r" and "r < 3600" and "1 \<le> h"
  shows "\<exists>m. formatUptime (3600 * of_int h + r) = str_int h @ ''h '' @ str_int m @ ''m''
    \<and> 0 \<le> m \<and> m \<le> 60 \<and> \<bar>of_int m * 60 - r\<bar> \<le> 30 \<and> (m = 60 \<longleftrightarrow> 3570 \<le> r)"
proof -
  have h: "\<lfloor>(3600 * of_int h + r) / 3600\<rfloor> = h" using assms(1,2) by (rule floor_hours)
  then have rem: "rem_hour (3600 * of_int h + r) = r" by (simp add: rem_hour_def)
  have "(1 :: rat) \<le> of_int h" using assms(3) by simp
  then have "\<not> 3600 * of_int h + r < 3600" "\<not> 3600 * of_int h + r < 60" using assms(1) by linarith+
  then have out: "formatUptime (3600 * of_int h + r) = str_int h @ ''h '' @ str_int (js_round (r / 60)) @ ''m''"
    by (simp add: formatUptime_def h rem)
  have "0 \<le> js_round (r / 60) \<and> js_round (r / 60) \<le> 60"
    using assms(1,2) by (intro js_round_bounds) simp_all
  moreover have "\<bar>of_int (js_round (r / 60)) * 60 - r\<bar> \<le> 30"
    using js_round_near [of "r / 60"] by (simp add: abs_le_iff field_simps)
  moreover have "js_round (r / 60) = 60 \<longleftrightarrow> 3570 \<le> r"
    using assms(2) unfolding js_round_def by (simp add: floor_eq_iff field_simps)
  ultimately show ?thesis using out by blast
qed

theorem uptime_minutes_reach_60_witness: "formatUptime 7190 = ''1h 60m''"
proof -
  obtain m where "formatUptime (3600 * of_int 1 + 3590) = str_int 1 @ ''h '' @ str_int m @ ''m''" "m = 60"
    using uptime_minutes_reach_60 [of 3590 1] by auto
  then show ?thesis by (simp add: str_int_def nat_digits.simps)
qed

end
