(* ===== verification/Metrics_Page.thy ===== *)
theory Metrics_Page
  imports Persisted_State Charts Dashboard
begin

text \<open>
  \<^verbatim>\<open>src/ui/admin/src/pages/MetricsPage.tsx\<close>: the tabs over the charts, fed by the live metrics and the
  persisted time window.
\<close>

section \<open>Constants\<close>

datatype Tab = TabOverview | TabLatency | TabErrors | TabAiCost

definition TABS :: "(Tab \<times> string) list" where
  "TABS = [(TabOverview, ''Overview''), (TabLatency, ''Latency''), (TabErrors, ''Errors''), (TabAiCost, ''AI Cost'')]"

definition error_entry :: "int \<Rightarrow> string \<Rightarrow> int \<Rightarrow> ErrorEntry" where
  "error_entry status label n = \<lparr>er_status = status, er_label = label, er_count = n\<rparr>"

definition FAKE_ERRORS :: "ErrorEntry list" where
  "FAKE_ERRORS =
     [error_entry 429 ''Too Many Requests'' 1230, error_entry 502 ''Bad Gateway'' 87, error_entry 500 ''Internal Server Error'' 42,
      error_entry 404 ''Not Found'' 318, error_entry 401 ''Unauthorized'' 204]"

definition route_entry :: "string \<Rightarrow> string \<Rightarrow> int \<Rightarrow> int \<Rightarrow> RouteEntry" where
  "route_entry path m n p99 = \<lparr>re_path = path, re_method = m, re_requests = n, re_p99 = p99\<rparr>"

definition FAKE_ROUTES :: "RouteEntry list" where
  "FAKE_ROUTES =
     [route_entry ''/api/v1/chat/completions'' ''POST'' 8420 184, route_entry ''/api/v1/embeddings'' ''POST'' 3210 42,
      route_entry ''/api/v1/tenants'' ''GET'' 1830 12, route_entry ''/api/v1/tenants/:id'' ''PATCH'' 620 28,
      route_entry ''/api/v1/routes'' ''GET'' 570 9]"

definition FAKE_PROVIDERS :: "ProviderCost list" where
  "FAKE_PROVIDERS =
     [\<lparr>pc_provider = ''OpenAI GPT-4o'', pc_estimatedCost = 12834 / 10000, pc_tokens = 124800, pc_deltaPercent = 82 / 10\<rparr>,
      \<lparr>pc_provider = ''Anthropic Claude'', pc_estimatedCost = 7621 / 10000, pc_tokens = 98200, pc_deltaPercent = - (31 / 10)\<rparr>,
      \<lparr>pc_provider = ''Cohere Command R+'', pc_estimatedCost = 1204 / 10000, pc_tokens = 48000, pc_deltaPercent = 17 / 10\<rparr>]"

definition cacheHitRate :: rat where
  "cacheHitRate = 734 / 10"

definition totalRequests :: rat where
  "totalRequests = 14250"

definition cacheHits :: int where
  "cacheHits = js_round (totalRequests * (cacheHitRate / 100))"

section \<open>State\<close>

text \<open>The array of error entries belongs to the module; rendering the error tab sorts it.\<close>

record metrics_page =
  mp_tab :: Tab
  mp_window :: Window
  mp_storage :: local_storage
  mp_live :: live_state
  mp_errors :: "ErrorEntry list"

definition MetricsPage_init :: "local_storage \<Rightarrow> live_state \<Rightarrow> metrics_page" where
  "MetricsPage_init st live =
     \<lparr>mp_tab = TabOverview, mp_window = window_init st, mp_storage = st, mp_live = live, mp_errors = FAKE_ERRORS\<rparr>"

datatype metrics_msg = MpTab Tab | MpWindow Window | MpLive live_event

fun MetricsPage_update :: "metrics_msg \<Rightarrow> metrics_page \<Rightarrow> metrics_page" where
  "MetricsPage_update (MpTab t) s =
     s\<lparr>mp_tab := t, mp_errors := (if t = TabErrors then errors_after_render (mp_errors s) else mp_errors s)\<rparr>"
| "MetricsPage_update (MpWindow w) s =
     s\<lparr>mp_window := snd (setWindow w (mp_storage s)), mp_storage := fst (setWindow w (mp_storage s))\<rparr>"
| "MetricsPage_update (MpLive e) s = s\<lparr>mp_live := live_step e (mp_live s)\<rparr>"

section \<open>Views\<close>

definition reqHistory :: "live_state \<Rightarrow> rat list" where
  "reqHistory l = map (\<lambda>m. of_int (lm_requestRate m)) (live_history l)"

definition errHistory :: "live_state \<Rightarrow> rat list" where
  "errHistory l = map lm_errorRate (live_history l)"

definition latHistory :: "live_state \<Rightarrow> rat list" where
  "latHistory l = map (\<lambda>m. of_int (lm_p99Latency m)) (live_history l)"

definition connHistory :: "live_state \<Rightarrow> rat list" where
  "connHistory l = map (\<lambda>m. of_int (lm_connections m)) (live_history l)"

text \<open>The gauges: value, maximum, label, unit.\<close>

definition metrics_gauges :: "LiveMetrics \<Rightarrow> (rat \<times> rat \<times> string \<times> string) list" where
  "metrics_gauges current =
     [(of_int (lm_requestRate current), 200, ''Requests/s'', '' rps''),
      (of_int (lm_p99Latency current), 300, ''P99 Latency'', ''ms''),
      (of_int (lm_connections current), 120, ''Connections'', []),
      (lm_errorRate current, 10, ''Error Rate'', ''%'')]"

text \<open>The cards with sparklines: label, icon, data, unit, colour.\<close>

definition metrics_trends :: "live_state \<Rightarrow> (string \<times> string \<times> rat list \<times> string \<times> string) list" where
  "metrics_trends l =
     [(''Requests / sec'', ''Zap'', reqHistory l, ''rps'', ''info''),
      (''P99 Latency'', ''Clock'', latHistory l, ''ms'', ''warning''),
      (''Connections'', ''Activity'', connHistory l, [], ''default''),
      (''Error Rate'', ''XCircle'', errHistory l, ''%'', ''danger'')]"

definition trend_sparkline :: "rat list \<Rightarrow> shape list" where
  "trend_sparkline data = Sparkline data (Some 80) (Some 28) None"

definition overview_tab :: "(rat \<Rightarrow> string) \<Rightarrow> live_state \<Rightarrow> 'm node" where
  "overview_tab loc l =
     El ''div'' []
       [page_section [Text ''Live Snapshot'']
          [El ''div'' [] [El ''div'' []
            (map (\<lambda>(value, hi, label, unit). GaugeChart loc value label unit) (metrics_gauges (live_current l)))]],
        page_section [Text ''Trends'']
          [El ''div'' []
            (map (\<lambda>(label, ic, data, unit, color).
               El ''div'' [Attr ''key'' label]
                 [StatCard (plain_stat label (Some unit) ic (Some color)),
                  El ''div'' [] (if trend_sparkline data = [] then [] else [El ''svg'' [] []])]) (metrics_trends l))],
        page_section [Text ''Top Routes''] [El ''div'' [] [TopRoutesTable loc FAKE_ROUTES]]]"

definition latency_tab :: "(rat \<Rightarrow> string) \<Rightarrow> LiveMetrics \<Rightarrow> 'm node" where
  "latency_tab loc current =
     El ''div'' []
       [page_section [Text ''Latency Percentiles'']
          [El ''div'' []
            [LatencyHistogram (of_int (lm_p50Latency current)) (of_int (lm_p95Latency current)) (of_int (lm_p99Latency current))]],
        page_section [Text ''Cache Performance'']
          [El ''div'' [] [CacheHitRate loc cacheHitRate totalRequests (of_int cacheHits)]]]"

definition MetricsPage :: "(rat \<Rightarrow> string) \<Rightarrow> metrics_page \<Rightarrow> metrics_msg node" where
  "MetricsPage loc s =
     El ''div'' []
       ([PageHeader ''Metrics'' (Some ''Data plane telemetry and request analytics.'')
          (Some [El ''div'' []
            [LiveIndicator (live_connected (mp_live s)),
             El ''div'' []
              (map (\<lambda>w. El ''button'' [Attr ''key'' (window_name w), OnClick (MpWindow w),
                  Attr ''variant'' (if mp_window s = w then ''selected'' else ''plain'')] [Text (window_name w)]) WINDOWS)]]) None,
         El ''div'' []
          (map (\<lambda>(t, label). El ''button'' [OnClick (MpTab t), Attr ''variant'' (if mp_tab s = t then ''selected'' else ''plain'')]
             [Text label]) TABS)]
        @ show_if (mp_tab s = TabOverview) [overview_tab loc (mp_live s)]
        @ show_if (mp_tab s = TabLatency) [latency_tab loc (live_current (mp_live s))]
        @ show_if (mp_tab s = TabErrors)
            [El ''div'' [] [page_section [Text ''Error Breakdown''] [El ''div'' [] [ErrorBreakdownTable loc (mp_errors s)]]]]
        @ show_if (mp_tab s = TabAiCost)
            [El ''div'' [] [page_section [Text ''Provider Cost Estimate''] [El ''div'' [] [ProviderCostSummary loc FAKE_PROVIDERS]]]])"

section \<open>Lemmas\<close>

lemma sparkline_points_in_frame:
  assumes "2 \<le> length data" and "p \<in> set (sparkline_points data 80 28)"
  shows "\<exists>x y. p = (Some x, Some y) \<and> 2 \<le> x \<and> x \<le> 78 \<and> 2 \<le> y \<and> y \<le> 26"
proof -
  from assms(2) obtain i v where iv: "(i, v) \<in> set (enumerate 0 data)"
    and p: "p = (sparkline_x 80 (length data) i, Some (sparkline_y 28 data v))"
    by (auto simp: sparkline_points_def)
  from iv have "i < length data" "v \<in> set data" by (auto simp: in_set_enumerate_eq)
  with p sparkline_x_bounds [of i "length data" 80] sparkline_y_bounds [of v data 28] assms(1) show ?thesis by auto
qed

lemma gauge_inside: "0 < v \<Longrightarrow> v < hi \<Longrightarrow> gauge_pct (of_rat v) 0 (of_rat hi) = Some (of_rat v / of_rat hi)
    \<and> 0 < of_rat v / (of_rat hi :: real) \<and> of_rat v / (of_rat hi :: real) < 1"
proof -
  assume v: "0 < v" "v < hi"
  then have "(0 :: real) < of_rat v" "(of_rat v :: real) < of_rat hi" "(0 :: real) < of_rat hi"
    by (simp_all add: of_rat_less)
  then show ?thesis by (auto simp: gauge_pct_def)
qed

lemma gauges_in_range: "metrics_ok m \<Longrightarrow> (v, hi, lbl, unit) \<in> set (metrics_gauges m) \<Longrightarrow> 0 < v \<and> v < hi"
  by (auto simp: metrics_ok_def metrics_gauges_def)

section \<open>Properties\<close>

text \<open>C38: Whatever samples the live metrics draw and however long they run, the charts of the overview fit: every point
  of every trend line has coordinates inside its frame, and no gauge is empty or at its stop.\<close>

theorem metrics_charts_fit:
  assumes "draws_ok d" and "length ds = HISTORY_SIZE" and "list_all draws_ok ds" and "list_all event_ok es"
  shows "(\<forall>label ic data unit color p.
       (label, ic, data, unit, color) \<in> set (metrics_trends (run_live es (live_init d ds))) \<and> p \<in> set (sparkline_points data 80 28)
       \<longrightarrow> (\<exists>x y. p = (Some x, Some y) \<and> 2 \<le> x \<and> x \<le> 78 \<and> 2 \<le> y \<and> y \<le> 26))
    \<and> (\<forall>v hi label unit. (v, hi, label, unit) \<in> set (metrics_gauges (live_current (run_live es (live_init d ds))))
       \<longrightarrow> (\<exists>pct. gauge_pct (of_rat v) 0 (of_rat hi) = Some pct \<and> 0 < pct \<and> pct < 1))"
proof -
  let ?l = "run_live es (live_init d ds)"
  have "length (live_history ?l) = 20"
    using live_history_length [OF assms(2)] by (simp add: HISTORY_SIZE_def)
  then have "2 \<le> length data" if "(label, ic, data, unit, color) \<in> set (metrics_trends ?l)" for label ic data unit color
    using that by (auto simp: metrics_trends_def reqHistory_def errHistory_def latHistory_def connHistory_def)
  moreover have "metrics_ok (live_current ?l)" using live_metrics_ok [OF assms(1,3,4)] by simp
  ultimately show ?thesis using sparkline_points_in_frame gauges_in_range gauge_inside by blast
qed

theorem metrics_charts_fit_witness:
  "\<exists>pct. gauge_pct (of_rat (lm_errorRate (live_current (run_live [LiveMount] (live_init sample_draws (replicate 20 sample_draws))))))
     0 (of_rat 10) = Some pct \<and> 0 < pct \<and> pct < 1"
proof -
  let ?m = "live_current (run_live [LiveMount] (live_init sample_draws (replicate 20 sample_draws)))"
  have ok: "draws_ok sample_draws" by (simp add: draws_ok_def draw_ok_def sample_draws_def)
  then have all: "list_all draws_ok (replicate 20 sample_draws)" by (simp add: list_all_iff)
  have "(lm_errorRate ?m, 10, ''Error Rate'', ''%'') \<in> set (metrics_gauges ?m)" by (simp add: metrics_gauges_def)
  moreover have "length (replicate 20 sample_draws) = HISTORY_SIZE" "list_all event_ok [LiveMount]"
    by (simp_all add: HISTORY_SIZE_def)
  note metrics_charts_fit [OF ok this(1) all this(2)]
  ultimately show ?thesis by blast
qed

text \<open>Opening the error tab reorders the module's own list of errors: afterwards it is sorted by count, although it
  was declared in another order; opening the tab again changes nothing more.\<close>

theorem error_tab_reorders_source:
  "mp_errors (MetricsPage_update (MpTab TabErrors) s) = sorted_errors (mp_errors s)
   \<and> mp_errors (MetricsPage_update (MpTab TabErrors) (MetricsPage_update (MpTab TabErrors) s)) = sorted_errors (mp_errors s)
   \<and> map er_status (mp_errors (MetricsPage_update (MpTab TabErrors) (MetricsPage_init st l))) = [429, 404, 401, 502, 500]
   \<and> map er_status FAKE_ERRORS = [429, 502, 500, 404, 401]"
proof -
  have "sorted_errors (sorted_errors xs) = sorted_errors xs" for xs by (simp add: sorted_errors_def sort_key_id_if_sorted)
  then show ?thesis
    by (auto simp: errors_after_render_def MetricsPage_init_def sorted_errors_def FAKE_ERRORS_def error_entry_def)
qed

end
