(* ===== verification/Command_Palette.thy ===== *)
theory Command_Palette
  imports Ui_Kit
begin

text \<open>
  \<^verbatim>\<open>src/ui/admin/src/components/command-palette/command-palette.tsx\<close> and
  \<^verbatim>\<open>use-command-palette.ts\<close>: the list of commands, the search, and the keyboard.
\<close>

section \<open>Commands\<close>

text \<open>No command of the list has an \<open>action\<close>: running a command without \<open>href\<close> does nothing more.\<close>

record Command =
  cmd_id :: string
  cmd_label :: string
  cmd_group :: string
  cmd_icon :: string
  cmd_href :: "string option"
  cmd_keywords :: "string list option"

definition page_command :: "string \<Rightarrow> string \<Rightarrow> string \<Rightarrow> string \<Rightarrow> Command" where
  "page_command i label ic href =
     \<lparr>cmd_id = i, cmd_label = label, cmd_group = ''Navigate'', cmd_icon = ic, cmd_href = Some href, cmd_keywords = None\<rparr>"

definition PAGE_COMMANDS :: "Command list" where
  "PAGE_COMMANDS =
     [(page_command ''goto-dashboard'' ''Dashboard'' ''LayoutDashboard'' ''/'')\<lparr>cmd_keywords := Some [''home'']\<rparr>,
      page_command ''goto-tenants'' ''Tenants'' ''Building2'' ''/tenants'',
      page_command ''goto-upstreams'' ''Upstreams'' ''Network'' ''/upstreams'',
      page_command ''goto-routes'' ''Routes'' ''Route'' ''/routes'',
      page_command ''goto-consumers'' ''Consumers'' ''Users'' ''/consumers'',
      page_command ''goto-ai-providers'' ''AI Providers'' ''Brain'' ''/ai-providers'',
      page_command ''goto-rate-limits'' ''Rate Limits'' ''Zap'' ''/rate-limits'',
      page_command ''goto-wasm-plugins'' ''WASM Plugins'' ''Puzzle'' ''/wasm-plugins'',
      page_command ''goto-audit'' ''Audit Log'' ''ClipboardList'' ''/audit'',
      page_command ''goto-checkpoints'' ''Checkpoints'' ''GitBranch'' ''/checkpoints'',
      page_command ''goto-regions'' ''Regions'' ''Globe'' ''/regions'',
      page_command ''goto-metrics'' ''Metrics'' ''Activity'' ''/metrics'',
      page_command ''goto-policies'' ''Policies'' ''Shield'' ''/policies'']"

definition command_matches :: "string \<Rightarrow> Command \<Rightarrow> bool" where
  "command_matches query cmd =
     (let q = toLowerCase query in
      includes_str (toLowerCase (cmd_label cmd)) q
      \<or> includes_str (toLowerCase (cmd_group cmd)) q
      \<or> list_ex (\<lambda>k. includes_str k q) (nullish (cmd_keywords cmd) []))"

definition palette_filtered :: "string \<Rightarrow> Command list" where
  "palette_filtered query = (if trim query = [] then PAGE_COMMANDS else filter (command_matches query) PAGE_COMMANDS)"

section \<open>State\<close>

record palette =
  pl_open :: bool
  pl_query :: string
  pl_active :: int

definition palette_init :: palette where
  "palette_init = \<lparr>pl_open = False, pl_query = [], pl_active = 0\<rparr>"

text \<open>
  The effects: opening clears the query and the selection, and every change of the query resets the
  selection.  They run before the next event.
\<close>

definition set_open :: "bool \<Rightarrow> palette \<Rightarrow> palette" where
  "set_open b s =
     (if b \<and> \<not> pl_open s then \<lparr>pl_open = True, pl_query = [], pl_active = 0\<rparr> else s\<lparr>pl_open := b\<rparr>)"

definition set_query :: "string \<Rightarrow> palette \<Rightarrow> palette" where
  "set_query v s = (if v = pl_query s then s else s\<lparr>pl_query := v, pl_active := 0\<rparr>)"

text \<open>\<open>onClose()\<close> and then \<open>navigate(cmd.href)\<close>; an empty \<open>href\<close> counts as none.\<close>

definition runCommand :: "Command \<Rightarrow> palette \<Rightarrow> palette \<times> string option" where
  "runCommand cmd s = (set_open False s, if truthy_str (cmd_href cmd) then cmd_href cmd else None)"

text \<open>\<open>filtered[active]\<close>: nothing for an index out of range.\<close>

definition selected_command :: "palette \<Rightarrow> Command option" where
  "selected_command s =
     (let filtered = palette_filtered (pl_query s) in
      if 0 \<le> pl_active s \<and> pl_active s < int (length filtered) then Some (filtered ! nat (pl_active s)) else None)"

definition palette_handleKey :: "string \<Rightarrow> palette \<Rightarrow> palette \<times> string option" where
  "palette_handleKey key s =
     (if key = ''ArrowDown''
      then (s\<lparr>pl_active := min (pl_active s + 1) (int (length (palette_filtered (pl_query s))) - 1)\<rparr>, None)
      else if key = ''ArrowUp'' then (s\<lparr>pl_active := max (pl_active s - 1) 0\<rparr>, None)
      else if key = ''Enter'' then (case selected_command s of None \<Rightarrow> (s, None) | Some cmd \<Rightarrow> runCommand cmd s)
      else if key = ''Escape'' then (set_open False s, None)
      else (s, None))"

datatype palette_msg =
    PlOpen
  | PlClose
  | PlShortcut bool bool string
  | PlQuery string
  | PlKey string
  | PlHover int
  | PlRun Command

text \<open>The listener on the document: Cmd+K or Ctrl+K toggles the palette.\<close>

definition toggle_shortcut :: "bool \<Rightarrow> bool \<Rightarrow> string \<Rightarrow> bool \<Rightarrow> bool" where
  "toggle_shortcut metaKey ctrlKey key shown = (if (metaKey \<or> ctrlKey) \<and> key = ''k'' then \<not> shown else shown)"

text \<open>The second component is the path that the router is told to go to.\<close>

fun palette_update :: "palette_msg \<Rightarrow> palette \<Rightarrow> palette \<times> string option" where
  "palette_update PlOpen s = (set_open True s, None)"
| "palette_update PlClose s = (set_open False s, None)"
| "palette_update (PlShortcut meta ctrl key) s =
     (set_open (toggle_shortcut meta ctrl key (pl_open s)) s, None)"
| "palette_update (PlQuery v) s = (set_query v s, None)"
| "palette_update (PlKey key) s = palette_handleKey key s"
| "palette_update (PlHover i) s = (s\<lparr>pl_active := i\<rparr>, None)"
| "palette_update (PlRun cmd) s = runCommand cmd s"

section \<open>View\<close>

text \<open>\<open>Array.from(new Set(...))\<close>: each group once, in the order of its first command.\<close>

definition palette_groups :: "Command list \<Rightarrow> string list" where
  "palette_groups filtered = rev (remdups (rev (map cmd_group filtered)))"

definition indexOf :: "'a list \<Rightarrow> 'a \<Rightarrow> int" where
  "indexOf xs x = (case find (\<lambda>i. xs ! i = x) [0..<length xs] of None \<Rightarrow> - 1 | Some i \<Rightarrow> int i)"

definition command_button :: "palette \<Rightarrow> Command \<Rightarrow> palette_msg node" where
  "command_button s cmd =
     (let globalIdx = indexOf (palette_filtered (pl_query s)) cmd in
      El ''button'' [Attr ''key'' (cmd_id cmd), Attr ''variant'' (if globalIdx = pl_active s then ''active'' else ''plain''),
          OnEvent ''onMouseEnter'' (PlHover globalIdx), OnClick (PlRun cmd)]
        [icon (cmd_icon cmd), El ''span'' [] [Text (cmd_label cmd)]])"

definition palette_results :: "palette \<Rightarrow> palette_msg node list" where
  "palette_results s =
     (let filtered = palette_filtered (pl_query s) in
      if length filtered = 0
      then [El ''p'' [] [Text (''No results for '' @ ldquo), Text (pl_query s), Text rdquo]]
      else map (\<lambda>group. El ''div'' [Attr ''key'' group]
             ([El ''p'' [] [Text group]] @ map (command_button s) (filter (\<lambda>c. cmd_group c = group) filtered)))
           (palette_groups filtered))"

definition CommandPalette :: "palette \<Rightarrow> palette_msg node list" where
  "CommandPalette s =
     (if \<not> pl_open s then []
      else [El ''div'' [Attr ''aria-modal'' ''true'', Attr ''role'' ''dialog'', Attr ''aria-label'' ''Command palette'']
        [El ''div'' [OnClick PlClose] [],
         El ''div'' []
          [El ''div'' []
            [icon ''Search'',
             El ''input'' [Attr ''type'' ''text'', Attr ''placeholder'' (''Search pages and actions'' @ ellipsis),
                Attr ''value'' (pl_query s), OnChange PlQuery] [],
             KbdShortcut [''Esc'']],
           El ''div'' [] (palette_results s),
           El ''div'' []
            [El ''span'' [] [KbdShortcut [key_up, key_down], Text '' Navigate''],
             El ''span'' [] [KbdShortcut [key_enter], Text '' Select'']]]]])"

text \<open>What can happen: what the view offers, a key in the open palette's input, and the shortcut.\<close>

definition palette_offers :: "palette \<Rightarrow> palette_msg set" where
  "palette_offers s =
     view_msgs (CommandPalette s) \<union> {PlOpen} \<union> {PlShortcut meta ctrl key | meta ctrl key. True}
     \<union> (if pl_open s then range PlKey else {})"

definition palette_step :: "palette_msg \<Rightarrow> palette \<Rightarrow> palette" where
  "palette_step m s = fst (palette_update m s)"

section \<open>Lemmas\<close>

lemma PAGE_COMMANDS_facts: "distinct PAGE_COMMANDS" "\<forall>c \<in> set PAGE_COMMANDS. truthy_str (cmd_href c)"
  by (simp_all add: PAGE_COMMANDS_def page_command_def)

lemma palette_filtered_subset: "set (palette_filtered q) \<subseteq> set PAGE_COMMANDS"
  by (auto simp: palette_filtered_def)

lemma indexOf_in: "x \<in> set xs \<Longrightarrow> 0 \<le> indexOf xs x \<and> indexOf xs x < int (length xs) \<and> xs ! nat (indexOf xs x) = x"
proof -
  assume "x \<in> set xs"
  then obtain j where "j < length xs" "xs ! j = x" by (auto simp: in_set_conv_nth)
  then have "find (\<lambda>i. xs ! i = x) [0..<length xs] \<noteq> None" by (auto simp: find_None_iff)
  then show ?thesis by (auto simp: indexOf_def find_Some_iff split: option.splits)
qed

lemma lower_char_space: "CHR '' '' = lower_char c \<Longrightarrow> c = CHR '' ''"
  by (auto simp: lower_char_def is_upper_def dest!: arg_cong [where f = "of_char :: char \<Rightarrow> nat"] split: if_splits)

text \<open>The selection is in range whenever there are results.\<close>

abbreviation palette_inv :: "palette \<Rightarrow> bool" where
  "palette_inv s \<equiv>
     - 1 \<le> pl_active s \<and>
     (palette_filtered (pl_query s) \<noteq> [] \<longrightarrow>
        0 \<le> pl_active s \<and> pl_active s < int (length (palette_filtered (pl_query s))))"

lemma PAGE_COMMANDS_length: "length PAGE_COMMANDS = 13"
  by (simp add: PAGE_COMMANDS_def)

lemma palette_filtered_Nil [simp]: "palette_filtered [] = PAGE_COMMANDS"
  by (simp add: palette_filtered_def)

lemma set_open_inv: "palette_inv s \<Longrightarrow> palette_inv (set_open b s)"
  by (simp add: set_open_def PAGE_COMMANDS_length)

lemma KbdShortcut_msgs [view]: "msgs (KbdShortcut ks) = {}"
  by (auto simp: KbdShortcut_def view view_msgs_map)

lemma palette_hover_in_range:
  assumes "PlHover i \<in> view_msgs (CommandPalette s)"
  shows "0 \<le> i \<and> i < int (length (palette_filtered (pl_query s)))"
  using assms indexOf_in [of _ "palette_filtered (pl_query s)"]
  by (auto simp: CommandPalette_def palette_results_def command_button_def Let_def view view_msgs_map split: if_splits)

lemma palette_key_inv:
  assumes "palette_inv s"
  shows "palette_inv (fst (palette_handleKey key s))"
proof -
  have len: "palette_filtered (pl_query s) \<noteq> [] \<longleftrightarrow> 0 < length (palette_filtered (pl_query s))" by simp
  have "palette_inv (s\<lparr>pl_active := min (pl_active s + 1) (int (length (palette_filtered (pl_query s))) - 1)\<rparr>)"
    using assms unfolding len by (auto simp: min_def)
  moreover have "palette_inv (s\<lparr>pl_active := max (pl_active s - 1) 0\<rparr>)"
    using assms unfolding len by auto
  ultimately show ?thesis
    using assms set_open_inv [OF assms, of False]
    by (simp add: palette_handleKey_def runCommand_def split: option.split)
qed

lemma palette_inv_step: "palette_inv s \<Longrightarrow> m \<in> palette_offers s \<Longrightarrow> palette_inv (palette_step m s)"
proof (cases m)
  case (PlHover i)
  assume "palette_inv s" "m \<in> palette_offers s"
  with PlHover palette_hover_in_range [of i s] show ?thesis
    by (auto simp: palette_step_def palette_offers_def split: if_splits)
next
  case (PlKey key)
  assume "palette_inv s"
  then show ?thesis using PlKey palette_key_inv by (simp add: palette_step_def)
next
  case (PlQuery v)
  assume "palette_inv s"
  then show ?thesis using PlQuery by (auto simp: palette_step_def set_query_def)
qed (auto simp: palette_step_def runCommand_def set_open_inv)

interpretation palette_run: ui_machine palette_offers palette_step palette_inv
  by unfold_locales (rule palette_inv_step)

section \<open>Properties\<close>

text \<open>C15: Whatever is typed, pressed or pointed at, when the palette has results exactly one of them is
  selected, and Enter closes the palette and goes to that command's page; without results Enter does
  nothing.\<close>

theorem palette_enter_runs_selected:
  assumes "reach palette_offers palette_step palette_init s"
  shows "(palette_filtered (pl_query s) \<noteq> [] \<longrightarrow>
      (\<exists>cmd path. selected_command s = Some cmd \<and> cmd \<in> set (palette_filtered (pl_query s)) \<and> cmd_href cmd = Some path
         \<and> palette_update (PlKey ''Enter'') s = (s\<lparr>pl_open := False\<rparr>, Some path)))
    \<and> (palette_filtered (pl_query s) = [] \<longrightarrow> palette_update (PlKey ''Enter'') s = (s, None))"
proof (cases "palette_filtered (pl_query s) = []")
  case True
  then show ?thesis by (auto simp: palette_handleKey_def selected_command_def)
next
  case False
  have "palette_inv s" by (rule palette_run.reach_inv [OF assms]) (simp add: palette_init_def PAGE_COMMANDS_length)
  with False have a: "0 \<le> pl_active s" "pl_active s < int (length (palette_filtered (pl_query s)))" by auto
  let ?cmd = "palette_filtered (pl_query s) ! nat (pl_active s)"
  have sel: "selected_command s = Some ?cmd" using a by (simp add: selected_command_def)
  have mem: "?cmd \<in> set (palette_filtered (pl_query s))" using a by (intro nth_mem) simp
  then obtain path where path: "cmd_href ?cmd = Some path" "path \<noteq> []"
    using palette_filtered_subset PAGE_COMMANDS_facts(2) by (cases "cmd_href ?cmd") fastforce+
  then have "palette_update (PlKey ''Enter'') s = (s\<lparr>pl_open := False\<rparr>, Some path)"
    by (simp add: palette_handleKey_def sel runCommand_def set_open_def)
  with sel mem path False show ?thesis by blast
qed

theorem palette_enter_runs_selected_witness:
  "palette_update (PlKey ''Enter'') (palette_step (PlKey ''ArrowDown'') (palette_step PlOpen palette_init))
   = (\<lparr>pl_open = False, pl_query = [], pl_active = 1\<rparr>, Some ''/tenants'')"
proof -
  have "reach palette_offers palette_step palette_init (palette_step PlOpen palette_init)"
    by (rule reach_run) (simp add: palette_offers_def)
  then have "reach palette_offers palette_step palette_init (palette_step (PlKey ''ArrowDown'') (palette_step PlOpen palette_init))"
    by (rule reach.step) (simp add: palette_offers_def palette_step_def palette_init_def set_open_def)
  from palette_enter_runs_selected [OF this] show ?thesis
    by (simp add: palette_step_def palette_init_def set_open_def palette_handleKey_def selected_command_def
        PAGE_COMMANDS_def page_command_def runCommand_def)
qed

text \<open>A query is not trimmed before it is matched: a query that starts with a space, and is not blank, finds only
  commands whose label contains a space, so a padded one-word page name does not find its page.\<close>

theorem palette_padded_query:
  assumes "cmd \<in> set (palette_filtered (CHR '' '' # query))" and "trim query \<noteq> []"
  shows "CHR '' '' \<in> set (cmd_label cmd)"
proof -
  have space: "CHR '' '' \<in> set xs" if "includes_str (toLowerCase xs) (toLowerCase (CHR '' '' # query))" for xs
  proof -
    have "sublist (toLowerCase (CHR '' '' # query)) (toLowerCase xs)" using that by (simp add: includes_str_iff)
    then have "CHR '' '' \<in> set (toLowerCase xs)" by (auto simp: toLowerCase_def lower_char_def is_upper_def dest!: set_mono_sublist)
    then show ?thesis by (auto simp: toLowerCase_def dest!: lower_char_space)
  qed
  have "trim (CHR '' '' # query) \<noteq> []" using assms(2) by (auto simp: trim_eq_Nil)
  with assms(1) have c: "cmd \<in> set PAGE_COMMANDS" "command_matches (CHR '' '' # query) cmd"
    by (auto simp: palette_filtered_def)
  have "cmd_group cmd = ''Navigate''" "set (nullish (cmd_keywords cmd) []) \<subseteq> {''home''}"
    using c(1) by (auto simp: PAGE_COMMANDS_def page_command_def)
  moreover have "toLowerCase ''home'' = ''home''" by (simp add: toLowerCase_def lower_char_def is_upper_def)
  ultimately show ?thesis using c(2) space [of "cmd_label cmd"] space [of "''Navigate''"] space [of "''home''"]
    by (auto simp: command_matches_def Let_def list_ex_iff)
qed

theorem palette_padded_query_witness:
  "page_command ''goto-metrics'' ''Metrics'' ''Activity'' ''/metrics'' \<notin> set (palette_filtered '' metrics'')"
proof
  assume "page_command ''goto-metrics'' ''Metrics'' ''Activity'' ''/metrics'' \<in> set (palette_filtered '' metrics'')"
  moreover have "trim ''metrics'' \<noteq> []" by (simp add: trim_eq_Nil is_space_def)
  ultimately show False using palette_padded_query [of "page_command ''goto-metrics'' ''Metrics'' ''Activity'' ''/metrics''" "''metrics''"]
    by (simp add: page_command_def)
qed

end
