(* ===== verification/Theme.thy ===== *)
theory Theme
  imports Prelude
begin

text \<open>
  \<^verbatim>\<open>src/ui/admin/src/components/ui/theme-provider.tsx\<close>: the stored preference, the resolved theme,
  and the class on the document's root.  The stored value is cast, not checked, so a theme is
  any string.
\<close>

definition STORAGE_KEY :: string where
  "STORAGE_KEY = ''barqium-theme''"

record theme_state =
  th_theme :: string
  th_storage :: "string \<rightharpoonup> string"
  th_root_classes :: "string list"
  th_prefers_dark :: bool
  th_rendered :: string

definition initial_theme :: "(string \<rightharpoonup> string) \<Rightarrow> string" where
  "initial_theme storage = nullish (storage STORAGE_KEY) ''system''"

definition resolvedTheme :: "theme_state \<Rightarrow> string" where
  "resolvedTheme s =
     (if th_theme s = ''system'' then (if th_prefers_dark s then ''dark'' else ''light'') else th_theme s)"

text \<open>\<open>root.classList.remove('light', 'dark'); root.classList.add(c)\<close>\<close>

definition set_root_class :: "string \<Rightarrow> string list \<Rightarrow> string list" where
  "set_root_class c classes =
     (let kept = filter (\<lambda>k. k \<noteq> ''light'' \<and> k \<noteq> ''dark'') classes
      in if c \<in> set kept then kept else kept @ [c])"

text \<open>
  The effect after a render: it runs when the resolved theme differs from the one of the
  render before, \<open>th_rendered\<close>.
\<close>

definition apply_theme :: "theme_state \<Rightarrow> theme_state" where
  "apply_theme s =
     s\<lparr>th_root_classes := set_root_class (resolvedTheme s) (th_root_classes s),
       th_rendered := resolvedTheme s\<rparr>"

definition mount_theme :: "(string \<rightharpoonup> string) \<Rightarrow> bool \<Rightarrow> string list \<Rightarrow> theme_state" where
  "mount_theme storage dark classes =
     apply_theme \<lparr>th_theme = initial_theme storage, th_storage = storage, th_root_classes = classes,
                  th_prefers_dark = dark, th_rendered = []\<rparr>"

text \<open>\<open>setTheme\<close>: setting the state to the value it has does not render again.\<close>

definition setTheme :: "string \<Rightarrow> theme_state \<Rightarrow> theme_state" where
  "setTheme t s =
     (let s' = s\<lparr>th_storage := (th_storage s)(STORAGE_KEY \<mapsto> t), th_theme := t\<rparr>
      in if t = th_theme s \<or> resolvedTheme s' = th_rendered s then s' else apply_theme s')"

text \<open>
  The listener on the media query, subscribed only while the theme is \<open>system\<close>; it changes the
  class without rendering the provider.
\<close>

definition prefers_dark_change :: "bool \<Rightarrow> theme_state \<Rightarrow> theme_state" where
  "prefers_dark_change dark s =
     (let s' = s\<lparr>th_prefers_dark := dark\<rparr>
      in if th_theme s \<noteq> ''system'' then s'
         else s'\<lparr>th_root_classes := set_root_class (if dark then ''dark'' else ''light'') (th_root_classes s')\<rparr>)"

datatype theme_event = SetTheme string | PrefersDark bool

fun theme_step :: "theme_event \<Rightarrow> theme_state \<Rightarrow> theme_state" where
  "theme_step (SetTheme t) s = setTheme t s"
| "theme_step (PrefersDark b) s = prefers_dark_change b s"

section \<open>Lemmas\<close>

definition valid_theme :: "string \<Rightarrow> bool" where
  "valid_theme t \<longleftrightarrow> t \<in> {''light'', ''dark'', ''system''}"

text \<open>The root has exactly the given one of the two classes.\<close>

definition root_shows :: "string \<Rightarrow> string list \<Rightarrow> bool" where
  "root_shows c classes \<longleftrightarrow> filter (\<lambda>k. k = ''light'' \<or> k = ''dark'') classes = [c]"

lemma set_root_class_shows:
  "c = ''light'' \<or> c = ''dark'' \<Longrightarrow> root_shows c (set_root_class c classes)"
  by (auto simp: root_shows_def set_root_class_def Let_def filter_empty_conv)

lemma resolved_valid: "valid_theme (th_theme s) \<Longrightarrow> resolvedTheme s = ''light'' \<or> resolvedTheme s = ''dark''"
  by (auto simp: resolvedTheme_def valid_theme_def)

definition theme_inv :: "theme_state \<Rightarrow> bool" where
  "theme_inv s \<longleftrightarrow> valid_theme (th_theme s) \<and> root_shows (resolvedTheme s) (th_root_classes s)
     \<and> th_rendered s = resolvedTheme s"

lemma apply_theme_sel [simp]:
  "resolvedTheme (apply_theme s) = resolvedTheme s"
  "th_theme (apply_theme s) = th_theme s"
  "th_rendered (apply_theme s) = resolvedTheme s"
  "th_root_classes (apply_theme s) = set_root_class (resolvedTheme s) (th_root_classes s)"
  by (simp_all add: apply_theme_def resolvedTheme_def)

lemma apply_theme_inv: "valid_theme (th_theme s) \<Longrightarrow> theme_inv (apply_theme s)"
  using set_root_class_shows [OF resolved_valid] by (simp add: theme_inv_def)

lemma setTheme_inv:
  assumes "theme_inv s" and "valid_theme t"
  shows "theme_inv (setTheme t s)"
proof -
  let ?s = "s\<lparr>th_storage := (th_storage s)(STORAGE_KEY \<mapsto> t), th_theme := t\<rparr>"
  show ?thesis
  proof (cases "t = th_theme s \<or> resolvedTheme ?s = th_rendered s")
    case True
    then have "resolvedTheme ?s = resolvedTheme s"
      using assms(1) by (auto simp: theme_inv_def resolvedTheme_def)
    then have "theme_inv ?s" using assms by (simp add: theme_inv_def)
    with True show ?thesis unfolding setTheme_def Let_def by simp
  next
    case False
    have "theme_inv (apply_theme ?s)" using assms(2) by (intro apply_theme_inv) simp
    with False show ?thesis unfolding setTheme_def Let_def by simp
  qed
qed

lemma fold_setTheme_inv:
  "theme_inv s \<Longrightarrow> list_all valid_theme ts \<Longrightarrow> theme_inv (fold setTheme ts s)"
  by (induction ts arbitrary: s) (auto simp: setTheme_inv)

section \<open>Properties\<close>

text \<open>C26: While the system preference stays the same, the document's root carries exactly one of the
  classes \<open>light\<close> and \<open>dark\<close>, the one the chosen theme resolves to, after mounting with a valid (or no)
  stored theme and after any choices of the user.\<close>

theorem theme_class_in_step:
  assumes "valid_theme (initial_theme storage)" and "list_all valid_theme ts"
  shows "let s = fold setTheme ts (mount_theme storage dark classes)
         in root_shows (resolvedTheme s) (th_root_classes s)"
proof -
  have "theme_inv (mount_theme storage dark classes)"
    using assms(1) apply_theme_inv by (simp add: mount_theme_def)
  with assms(2) fold_setTheme_inv show ?thesis by (auto simp: theme_inv_def Let_def)
qed

theorem theme_class_in_step_witness:
  "root_shows ''dark'' (th_root_classes (fold setTheme [''light'', ''dark''] (mount_theme Map.empty False [''js''])))"
  using theme_class_in_step [of Map.empty "[''light'', ''dark'']" False "[''js'']"]
  by (simp add: valid_theme_def initial_theme_def nullish_def STORAGE_KEY_def Let_def setTheme_def
      mount_theme_def apply_theme_def resolvedTheme_def)

text \<open>A chosen theme survives a reload: mounting again with the storage that \<open>setTheme\<close> left
  starts with that theme.\<close>

theorem theme_persists:
  "th_theme (mount_theme (th_storage (setTheme t s)) dark classes) = t"
  by (simp add: mount_theme_def apply_theme_def initial_theme_def setTheme_def Let_def nullish_def)

text \<open>A change of the system preference is not seen by the effect: with the theme \<open>system\<close> mounted
  on a light system, a switch of the system to dark followed by the user's choice of \<open>light\<close> leaves the
  root dark, because the effect's dependency is still \<open>light\<close>.\<close>

theorem theme_class_stuck:
  "let s = fold theme_step [PrefersDark True, SetTheme ''light''] (mount_theme Map.empty False [])
   in resolvedTheme s = ''light'' \<and> root_shows ''dark'' (th_root_classes s)"
  by (simp add: mount_theme_def apply_theme_def initial_theme_def setTheme_def Let_def nullish_def
      resolvedTheme_def prefers_dark_change_def set_root_class_def root_shows_def)

end
