(* ===== verification/App_Shell.thy ===== *)
theory App_Shell
  imports Command_Palette Theme Dashboard
begin

text \<open>
  The frame of the application: \<^verbatim>\<open>src/ui/admin/src/layouts/AppLayout.tsx\<close> (sidebar, header, theme switch,
  palette) and \<^verbatim>\<open>src/ui/admin/src/App.tsx\<close> (routes, error boundary).  Matching a path against the routes is
  the router's; here a route is the path under which it is declared.
\<close>

section \<open>Navigation\<close>

record nav_item =
  nv_to :: string
  nv_icon :: string
  nv_label :: string

definition nav :: "string \<Rightarrow> string \<Rightarrow> string \<Rightarrow> nav_item" where
  "nav to ic label = \<lparr>nv_to = to, nv_icon = ic, nv_label = label\<rparr>"

definition navGroups :: "(string \<times> nav_item list) list" where
  "navGroups =
     [(''Overview'', [nav ''/'' ''LayoutDashboard'' ''Dashboard'', nav ''/metrics'' ''Activity'' ''Metrics'']),
      (''Configuration'',
        [nav ''/tenants'' ''Building2'' ''Tenants'', nav ''/upstreams'' ''Network'' ''Upstreams'',
         nav ''/routes'' ''Route'' ''Routes'', nav ''/consumers'' ''Users'' ''Consumers'']),
      (''Intelligence'',
        [nav ''/ai-providers'' ''Brain'' ''AI Providers'', nav ''/rate-limits'' ''Zap'' ''Rate Limits'',
         nav ''/wasm-plugins'' ''Puzzle'' ''WASM Plugins'']),
      (''Operations'',
        [nav ''/audit'' ''ClipboardList'' ''Audit Log'', nav ''/checkpoints'' ''GitBranch'' ''Checkpoints'',
         nav ''/regions'' ''Globe'' ''Regions'', nav ''/policies'' ''Shield'' ''Policies''])]"

definition themeOptions :: "(string \<times> string \<times> string) list" where
  "themeOptions = [(''light'', ''Sun'', ''Light''), (''dark'', ''Moon'', ''Dark''), (''system'', ''Monitor'', ''System'')]"

definition PAGE_TITLES :: "(string \<times> string) list" where
  "PAGE_TITLES =
     [(''/'', ''Dashboard''), (''/metrics'', ''Metrics''), (''/tenants'', ''Tenants''), (''/upstreams'', ''Upstreams''),
      (''/routes'', ''Routes''), (''/consumers'', ''Consumers''), (''/ai-providers'', ''AI Providers''),
      (''/rate-limits'', ''Rate Limits''), (''/wasm-plugins'', ''WASM Plugins''), (''/audit'', ''Audit Log''),
      (''/checkpoints'', ''Checkpoints''), (''/regions'', ''Regions''), (''/policies'', ''Policies'')]"

definition pageTitle :: "string \<Rightarrow> string" where
  "pageTitle pathname = nullish (map_of PAGE_TITLES pathname) ''Barqium''"

section \<open>Layout\<close>

record layout =
  ly_collapsed :: bool
  ly_theme :: theme_state
  ly_palette :: palette
  ly_pathname :: string

datatype layout_msg = LyTheme string | LyToggleSidebar | LyPalette palette_msg | LyLink string

text \<open>A command of the palette and a link of the sidebar change the path.\<close>

fun AppLayout_update :: "layout_msg \<Rightarrow> layout \<Rightarrow> layout" where
  "AppLayout_update (LyTheme t) s = s\<lparr>ly_theme := setTheme t (ly_theme s)\<rparr>"
| "AppLayout_update LyToggleSidebar s = s\<lparr>ly_collapsed := \<not> ly_collapsed s\<rparr>"
| "AppLayout_update (LyPalette m) s =
     (case palette_update m (ly_palette s) of
        (pal, None) \<Rightarrow> s\<lparr>ly_palette := pal\<rparr>
      | (pal, Some path) \<Rightarrow> s\<lparr>ly_palette := pal, ly_pathname := path\<rparr>)"
| "AppLayout_update (LyLink to) s = s\<lparr>ly_pathname := to\<rparr>"

definition nav_link :: "bool \<Rightarrow> nav_item \<Rightarrow> layout_msg node" where
  "nav_link collapsed it =
     El ''NavLink''
       ([Attr ''to'' (nv_to it), OnClick (LyLink (nv_to it)), Flag ''end'' (nv_to it = ''/'')]
        @ opt_attr ''title'' (if collapsed then Some (nv_label it) else None) @ [Attr ''aria-label'' (nv_label it)])
       ([icon (nv_icon it)] @ show_if (\<not> collapsed) [Text (nv_label it)])"

definition sidebar_nav :: "bool \<Rightarrow> layout_msg node" where
  "sidebar_nav collapsed =
     El ''nav'' []
       (map (\<lambda>(label, items). El ''div'' [Attr ''key'' label]
          (show_if (\<not> collapsed) [El ''p'' [] [Text label]] @ [El ''div'' [] (map (nav_link collapsed) items)])) navGroups)"

definition theme_switch :: "bool \<Rightarrow> string \<Rightarrow> layout_msg node" where
  "theme_switch collapsed theme_name =
     (if \<not> collapsed
      then El ''div'' []
        (map (\<lambda>(value, ic, label).
           El ''button'' [Attr ''title'' label, OnClick (LyTheme value),
              Attr ''variant'' (if theme_name = value then ''selected'' else ''plain'')] [icon ic]) themeOptions)
      else El ''button'' [OnClick (LyTheme (if theme_name = ''dark'' then ''light'' else ''dark'')), Attr ''title'' ''Toggle theme'']
        [icon (if theme_name = ''dark'' then ''Sun'' else ''Moon'')])"

definition search_button :: "bool \<Rightarrow> layout_msg node" where
  "search_button collapsed =
     (if \<not> collapsed
      then El ''button'' [OnClick (LyPalette PlOpen)]
        [icon ''Search'', El ''span'' [] [Text (''Search'' @ ellipsis)], El ''kbd'' [] [Text (key_cmd @ ''K'')]]
      else El ''button'' [OnClick (LyPalette PlOpen), Attr ''title'' (''Search ('' @ key_cmd @ ''K)''),
             Attr ''aria-label'' (''Open command palette ('' @ key_cmd @ ''K)'')] [icon ''Search''])"

definition sidebar :: "layout \<Rightarrow> layout_msg node" where
  "sidebar s =
     (let collapsed = ly_collapsed s in
      El ''aside'' [Attr ''variant'' (if collapsed then ''w-16'' else ''w-60'')]
        [El ''div'' []
          (if collapsed then [El ''span'' [] [Text ''B'']]
           else [El ''span'' [] [Text ''Barqium''], El ''span'' [] [Text ''ADMIN'']]),
         search_button collapsed,
         sidebar_nav collapsed,
         El ''div'' []
          ([theme_switch collapsed (th_theme (ly_theme s))]
           @ show_if (\<not> collapsed) [El ''p'' [] [Text (''v0.1.0 '' @ middle_dot @ '' Barqium Admin'')]]),
         El ''button'' [OnClick LyToggleSidebar, Attr ''title'' (if collapsed then ''Expand sidebar'' else ''Collapse sidebar'')]
           [icon ''ChevronLeft'']])"

definition header_bar :: "string \<Rightarrow> layout_msg node" where
  "header_bar pathname =
     El ''header'' []
       [El ''div'' [] [El ''span'' [] [Text ''Barqium''], El ''span'' [] [Text ''/''], El ''span'' [] [Text (pageTitle pathname)]],
        El ''div'' []
         [El ''button'' [OnClick (LyPalette PlOpen), Attr ''aria-label'' ''Open command palette'']
            [icon ''Search'', El ''span'' [] [Text (''Search'' @ ellipsis)], KbdShortcut [key_cmd, ''K'']],
          El ''div'' [] [El ''div'' [] [icon ''User''], El ''span'' [] [Text ''Admin'']]]]"

definition AppLayout :: "layout \<Rightarrow> layout_msg node" where
  "AppLayout s =
     El ''div'' []
       [sidebar s,
        El ''div'' [] [header_bar (ly_pathname s), El ''main'' [] [Comp ''Outlet'' []]],
        Comp ''CommandPalette'' [Flag ''open'' (pl_open (ly_palette s)), OnEvent ''onClose'' (LyPalette PlClose)]]"

section \<open>Application\<close>

text \<open>The elements of the routes; the index route stands for the root path.\<close>

definition app_routes :: "(string \<times> string) list" where
  "app_routes =
     [(''/'', ''DashboardPage''), (''/tenants'', ''TenantsPage''), (''/upstreams'', ''UpstreamsPage''),
      (''/routes'', ''RoutesPage''), (''/metrics'', ''MetricsPage''), (''/consumers'', ''ConsumersPage''),
      (''/ai-providers'', ''AIProvidersPage''), (''/rate-limits'', ''RateLimitsPage''), (''/wasm-plugins'', ''WasmPluginsPage''),
      (''/audit'', ''AuditLogPage''), (''/checkpoints'', ''CheckpointsPage''), (''/regions'', ''RegionsPage''),
      (''/policies'', ''StubPage'')]"

definition StubPage :: "string \<Rightarrow> 'm node" where
  "StubPage name = El ''div'' [] [El ''h1'' [] [Text name], El ''p'' [] [Text ''This page is coming in a future phase.'']]"

text \<open>The error boundary: a thrown error replaces the children until the user tries again.\<close>

datatype boundary_msg = TryAgain

definition getDerivedStateFromError :: "string \<Rightarrow> string option" where
  "getDerivedStateFromError message = Some message"

definition boundary_update :: "boundary_msg \<Rightarrow> string option \<Rightarrow> string option" where
  "boundary_update m s = None"

definition AppErrorBoundary :: "(boundary_msg \<Rightarrow> 'm) \<Rightarrow> string option \<Rightarrow> 'm node list \<Rightarrow> 'm node list" where
  "AppErrorBoundary send err children =
     (case err of
        None \<Rightarrow> children
      | Some message \<Rightarrow>
          [El ''div'' [] [El ''div'' []
            [El ''div'' [] [El ''span'' [] [Text ''!'']],
             El ''h1'' [] [Text ''Something went wrong''],
             El ''p'' [] [Text message],
             El ''button'' [OnClick (send TryAgain)] [Text ''Try again'']]]])"

section \<open>Lemmas\<close>

definition app_paths :: "string set" where
  "app_paths = set (map fst app_routes)"

lemma app_paths_eval: "app_paths = {''/'', ''/tenants'', ''/upstreams'', ''/routes'', ''/metrics'', ''/consumers'', ''/ai-providers'',
    ''/rate-limits'', ''/wasm-plugins'', ''/audit'', ''/checkpoints'', ''/regions'', ''/policies''}"
  by (simp add: app_paths_def app_routes_def)

definition layout_init :: "theme_state \<Rightarrow> string \<Rightarrow> layout" where
  "layout_init th path = \<lparr>ly_collapsed = False, ly_theme = th, ly_palette = palette_init, ly_pathname = path\<rparr>"

definition nav_items :: "nav_item set" where
  "nav_items = (\<Union>g \<in> set navGroups. set (snd g))"

text \<open>What the frame and the open palette offer.\<close>

definition layout_offers :: "layout \<Rightarrow> layout_msg set" where
  "layout_offers s = view_msgs [AppLayout s] \<union> LyPalette ` palette_offers (ly_palette s)"

lemma nav_link_msgs [view]: "msgs (nav_link c it) = {LyLink (nv_to it)}"
  by (auto simp: nav_link_def view show_if_def)

lemma sidebar_nav_msgs [view]: "msgs (sidebar_nav c) = LyLink ` nv_to ` nav_items"
  by (force simp: nav_items_def sidebar_nav_def view view_msgs_map show_if_def)

lemma theme_switch_msgs: "msgs (theme_switch c t) \<subseteq> range LyTheme"
  by (auto simp: theme_switch_def view view_msgs_map split: if_splits)

lemma search_button_msgs [view]: "msgs (search_button c) = {LyPalette PlOpen}"
  by (simp add: search_button_def view)

lemma layout_links: "LyLink p \<in> msgs (AppLayout s) \<longleftrightarrow> p \<in> nv_to ` nav_items"
  using theme_switch_msgs [of "ly_collapsed s" "th_theme (ly_theme s)"]
  by (auto simp: AppLayout_def sidebar_def header_bar_def Let_def view show_if_def)

lemma layout_palette: "LyPalette m \<in> msgs (AppLayout s) \<Longrightarrow> m = PlOpen \<or> m = PlClose"
  using theme_switch_msgs [of "ly_collapsed s" "th_theme (ly_theme s)"]
  by (auto simp: AppLayout_def sidebar_def header_bar_def Let_def view show_if_def split: if_splits)

lemma nav_targets: "nv_to ` nav_items = app_paths"
  by (auto simp: nav_items_def navGroups_def nav_def app_paths_eval)

lemma palette_targets: "c \<in> set PAGE_COMMANDS \<Longrightarrow> cmd_href c = Some p \<Longrightarrow> p \<in> app_paths"
  by (auto simp: PAGE_COMMANDS_def page_command_def app_paths_eval)

lemma palette_run_filtered: "PlRun cmd \<in> view_msgs (CommandPalette s) \<Longrightarrow> cmd \<in> set (palette_filtered (pl_query s))"
  by (auto simp: CommandPalette_def palette_results_def command_button_def Let_def view view_msgs_map split: if_splits)

lemma selected_command_mem: "selected_command s = Some cmd \<Longrightarrow> cmd \<in> set PAGE_COMMANDS"
  by (auto simp: selected_command_def Let_def intro!: subsetD [OF palette_filtered_subset] nth_mem split: if_splits)

lemma runCommand_path: "snd (runCommand cmd s) = Some path \<Longrightarrow> cmd_href cmd = Some path"
  by (auto simp: runCommand_def split: if_splits)

lemma palette_path:
  assumes "m \<in> palette_offers s" and "snd (palette_update m s) = Some path"
  shows "path \<in> app_paths"
proof -
  have "\<exists>cmd \<in> set PAGE_COMMANDS. cmd_href cmd = Some path"
  proof (cases m)
    case (PlRun cmd)
    with assms(1) have "cmd \<in> set PAGE_COMMANDS"
      using palette_run_filtered palette_filtered_subset by (auto simp: palette_offers_def split: if_splits)
    with PlRun assms(2) show ?thesis by (auto dest: runCommand_path)
  next
    case (PlKey key)
    with assms(2) show ?thesis
      by (auto simp: palette_handleKey_def dest: runCommand_path selected_command_mem split: if_splits option.splits)
  qed (use assms(2) in \<open>auto split: if_splits\<close>)
  then show ?thesis using palette_targets by blast
qed

lemma layout_path_step:
  assumes "ly_pathname s \<in> app_paths" and "m \<in> layout_offers s"
  shows "ly_pathname (AppLayout_update m s) \<in> app_paths"
proof (cases m)
  case (LyPalette pm)
  with assms(2) layout_palette [of pm s] have "pm \<in> palette_offers (ly_palette s) \<or> pm = PlOpen \<or> pm = PlClose"
    by (auto simp: layout_offers_def)
  with LyPalette assms(1) palette_path [of pm "ly_palette s"] show ?thesis by (auto split: prod.splits option.splits)
next
  case (LyLink p)
  with assms(2) show ?thesis by (auto simp: layout_offers_def layout_links simp flip: nav_targets)
qed (use assms(1) in simp_all)

interpretation layout_run: ui_machine layout_offers AppLayout_update "\<lambda>s. ly_pathname s \<in> app_paths"
  by unfold_locales (rule layout_path_step)

lemma nav_label_title: "\<forall>it \<in> nav_items. nv_label it = pageTitle (nv_to it)"
  by (simp add: nav_items_def navGroups_def nav_def pageTitle_def PAGE_TITLES_def)

section \<open>Properties\<close>

text \<open>C16: Starting on a page of the application, sidebar and palette never lead anywhere but to pages that the router
  declares, and the header then names the page as the sidebar does; from every state every declared
  page is one click away, and the quick actions of the dashboard lead to declared pages too.\<close>

theorem navigation_stays_on_pages:
  assumes "reach layout_offers AppLayout_update (layout_init th path) s" and "path \<in> app_paths"
  shows "ly_pathname s \<in> app_paths
    \<and> (\<exists>it. it \<in> nav_items \<and> nv_to it = ly_pathname s \<and> nv_label it = pageTitle (ly_pathname s))
    \<and> LyLink ` app_paths \<subseteq> layout_offers s
    \<and> qa_to ` set ACTIONS \<subseteq> app_paths"
proof -
  have p: "ly_pathname s \<in> app_paths"
    using layout_run.reach_inv [OF assms(1)] assms(2) by (simp add: layout_init_def)
  then have "ly_pathname s \<in> nv_to ` nav_items" by (simp only: nav_targets)
  then obtain it where it: "it \<in> nav_items" "nv_to it = ly_pathname s" by auto
  then have "nv_label it = pageTitle (ly_pathname s)" using nav_label_title by auto
  with it have "\<exists>it. it \<in> nav_items \<and> nv_to it = ly_pathname s
      \<and> nv_label it = pageTitle (ly_pathname s)" by blast
  moreover have "LyLink ` app_paths \<subseteq> layout_offers s"
    by (auto simp: layout_offers_def layout_links nav_targets)
  moreover have "qa_to ` set ACTIONS \<subseteq> app_paths" by (simp add: ACTIONS_def app_paths_eval)
  ultimately show ?thesis using p by (intro conjI)
qed

theorem navigation_stays_on_pages_witness:
  "\<exists>s. ly_pathname s = ''/metrics'' \<and> pageTitle (ly_pathname s) = ''Metrics'' \<and> LyLink ` app_paths \<subseteq> layout_offers s"
proof -
  let ?s0 = "layout_init (mount_theme Map.empty False []) ''/''"
  have start: "''/'' \<in> app_paths" "''/metrics'' \<in> app_paths" by (simp_all add: app_paths_eval)
  have "LyLink ''/metrics'' \<in> layout_offers ?s0"
    using start by (auto simp: layout_offers_def layout_links nav_targets)
  then have r: "reach layout_offers AppLayout_update ?s0 (AppLayout_update (LyLink ''/metrics'') ?s0)" by (rule reach_run)
  show ?thesis
    using navigation_stays_on_pages [OF r start(1)]
    by (intro exI [of _ "AppLayout_update (LyLink ''/metrics'') ?s0"]) (simp add: pageTitle_def PAGE_TITLES_def)
qed

end
