(* ===== verification/Toasts.thy ===== *)
theory Toasts
  imports "HOL-Library.Multiset" Widgets
begin

text \<open>
  \<^verbatim>\<open>src/ui/admin/src/components/ui/toast.tsx\<close>.  The provider's state is the list of toasts; each
  \<open>ToastItem\<close> keeps a timer.  Since the provider hands every item a fresh \<open>onDismiss\<close>
  closure, the item's effect runs again on every render of the provider: the timer is cleared
  and started anew for the full duration.  The model keeps, beside the toasts, the time at
  which each timer fires; \<open>render\<close> restarts all of them.  In a run no event overtakes a timer:
  time passes only up to the first deadline, and then a timer fires.  Identifiers come from
  \<open>crypto.randomUUID()\<close> and are the argument \<open>uuid\<close>.
\<close>

section \<open>Provider\<close>

record Toast = toast_request +
  toast_id :: string

record toast_state =
  ts_toasts :: "Toast list"
  ts_deadlines :: "(string \<times> int) list"

definition toasts_init :: toast_state where
  "toasts_init = \<lparr>ts_toasts = [], ts_deadlines = []\<rparr>"

definition duration :: "Toast \<Rightarrow> int" where
  "duration t = nullish (tr_duration t) 4000"

definition with_id :: "toast_request \<Rightarrow> string \<Rightarrow> Toast" where
  "with_id r uuid =
     \<lparr>tr_title = tr_title r, tr_description = tr_description r, tr_variant = tr_variant r,
      tr_duration = tr_duration r, toast_id = uuid\<rparr>"

text \<open>\<open>setTimeout\<close> takes a negative delay as zero.\<close>

definition wait :: "Toast \<Rightarrow> int" where
  "wait t = max 0 (duration t)"

definition render :: "int \<Rightarrow> Toast list \<Rightarrow> toast_state" where
  "render now toasts = \<lparr>ts_toasts = toasts, ts_deadlines = map (\<lambda>t. (toast_id t, now + wait t)) toasts\<rparr>"

definition toast :: "int \<Rightarrow> string \<Rightarrow> toast_request \<Rightarrow> toast_state \<Rightarrow> toast_state" where
  "toast now uuid r s = render now (ts_toasts s @ [with_id r uuid])"

definition dismiss :: "int \<Rightarrow> string \<Rightarrow> toast_state \<Rightarrow> toast_state" where
  "dismiss now tid s = render now (filter (\<lambda>t. toast_id t \<noteq> tid) (ts_toasts s))"

text \<open>The timers that are due at \<open>now\<close>; their callbacks each dismiss a toast.\<close>

definition due :: "int \<Rightarrow> toast_state \<Rightarrow> string list" where
  "due now s = map fst (filter (\<lambda>(i, d). d \<le> now) (ts_deadlines s))"

section \<open>View\<close>

fun toast_icon :: "ToastVariant \<Rightarrow> string" where
  "toast_icon ToastSuccess = ''CheckCircle2''"
| "toast_icon ToastError = ''XCircle''"
| "toast_icon ToastWarning = ''AlertTriangle''"
| "toast_icon ToastInfo = ''Info''"

definition ToastItem :: "Toast \<Rightarrow> 'm \<Rightarrow> 'm node" where
  "ToastItem t onDismiss =
     El ''div'' [Attr ''role'' ''alert'']
       [icon (toast_icon (nullish (tr_variant t) ToastInfo)),
        El ''div'' []
          ([El ''p'' [] [Text (tr_title t)]]
           @ when_str (tr_description t) (\<lambda>d. El ''p'' [] [Text d])),
        El ''button'' [OnClick onDismiss, Attr ''aria-label'' ''Dismiss''] [icon ''X'']]"

definition ToastProvider :: "toast_state \<Rightarrow> string node" where
  "ToastProvider s =
     El ''div'' [Attr ''aria-live'' ''polite''] (map (\<lambda>t. ToastItem t (toast_id t)) (ts_toasts s))"

section \<open>Runs\<close>

text \<open>
  The events of a run carry their time.  A timer fires when it is due: no event is later than the
  first deadline, so the run cannot go on past a deadline without an \<open>Expire\<close>.  Several timers
  that are due at the same moment may all fire before the provider renders again or one by one,
  so \<open>Expire\<close> dismisses any nonempty choice of the due toasts.
\<close>

datatype toast_event =
    Show int string toast_request
  | Dismiss int string
  | Expire int "string list"
  | Rerender int

fun toast_time :: "toast_event \<Rightarrow> int" where
  "toast_time (Show n i r) = n"
| "toast_time (Dismiss n i) = n"
| "toast_time (Expire n is) = n"
| "toast_time (Rerender n) = n"

fun toast_step :: "toast_event \<Rightarrow> toast_state \<Rightarrow> toast_state" where
  "toast_step (Show n i r) s = toast n i r s"
| "toast_step (Dismiss n i) s = dismiss n i s"
| "toast_step (Expire n is) s = render n (filter (\<lambda>t. toast_id t \<notin> set is) (ts_toasts s))"
| "toast_step (Rerender n) s = render n (ts_toasts s)"

definition toast_ids :: "toast_state \<Rightarrow> string list" where
  "toast_ids s = map toast_id (ts_toasts s)"

fun toast_enabled :: "toast_state \<Rightarrow> toast_event \<Rightarrow> bool" where
  "toast_enabled s (Show n i r) = (i \<notin> set (toast_ids s))"
| "toast_enabled s (Dismiss n i) = (i \<in> set (toast_ids s))"
| "toast_enabled s (Expire n is) = (is \<noteq> [] \<and> set is \<subseteq> set (due n s))"
| "toast_enabled s (Rerender n) = True"

inductive toast_run :: "int \<Rightarrow> toast_event list \<Rightarrow> toast_state \<Rightarrow> bool" where
  start: "toast_run 0 [] toasts_init"
| step: "toast_run now es s \<Longrightarrow> now \<le> toast_time e \<Longrightarrow>
    list_all (\<lambda>d. toast_time e \<le> snd d) (ts_deadlines s) \<Longrightarrow> toast_enabled s e \<Longrightarrow>
    toast_run (toast_time e) (es @ [e]) (toast_step e s)"

text \<open>What was shown, in order.\<close>

definition shown_ids :: "toast_event list \<Rightarrow> string list" where
  "shown_ids es = concat (map (\<lambda>e. case e of Show n i r \<Rightarrow> [i] | _ \<Rightarrow> []) es)"

lemma shown_ids_simps [simp]:
  "shown_ids [] = []"
  "shown_ids (es @ [e]) = shown_ids es @ (case e of Show n i r \<Rightarrow> [i] | _ \<Rightarrow> [])"
  by (simp_all add: shown_ids_def)

section \<open>Lemmas\<close>

lemma toast_ids_step:
  "toast_ids (toast n i r s) = toast_ids s @ [i]"
  "toast_ids (dismiss n i s) = filter (\<lambda>j. j \<noteq> i) (toast_ids s)"
  "toast_ids (render n (filter (\<lambda>t. toast_id t \<notin> A) (ts_toasts s))) = filter (\<lambda>j. j \<notin> A) (toast_ids s)"
  "toast_ids (render n (ts_toasts s)) = toast_ids s"
  by (simp_all add: toast_def dismiss_def render_def toast_ids_def with_id_def filter_map comp_def)






lemma subseq_filter_trans: "subseq xs ys \<Longrightarrow> subseq (filter P xs) ys"
  using subseq_filter_left subseq_order.trans by blast

lemma toast_run_ids:
  "toast_run now es s \<Longrightarrow> distinct (toast_ids s) \<and> subseq (toast_ids s) (shown_ids es)"
proof (induction rule: toast_run.induct)
  case start
  then show ?case by (simp add: toasts_init_def toast_ids_def)
next
  case (step now es s e)
  then show ?case
    by (cases e) (auto simp: toast_ids_step subseq_filter_trans intro: list_emb_append_mono)
qed

section \<open>Properties\<close>

text \<open>In every run of the toast provider the toasts on screen have distinct identifiers and
  stand in the order in which they were shown.\<close>

theorem toasts_distinct_in_order:
  assumes "toast_run now es s"
  shows "distinct (toast_ids s) \<and> subseq (toast_ids s) (shown_ids es)"
  using toast_run_ids [OF assms] .

theorem toasts_distinct_in_order_witness:
  "distinct (toast_ids (toast 7 ''b'' (success_toast ''B'') (toast 5 ''a'' (success_toast ''A'') toasts_init)))"
proof -
  have a: "toast_run 5 [Show 5 ''a'' (success_toast ''A'')] (toast 5 ''a'' (success_toast ''A'') toasts_init)"
    using toast_run.step [OF toast_run.start, of "Show 5 ''a'' (success_toast ''A'')"]
    by (simp add: toast_ids_def toasts_init_def)
  have b: "toast_run 7 [Show 5 ''a'' (success_toast ''A''), Show 7 ''b'' (success_toast ''B'')]
      (toast 7 ''b'' (success_toast ''B'') (toast 5 ''a'' (success_toast ''A'') toasts_init))"
    using toast_run.step [OF a, of "Show 7 ''b'' (success_toast ''B'')"]
    by (simp add: toast_def render_def toast_ids_def toasts_init_def with_id_def success_toast_def wait_def duration_def)
  from toasts_distinct_in_order [OF b] show ?thesis by blast
qed

section \<open>Quiet periods\<close>















end
