(* ===== verification/Spec2Isabelle.thy ===== *)
theory Spec2Isabelle
  imports Tenants Upstreams Routes Consumers RateLimits WasmPlugins AIProviders Regions Checkpoints AuditLog
    Metrics_Page App_Shell Toasts Theme
begin

text \<open>
  \<^bold>\<open>Barqium admin console: a verification library.\<close>

  Barqium is an API and AI gateway: a data plane in Rust (\<^verbatim>\<open>src/crates\<close>), control services in Go
  (\<^verbatim>\<open>src/services\<close>) and an admin console in TypeScript (\<^verbatim>\<open>src/ui/admin\<close>).  This library is about the
  console, which is a React application over the control API.

  \<^bold>\<open>Parts of the console and how they interact.\<close>  A layout with a sidebar and a command palette shows one
  of thirteen pages.  A page (\<open>pages/*.tsx\<close>) reads its lists through data hooks (\<open>hooks/use-*.ts\<close>),
  filters and paginates them, and shows them in a table or as cards with row actions; it opens forms in
  dialogs and a detail panel.  A form validates, submits and reports errors; its \<open>onSubmit\<close> is a mutation
  of the page.  A mutation calls the API client (\<open>api/client.ts\<close>) and on success invalidates the list in
  the query cache, shows a toast and closes the dialog.  The audit log has its own request and an export;
  the metrics page and the dashboard show samples that a hook draws in intervals.

  \<^bold>\<open>Theories.\<close>
  \<^item> \<open>Prelude\<close>, \<open>Numbers\<close>: the JavaScript runtime that the code uses (trimming, case, searching, splitting,
    slices, decimal text, \<open>parseInt\<close>, \<open>??\<close> and \<open>||\<close>, thrown values; \<open>Math.round\<close> and \<open>toFixed\<close> on
    rational numbers) with its general lemmas.
  \<^item> \<open>Vdom\<close>: rendered trees, the messages they offer, reachability of a component's states under these
    messages, and the locale \<open>ui_machine\<close> for invariants.
  \<^item> \<open>Json\<close>, \<open>Json_Indent\<close>: JSON values, \<open>JSON.stringify\<close>, injective on values, and its indented form.
  \<^item> \<open>Api_Client\<close>: \<open>api/client.ts\<close>, the request wrapper and every operation.
  \<^item> \<open>Queries\<close>: the data hooks; the locale \<open>query_client\<close> is what they rely on of the query cache.
  \<^item> \<open>Ui_Kit\<close>: \<open>components/ui\<close> (badge, modal, table, select, tabs and the rest) and what each part offers.
  \<^item> \<open>Forms\<close>: the life of a submission (locale \<open>submit_form\<close>, contract \<open>submits_once\<close>), forms whose button
    depends on the verdict about a field (locale \<open>checked_form\<close>, which extends it and is interpreted on the
    forms of upstreams and routes), mutations with their effects, list filters.
  \<^item> \<open>Widgets\<close>: copy button, field, counts, tenant selector, and the row actions (locale \<open>row_actions\<close>).
  \<^item> \<open>Pagination\<close>: \<open>components/ui/pagination.tsx\<close>; the locales \<open>list_page\<close> and \<open>paged_machine\<close> and the
    predicate \<open>shows_matches\<close> are the contract between a page and its pagination.
  \<^item> \<open>Date_Utils\<close>, \<open>Toasts\<close>, \<open>Theme\<close>, \<open>Slug\<close>: \<open>lib/date-utils.ts\<close>, \<open>components/ui/toast.tsx\<close>,
    \<open>components/ui/theme-provider.tsx\<close>, and \<open>slugify\<close> of the tenant form.
  \<^item> \<open>Tenants\<close>, \<open>Upstreams\<close>, \<open>Routes\<close>, \<open>Consumers\<close>, \<open>RateLimits\<close>, \<open>WasmPlugins\<close>: the resource components
    and their list pages.  Each interprets \<open>submit_form\<close> on its form, \<open>row_actions\<close> on its row and
    \<open>paged_machine\<close> on its page.
  \<^item> \<open>AIProviders\<close>, \<open>Regions\<close>, \<open>Checkpoints\<close>: the resource components whose pages show cards or a timeline;
    they interpret \<open>submit_form\<close>, the first two \<open>row_actions\<close>, the last \<open>ui_machine\<close> on its rollbacks.
  \<^item> \<open>Audit_Query\<close>, \<open>Audit_Csv\<close>, \<open>AuditLog\<close>: \<open>hooks/use-audit-log.ts\<close> with its query string, the CSV export,
    and the components and page of the audit log.
  \<^item> \<open>Persisted_State\<close>: \<open>hooks/use-persisted-state.ts\<close> (locale \<open>codec\<close>) and the stored metrics window.
  \<^item> \<open>Live_Metrics\<close>, \<open>Charts\<close>, \<open>Ticker\<close>, \<open>Dashboard\<close>, \<open>Metrics_Page\<close>: \<open>hooks/use-live-metrics.ts\<close> (locale
    \<open>recent_window\<close>), the geometry of the charts, the number animation, and the two pages.
  \<^item> \<open>Command_Palette\<close>, \<open>App_Shell\<close>: the palette with its keyboard, the layout, routes and error boundary.
  \<^item> this theory: the properties that span components.

  \<^bold>\<open>How code and model correspond.\<close>  A component with \<open>useState\<close> is a record with one field per state
  variable, \<open>X_init\<close> for the initial values, a datatype of messages with one constructor per handler, and
  \<open>X_update\<close> for what the handlers do; its JSX is a function \<open>X\<close> from props and state to nodes, with the
  messages in place of the handlers.  \<open>handleSubmit\<close> is cut at its \<open>await\<close>: the part before is
  \<open>X_handleSubmit\<close>, which returns the argument of \<open>onSubmit\<close> if the call is made, the \<open>catch\<close> and
  \<open>finally\<close> branches are \<open>X_settle\<close>.  A child with state of its own appears in its parent's tree as a
  \<open>Comp\<close> node.  Several \<open>setState\<close> calls of one handler are one update, as React batches them; an effect
  runs with the update that triggers it.

  \<^bold>\<open>What the lemmas show.\<close>  This theory: what saving a tenant, a route or a policy and rolling
  back send and leave behind, from the rendered form or dialog to page, toasts and cache.
  \<open>Api_Client\<close>: the errors of \<open>request\<close>, isolation of tenants.  \<open>Queries\<close>: a create, update or delete makes
  stale exactly the list that reads the collection which the request addresses (a rollback is not among
  them: it makes only the list of checkpoints stale, which is stated as a defect here).
  \<open>Pagination\<close>: the strip of page numbers, the reachable pages, the label and its rows; with its
  interpretations, that every list page shows exactly the matching items.  \<open>Forms\<close> and its
  interpretations: at most one submission at a time and only valid bodies.  \<open>Widgets\<close>: deletes only after
  confirmation.  \<open>Slug\<close>, \<open>Upstreams\<close>, \<open>Routes\<close>, \<open>WasmPlugins\<close>, \<open>RateLimits\<close>, \<open>AIProviders\<close>, \<open>Regions\<close>: what the
  forms let through in all their sessions and what formatters print, how fields follow each other, edit
  round trips.
  \<open>Consumers\<close>: a hidden key does not leak.  \<open>Checkpoints\<close>: the compared snapshots, the rollback dialog.
  \<open>Audit_*\<close>: the page's request and the CSV read back, the rendered change list, table and export.
  \<open>Toasts\<close>: timers fire when they are due, toasts leave in turn and the screen gets empty.  \<open>Live_Metrics\<close>: the history
  refines a log of all samples, all samples are well-formed.  \<open>Ticker\<close>: the animation ends.  \<open>Charts\<close>,
  \<open>Metrics_Page\<close>: points, bars and gauges stay in their frames.  \<open>Persisted_State\<close>, \<open>Theme\<close>: a choice
  survives a reload.  \<open>Command_Palette\<close>, \<open>App_Shell\<close>: the selection is always valid and navigation stays
  on declared pages.  Some theorems state where the code falls short of its intent (among them the page
  number after a delete, the host that cannot be cleared, restarted toast timers, the root class after a
  system change, replaced headers, the unsent checksum, rounded minutes, the clipped gauge).

  \<^bold>\<open>Parameters.\<close>  \<open>fetch\<close>, the browser's URL parser, the clock, the date parser, the locale's date and number
  formats, the draws of \<open>Math.random\<close>, the times of animation frames and the local storage are arguments;
  the query cache is a locale, interpreted on a list of invalidated keys.  JSON objects are lists of
  entries, so the model keeps the order of keys as \<open>JSON.stringify\<close> does, and values count as different when
  only this order differs; numbers in JSON and of the API are unbounded
  integers; where fractions occur they are rational (real for the angles of the gauge) and computed
  exactly, with \<open>None\<close> for a division that gives no number; \<open>formatTimeout\<close> rounds as the double-precision
  quotient does.  Case mapping is ASCII and characters are code units below 256.  All functions are total
  and no fuel is used.

  \<^bold>\<open>Not modelled.\<close>  Class names and layout (except where data selects them), focus handling, the styling
  wrappers \<open>button.tsx\<close>, \<open>table.tsx\<close> and \<open>lib/utils.ts\<close>, the matching of the router, the scheduling of
  refetches by the query library, and the mounting in \<open>main.tsx\<close>.  The Rust and Go parts of the system are
  outside this library.
\<close>

section \<open>Saving through a page\<close>

lemma mutateAsync_two_effects:
  assumes "onSuccess mu = [Invalidate k, Emit e]" and "run_call fetch (mutationFn mu body) = Inr j"
  shows "mutateAsync fetch mu ev body a =
    (None, a\<lparr>app_page := fst (ev e (app_page a)), app_toasts := app_toasts a @ [snd (ev e (app_page a))],
             app_stale := cache_invalidate k (app_stale a)\<rparr>)"
  using assms by (simp add: mutateAsync_def)

lemma stale_after_invalidate: "cache_stale (cache_invalidate k c) k"
  by (simp add: cache_stale_def cache_invalidate_def)

text \<open>C1: Creating a tenant, from the form to the page: when the form submits, the page sends
  \<open>POST /tenants\<close> with the trimmed name and slug and the state.  If the request fails, the page
  is left as it was and the form shows the error; if it succeeds, the dialog closes, the toast
  \<open>Tenant created\<close> is shown and the list of tenants is marked stale.  In both cases the form
  stops loading.\<close>

theorem create_tenant_flow:
  assumes "TenantForm_update TfSubmit s = (s', Some b)"
  shows "case run_call fetch (send_call ''POST'' ''/tenants''
      (JObj [(''name'', JStr (trim (tf_name s))), (''slug'', JStr (trim (tf_slug s))), (''enabled'', JBool (tf_enabled s))])) of
    Inl e \<Rightarrow>
      mutateAsync fetch tenants_createMut tenants_on_event b a = (Some e, a)
      \<and> tf_error (TenantForm_settle (Some e) s') = Some (thrown_message e)
      \<and> \<not> tf_loading (TenantForm_settle (Some e) s')
  | Inr j \<Rightarrow>
      (let (r, a') = mutateAsync fetch tenants_createMut tenants_on_event b a in
       r = None \<and> \<not> tp_creating (app_page a')
       \<and> app_toasts a' = app_toasts a @ [success_toast ''Tenant created'']
       \<and> cache_stale (app_stale a') (queryKey useTenants)
       \<and> tf_error (TenantForm_settle r s') = None \<and> \<not> tf_loading (TenantForm_settle r s'))"
proof -
  from assms have b: "b = \<lparr>ct_name = trim (tf_name s), ct_slug = trim (tf_slug s), ct_enabled = Some (tf_enabled s)\<rparr>"
    and s': "s' = s\<lparr>tf_error := None, tf_loading := True\<rparr>"
    by (auto simp: TenantForm_handleSubmit_def split: if_splits)
  have call: "mutationFn tenants_createMut b = send_call ''POST'' ''/tenants''
      (JObj [(''name'', JStr (trim (tf_name s))), (''slug'', JStr (trim (tf_slug s))), (''enabled'', JBool (tf_enabled s))])"
    by (simp add: tenants_createMut_def useCreateTenant_def tenants_create_def CreateTenantBody_json_def b opt_field_def)
  have ok: "onSuccess tenants_createMut = [Invalidate (queryKey useTenants), Emit TenantCreated]"
    by (simp add: tenants_createMut_def useCreateTenant_def callback_def useTenants_def)
  show ?thesis
    unfolding call [symmetric]
    using mutateAsync_two_effects [OF ok, of fetch b _ tenants_on_event a]
    by (auto simp: mutateAsync_simps s' TenantForm_settle_def settled_error_def stale_after_invalidate split: sum.split)
qed

theorem create_tenant_flow_witness:
  "let s = TenantForm_init (no_tenant\<lparr>ti_name := Some ''Acme'', ti_slug := Some ''acme''\<rparr>);
       (s', b) = TenantForm_update TfSubmit s;
       a = \<lparr>app_page = TenantsPage_init\<lparr>tp_creating := True\<rparr>, app_toasts = [], app_stale = []\<rparr>
   in fst (mutateAsync (\<lambda>x. Inl (JsError ''down'')) tenants_createMut tenants_on_event (the b) a) = Some (JsError ''down'')"
proof -
  define s where "s = TenantForm_init (no_tenant\<lparr>ti_name := Some ''Acme'', ti_slug := Some ''acme''\<rparr>)"
  define a where "a = \<lparr>app_page = TenantsPage_init\<lparr>tp_creating := True\<rparr>, app_toasts = [], app_stale = []\<rparr>"
  obtain s' b where u: "TenantForm_update TfSubmit s = (s', Some b)"
    by (simp add: s_def TenantForm_init_def no_tenant_def nullish_def TenantForm_handleSubmit_def trim_def is_space_def)
  from create_tenant_flow [OF u, of "\<lambda>x. Inl (JsError ''down'')" a] u show ?thesis
    by (simp add: s_def [symmetric] a_def [symmetric] run_call_def request_def Let_def)
qed

text \<open>C2: Editing a route, from the form to the page: when the form in the edit dialog submits its body, the
  page sends it with \<open>PATCH\<close> to that route of the selected tenant.  If the request fails, the dialog
  stays open with the error in the form and nothing else changes; if it succeeds, the dialog closes, the
  toast is shown, and of all lists of the console exactly the routes of that tenant become stale.\<close>

theorem edit_route_flow:
  assumes "RouteForm_update RfSubmit s = (s', Some b)" and "rp_editing (app_page a) = Some r"
    and "k \<in> list_keys"
  shows "case run_call fetch (send_call ''PATCH''
      (''/tenants/'' @ rp_selectedTenant (app_page a) @ ''/routes/'' @ r_id r) (CreateRouteBody_json b)) of
    Inl e \<Rightarrow>
      mutateAsync fetch (routes_editMut (app_page a)) routes_on_event (route_update_body b) a = (Some e, a)
      \<and> rf_error (RouteForm_settle (Some e) s') = Some (thrown_message e)
  | Inr j \<Rightarrow>
      (let (res, a') = mutateAsync fetch (routes_editMut (app_page a)) routes_on_event (route_update_body b) a in
       res = None \<and> rp_editing (app_page a') = None
       \<and> app_toasts a' = app_toasts a @ [success_toast ''Route updated'']
       \<and> (cache_stale (app_stale a') k
            \<longleftrightarrow> k = queryKey (useRoutes (rp_selectedTenant (app_page a))) \<or> cache_stale (app_stale a) k))"
proof -
  let ?k = "queryKey (useRoutes (rp_selectedTenant (app_page a)))"
  have s': "s' = s\<lparr>rf_error := None, rf_loading := True\<rparr>"
    using assms(1) by (auto simp: RouteForm_handleSubmit_def split: option.splits if_splits)
  have call: "mutationFn (routes_editMut (app_page a)) (route_update_body b) = send_call ''PATCH''
      (''/tenants/'' @ rp_selectedTenant (app_page a) @ ''/routes/'' @ r_id r) (CreateRouteBody_json b)"
    using assms(2) by (simp add: routes_editMut_def useUpdateRoute_def routes_update_def tenant_path_def
        route_update_body_same_json nullish_def)
  have ok: "onSuccess (routes_editMut (app_page a)) = [Invalidate ?k, Emit RouteUpdated]"
    by (simp add: routes_editMut_def useUpdateRoute_def callback_def useRoutes_def)
  have "?k \<in> list_keys" by (auto simp: list_keys_def)
  then have stale: "cache_stale (cache_invalidate ?k (app_stale a)) k \<longleftrightarrow> k = ?k \<or> cache_stale (app_stale a) k"
    using list_keys_prefix [OF _ assms(3)] by (auto simp: cache_stale_def cache_invalidate_def)
  show ?thesis
    unfolding call [symmetric]
    using mutateAsync_two_effects [OF ok, of fetch "route_update_body b" _ routes_on_event a]
    by (auto simp: mutateAsync_simps s' RouteForm_settle_def settled_error_def stale split: sum.split)
qed

theorem edit_route_flow_witness:
  "\<exists>s s' b. RouteForm_update RfSubmit s = (s', Some b)
     \<and> rf_error (RouteForm_settle (Some (JsError ''down'')) s') = Some ''down''"
proof -
  define r where "r = \<lparr>r_id = ''7'', r_tenant_id = ''t'', r_upstream_id = ''u'', r_method = ''*'',
    r_path_prefix = ''/'', r_host = [], r_enabled = True, r_created_at = [], r_updated_at = []\<rparr>"
  define a where "a = \<lparr>app_page = RoutesPage_init\<lparr>rp_selectedTenant := ''t'', rp_editing := Some r\<rparr>,
    app_toasts = [], app_stale = []\<rparr>"
  define s where "s = RouteForm_init (initial_of_route r)"
  have "validatePathPrefix ''/'' = None"
    by (simp add: validatePathPrefix_None trim_def is_space_def startsWith_def path_char_def)
  then obtain s' b where u: "RouteForm_update RfSubmit s = (s', Some b)"
    by (simp add: s_def r_def RouteForm_init_def initial_of_route_def nullish_def RouteForm_handleSubmit_def)
  have "rp_editing (app_page a) = Some r" and "queryKey useTenants \<in> list_keys"
    by (simp_all add: a_def list_keys_def)
  from edit_route_flow [OF u this, of "\<lambda>x. Inl (JsError ''down'')"] u show ?thesis
    by (auto simp: run_call_def request_def thrown_message_def)
qed

lemma mutateAsync_marks:
  assumes "onSuccess mu = [Invalidate k0, Emit e]" and "k0 \<in> list_keys" and "k \<in> list_keys"
    and "run_call fetch (mutationFn mu body) = Inr j"
  shows "\<exists>a'. mutateAsync fetch mu ev body a = (None, a') \<and> app_page a' = fst (ev e (app_page a))
    \<and> app_toasts a' = app_toasts a @ [snd (ev e (app_page a))]
    \<and> (cache_stale (app_stale a') k \<longleftrightarrow> k = k0 \<or> cache_stale (app_stale a) k)"
  using mutateAsync_two_effects [OF assms(1,4), of ev a] list_keys_prefix [OF assms(2,3)]
  by (auto simp: cache_stale_def cache_invalidate_def)

text \<open>C5: Creating a rate limit policy, from the form to the page: when the form submits, the page sends \<open>POST\<close>
  to the policies of the selected tenant with the trimmed name, the chosen scope and algorithm, the two
  numbers as they were read, the burst limit only if its field was filled in (and then \<open>null\<close> if it is
  not a number), and the state.  If the request fails, the page is left as it was and the form shows the
  error; if it succeeds, the dialog closes, the toast is shown, and of all lists of the console exactly
  the policies of that tenant become stale.  In both cases the form stops loading.\<close>

theorem create_policy_flow:
  assumes "RateLimitForm_update LfSubmit s = (s', Some b)" and "k \<in> list_keys"
  shows "case run_call fetch (send_call ''POST'' (''/tenants/'' @ lp_selectedTenant (app_page a) @ ''/rate-limit-policies'')
      (JObj ([(''name'', JStr (trim (lf_name s))), (''scope'', JStr (scope_name (lf_scope s))),
              (''algorithm'', JStr (algorithm_name (lf_algorithm s))),
              (''rate_limit'', JNum (parseInt_or (lf_rateLimit s) 100)),
              (''window_secs'', JNum (parseInt_or (lf_windowSecs s) 60))]
             @ (if lf_burstLimit s = [] then []
                else [(''burst_limit'', case parseInt (lf_burstLimit s) of None \<Rightarrow> JNull | Some n \<Rightarrow> JNum n)])
             @ [(''enabled'', JBool (lf_enabled s))]))) of
    Inl e \<Rightarrow>
      mutateAsync fetch (rateLimits_createMut (app_page a)) rateLimits_on_event b a = (Some e, a)
      \<and> lf_error (RateLimitForm_settle (Some e) s') = Some (thrown_message e)
      \<and> \<not> lf_loading (RateLimitForm_settle (Some e) s')
  | Inr j \<Rightarrow>
      (let (r, a') = mutateAsync fetch (rateLimits_createMut (app_page a)) rateLimits_on_event b a in
       r = None \<and> \<not> lp_creating (app_page a')
       \<and> app_toasts a' = app_toasts a @ [success_toast ''Rate limit policy created'']
       \<and> (cache_stale (app_stale a') k
            \<longleftrightarrow> k = queryKey (useRateLimits (lp_selectedTenant (app_page a))) \<or> cache_stale (app_stale a) k)
       \<and> lf_error (RateLimitForm_settle r s') = None \<and> \<not> lf_loading (RateLimitForm_settle r s'))"
    (is "case run_call fetch ?call of Inl e \<Rightarrow> ?failed e | Inr j \<Rightarrow> ?done")
proof -
  let ?k = "queryKey (useRateLimits (lp_selectedTenant (app_page a)))"
  have s': "s' = s\<lparr>lf_error := None, lf_loading := True\<rparr>"
    using assms(1) by (auto simp: RateLimitForm_handleSubmit_def split: if_splits)
  have call: "mutationFn (rateLimits_createMut (app_page a)) b = ?call"
    using assms(1)
    by (auto simp: RateLimitForm_handleSubmit_def rateLimits_createMut_def useCreateRateLimit_def
        rateLimitPolicies_create_def CreateRateLimitPolicyBody_json_def tenant_path_def opt_field_def json_num_def
        split: if_splits)
  have ok: "onSuccess (rateLimits_createMut (app_page a)) = [Invalidate ?k, Emit PolicyCreated]"
    by (simp add: rateLimits_createMut_def useCreateRateLimit_def callback_def useRateLimits_def)
  have key: "?k \<in> list_keys" by (auto simp: list_keys_def)
  show ?thesis
  proof (cases "run_call fetch ?call")
    case (Inl e)
    then have "?failed e"
      unfolding call [symmetric] by (simp add: mutateAsync_simps s' RateLimitForm_settle_def settled_error_def)
    with Inl show ?thesis by simp
  next
    case (Inr j)
    then have "?done"
      using mutateAsync_marks [OF ok key assms(2), of fetch b j rateLimits_on_event a] unfolding call [symmetric]
      by (auto simp: s' RateLimitForm_settle_def settled_error_def)
    with Inr show ?thesis by simp
  qed
qed

theorem create_policy_flow_witness:
  "\<exists>s s' b. RateLimitForm_update LfSubmit s = (s', Some b)
     \<and> lf_error (RateLimitForm_settle (Some (JsError ''down'')) s') = Some ''down''
     \<and> \<not> lf_loading (RateLimitForm_settle (Some (JsError ''down'')) s')"
proof -
  define s where "s = (RateLimitForm_init no_rate_limit)\<lparr>lf_name := ''p''\<rparr>"
  obtain s' b where u: "RateLimitForm_update LfSubmit s = (s', Some b)"
    by (simp add: s_def RateLimitForm_handleSubmit_def trim_def is_space_def)
  have "queryKey useTenants \<in> list_keys" by (simp add: list_keys_def)
  from create_policy_flow [OF u this, of "\<lambda>x. Inl (JsError ''down'')" "\<lparr>app_page = RateLimitsPage_init, app_toasts = [], app_stale = []\<rparr>"] u
  show ?thesis by (auto simp: run_call_def request_def thrown_message_def)
qed



text \<open>C6: The forms for tenants, upstreams, routes, consumers, rate limits, plugins, providers, regions and checkpoints:
  whatever the user does in a form that was opened with any initial values, and however the submissions end,
  one submission is under way while the form is loading and none otherwise, and every submitted body
  satisfies the form's checks.\<close>

theorem forms_submit_once:
  "submits_once (TenantForm lbl) TfSubmit TenantForm_update TenantForm_settle tf_loading tenant_body_ok (TenantForm_init ti)
   \<and> submits_once (UpstreamForm lbl) UfSubmit (UpstreamForm_update parse_url) UpstreamForm_settle uf_loading
       (upstream_body_ok parse_url) (UpstreamForm_init ui)
   \<and> submits_once (RouteForm us lbl) RfSubmit RouteForm_update RouteForm_settle rf_loading route_body_ok (RouteForm_init ri)
   \<and> submits_once (ConsumerForm lbl) CfSubmit ConsumerForm_update ConsumerForm_settle cf_loading consumer_body_ok
       (ConsumerForm_init name enabled)
   \<and> submits_once (RateLimitForm lbl) LfSubmit RateLimitForm_update RateLimitForm_settle lf_loading rate_limit_body_ok
       (RateLimitForm_init li)
   \<and> submits_once (PluginForm lbl) WfSubmit PluginForm_update PluginForm_settle wf_loading plugin_body_ok (PluginForm_init wi)
   \<and> submits_once (ProviderForm lbl) PfSubmit ProviderForm_update ProviderForm_settle pf_loading provider_body_ok
       (ProviderForm_init vi)
   \<and> submits_once (RegionForm lbl) GfSubmit RegionForm_update RegionForm_settle gf_loading region_body_ok RegionForm_init
   \<and> submits_once (CheckpointForm lbl) HfSubmit CheckpointForm_update CheckpointForm_settle hf_loading
       (\<lambda>note. trim note = note) CheckpointForm_init"
  by (intro conjI tenant_submit.form_submits_once upstream_submit.form_submits_once route_submit.form_submits_once consumer_submit.form_submits_once
      rate_limit_submit.form_submits_once plugin_submit.form_submits_once provider_submit.form_submits_once
      region_submit.form_submits_once checkpoint_submit.form_submits_once)
    (simp_all add: TenantForm_init_def UpstreamForm_init_def RouteForm_init_def ConsumerForm_init_def RateLimitForm_init_def
      PluginForm_init_def ProviderForm_init_def RegionForm_init_def CheckpointForm_init_def)




end
